(* ===== verification/Prelude.thy ===== *)
theory Prelude
  imports Main "HOL-Library.Word" "HOL-Library.List_Lexorder" "HOL-Library.Char_ord"
begin

text \<open>
  Vocabulary shared by every component model of the node: bytes and byte vectors, the
  exceptions the C++ code throws as one error datatype, the result type \<open>keto_error + 'a\<close>
  with its bind, and the generic facts on lists, maps and results the components use.

  \<^item> \<open>std::vector<uint8_t>\<close> and \<open>keto::crypto::SecureVector\<close> are \<open>bytes\<close>.
  \<^item> \<open>std::string\<close> is the HOL type \<open>string\<close>; a C++ \<open>char\<close> and a \<open>uint8_t\<close> are
    related by \<open>of_char\<close> and \<open>char_of\<close>.
  \<^item> \<open>long\<close> is \<open>64 word\<close> (the code is built for 64 bit Linux), read with \<open>sint\<close>.
\<close>

section \<open>Types and errors\<close>

type_synonym byte = "8 word"
type_synonym bytes = "8 word list"
type_synonym c_long = "64 word"
type_synonym c_int = "32 word"

text \<open>One constructor per exception class that a modelled function can throw; the libraries'
  own exceptions (a failed hex or base64 decode, a failed ASN.1 parse, a \<open>std::out_of_range\<close>)
  come last.\<close>

datatype keto_error =
    UnsupportedStringFormatException
  | NoSoftwareHashConsensusException
  | ZeroLengthHashListException
  | UnrecognisedTransactionStatusException
  | InvalidParentKeyIdentifierException
  | SignedBlockReleasedException
  | DuplicateTransactionException
  | NoTransactionException
  | DuplicateEventHandlerException
  | UnknownEventHandlerException
  | NoAccountsForServiceException
  | InvalidAccountOperationException
  | InvalidParentAccountException
  | UnsupportedDataTypeTransactionException
  | UnknownContractException
  | DuplicateGraphDBException
  | FailedToCommitGraphTransactionException
  | FailedToRollbackGraphTransactionException
  | AccountsInvalidDBNameException
  | UnsupportedChangeTypeFormatException
  | SubjectNotFoundInModelException
  | PredicateNotFoundException
  | BlockProducerTerminatedException
  | ClientNotAvailableException
  | NoDefaultRouteAvailableException
  | InvalidSessionException
  | MessageDeserializationException
  | InvalidSparqlRequestException
  | ClientAuthorizationFailureException
  | ClientHandShakeFailureException
  | ModuleLoadException
  | SignedChangeSetReleasedException
  | ActionSequenceAddFailedException
  | InvalidKeyPathException
  | KeyLoaderNotInitializedException
  | PrivateKeyNotConfiguredException
  | PublicKeyNotConfiguredException
  | FailedParseConsensusObjectException
  | FailedToAddSystemHashException
  | TypeToAnyConversionFailedException
  | NullPointerDereference
  | UndefinedBehaviour
  | StdTerminate
  | HexDecodeError
  | Base64DecodeError
  | Asn1DecodeError
  | OutOfRange
  | LibraryError

type_synonym 'a result = "keto_error + 'a"

section \<open>Results\<close>

fun rbind :: "'e + 'a \<Rightarrow> ('a \<Rightarrow> 'e + 'b) \<Rightarrow> 'e + 'b" where
  "rbind (Inl e) f = Inl e"
| "rbind (Inr a) f = f a"

fun rmap :: "('a \<Rightarrow> 'b) \<Rightarrow> 'e + 'a \<Rightarrow> 'e + 'b" where
  "rmap f (Inl e) = Inl e"
| "rmap f (Inr a) = Inr (f a)"

fun is_ok :: "'e + 'a \<Rightarrow> bool" where
  "is_ok (Inl e) = False"
| "is_ok (Inr a) = True"

text \<open>A loop over a list that threads a state and stops at the first exception.\<close>

fun rfold :: "('x \<Rightarrow> 's \<Rightarrow> 'e + 's) \<Rightarrow> 'x list \<Rightarrow> 's \<Rightarrow> 'e + 's" where
  "rfold f [] s = Inr s"
| "rfold f (x # xs) s = rbind (f x s) (rfold f xs)"

named_theorems result_simps \<open>inversion of binds and folds over results\<close>

lemma rbind_Inr_iff [result_simps]: "rbind m f = Inr b \<longleftrightarrow> (\<exists>a. m = Inr a \<and> f a = Inr b)"
  by (cases m) auto

lemma rbind_Inl_iff [result_simps]:
  "rbind m f = Inl e \<longleftrightarrow> m = Inl e \<or> (\<exists>a. m = Inr a \<and> f a = Inl e)"
  by (cases m) auto

lemma rmap_Inr_iff [result_simps]: "rmap f m = Inr b \<longleftrightarrow> (\<exists>a. m = Inr a \<and> b = f a)"
  by (cases m) auto

lemma is_ok_iff [result_simps]: "is_ok m \<longleftrightarrow> (\<exists>a. m = Inr a)"
  by (cases m) auto

lemma rfold_append: "rfold f (xs @ ys) s = rbind (rfold f xs s) (rfold f ys)"
proof (induction xs arbitrary: s)
  case Nil
  then show ?case by simp
next
  case (Cons x xs)
  then show ?case by (cases "f x s") simp_all
qed

lemma rfold_invariant:
  assumes step: "\<And>x s s'. x \<in> set xs \<Longrightarrow> P s \<Longrightarrow> f x s = Inr s' \<Longrightarrow> P s'"
    and "rfold f xs s = Inr s'" and "P s"
  shows "P s'"
  using assms
proof (induction xs arbitrary: s)
  case Nil
  then show ?case by simp
next
  case (Cons x xs)
  from Cons.prems(2) obtain t where t: "f x s = Inr t" "rfold f xs t = Inr s'"
    by (auto simp: rbind_Inr_iff)
  have "P t" using Cons.prems(1) [OF _ Cons.prems(3) t(1)] by simp
  with Cons.IH [OF _ t(2)] Cons.prems(1) show ?case by auto
qed

section \<open>Stateful code\<close>

text \<open>A method that may throw maps the state to its result and the state it leaves. The state
  changes made before an exception stay, as they do in C++.\<close>

type_synonym ('s, 'a) prog = "'s \<Rightarrow> 'a result \<times> 's"

definition sreturn :: "'a \<Rightarrow> ('s, 'a) prog" where
  "sreturn a s = (Inr a, s)"

definition sthrow :: "keto_error \<Rightarrow> ('s, 'a) prog" where
  "sthrow e s = (Inl e, s)"

definition sbind :: "('s, 'a) prog \<Rightarrow> ('a \<Rightarrow> ('s, 'b) prog) \<Rightarrow> ('s, 'b) prog" where
  "sbind m f s = (case m s of (Inl e, t) \<Rightarrow> (Inl e, t) | (Inr a, t) \<Rightarrow> f a t)"

definition sget :: "('s \<Rightarrow> 'a) \<Rightarrow> ('s, 'a) prog" where
  "sget g s = (Inr (g s), s)"

definition smodify :: "('s \<Rightarrow> 's) \<Rightarrow> ('s, unit) prog" where
  "smodify g s = (Inr (), g s)"

definition slift :: "'a result \<Rightarrow> ('s, 'a) prog" where
  "slift r s = (r, s)"

text \<open>\<open>try { m } catch (...) { h }\<close>.\<close>

definition scatch :: "('s, 'a) prog \<Rightarrow> (keto_error \<Rightarrow> ('s, 'a) prog) \<Rightarrow> ('s, 'a) prog" where
  "scatch m h s = (case m s of (Inl e, t) \<Rightarrow> h e t | (Inr a, t) \<Rightarrow> (Inr a, t))"

text \<open>A \<open>catch\<close> clause sees exceptions only: undefined behaviour, the use of a null pointer
  and \<open>std::terminate\<close> go past it. \<open>stry\<close> is \<open>try { m } catch (...) { h }\<close> with that distinction.\<close>

fun is_exception :: "keto_error \<Rightarrow> bool" where
  "is_exception NullPointerDereference = False"
| "is_exception UndefinedBehaviour = False"
| "is_exception StdTerminate = False"
| "is_exception e = True"

definition stry :: "('s, 'a) prog \<Rightarrow> (keto_error \<Rightarrow> ('s, 'a) prog) \<Rightarrow> ('s, 'a) prog" where
  "stry m h = scatch m (\<lambda>e. if is_exception e then h e else sthrow e)"

text \<open>A \<open>for\<close> loop over a container whose body may throw.\<close>

fun sfor :: "'x list \<Rightarrow> ('x \<Rightarrow> ('s, unit) prog) \<Rightarrow> ('s, unit) prog" where
  "sfor [] f s = (Inr (), s)"
| "sfor (x # xs) f s = (case f x s of (Inl e, t) \<Rightarrow> (Inl e, t) | (Inr u, t) \<Rightarrow> sfor xs f t)"

named_theorems prog_defs \<open>the primitives of stateful code, to be unfolded together\<close>

lemmas [prog_defs] = sreturn_def sthrow_def sbind_def sget_def smodify_def slift_def scatch_def

lemma sfor_append:
  "sfor (xs @ ys) f s = (case sfor xs f s of (Inl e, t) \<Rightarrow> (Inl e, t) | (Inr u, t) \<Rightarrow> sfor ys f t)"
  by (induction xs f s rule: sfor.induct) (auto split: prod.splits sum.splits)

lemma sfor_invariant:
  assumes "\<And>x s. x \<in> set xs \<Longrightarrow> P s \<Longrightarrow> P (snd (f x s))" and "P s"
  shows "P (snd (sfor xs f s))"
  using assms
proof (induction xs arbitrary: s)
  case Nil
  then show ?case by simp
next
  case (Cons x xs)
  obtain r t where ft: "f x s = (r, t)" by (cases "f x s")
  then have "P t" using Cons.prems(1) [of x s] Cons.prems(2) by simp
  then show ?case using ft Cons by (cases r) auto
qed

lemma sfor_smodify: "sfor xs (\<lambda>x. smodify (f x)) p = (Inr (), fold f xs p)"
  by (induction xs arbitrary: p) (simp_all add: smodify_def)

section \<open>Ordered maps\<close>

text \<open>A \<open>std::map\<close> is a list of entries in the order of its keys, with which the code's
  iterators walk it.\<close>

definition map_set :: "'k::linorder \<Rightarrow> 'v \<Rightarrow> ('k \<times> 'v) list \<Rightarrow> ('k \<times> 'v) list" where
  "map_set k v m = (if k \<in> fst ` set m then map (\<lambda>(n, x). (n, if n = k then v else x)) m
                    else insort_key fst (k, v) m)"

definition map_erase :: "'k \<Rightarrow> ('k \<times> 'v) list \<Rightarrow> ('k \<times> 'v) list" where
  "map_erase k m = filter (\<lambda>e. fst e \<noteq> k) m"

lemma map_of_map_same: "map_of (map (\<lambda>(n, x). (n, if n = k then v else x)) m) n =
    (if n = k \<and> map_of m n \<noteq> None then Some v else map_of m n)"
proof (induction m)
  case Nil
  then show ?case by simp
next
  case (Cons e m)
  then show ?case by (cases e; cases "n = k") simp_all
qed

lemma map_of_insort_key:
  assumes "map_of m k = None"
  shows "map_of (insort_key fst (k, v) m) n = (if n = k then Some v else map_of m n)"
  using assms
proof (induction m)
  case Nil
  then show ?case by simp
next
  case (Cons e m)
  then show ?case by (cases e) (simp split: if_splits)
qed

lemma map_of_map_set [simp]: "map_of (map_set k v m) = (map_of m)(k \<mapsto> v)"
proof (rule ext)
  fix n
  show "map_of (map_set k v m) n = ((map_of m)(k \<mapsto> v)) n"
  proof (cases "map_of m k = None")
    case True
    then have "k \<notin> fst ` set m" by (simp add: map_of_eq_None_iff)
    with True show ?thesis by (simp add: map_set_def map_of_insort_key)
  next
    case False
    then have "k \<in> fst ` set m" by (simp add: map_of_eq_None_iff)
    with False show ?thesis by (simp add: map_set_def map_of_map_same)
  qed
qed

lemma map_of_map_erase [simp]: "map_of (map_erase k m) = (map_of m)(k := None)"
proof (induction m)
  case Nil
  then show ?case by (simp add: map_erase_def)
next
  case (Cons e m)
  then show ?case by (cases e) (auto simp: map_erase_def fun_eq_iff)
qed

lemma keys_map_set [simp]: "fst ` set (map_set k v m) = insert k (fst ` set m)"
proof -
  have "fst ` set (map (\<lambda>(n, x). (n, if n = k then v else x)) m) = fst ` set m"
    by (induction m) auto
  then show ?thesis by (auto simp: map_set_def set_insort_key)
qed

lemma distinct_insort_key:
  "k \<notin> fst ` set m \<Longrightarrow> distinct (map fst m) \<Longrightarrow> distinct (map fst (insort_key fst (k, v) m))"
  by (induction m) (auto simp: set_insort_key)

lemma distinct_map_set [simp]: "distinct (map fst m) \<Longrightarrow> distinct (map fst (map_set k v m))"
  unfolding map_set_def by (simp add: distinct_insort_key comp_def case_prod_unfold)

lemma distinct_map_erase [simp]: "distinct (map fst m) \<Longrightarrow> distinct (map fst (map_erase k m))"
  unfolding map_erase_def by (simp add: distinct_map_filter)

section \<open>Characters and bytes\<close>

definition char_byte :: "char \<Rightarrow> byte" where
  "char_byte c = word_of_nat (of_char c)"

definition byte_char :: "byte \<Rightarrow> char" where
  "byte_char b = char_of (unat b)"

lemma byte_char_char_byte [simp]: "byte_char (char_byte c) = c"
proof -
  have "of_char c < (256::nat)" using range_nat_of_char by auto
  then have "unat (word_of_nat (of_char c) :: byte) = of_char c"
    by (simp add: unat_of_nat)
  then show ?thesis by (simp add: byte_char_def char_byte_def)
qed

lemma char_byte_byte_char [simp]: "char_byte (byte_char b) = b"
proof -
  have "unat b < 2 ^ LENGTH(8)" by (rule unsigned_less)
  then have "of_char (char_of (unat b)) = unat b" by (simp add: of_char_of)
  then show ?thesis by (simp add: byte_char_def char_byte_def)
qed

lemma byte_char_comp_char_byte [simp]: "byte_char \<circ> char_byte = id"
  by (simp add: fun_eq_iff)

lemma char_byte_comp_byte_char [simp]: "char_byte \<circ> byte_char = id"
  by (simp add: fun_eq_iff)

text \<open>A \<open>std::set\<close> is the sorted list of its elements.\<close>

definition set_insert :: "'k::linorder \<Rightarrow> 'k list \<Rightarrow> 'k list" where
  "set_insert x xs = (if x \<in> set xs then xs else insort x xs)"

definition set_erase :: "'k \<Rightarrow> 'k list \<Rightarrow> 'k list" where
  "set_erase x xs = filter (\<lambda>y. y \<noteq> x) xs"

definition set_of_list :: "'k::linorder list \<Rightarrow> 'k list" where
  "set_of_list xs = fold set_insert xs []"

lemma set_set_insert [simp]: "set (set_insert x xs) = insert x (set xs)"
  by (auto simp: set_insert_def set_insort_key)

lemma set_set_erase [simp]: "set (set_erase x xs) = set xs - {x}"
  by (auto simp: set_erase_def)

lemma set_set_of_list [simp]: "set (set_of_list xs) = set xs"
proof -
  have "set (fold set_insert xs ys) = set xs \<union> set ys" for ys
    by (induction xs arbitrary: ys) auto
  then show ?thesis by (simp add: set_of_list_def)
qed

section \<open>A concrete text format for the witnesses\<close>

text \<open>The parsers and serialisers of messages are parameters of the models. The witnesses use this
  one: a record is the list of its fields, a field a list of marked characters and a full stop.\<close>

fun pack_field :: "string \<Rightarrow> string" where
  "pack_field [] = [CHR 0x2E]"
| "pack_field (c # cs) = CHR 0x2B # c # pack_field cs"

fun unpack_from :: "string \<Rightarrow> string \<Rightarrow> string list" where
  "unpack_from acc [] = []"
| "unpack_from acc [x] = (if x = CHR 0x2E then [acc] else [])"
| "unpack_from acc (x # c # s) =
     (if x = CHR 0x2E then acc # unpack_from [] (c # s) else unpack_from (acc @ [c]) s)"

definition pack_fields :: "string list \<Rightarrow> string" where
  "pack_fields fs = concat (map pack_field fs)"

definition unpack_fields :: "string \<Rightarrow> string list" where
  "unpack_fields s = unpack_from [] s"

lemma unpack_from_field: "unpack_from acc (pack_field f @ s) = (acc @ f) # unpack_from [] s"
proof (induction f arbitrary: acc)
  case Nil
  then show ?case by (cases s) simp_all
next
  case (Cons c f)
  then show ?case by simp
qed

lemma unpack_pack_fields [simp]: "unpack_fields (pack_fields fs) = fs"
  by (induction fs) (simp_all add: unpack_fields_def pack_fields_def unpack_from_field)

end
