(* ===== verification/Numbers.thy ===== *)
theory Numbers
  imports Prelude
begin

text \<open>
  Machine numbers: \<open>long\<close> arithmetic with undefined behaviour as \<open>None\<close>, the decimal
  rendering of \<open>std::ostream << long\<close> and its reader \<open>atol\<close>, and the class
  \<open>NumberHelper\<close> of \<open>asn1/NumberHelper.cpp\<close>. Signed overflow is undefined in C++, so an
  operation whose exact result is no \<open>long\<close> has no result; so has one that reads a
  variable \<open>asn_INTEGER2long\<close> left unset.
\<close>

section \<open>Signed long arithmetic\<close>

definition long_range :: "int \<Rightarrow> bool" where
  "long_range i \<longleftrightarrow> - (2 ^ 63) \<le> i \<and> i < 2 ^ 63"

definition long_of_int :: "c_int \<Rightarrow> c_long" where
  "long_of_int x = word_of_int (sint x)"

definition long_add :: "c_long \<Rightarrow> c_long \<Rightarrow> c_long option" where
  "long_add a b = (if long_range (sint a + sint b) then Some (a + b) else None)"

definition long_sub :: "c_long \<Rightarrow> c_long \<Rightarrow> c_long option" where
  "long_sub a b = (if long_range (sint a - sint b) then Some (a - b) else None)"

lemma sint_long_of_range: "long_range i \<Longrightarrow> sint (word_of_int i :: c_long) = i"
  by (simp add: long_range_def signed_of_int signed_take_bit_int_eq_self)

lemma long_range_sint [simp]: "long_range (sint (x :: c_long))"
  using sint_range_size [of x] by (simp add: long_range_def word_size)

lemma sint_long_of_int [simp]: "sint (long_of_int x) = sint x"
proof -
  have "long_range (sint x)"
    using sint_range_size [of x] by (simp add: long_range_def word_size)
  then show ?thesis unfolding long_of_int_def by (rule sint_long_of_range)
qed

lemma long_add_Some_iff:
  "long_add a b = Some c \<longleftrightarrow> long_range (sint a + sint b) \<and> sint c = sint a + sint b"
proof -
  have "sint (a + b) = sint a + sint b" if "long_range (sint a + sint b)"
    using sint_long_of_range [OF that] by simp
  then show ?thesis unfolding long_add_def by (metis option.inject option.distinct(1) signed_word_eqI)
qed

lemma long_sub_Some_iff:
  "long_sub a b = Some c \<longleftrightarrow> long_range (sint a - sint b) \<and> sint c = sint a - sint b"
proof -
  have "sint (a - b) = sint a - sint b" if "long_range (sint a - sint b)"
    using sint_long_of_range [OF that] by simp
  then show ?thesis unfolding long_sub_def by (metis option.inject option.distinct(1) signed_word_eqI)
qed

section \<open>Decimal text\<close>

definition digit_char :: "nat \<Rightarrow> char" where
  "digit_char d = char_of (48 + d)"

fun show_nat :: "nat \<Rightarrow> string" where
  "show_nat n = (if n < 10 then [digit_char n] else show_nat (n div 10) @ [digit_char (n mod 10)])"

declare show_nat.simps [simp del]

definition show_int :: "int \<Rightarrow> string" where
  "show_int i = (if i < 0 then CHR ''-'' # show_nat (nat (- i)) else show_nat (nat i))"

definition is_digit :: "char \<Rightarrow> bool" where
  "is_digit c \<longleftrightarrow> 48 \<le> (of_char c :: nat) \<and> (of_char c :: nat) \<le> 57"

definition is_space :: "char \<Rightarrow> bool" where
  "is_space c \<longleftrightarrow> (of_char c :: nat) = 32 \<or> (9 \<le> (of_char c :: nat) \<and> (of_char c :: nat) \<le> 13)"

fun read_digits :: "nat \<Rightarrow> string \<Rightarrow> nat" where
  "read_digits acc [] = acc"
| "read_digits acc (c # cs) =
     (if is_digit c then read_digits (10 * acc + (of_char c - 48)) cs else acc)"

text \<open>\<open>atol\<close>: white space, an optional sign, digits; the result is the exact value and the
  caller states whether it fits a \<open>long\<close>.\<close>

definition atol_sign :: "string \<Rightarrow> int" where
  "atol_sign s = (case s of [] \<Rightarrow> 0 | c # cs \<Rightarrow>
     if c = CHR ''-'' then - int (read_digits 0 cs)
     else if c = CHR ''+'' then int (read_digits 0 cs)
     else int (read_digits 0 s))"

definition atol :: "string \<Rightarrow> int" where
  "atol s = atol_sign (dropWhile is_space s)"

lemma of_char_digit [simp]: "d < 10 \<Longrightarrow> (of_char (digit_char d) :: nat) = 48 + d"
  by (simp add: digit_char_def of_char_of)

lemma is_digit_digit_char [simp]: "d < 10 \<Longrightarrow> is_digit (digit_char d)"
  by (simp add: is_digit_def)

lemma show_nat_digits: "\<forall>c \<in> set (show_nat n). is_digit c"
proof (induction n rule: show_nat.induct)
  case (1 n)
  then show ?case by (subst show_nat.simps) auto
qed

lemma show_nat_nonempty: "show_nat n \<noteq> []"
  by (subst show_nat.simps) simp

lemma read_digits_append:
  "\<forall>c \<in> set s. is_digit c \<Longrightarrow> read_digits acc (s @ t) = read_digits (read_digits acc s) t"
  by (induction s arbitrary: acc) auto

lemma read_digits_show: "read_digits 0 (show_nat n) = n"
proof (induction n rule: show_nat.induct)
  case (1 n)
  show ?case
  proof (cases "n < 10")
    case True
    then show ?thesis by (subst show_nat.simps) simp
  next
    case False
    with "1.IH" show_nat_digits show ?thesis
      by (subst show_nat.simps) (simp add: read_digits_append)
  qed
qed

lemma digit_not_sign:
  "is_digit c \<Longrightarrow> c \<noteq> CHR ''-'' \<and> c \<noteq> CHR ''+'' \<and> \<not> is_space c"
  by (auto simp: is_digit_def is_space_def)

lemma atol_show_int: "atol (show_int i) = i"
proof (cases "i < 0")
  case True
  then show ?thesis
    by (simp add: atol_def show_int_def atol_sign_def is_space_def read_digits_show)
next
  case False
  obtain c cs where s: "show_nat (nat i) = c # cs"
    using show_nat_nonempty by (cases "show_nat (nat i)") auto
  with show_nat_digits [of "nat i"] have "is_digit c" by simp
  with False s read_digits_show [of "nat i"] show ?thesis
    by (simp add: atol_def show_int_def atol_sign_def digit_not_sign)
qed

section \<open>NumberHelper\<close>

text \<open>The state is the member \<open>value\<close>. \<open>asn_INTEGER2long\<close> is asn1c's reader: a
  parameter that gives the value, or \<open>None\<close> where it fails and stores nothing. The code
  ignores that status. All the operators update the object and return it.\<close>

type_synonym NumberHelper = c_long

definition NumberHelper_default :: NumberHelper where
  "NumberHelper_default = 0"

definition NumberHelper_of_long :: "c_long \<Rightarrow> NumberHelper" where
  "NumberHelper_of_long number = number"

definition NumberHelper_of_number :: "('n \<Rightarrow> c_long option) \<Rightarrow> 'n \<Rightarrow> NumberHelper option" where
  "NumberHelper_of_number asn_INTEGER2long number = asn_INTEGER2long number"

definition NumberHelper_plus_int :: "NumberHelper \<Rightarrow> c_int \<Rightarrow> NumberHelper option" where
  "NumberHelper_plus_int this rhs = long_add this (long_of_int rhs)"

definition NumberHelper_minus_int :: "NumberHelper \<Rightarrow> c_int \<Rightarrow> NumberHelper option" where
  "NumberHelper_minus_int this rhs = long_sub this (long_of_int rhs)"

definition NumberHelper_plus_long :: "NumberHelper \<Rightarrow> c_long \<Rightarrow> NumberHelper option" where
  "NumberHelper_plus_long this rhs = long_add this rhs"

definition NumberHelper_minus_long :: "NumberHelper \<Rightarrow> c_long \<Rightarrow> NumberHelper option" where
  "NumberHelper_minus_long this rhs = long_sub this rhs"

definition NumberHelper_plus :: "NumberHelper \<Rightarrow> NumberHelper \<Rightarrow> NumberHelper option" where
  "NumberHelper_plus this rhs = long_add this rhs"

definition NumberHelper_minus :: "NumberHelper \<Rightarrow> NumberHelper \<Rightarrow> NumberHelper option" where
  "NumberHelper_minus this rhs = long_sub this rhs"

definition NumberHelper_minus_number ::
  "('n \<Rightarrow> c_long option) \<Rightarrow> NumberHelper \<Rightarrow> 'n \<Rightarrow> NumberHelper option" where
  "NumberHelper_minus_number asn_INTEGER2long this number =
     Option.bind (asn_INTEGER2long number) (\<lambda>value. long_sub this value)"

definition NumberHelper_plus_number ::
  "('n \<Rightarrow> c_long option) \<Rightarrow> NumberHelper \<Rightarrow> 'n \<Rightarrow> NumberHelper option" where
  "NumberHelper_plus_number asn_INTEGER2long this number =
     Option.bind (asn_INTEGER2long number) (\<lambda>value. long_add this value)"

definition NumberHelper_assign_long :: "NumberHelper \<Rightarrow> c_long \<Rightarrow> NumberHelper" where
  "NumberHelper_assign_long this number = number"

definition NumberHelper_assign_number ::
  "('n \<Rightarrow> c_long option) \<Rightarrow> NumberHelper \<Rightarrow> 'n \<Rightarrow> NumberHelper option" where
  "NumberHelper_assign_number asn_INTEGER2long this number = asn_INTEGER2long number"

definition NumberHelper_assign :: "NumberHelper \<Rightarrow> NumberHelper \<Rightarrow> NumberHelper" where
  "NumberHelper_assign this number = number"

definition NumberHelper_long :: "NumberHelper \<Rightarrow> c_long" where
  "NumberHelper_long this = this"


end
