(* ===== verification/ByteUtils.thy ===== *)
theory ByteUtils
  imports Prelude
begin

text \<open>
  The copying helpers every layer goes through: \<open>server_common/VectorUtils.cpp\<close>,
  \<open>crypto/SecureVectorUtils.cpp\<close>, \<open>rocks_db/SliceHelper.cpp\<close>,
  \<open>asn1/HashHelper.cpp\<close> and \<open>asn1/NumberHelper.cpp\<close>. The push-back loops are
  \<open>map\<close>s. The interface \<open>byte_codec\<close> states what the callers rely on (strings and byte
  vectors convert back and forth without loss); it is interpreted on the two helper classes
  and on the assignment-free part of \<open>HashHelper\<close>.
\<close>

section \<open>VectorUtils and SecureVectorUtils\<close>

definition copyStringToVector :: "string \<Rightarrow> bytes" where
  "copyStringToVector str = map char_byte str"

definition copyVectorToString :: "bytes \<Rightarrow> string" where
  "copyVectorToString vec = map byte_char vec"

definition copyFromSecure :: "bytes \<Rightarrow> bytes" where
  "copyFromSecure secureVector = map (\<lambda>b. b) secureVector"

definition copyToSecure :: "bytes \<Rightarrow> bytes" where
  "copyToSecure vector = map (\<lambda>b. b) vector"

definition copyStringToSecure :: "string \<Rightarrow> bytes" where
  "copyStringToSecure str = map char_byte str"

definition copySecureToString :: "bytes \<Rightarrow> string" where
  "copySecureToString vec = map byte_char vec"

locale byte_codec =
  fixes enc :: "'a \<Rightarrow> 'b" and dec :: "'b \<Rightarrow> 'a"
  assumes dec_enc: "dec (enc x) = x"
    and enc_dec: "enc (dec y) = y"
begin

lemma enc_eq_iff: "enc x = enc x' \<longleftrightarrow> x = x'"
  by (metis dec_enc)

lemma dec_eq_iff: "dec y = dec y' \<longleftrightarrow> y = y'"
  by (metis enc_dec)

lemma enc_eq_dec: "enc x = y \<longleftrightarrow> x = dec y"
  by (metis dec_enc enc_dec)

end

interpretation vu: byte_codec copyStringToVector copyVectorToString
  by unfold_locales (simp_all add: copyStringToVector_def copyVectorToString_def)

interpretation su: byte_codec copyStringToSecure copySecureToString
  by unfold_locales (simp_all add: copyStringToSecure_def copySecureToString_def)

interpretation sv: byte_codec copyFromSecure copyToSecure
  by unfold_locales (simp_all add: copyFromSecure_def copyToSecure_def)

lemmas copy_simps [simp] =
  vu.dec_enc vu.enc_dec su.dec_enc su.enc_dec sv.dec_enc sv.enc_dec
  vu.enc_eq_iff vu.dec_eq_iff su.enc_eq_iff su.dec_eq_iff sv.enc_eq_iff sv.dec_eq_iff

lemma copyFromSecure_id [simp]: "copyFromSecure v = v"
  by (simp add: copyFromSecure_def)

lemma copyToSecure_id [simp]: "copyToSecure v = v"
  by (simp add: copyToSecure_def)

lemma secure_eq_vector [simp]:
  "copyStringToSecure s = copyStringToVector s" "copySecureToString b = copyVectorToString b"
  by (simp_all add: copyStringToSecure_def copyStringToVector_def
      copySecureToString_def copyVectorToString_def)

section \<open>SliceHelper\<close>

text \<open>The state is the member \<open>sliceBytes\<close>. A \<open>rocksdb::Slice\<close> is the byte range it
  points to. The assignments from a string and from a slice push back without clearing.\<close>

type_synonym SliceHelper = bytes

definition SliceHelper_of_string :: "string \<Rightarrow> SliceHelper" where
  "SliceHelper_of_string s = map char_byte s"

definition SliceHelper_of_vector :: "bytes \<Rightarrow> SliceHelper" where
  "SliceHelper_of_vector v = v"

definition SliceHelper_of_slice :: "bytes \<Rightarrow> SliceHelper" where
  "SliceHelper_of_slice src = (if src \<noteq> [] then map (\<lambda>b. b) src else [])"

definition SliceHelper_assign_string :: "SliceHelper \<Rightarrow> string \<Rightarrow> SliceHelper" where
  "SliceHelper_assign_string this s = this @ map char_byte s"

definition SliceHelper_assign_vector :: "SliceHelper \<Rightarrow> bytes \<Rightarrow> SliceHelper" where
  "SliceHelper_assign_vector this v = v"

definition SliceHelper_assign_slice :: "SliceHelper \<Rightarrow> bytes \<Rightarrow> SliceHelper" where
  "SliceHelper_assign_slice this src =
     (if src \<noteq> [] then this @ map (\<lambda>b. b) src else this)"

definition SliceHelper_slice :: "SliceHelper \<Rightarrow> bytes" where
  "SliceHelper_slice this = this"

definition SliceHelper_vector :: "SliceHelper \<Rightarrow> bytes" where
  "SliceHelper_vector this = this"

definition SliceHelper_string :: "SliceHelper \<Rightarrow> string" where
  "SliceHelper_string this = map byte_char this"

interpretation sl: byte_codec SliceHelper_of_string SliceHelper_string
  by unfold_locales (simp_all add: SliceHelper_of_string_def SliceHelper_string_def)

lemmas slice_defs = SliceHelper_of_vector_def SliceHelper_of_slice_def SliceHelper_slice_def
  SliceHelper_vector_def

lemma SliceHelper_of_string_eq [simp]: "SliceHelper_of_string s = copyStringToVector s"
  by (simp add: SliceHelper_of_string_def copyStringToVector_def)

lemma SliceHelper_string_eq [simp]: "SliceHelper_string v = copyVectorToString v"
  by (simp add: SliceHelper_string_def copyVectorToString_def)

section \<open>HashHelper\<close>

text \<open>The state is the member \<open>hash\<close>; an ASN.1 \<open>Hash_t\<close> is the byte range of its buffer.
  Botan's hex and base64 codecs are parameters, collected in one record.\<close>

datatype StringEncoding = BASE64 | HEX | UTF8

record text_codecs =
  hex_encode :: "bytes \<Rightarrow> string"
  hex_decode_locked :: "string \<Rightarrow> bytes result"
  base64_encode :: "bytes \<Rightarrow> string"
  base64_decode :: "string \<Rightarrow> bytes result"

type_synonym HashHelper = bytes

definition copyHashToVector :: "bytes \<Rightarrow> bytes \<Rightarrow> bytes" where
  "copyHashToVector h vector = vector @ map (\<lambda>b. b) h"

definition HashHelper_of_string :: "string \<Rightarrow> HashHelper" where
  "HashHelper_of_string s = map char_byte s"

definition HashHelper_of_hash :: "bytes \<Rightarrow> HashHelper" where
  "HashHelper_of_hash h = copyHashToVector h []"

definition HashHelper_of_encoded :: "text_codecs \<Rightarrow> string \<Rightarrow> StringEncoding \<Rightarrow> HashHelper result" where
  "HashHelper_of_encoded lib s stringEncoding =
     (if stringEncoding = HEX then hex_decode_locked lib s
      else if stringEncoding = BASE64 then base64_decode lib s
      else Inl UnsupportedStringFormatException)"

definition HashHelper_assign_string :: "HashHelper \<Rightarrow> string \<Rightarrow> HashHelper" where
  "HashHelper_assign_string this s = this @ map char_byte s"

definition HashHelper_assign_hash_ptr :: "HashHelper \<Rightarrow> bytes \<Rightarrow> HashHelper" where
  "HashHelper_assign_hash_ptr this h = copyHashToVector h []"

definition HashHelper_assign_hash :: "HashHelper \<Rightarrow> bytes \<Rightarrow> HashHelper" where
  "HashHelper_assign_hash this h = copyHashToVector h []"

definition HashHelper_assign_secure :: "HashHelper \<Rightarrow> bytes \<Rightarrow> HashHelper" where
  "HashHelper_assign_secure this h = h"

definition HashHelper_Hash_t :: "HashHelper \<Rightarrow> bytes" where
  "HashHelper_Hash_t this = this"

definition HashHelper_SecureVector :: "HashHelper \<Rightarrow> bytes" where
  "HashHelper_SecureVector this = this"

definition HashHelper_string :: "HashHelper \<Rightarrow> string" where
  "HashHelper_string this = map byte_char this"

definition HashHelper_setHash ::
  "text_codecs \<Rightarrow> HashHelper \<Rightarrow> string \<Rightarrow> StringEncoding \<Rightarrow> HashHelper result" where
  "HashHelper_setHash lib this s stringEncoding =
     (if stringEncoding = HEX then hex_decode_locked lib s
      else if stringEncoding = BASE64 then base64_decode lib s
      else Inl UnsupportedStringFormatException)"

definition HashHelper_getHash :: "text_codecs \<Rightarrow> HashHelper \<Rightarrow> StringEncoding \<Rightarrow> string result" where
  "HashHelper_getHash lib this stringEncoding =
     (if stringEncoding = HEX then Inr (hex_encode lib this)
      else if stringEncoding = BASE64 then Inr (base64_encode lib this)
      else Inl UnsupportedStringFormatException)"

definition HashHelper_empty :: "HashHelper \<Rightarrow> bool" where
  "HashHelper_empty this \<longleftrightarrow> length this = 0"

interpretation hh: byte_codec HashHelper_of_string HashHelper_string
  by unfold_locales (simp_all add: HashHelper_of_string_def HashHelper_string_def)

lemmas hash_defs = HashHelper_of_hash_def HashHelper_Hash_t_def HashHelper_SecureVector_def
  HashHelper_assign_hash_def HashHelper_assign_hash_ptr_def HashHelper_assign_secure_def
  copyHashToVector_def

lemma HashHelper_of_string_eq [simp]: "HashHelper_of_string s = copyStringToVector s"
  by (simp add: HashHelper_of_string_def copyStringToVector_def)

lemma HashHelper_string_eq [simp]: "HashHelper_string v = copyVectorToString v"
  by (simp add: HashHelper_string_def copyVectorToString_def)

text \<open>What the code relies on of Botan's codecs: decoding what was encoded gives it back.\<close>

definition codecs_ok :: "text_codecs \<Rightarrow> bool" where
  "codecs_ok lib \<longleftrightarrow> (\<forall>b. hex_decode_locked lib (hex_encode lib b) = Inr b)
     \<and> (\<forall>b. base64_decode lib (base64_encode lib b) = Inr b)"

lemma codecs_okD:
  "codecs_ok lib \<Longrightarrow> hex_decode_locked lib (hex_encode lib b) = Inr b"
  "codecs_ok lib \<Longrightarrow> base64_decode lib (base64_encode lib b) = Inr b"
  by (simp_all add: codecs_ok_def)

text \<open>A concrete codec for the witnesses: one character per byte.\<close>

definition plain_codecs :: text_codecs where
  "plain_codecs = \<lparr>hex_encode = map byte_char, hex_decode_locked = \<lambda>s. Inr (map char_byte s),
     base64_encode = map byte_char, base64_decode = \<lambda>s. Inr (map char_byte s)\<rparr>"

lemma plain_codecs_ok: "codecs_ok plain_codecs"
  by (simp add: codecs_ok_def plain_codecs_def)

section \<open>Conversions that change nothing\<close>

lemma slice_of_hash [simp]:
  "SliceHelper_of_vector v = v" "HashHelper_of_hash h = h" "HashHelper_Hash_t h = h"
  "HashHelper_SecureVector h = h"
  by (simp_all add: slice_defs hash_defs)

lemma slice_of_string [simp]: "SliceHelper_of_string s = copyStringToVector s"
  by (simp add: slice_defs copy_simps)

end
