(* ===== verification/Text.thy ===== *)
theory Text
  imports ByteUtils
begin

text \<open>
  Text handling: \<open>std::string::find\<close> and \<open>substr\<close> as the standard defines them,
  \<open>StringUtils::tokenize\<close> and \<open>URLUtils::unescape\<close> of \<open>server_common\<close>.
\<close>

section \<open>std::string::find and substr\<close>

fun is_prefix :: "string \<Rightarrow> string \<Rightarrow> bool" where
  "is_prefix [] s = True"
| "is_prefix (p # ps) [] = False"
| "is_prefix (p # ps) (c # cs) = (p = c \<and> is_prefix ps cs)"

fun find_first :: "string \<Rightarrow> string \<Rightarrow> nat option" where
  "find_first pat s = (if is_prefix pat s then Some 0 else
     (case s of [] \<Rightarrow> None | c # cs \<Rightarrow> map_option Suc (find_first pat cs)))"

declare find_first.simps [simp del]

definition find_from :: "string \<Rightarrow> string \<Rightarrow> nat \<Rightarrow> nat option" where
  "find_from s pat pos = (if pos \<le> length s
     then map_option (\<lambda>k. pos + k) (find_first pat (drop pos s)) else None)"

text \<open>\<open>n = None\<close> is \<open>npos\<close>.\<close>

definition substr :: "string \<Rightarrow> nat \<Rightarrow> nat option \<Rightarrow> string result" where
  "substr s pos n = (if pos > length s then Inl OutOfRange
     else Inr (case n of None \<Rightarrow> drop pos s | Some k \<Rightarrow> take k (drop pos s)))"

lemma is_prefix_iff: "is_prefix p s \<longleftrightarrow> (\<exists>t. s = p @ t)"
  by (induction p s rule: is_prefix.induct) auto

lemma find_first_Nil: "find_first pat [] = (if pat = [] then Some 0 else None)"
  by (cases pat) (simp_all add: find_first.simps)

lemma find_first_Cons:
  "find_first pat (c # cs) =
     (if is_prefix pat (c # cs) then Some 0 else map_option Suc (find_first pat cs))"
  by (simp add: find_first.simps)

lemma find_first_Some:
  "find_first pat s = Some k \<Longrightarrow> k + length pat \<le> length s \<and> take (length pat) (drop k s) = pat"
proof (induction s arbitrary: k)
  case Nil
  then show ?case by (auto simp: find_first_Nil split: if_splits)
next
  case (Cons c cs)
  show ?case
  proof (cases "is_prefix pat (c # cs)")
    case True
    then obtain t where "c # cs = pat @ t" by (auto simp: is_prefix_iff)
    moreover have "k = 0" using True Cons.prems by (simp add: find_first_Cons)
    ultimately show ?thesis by (metis add_0 append_eq_conv_conj drop0 length_append le_add1)
  next
    case False
    with Cons.prems obtain j where "find_first pat cs = Some j" "k = Suc j"
      by (auto simp: find_first_Cons)
    with Cons.IH show ?thesis by simp
  qed
qed

lemma find_first_single:
  "find_first [x] s = (if x \<in> set s then Some (length (takeWhile (\<lambda>c. c \<noteq> x) s)) else None)"
proof (induction s)
  case Nil
  show ?case by (simp add: find_first_Nil)
next
  case (Cons c cs)
  then show ?case by (auto simp: find_first_Cons)
qed

section \<open>StringUtils::tokenize\<close>

text \<open>The loop keeps \<open>start\<close>; with an empty token it does not end, which is \<open>None\<close>. The
  last token is \<open>substr(start, npos - start)\<close>, the rest of the string.\<close>

partial_function (option) tokenize_from :: "string \<Rightarrow> string \<Rightarrow> nat \<Rightarrow> string list option" where
  "tokenize_from str token start =
     (case find_from str token start of
        None \<Rightarrow> Some [drop start str]
      | Some e \<Rightarrow> Option.bind (tokenize_from str token (e + length token))
          (\<lambda>rest. Some (take (e - start) (drop start str) # rest)))"

definition tokenize :: "string \<Rightarrow> string \<Rightarrow> string list option" where
  "tokenize str token = tokenize_from str token 0"

fun join_with :: "string \<Rightarrow> string list \<Rightarrow> string" where
  "join_with sep [] = []"
| "join_with sep [w] = w"
| "join_with sep (w # v # ws) = w @ sep @ join_with sep (v # ws)"

lemma join_with_Cons: "ws \<noteq> [] \<Longrightarrow> join_with sep (w # ws) = w @ sep @ join_with sep ws"
  by (cases ws) simp_all

text \<open>Any text splits, for a token that is not empty, into pieces that join to it again.\<close>

lemma tokenize_from_total:
  assumes "token \<noteq> []" and "start \<le> length str"
  shows "\<exists>ts. tokenize_from str token start = Some ts \<and> ts \<noteq> [] \<and>
           join_with token ts = drop start str"
  using assms(2)
proof (induction "length str - start" arbitrary: start rule: less_induct)
  case less
  show ?case
  proof (cases "find_from str token start")
    case None
    then show ?thesis by (simp add: tokenize_from.simps)
  next
    case (Some e)
    then obtain k where k: "find_first token (drop start str) = Some k" "e = start + k"
      by (auto simp: find_from_def split: if_splits)
    note fs = find_first_Some [OF k(1)]
    have le: "e + length token \<le> length str"
      using fs k(2) less.prems by (simp only: length_drop) arith
    have "length str - (e + length token) < length str - start"
      using le k(2) assms(1) less.prems by (cases token) auto
    from less.hyps [OF this le] obtain ts where
      ts: "tokenize_from str token (e + length token) = Some ts" "ts \<noteq> []"
        "join_with token ts = drop (e + length token) str" by blast
    have tok: "take (length token) (drop k (drop start str)) = token"
      using fs by blast
    have "drop start str = take k (drop start str) @ drop k (drop start str)"
      by (rule append_take_drop_id [symmetric])
    also have "drop k (drop start str) =
        take (length token) (drop k (drop start str)) @ drop (e + length token) str"
      using k(2) by (metis append_take_drop_id drop_drop add.commute)
    finally have "drop start str = take k (drop start str) @ token @ drop (e + length token) str"
      using tok by simp
    with Some ts k(2) show ?thesis
      by (simp add: tokenize_from.simps [of str token start] join_with_Cons)
  qed
qed

text \<open>For the one-character separator the code uses, words without it come back unchanged.\<close>

lemma tokenize_from_words:
  assumes "ws \<noteq> []" and "\<forall>w \<in> set ws. x \<notin> set w"
    and "drop start str = join_with [x] ws" and "start \<le> length str"
  shows "tokenize_from str [x] start = Some ws"
  using assms
proof (induction ws arbitrary: start)
  case Nil
  then show ?case by simp
next
  case (Cons w ws)
  show ?case
  proof (cases "ws = []")
    case True
    with Cons.prems have "find_from str [x] start = None"
      by (simp add: find_from_def find_first_single)
    with True Cons.prems show ?thesis by (simp add: tokenize_from.simps)
  next
    case False
    with Cons.prems have d: "drop start str = w @ x # join_with [x] ws"
      by (simp add: join_with_Cons)
    have "takeWhile (\<lambda>c. c \<noteq> x) (w @ x # join_with [x] ws) = w"
      using Cons.prems(2) by (subst takeWhile_append2) auto
    then have f: "find_from str [x] start = Some (start + length w)"
      using Cons.prems(4) d by (simp add: find_from_def find_first_single)
    have "drop (start + length w + 1) str = drop (Suc (length w)) (drop start str)"
      by (simp add: add.commute)
    also have "\<dots> = join_with [x] ws" by (simp add: d)
    finally have rest: "drop (start + length w + 1) str = join_with [x] ws" .
    have "length (drop start str) = length w + 1 + length (join_with [x] ws)"
      by (simp add: d)
    then have "start + length w + 1 \<le> length str" using Cons.prems(4) by simp
    with Cons.IH False rest Cons.prems(2)
    have "tokenize_from str [x] (start + length w + 1) = Some ws" by simp
    with f d show ?thesis
      by (simp add: tokenize_from.simps [of str "[x]" start])
  qed
qed

lemma tokenize_words:
  "ws \<noteq> [] \<Longrightarrow> \<forall>w \<in> set ws. x \<notin> set w \<Longrightarrow> tokenize (join_with [x] ws) [x] = Some ws"
  unfolding tokenize_def by (rule tokenize_from_words) simp_all

text \<open>Tokenize returns for every text and every separator that is not empty, and joining
  the tokens with the separator gives the text back.\<close>

theorem tokenize_join:
  assumes "token \<noteq> []"
  shows "\<exists>ts. tokenize str token = Some ts \<and> ts \<noteq> [] \<and> join_with token ts = str"
  using tokenize_from_total [OF assms, of 0 str] by (simp add: tokenize_def)

theorem tokenize_join_witness:
  "\<exists>ts. tokenize ''HELLO 00ff'' '' '' = Some ts \<and> ts \<noteq> [] \<and> join_with '' '' ts = ''HELLO 00ff''"
  by (rule tokenize_join) simp

section \<open>URLUtils\<close>

definition hex_decode_char :: "char \<Rightarrow> int" where
  "hex_decode_char ch = (let r = (of_char ch :: nat) in
     if 48 \<le> r \<and> r \<le> 57 then int r - 48
     else if 65 \<le> r \<and> r \<le> 70 then int r - 65 + 10
     else if 97 \<le> r \<and> r \<le> 102 then int r - 97 + 10
     else - 1)"

definition url_hex_decode :: "string \<Rightarrow> string" where
  "url_hex_decode s = (case s of
       a # b # _ \<Rightarrow> [byte_char (word_of_int (hex_decode_char a * 16 + hex_decode_char b))]
     | _ \<Rightarrow> s)"

text \<open>The loop variable is the suffix of the string that starts at \<open>index\<close>.\<close>

fun unescape :: "string \<Rightarrow> string" where
  "unescape [] = []"
| "unescape (pos # rest) =
     (if pos = CHR ''%'' then url_hex_decode (take 2 rest) @ unescape (drop 2 rest)
      else if pos = CHR ''+'' then CHR '' '' # unescape rest
      else pos # unescape rest)"

text \<open>The specification: percent encoding of every character outside a set the client
  may leave alone, which must hold neither the percent sign nor the plus sign.\<close>

definition hex_digit :: "nat \<Rightarrow> char" where
  "hex_digit d = char_of (if d < 10 then 48 + d else 55 + d)"

definition percent :: "char \<Rightarrow> string" where
  "percent c = [CHR ''%'', hex_digit (of_char c div 16), hex_digit (of_char c mod 16)]"

definition escape :: "(char \<Rightarrow> bool) \<Rightarrow> string \<Rightarrow> string" where
  "escape plain s = concat (map (\<lambda>c. if plain c then [c] else percent c) s)"

lemma hex_decode_hex_digit: "d < 16 \<Longrightarrow> hex_decode_char (hex_digit d) = int d"
  by (auto simp: hex_decode_char_def hex_digit_def of_char_of Let_def)

lemma url_hex_decode_percent:
  "url_hex_decode (hex_digit (of_char c div 16) # hex_digit (of_char c mod 16) # r) = [c]"
proof -
  let ?n = "of_char c :: nat"
  have b: "?n < 256" by (rule nat_of_char_less_256)
  then have "?n div 16 < 16" by (simp add: less_mult_imp_div_less)
  moreover have "?n mod 16 < 16" by simp
  ultimately have "hex_decode_char (hex_digit (?n div 16)) = int (?n div 16)"
    and "hex_decode_char (hex_digit (?n mod 16)) = int (?n mod 16)"
    by (simp_all add: hex_decode_hex_digit)
  then have "hex_decode_char (hex_digit (?n div 16)) * 16 + hex_decode_char (hex_digit (?n mod 16))
      = int ?n"
    by (metis of_nat_add of_nat_mult of_nat_numeral div_mult_mod_eq)
  moreover have "byte_char (word_of_int (int ?n)) = c"
    by (metis byte_char_char_byte char_byte_def of_int_of_nat_eq)
  ultimately show ?thesis unfolding url_hex_decode_def by (simp del: of_int_add of_int_mult)
qed

text \<open>Decoding undoes percent encoding, whichever characters the client chose to leave
  alone, as long as the percent and the plus sign are encoded.\<close>

lemma unescape_escape_append:
  assumes "\<not> plain (CHR ''%'')" and "\<not> plain (CHR ''+'')"
  shows "unescape (escape plain s @ t) = s @ unescape t"
proof (induction s)
  case Nil
  show ?case by (simp add: escape_def)
next
  case (Cons c cs)
  show ?case
  proof (cases "plain c")
    case True
    with assms have "c \<noteq> CHR ''%''" "c \<noteq> CHR ''+''" by auto
    with True Cons.IH show ?thesis by (simp add: escape_def)
  next
    case False
    with Cons.IH url_hex_decode_percent [of c "[]"] show ?thesis
      by (simp add: escape_def percent_def numeral_2_eq_2)
  qed
qed

theorem unescape_escape:
  assumes "\<not> plain (CHR ''%'')" and "\<not> plain (CHR ''+'')"
  shows "unescape (escape plain s) = s"
  using unescape_escape_append [OF assms, of s "[]"] by simp

theorem unescape_escape_witness:
  "unescape (escape (\<lambda>c. c = CHR ''a'') ''a+b c%'') = ''a+b c%''"
  by (rule unescape_escape) simp_all

end
