(* ===== verification/Merkle.thy ===== *)
theory Merkle
  imports ByteUtils
begin

text \<open>
  The Merkle root computations: \<open>block_db/MerkleUtils.cpp\<close> over the hashes of a block and
  \<open>software_consensus/SoftwareMerkelUtils.cpp\<close> over the hashes of a consensus message. The
  hash function (\<open>crypto/HashGenerator.cpp\<close>, Botan's SHA-256) is the parameter \<open>H\<close>.
  Both classes run the same pairwise reduction, which is stated once as the locale
  \<open>pair_reduction\<close> and interpreted on each of them.
\<close>

section \<open>MerkleUtils\<close>

text \<open>\<open>compute(lhs,rhs)\<close>: both inserts copy from \<open>lhsBytes\<close>.\<close>

definition merkle_compute_pair :: "(bytes \<Rightarrow> bytes) \<Rightarrow> HashHelper \<Rightarrow> HashHelper \<Rightarrow> HashHelper" where
  "merkle_compute_pair H lhs rhs =
     (let bytes0 = []; lhsBytes = HashHelper_SecureVector lhs; rhsBytes = HashHelper_SecureVector rhs;
          bytes1 = bytes0 @ lhsBytes; bytes2 = bytes1 @ lhsBytes
      in H bytes2)"

text \<open>One pass of the \<open>for\<close> loop over an even number of hashes.\<close>

fun merkle_parents :: "('h \<Rightarrow> 'h \<Rightarrow> 'h) \<Rightarrow> 'h list \<Rightarrow> 'h list" where
  "merkle_parents f (x # y # hs) = f x y # merkle_parents f hs"
| "merkle_parents f [x] = []"
| "merkle_parents f [] = []"

definition merkle_pad :: "'h list \<Rightarrow> 'h list" where
  "merkle_pad hashs = (if length hashs mod 2 \<noteq> 0 then hashs @ [hashs ! (length hashs - 1)] else hashs)"

text \<open>\<open>compute(hashs)\<close> recurses for ever on an empty vector; the constructor of
  \<open>MerkleUtils\<close> never builds one.\<close>

partial_function (option) merkle_compute :: "(bytes \<Rightarrow> bytes) \<Rightarrow> HashHelper list \<Rightarrow> HashHelper option" where
  "merkle_compute H hashs =
     (if length hashs = 1 then Some (hashs ! 0)
      else merkle_compute H (merkle_parents (merkle_compute_pair H) (merkle_pad hashs)))"

section \<open>SoftwareMerkelUtils\<close>

definition software_compute_pair :: "(bytes \<Rightarrow> bytes) \<Rightarrow> HashHelper \<Rightarrow> HashHelper \<Rightarrow> HashHelper" where
  "software_compute_pair H lhs rhs =
     (let bytes0 = []; lhsBytes = HashHelper_SecureVector lhs; rhsBytes = HashHelper_SecureVector rhs;
          bytes1 = bytes0 @ lhsBytes; bytes2 = bytes1 @ lhsBytes
      in H bytes2)"

partial_function (option) software_compute ::
  "(bytes \<Rightarrow> bytes) \<Rightarrow> HashHelper list \<Rightarrow> HashHelper result option" where
  "software_compute H hashs =
     (if length hashs = 0 then Some (Inl NoSoftwareHashConsensusException)
      else if length hashs = 1 then Some (Inr (hashs ! 0))
      else software_compute H (merkle_parents (software_compute_pair H) (merkle_pad hashs)))"

definition software_sort :: "HashHelper list \<Rightarrow> HashHelper list" where
  "software_sort hashs = hashs"

definition software_addHash :: "HashHelper list \<Rightarrow> HashHelper \<Rightarrow> HashHelper list" where
  "software_addHash hashs h = hashs @ [h]"

definition software_computation :: "(bytes \<Rightarrow> bytes) \<Rightarrow> HashHelper list \<Rightarrow> HashHelper result option" where
  "software_computation H hashs = software_compute H (software_sort hashs)"

section \<open>The reduction both share\<close>

lemma merkle_parents_length: "length (merkle_parents f hs) = length hs div 2"
  by (induction f hs rule: merkle_parents.induct) auto

lemma merkle_pad_length: "length (merkle_pad hs) = 2 * ((length hs + 1) div 2)"
  by (auto simp: merkle_pad_def) presburger+

lemma merkle_level_length:
  "length (merkle_parents f (merkle_pad hs)) = (length hs + 1) div 2"
  by (simp add: merkle_parents_length merkle_pad_length)

lemma merkle_level_hd:
  assumes "hs \<noteq> []"
  shows "\<exists>y. merkle_parents f (merkle_pad hs) ! 0 = f (hs ! 0) y"
proof -
  have "2 \<le> length (merkle_pad hs)" using assms
    by (cases hs) (auto simp: merkle_pad_length)
  then obtain x y r where p: "merkle_pad hs = x # y # r"
    by (auto simp: numeral_2_eq_2 Suc_le_length_iff)
  moreover have "x = hs ! 0" using assms p
    by (cases hs) (auto simp: merkle_pad_def split: if_splits)
  ultimately show ?thesis by auto
qed

text \<open>The number of levels of a tree over \<open>n\<close> leaves.\<close>

fun tree_height :: "nat \<Rightarrow> nat" where
  "tree_height n = (if n \<le> 1 then 0 else Suc (tree_height ((n + 1) div 2)))"

declare tree_height.simps [simp del]

text \<open>A \<open>pair_reduction\<close> reduces a vector level by level with \<open>pair\<close> until one hash is
  left. If \<open>pair\<close> looks at its left argument only, the root is decided by the first leaf.\<close>

locale pair_reduction =
  fixes pair :: "'h \<Rightarrow> 'h \<Rightarrow> 'h" and reduce :: "'h list \<Rightarrow> 'r option" and return :: "'h \<Rightarrow> 'r"
  assumes reduce_one: "length hs = 1 \<Longrightarrow> reduce hs = Some (return (hs ! 0))"
    and reduce_level: "1 < length hs \<Longrightarrow> reduce hs = reduce (merkle_parents pair (merkle_pad hs))"
begin

lemma reduce_returns: "hs \<noteq> [] \<Longrightarrow> \<exists>h. reduce hs = Some (return h)"
proof (induction "length hs" arbitrary: hs rule: less_induct)
  case less
  show ?case
  proof (cases "length hs = 1")
    case True
    then show ?thesis by (auto simp: reduce_one)
  next
    case False
    with less.prems have l: "1 < length hs" by (cases hs) auto
    let ?p = "merkle_parents pair (merkle_pad hs)"
    have "length ?p < length hs" "?p \<noteq> []"
      using l by (auto simp: merkle_level_length simp flip: length_greater_0_conv)
    with less.hyps have "\<exists>h. reduce ?p = Some (return h)" by blast
    then show ?thesis by (simp only: reduce_level [OF l])
  qed
qed

lemma reduce_first_leaf:
  assumes left: "\<And>x y. pair x y = g x" and "hs \<noteq> []"
  shows "reduce hs = Some (return ((g ^^ tree_height (length hs)) (hs ! 0)))"
  using assms(2)
proof (induction "length hs" arbitrary: hs rule: less_induct)
  case less
  show ?case
  proof (cases "length hs = 1")
    case True
    then show ?thesis by (simp add: reduce_one tree_height.simps)
  next
    case False
    with less.prems have l: "1 < length hs" by (cases hs) auto
    let ?p = "merkle_parents pair (merkle_pad hs)"
    have len: "length ?p = (length hs + 1) div 2" by (rule merkle_level_length)
    have p: "length ?p < length hs" "?p \<noteq> []"
      using l len by (auto simp flip: length_greater_0_conv)
    have "?p ! 0 = g (hs ! 0)" using merkle_level_hd [OF less.prems, of pair] left by auto
    then have "reduce hs = Some (return ((g ^^ tree_height (length ?p)) (g (hs ! 0))))"
      using less.hyps [OF p] by (simp only: reduce_level [OF l])
    moreover have "tree_height (length hs) = Suc (tree_height (length ?p))"
      using l len by (simp add: tree_height.simps [of "length hs"])
    ultimately show ?thesis by (simp add: funpow_swap1)
  qed
qed

end

lemma merkle_compute_one: "length hs = 1 \<Longrightarrow> merkle_compute H hs = Some (hs ! 0)"
  by (subst merkle_compute.simps) simp

lemma merkle_compute_level:
  "1 < length hs \<Longrightarrow> merkle_compute H hs =
     merkle_compute H (merkle_parents (merkle_compute_pair H) (merkle_pad hs))"
  by (subst merkle_compute.simps) simp

lemma software_compute_one: "length hs = 1 \<Longrightarrow> software_compute H hs = Some (Inr (hs ! 0))"
  by (subst software_compute.simps) simp

lemma software_compute_level:
  "1 < length hs \<Longrightarrow> software_compute H hs =
     software_compute H (merkle_parents (software_compute_pair H) (merkle_pad hs))"
  by (subst software_compute.simps) auto

interpretation mk: pair_reduction "merkle_compute_pair H" "merkle_compute H" "\<lambda>h. h" for H
  by unfold_locales (rule merkle_compute_one merkle_compute_level, assumption)+

interpretation sw: pair_reduction "software_compute_pair H" "software_compute H" Inr for H
  by unfold_locales (rule software_compute_one software_compute_level, assumption)+

lemma merkle_pair_left: "merkle_compute_pair H x y = (\<lambda>b. H (b @ b)) x"
  by (simp add: merkle_compute_pair_def HashHelper_SecureVector_def Let_def)

lemma software_pair_left: "software_compute_pair H x y = (\<lambda>b. H (b @ b)) x"
  by (simp add: software_compute_pair_def HashHelper_SecureVector_def Let_def)

text \<open>The reduction a Merkle tree is meant to be, over both children of every node.\<close>

definition merkle_spec_pair :: "(bytes \<Rightarrow> bytes) \<Rightarrow> bytes \<Rightarrow> bytes \<Rightarrow> bytes" where
  "merkle_spec_pair H lhs rhs = H (lhs @ rhs)"

end
