(* ===== verification/TransactionService.thy ===== *)
theory TransactionService
  imports Prelude
begin

text \<open>
  The resource transactions of \<open>modules/transaction_service\<close>: the wrapper with the resources
  enlisted in the current transaction (\<open>TransactionWrapper\<close>), the service that owns the
  thread's wrapper (\<open>TransactionServiceModule\<close>) and the scope object handed to the caller
  (\<open>TransactionImpl\<close>, which rolls back in its destructor). A resource is an identifier; its
  \<open>commit\<close> and \<open>rollback\<close> methods are parameters that act on the stores \<open>'w\<close>.
\<close>

section \<open>State\<close>

text \<open>\<open>transactionWrapper\<close> is thread local: the model is one thread.\<close>

record ('r, 'w) tx_world =
  transactionWrapper :: "'r list option"
  stores :: 'w

record ('r, 'w) resource_methods =
  res_commit :: "'r \<Rightarrow> ('w, unit) prog"
  res_rollback :: "'r \<Rightarrow> ('w, unit) prog"

definition on_stores :: "('w, 'a) prog \<Rightarrow> (('r, 'w) tx_world, 'a) prog" where
  "on_stores m s = (case m (stores s) of (r, w) \<Rightarrow> (r, s\<lparr>stores := w\<rparr>))"

section \<open>TransactionWrapper\<close>

definition TransactionWrapper_commit ::
  "('r, 'w) resource_methods \<Rightarrow> 'r list \<Rightarrow> (('r, 'w) tx_world, unit) prog" where
  "TransactionWrapper_commit R resources =
     sbind (sfor resources (\<lambda>resource. on_stores (res_commit R resource)))
       (\<lambda>_. smodify (\<lambda>s. s\<lparr>transactionWrapper := map_option (\<lambda>_. []) (transactionWrapper s)\<rparr>))"

definition TransactionWrapper_rollback ::
  "('r, 'w) resource_methods \<Rightarrow> 'r list \<Rightarrow> (('r, 'w) tx_world, unit) prog" where
  "TransactionWrapper_rollback R resources =
     sbind (sfor resources (\<lambda>resource. on_stores (res_rollback R resource)))
       (\<lambda>_. smodify (\<lambda>s. s\<lparr>transactionWrapper := map_option (\<lambda>_. []) (transactionWrapper s)\<rparr>))"

definition TransactionWrapper_enlist :: "'r list \<Rightarrow> 'r \<Rightarrow> 'r list" where
  "TransactionWrapper_enlist resources r = resources @ [r]"

section \<open>TransactionServiceModule\<close>

definition createTransaction :: "(('r, 'w) tx_world, unit) prog" where
  "createTransaction s =
     (if transactionWrapper s \<noteq> None then (Inl DuplicateTransactionException, s)
      else (Inr (), s\<lparr>transactionWrapper := Some []\<rparr>))"

definition enlistResource :: "'r \<Rightarrow> (('r, 'w) tx_world, unit) prog" where
  "enlistResource r s = (case transactionWrapper s of
       None \<Rightarrow> (Inl NoTransactionException, s)
     | Some rs \<Rightarrow> (Inr (), s\<lparr>transactionWrapper := Some (TransactionWrapper_enlist rs r)\<rparr>))"

definition service_commit :: "('r, 'w) resource_methods \<Rightarrow> (('r, 'w) tx_world, unit) prog" where
  "service_commit R s = (case transactionWrapper s of
       None \<Rightarrow> (Inl NoTransactionException, s)
     | Some rs \<Rightarrow> sbind (TransactionWrapper_commit R rs)
         (\<lambda>_. smodify (\<lambda>s. s\<lparr>transactionWrapper := None\<rparr>)) s)"

definition service_rollback :: "('r, 'w) resource_methods \<Rightarrow> (('r, 'w) tx_world, unit) prog" where
  "service_rollback R s = (case transactionWrapper s of
       None \<Rightarrow> (Inl NoTransactionException, s)
     | Some rs \<Rightarrow> sbind (TransactionWrapper_rollback R rs)
         (\<lambda>_. smodify (\<lambda>s. s\<lparr>transactionWrapper := None\<rparr>)) s)"

section \<open>TransactionImpl\<close>

text \<open>The object's member \<open>complete\<close> is passed in and returned.\<close>

definition TransactionImpl_commit ::
  "('r, 'w) resource_methods \<Rightarrow> bool \<Rightarrow> ('r, 'w) tx_world \<Rightarrow> bool \<times> unit result \<times> ('r, 'w) tx_world" where
  "TransactionImpl_commit R complete s =
     (if \<not> complete then (True, service_commit R s) else (complete, Inr (), s))"

definition TransactionImpl_rollback ::
  "('r, 'w) resource_methods \<Rightarrow> bool \<Rightarrow> ('r, 'w) tx_world \<Rightarrow> bool \<times> unit result \<times> ('r, 'w) tx_world" where
  "TransactionImpl_rollback R complete s =
     (if \<not> complete then (True, service_rollback R s) else (complete, Inr (), s))"

definition TransactionImpl_destroy ::
  "('r, 'w) resource_methods \<Rightarrow> bool \<Rightarrow> ('r, 'w) tx_world \<Rightarrow> bool \<times> unit result \<times> ('r, 'w) tx_world" where
  "TransactionImpl_destroy R complete s =
     (if \<not> complete then (True, service_rollback R s) else (complete, Inr (), s))"

text \<open>The pattern of every caller: \<open>TransactionPtr t = createTransaction(); body; t->commit();\<close>
  with the destructor at the end of the scope, also when \<open>body\<close> or \<open>commit\<close> throws. An
  exception out of the destructor would end the process; the result is then that exception.\<close>

definition in_transaction ::
  "('r, 'w) resource_methods \<Rightarrow> (('r, 'w) tx_world, 'a) prog \<Rightarrow> (('r, 'w) tx_world, 'a) prog" where
  "in_transaction R body s = (case createTransaction s of
       (Inl e, s1) \<Rightarrow> (Inl e, s1)
     | (Inr _, s1) \<Rightarrow> (case body s1 of
           (Inl e, s2) \<Rightarrow> (case TransactionImpl_destroy R False s2 of
               (_, Inl e', s3) \<Rightarrow> (Inl e', s3) | (_, Inr _, s3) \<Rightarrow> (Inl e, s3))
         | (Inr a, s2) \<Rightarrow> (case TransactionImpl_commit R False s2 of
               (c, Inl e, s3) \<Rightarrow> (case TransactionImpl_destroy R c s3 of
                   (_, Inl e', s4) \<Rightarrow> (Inl e', s4) | (_, Inr _, s4) \<Rightarrow> (Inl e, s4))
             | (c, Inr _, s3) \<Rightarrow> (case TransactionImpl_destroy R c s3 of
                   (_, Inl e', s4) \<Rightarrow> (Inl e', s4) | (_, Inr _, s4) \<Rightarrow> (Inr a, s4)))))"

section \<open>Lemmas\<close>

lemmas tx_defs = TransactionWrapper_commit_def TransactionWrapper_rollback_def
  createTransaction_def enlistResource_def service_commit_def service_rollback_def
  TransactionImpl_commit_def TransactionImpl_rollback_def TransactionImpl_destroy_def

lemma on_stores_wrapper [simp]:
  "transactionWrapper (snd (on_stores m s)) = transactionWrapper s"
  by (simp add: on_stores_def split: prod.splits)

lemma on_stores_result [simp]: "fst (on_stores m s) = fst (m (stores s))"
  by (simp add: on_stores_def split: prod.splits)

lemma sfor_stores_wrapper:
  "transactionWrapper (snd (sfor rs (\<lambda>r. on_stores (f r)) s)) = transactionWrapper s"
  by (rule sfor_invariant [where P = "\<lambda>t. transactionWrapper t = transactionWrapper s"]) simp_all

text \<open>A method that never throws.\<close>

definition no_throw :: "('s, 'a) prog \<Rightarrow> bool" where
  "no_throw m \<longleftrightarrow> (\<forall>s. \<exists>a t. m s = (Inr a, t))"

lemma no_throw_sfor:
  assumes "\<And>x. x \<in> set xs \<Longrightarrow> no_throw (f x)"
  shows "\<exists>t. sfor xs f s = (Inr (), t)"
  using assms
proof (induction xs arbitrary: s)
  case Nil
  then show ?case by simp
next
  case (Cons x xs)
  then obtain t where "f x s = (Inr (), t)"
    unfolding no_throw_def by (metis (full_types) list.set_intros(1) old.unit.exhaust)
  with Cons show ?case by simp
qed

lemma no_throw_on_stores: "no_throw m \<Longrightarrow> no_throw (on_stores m)"
  unfolding no_throw_def on_stores_def by (metis (mono_tags, lifting) case_prod_conv)

text \<open>Committing or rolling back closes the thread's transaction if no resource throws.\<close>

lemma service_commit_closes:
  assumes "\<And>r. no_throw (res_commit R r)" and "transactionWrapper s = Some rs"
  shows "\<exists>t. service_commit R s = (Inr (), t) \<and> transactionWrapper t = None"
proof -
  have "\<And>r. no_throw (on_stores (res_commit R r))" using assms(1) by (rule no_throw_on_stores)
  then obtain t where "sfor rs (\<lambda>r. on_stores (res_commit R r)) s = (Inr (), t)"
    using no_throw_sfor [of rs "\<lambda>r. on_stores (res_commit R r)" s] by blast
  with assms(2) show ?thesis by (simp add: tx_defs prog_defs)
qed

lemma service_rollback_closes:
  assumes "\<And>r. no_throw (res_rollback R r)" and "transactionWrapper s = Some rs"
  shows "\<exists>t. service_rollback R s = (Inr (), t) \<and> transactionWrapper t = None"
proof -
  have "\<And>r. no_throw (on_stores (res_rollback R r))" using assms(1) by (rule no_throw_on_stores)
  then obtain t where "sfor rs (\<lambda>r. on_stores (res_rollback R r)) s = (Inr (), t)"
    using no_throw_sfor [of rs "\<lambda>r. on_stores (res_rollback R r)" s] by blast
  with assms(2) show ?thesis by (simp add: tx_defs prog_defs)
qed

lemma service_commit_throws:
  assumes "service_commit R s = (Inl e, t)" and "transactionWrapper s = Some rs"
  shows "transactionWrapper t = Some rs"
proof -
  have "sfor rs (\<lambda>r. on_stores (res_commit R r)) s = (Inl e, t)"
    using assms by (auto simp: tx_defs prog_defs split: prod.splits sum.splits)
  with sfor_stores_wrapper [of rs "res_commit R" s] assms(2) show ?thesis by simp
qed

section \<open>Properties\<close>


text \<open>C30: a commit that throws wedges the thread. \<open>TransactionImpl\<close> has already marked itself
  complete, so nobody rolls back: the wrapper stays open with its resources, and every later
  \<open>createTransaction\<close> on the thread throws \<open>DuplicateTransactionException\<close>.\<close>

theorem failed_commit_wedges_thread:
  assumes "transactionWrapper s = None"
    and "body (s\<lparr>transactionWrapper := Some []\<rparr>) = (Inr a, s2)"
    and "transactionWrapper s2 = Some rs"
    and "service_commit R s2 = (Inl e, s3)"
  shows "in_transaction R body s = (Inl e, s3) \<and> transactionWrapper s3 = Some rs \<and>
         createTransaction s3 = (Inl DuplicateTransactionException, s3)"
proof -
  have "transactionWrapper s3 = Some rs" using assms(4,3) by (rule service_commit_throws)
  with assms show ?thesis
    by (simp add: in_transaction_def createTransaction_def TransactionImpl_commit_def
        TransactionImpl_destroy_def)
qed

section \<open>Witnesses\<close>

definition counting_resources :: "(nat, nat list) resource_methods" where
  "counting_resources = \<lparr>res_commit = (\<lambda>r w. (Inr (), w @ [r])), res_rollback = (\<lambda>r w. (Inr (), []))\<rparr>"

definition failing_resources :: "(nat, nat list) resource_methods" where
  "failing_resources =
     \<lparr>res_commit = (\<lambda>r w. if r = 2 then (Inl LibraryError, w) else (Inr (), w @ [r])),
      res_rollback = (\<lambda>r w. (Inr (), []))\<rparr>"


theorem failed_commit_wedges_thread_witness:
  "in_transaction failing_resources (\<lambda>s. (Inr (), s\<lparr>transactionWrapper := Some [1, 2, 3]\<rparr>))
       \<lparr>transactionWrapper = None, stores = []\<rparr>
     = (Inl LibraryError, \<lparr>transactionWrapper = Some [1, 2, 3], stores = [1]\<rparr>)"
  by (rule conjunct1 [OF failed_commit_wedges_thread [where rs = "[1, 2, 3]" and a = "()"
         and ?s2.0 = "\<lparr>transactionWrapper = Some [1, 2, 3], stores = []\<rparr>"]])
     (simp_all add: failing_resources_def tx_defs prog_defs on_stores_def)

end
