(* ===== verification/Transactions.thy ===== *)
theory Transactions
  imports ByteUtils Numbers
begin

text \<open>
  The chain's data and the helpers of \<open>src/libs/transaction_common\<close>: the ASN.1 structures of
  \<open>src/protocol/asn1\<close> as records, the transaction status machine and the accounts it selects
  (\<open>TransactionMessageHelper\<close>), the protobuf envelope (\<open>TransactionProtoHelper\<close>) and the
  routed message (\<open>MessageWrapperProtoHelper\<close>), and the change sets. The contents of an ASN.1
  \<open>ANY\<close> are the type \<open>'any\<close>; serialised messages are opaque types, produced and read by the
  functions of \<open>tx_wire\<close> (asn1c and protobuf, parameters). A date is the string of its \<open>UTCTime\<close>.
\<close>

section \<open>ASN.1 structures\<close>

datatype Status = Status_init | Status_debit | Status_processing | Status_wating
  | Status_fee | Status_credit | Status_complete

type_synonym UTCTime_t = string

record 'any Action_t =
  ac_version :: c_long
  ac_date :: UTCTime_t
  ac_contract :: "bytes option"
  ac_parent :: bytes
  ac_model :: 'any

record 'any Transaction_t =
  tr_version :: c_long
  tr_date :: UTCTime_t
  tr_value :: c_long
  tr_parent :: bytes
  tr_sourceAccount :: bytes
  tr_targetAccount :: bytes
  tr_actions :: "'any Action_t list"

record 'any SignedTransaction_t =
  st_version :: c_long
  st_transaction :: "'any Transaction_t"
  st_transactionHash :: bytes
  st_signature :: bytes

record TransactionTrace_t =
  tt_traceHash :: bytes
  tt_signature :: bytes

datatype 'any ChangeData = asn1Change 'any | binaryChange bytes

record 'any ChangeSet_t =
  cs_version :: c_long
  cs_transactionHash :: bytes
  cs_accountHash :: bytes
  cs_status :: Status
  cs_changes :: "'any ChangeData list"

record 'any SignedChangeSet_t =
  sc_changeSet :: "'any ChangeSet_t"
  sc_changeSetHash :: bytes
  sc_signature :: bytes

record 'any TransactionMessage_t =
  tm_version :: c_long
  tm_sourceAccount :: bytes
  tm_targetAccount :: bytes
  tm_feeAccount :: bytes
  tm_transactionHash :: bytes
  tm_signature :: bytes
  tm_signedTransaction :: "'any SignedTransaction_t"
  tm_transactionTrace :: "TransactionTrace_t list"
  tm_currentStatus :: Status
  tm_changeSet :: "'any SignedChangeSet_t list"

text \<open>\<open>keto::common::MetaInfo::PROTOCOL_VERSION\<close>, set in the top \<open>CMakeLists.txt\<close>.\<close>

definition PROTOCOL_VERSION :: c_long where
  "PROTOCOL_VERSION = 1"

section \<open>TransactionMessageHelper\<close>

definition TransactionMessageHelper_of_signed ::
  "'any SignedTransaction_t \<Rightarrow> 'any TransactionMessage_t" where
  "TransactionMessageHelper_of_signed signedTransaction =
     \<lparr>tm_version = PROTOCOL_VERSION,
      tm_sourceAccount = HashHelper_of_hash (tr_sourceAccount (st_transaction signedTransaction)),
      tm_targetAccount = HashHelper_of_hash (tr_targetAccount (st_transaction signedTransaction)),
      tm_feeAccount = [],
      tm_transactionHash = HashHelper_of_hash (st_transactionHash signedTransaction),
      tm_signature = st_signature signedTransaction,
      tm_signedTransaction = signedTransaction,
      tm_transactionTrace = [], tm_currentStatus = Status_init, tm_changeSet = []\<rparr>"

definition TransactionMessageHelper_of_accounts ::
  "'any SignedTransaction_t \<Rightarrow> HashHelper \<Rightarrow> HashHelper \<Rightarrow> 'any TransactionMessage_t" where
  "TransactionMessageHelper_of_accounts signedTransaction sourceAccount targetAccount =
     \<lparr>tm_version = PROTOCOL_VERSION,
      tm_sourceAccount = HashHelper_Hash_t sourceAccount,
      tm_targetAccount = HashHelper_Hash_t targetAccount,
      tm_feeAccount = [],
      tm_transactionHash = HashHelper_of_hash (st_transactionHash signedTransaction),
      tm_signature = st_signature signedTransaction,
      tm_signedTransaction = signedTransaction,
      tm_transactionTrace = [], tm_currentStatus = Status_init, tm_changeSet = []\<rparr>"

definition setSignedTransaction ::
  "'any TransactionMessage_t \<Rightarrow> 'any SignedTransaction_t \<Rightarrow> 'any TransactionMessage_t" where
  "setSignedTransaction this signedTransaction =
     this\<lparr>tm_signedTransaction := signedTransaction,
       tm_transactionHash := HashHelper_of_hash (st_transactionHash signedTransaction),
       tm_signature := st_signature signedTransaction\<rparr>"

definition setSourceAccount :: "'any TransactionMessage_t \<Rightarrow> HashHelper \<Rightarrow> 'any TransactionMessage_t" where
  "setSourceAccount this sourceAccount = this\<lparr>tm_sourceAccount := HashHelper_Hash_t sourceAccount\<rparr>"

definition setTargetAccount :: "'any TransactionMessage_t \<Rightarrow> HashHelper \<Rightarrow> 'any TransactionMessage_t" where
  "setTargetAccount this targetAccount = this\<lparr>tm_targetAccount := HashHelper_Hash_t targetAccount\<rparr>"

definition setFeeAccount :: "'any TransactionMessage_t \<Rightarrow> HashHelper \<Rightarrow> 'any TransactionMessage_t" where
  "setFeeAccount this feeAccount = this\<lparr>tm_feeAccount := HashHelper_Hash_t feeAccount\<rparr>"

definition setStatus :: "'any TransactionMessage_t \<Rightarrow> Status \<Rightarrow> 'any TransactionMessage_t" where
  "setStatus this status = this\<lparr>tm_currentStatus := status\<rparr>"

definition addTransactionTrace ::
  "'any TransactionMessage_t \<Rightarrow> TransactionTrace_t \<Rightarrow> 'any TransactionMessage_t" where
  "addTransactionTrace this trace = this\<lparr>tm_transactionTrace := tm_transactionTrace this @ [trace]\<rparr>"

definition addChangeSet ::
  "'any TransactionMessage_t \<Rightarrow> 'any SignedChangeSet_t \<Rightarrow> 'any TransactionMessage_t" where
  "addChangeSet this signedChangeSet = this\<lparr>tm_changeSet := tm_changeSet this @ [signedChangeSet]\<rparr>"

definition getSourceAccount :: "'any TransactionMessage_t \<Rightarrow> HashHelper" where
  "getSourceAccount this = HashHelper_of_hash (tm_sourceAccount this)"

definition getTargetAccount :: "'any TransactionMessage_t \<Rightarrow> HashHelper" where
  "getTargetAccount this = HashHelper_of_hash (tm_targetAccount this)"

definition getFeeAccount :: "'any TransactionMessage_t \<Rightarrow> HashHelper" where
  "getFeeAccount this = HashHelper_of_hash (tm_feeAccount this)"

definition getHash :: "'any TransactionMessage_t \<Rightarrow> HashHelper" where
  "getHash this = HashHelper_of_hash (tm_transactionHash this)"

definition getStatus :: "'any TransactionMessage_t \<Rightarrow> Status" where
  "getStatus this = tm_currentStatus this"

definition getCurrentAccount :: "'any TransactionMessage_t \<Rightarrow> HashHelper result" where
  "getCurrentAccount this =
     (if getStatus this = Status_init \<or> getStatus this = Status_debit
         \<or> getStatus this = Status_processing
      then Inr (getSourceAccount this)
      else if getStatus this = Status_credit \<or> getStatus this = Status_complete
      then Inr (getTargetAccount this)
      else if getStatus this = Status_fee then Inr (getFeeAccount this)
      else Inl UnrecognisedTransactionStatusException)"

definition increment_status :: "Status \<Rightarrow> Status" where
  "increment_status s =
     (if s = Status_init \<or> s = Status_debit then Status_processing
      else if s = Status_processing then Status_credit
      else if s = Status_credit then Status_fee
      else if s = Status_fee then Status_complete
      else s)"

definition incrementStatus :: "'any TransactionMessage_t \<Rightarrow> Status \<times> 'any TransactionMessage_t" where
  "incrementStatus this =
     (let t = this\<lparr>tm_currentStatus := increment_status (tm_currentStatus this)\<rparr>
      in (tm_currentStatus t, t))"

lemmas message_defs = setSourceAccount_def setTargetAccount_def setFeeAccount_def setStatus_def
  getSourceAccount_def getTargetAccount_def getFeeAccount_def getHash_def getStatus_def
  addChangeSet_def addTransactionTrace_def

section \<open>TransactionProtoHelper\<close>

datatype TransactionStatus = INIT | ROUTE | DEBIT | PROCESS | CREDIT | FEE | COMPLETE | FAILURE | REJECT

record 'tb ptransaction =
  pt_transaction_hash :: bytes
  pt_transaction_signature :: bytes
  pt_active_account :: bytes
  pt_status :: TransactionStatus
  pt_asn1_transaction_message :: 'tb

record ('any, 'tb, 'ab, 'sb) tx_wire =
  encode_message :: "'any TransactionMessage_t \<Rightarrow> 'tb"
  decode_message :: "'tb \<Rightarrow> 'any TransactionMessage_t result"
  pack_any :: "'tb ptransaction \<Rightarrow> 'ab"
  unpack_any :: "'ab \<Rightarrow> 'tb ptransaction option"
  serialize_transaction :: "'tb ptransaction \<Rightarrow> 'sb"
  parse_transaction :: "'sb \<Rightarrow> 'tb ptransaction"
  empty_message :: 'tb

definition empty_ptransaction :: "('any, 'tb, 'ab, 'sb) tx_wire \<Rightarrow> 'tb ptransaction" where
  "empty_ptransaction wire = \<lparr>pt_transaction_hash = [], pt_transaction_signature = [],
     pt_active_account = [], pt_status = INIT, pt_asn1_transaction_message = empty_message wire\<rparr>"

text \<open>The \<open>if\<close> chain that sets the status has no branch for the seventh status.\<close>

definition proto_status :: "Status \<Rightarrow> TransactionStatus \<Rightarrow> TransactionStatus" where
  "proto_status s old =
     (if s = Status_init then INIT
      else if s = Status_debit then DEBIT
      else if s = Status_processing then PROCESS
      else if s = Status_fee then FEE
      else if s = Status_credit then CREDIT
      else if s = Status_complete then COMPLETE
      else old)"

definition TransactionProtoHelper_setTransaction ::
  "('any, 'tb, 'ab, 'sb) tx_wire \<Rightarrow> 'any TransactionMessage_t \<Rightarrow> ('tb ptransaction, unit) prog" where
  "TransactionProtoHelper_setTransaction wire m =
     sbind (smodify (\<lambda>t. t\<lparr>pt_transaction_hash := getHash m, pt_transaction_signature := tm_signature m\<rparr>))
       (\<lambda>_. sbind (slift (getCurrentAccount m))
         (\<lambda>account. smodify (\<lambda>t. t\<lparr>pt_active_account := account,
             pt_status := proto_status (getStatus m) (pt_status t),
             pt_asn1_transaction_message := encode_message wire m\<rparr>)))"

definition TransactionProtoHelper_of_message ::
  "('any, 'tb, 'ab, 'sb) tx_wire \<Rightarrow> 'any TransactionMessage_t \<Rightarrow> 'tb ptransaction result" where
  "TransactionProtoHelper_of_message wire m =
     rbind (getCurrentAccount m) (\<lambda>account.
       Inr \<lparr>pt_transaction_hash = getHash m, pt_transaction_signature = tm_signature m,
            pt_active_account = account, pt_status = proto_status (getStatus m) INIT,
            pt_asn1_transaction_message = encode_message wire m\<rparr>)"

definition getTransactionMessageHelper ::
  "('any, 'tb, 'ab, 'sb) tx_wire \<Rightarrow> 'tb ptransaction \<Rightarrow> 'any TransactionMessage_t result" where
  "getTransactionMessageHelper wire t = decode_message wire (pt_asn1_transaction_message t)"

section \<open>MessageWrapperProtoHelper\<close>

datatype MessageType = MESSAGE_TYPE_TRANSACTION | MESSAGE_TYPE_BLOCK

datatype MessageOperation = MESSAGE_INIT | MESSAGE_ROUTE | MESSAGE_BALANCE | MESSAGE_BLOCK
  | MESSAGE_PROCESS | MESSAGE_WAIT | MESSAGE_PERSIST

text \<open>The envelope; \<open>None\<close> is the \<open>google.protobuf.Any\<close> that was never set.\<close>

record 'ab MessageWrapper =
  mw_version :: c_int
  mw_session_hash :: bytes
  mw_account_hash :: bytes
  mw_message_type :: MessageType
  mw_message_operation :: MessageOperation
  mw_msg :: "'ab option"

definition new_MessageWrapper :: "'ab MessageWrapper" where
  "new_MessageWrapper = \<lparr>mw_version = 1, mw_session_hash = [], mw_account_hash = [],
     mw_message_type = MESSAGE_TYPE_TRANSACTION, mw_message_operation = MESSAGE_INIT, mw_msg = None\<rparr>"

definition wrapper_setTransaction ::
  "('any, 'tb, 'ab, 'sb) tx_wire \<Rightarrow> 'tb ptransaction \<Rightarrow> ('ab MessageWrapper, unit) prog" where
  "wrapper_setTransaction wire t =
     sbind (slift (rbind (getTransactionMessageHelper wire t) getCurrentAccount))
       (\<lambda>accountHash. sbind (smodify (\<lambda>w. w\<lparr>mw_account_hash := copyFromSecure accountHash\<rparr>))
         (\<lambda>_. smodify (\<lambda>w. w\<lparr>mw_msg := Some (pack_any wire t)\<rparr>)))"

definition wrapper_of_transaction ::
  "('any, 'tb, 'ab, 'sb) tx_wire \<Rightarrow> 'tb ptransaction \<Rightarrow> 'ab MessageWrapper result" where
  "wrapper_of_transaction wire t =
     (case wrapper_setTransaction wire t new_MessageWrapper of (r, w) \<Rightarrow> rmap (\<lambda>_. w) r)"

definition wrapper_setAccountHash :: "'ab MessageWrapper \<Rightarrow> HashHelper \<Rightarrow> 'ab MessageWrapper" where
  "wrapper_setAccountHash this accountHash = this\<lparr>mw_account_hash := accountHash\<rparr>"

definition wrapper_getAccountHash :: "'ab MessageWrapper \<Rightarrow> HashHelper" where
  "wrapper_getAccountHash this = mw_account_hash this"

definition wrapper_setSessionHash :: "'ab MessageWrapper \<Rightarrow> bytes \<Rightarrow> 'ab MessageWrapper" where
  "wrapper_setSessionHash this sessionHash = this\<lparr>mw_session_hash := sessionHash\<rparr>"

definition wrapper_setOperation :: "'ab MessageWrapper \<Rightarrow> MessageOperation \<Rightarrow> 'ab MessageWrapper" where
  "wrapper_setOperation this operation = this\<lparr>mw_message_operation := operation\<rparr>"

definition increment_operation :: "MessageOperation \<Rightarrow> MessageOperation" where
  "increment_operation m =
     (if m = MESSAGE_INIT then MESSAGE_ROUTE
      else if m = MESSAGE_ROUTE then MESSAGE_BALANCE
      else if m = MESSAGE_BALANCE then MESSAGE_BLOCK
      else if m = MESSAGE_BLOCK then MESSAGE_PROCESS
      else if m = MESSAGE_PROCESS then MESSAGE_WAIT
      else if m = MESSAGE_WAIT then MESSAGE_PERSIST
      else m)"

definition incrementOperation :: "'ab MessageWrapper \<Rightarrow> MessageOperation \<times> 'ab MessageWrapper" where
  "incrementOperation this =
     (let w = this\<lparr>mw_message_operation := increment_operation (mw_message_operation this)\<rparr>
      in (mw_message_operation w, w))"

text \<open>\<open>UnpackTo\<close> leaves the default transaction alone when the payload is no transaction.\<close>

definition wrapper_getTransaction ::
  "('any, 'tb, 'ab, 'sb) tx_wire \<Rightarrow> 'ab MessageWrapper \<Rightarrow> 'tb ptransaction" where
  "wrapper_getTransaction wire this =
     (case Option.bind (mw_msg this) (unpack_any wire) of
        Some t \<Rightarrow> t | None \<Rightarrow> empty_ptransaction wire)"

section \<open>Stage machines\<close>

text \<open>Both counters above move a message through stages. The interface says that a step
  either stays or strictly lowers a rank; then the rank many steps reach a stage the step no
  longer leaves, and any further step stays there.\<close>

locale stage_machine =
  fixes step :: "'a \<Rightarrow> 'a" and rank :: "'a \<Rightarrow> nat"
  assumes progress: "step a = a \<or> rank (step a) < rank a"
begin

lemma fixpoint_after: "rank a \<le> n \<Longrightarrow> step ((step ^^ n) a) = (step ^^ n) a"
proof (induction n arbitrary: a)
  case 0
  then show ?case using progress [of a] by auto
next
  case (Suc n)
  show ?case
  proof (cases "step a = a")
    case True
    then have "(step ^^ k) a = a" for k by (induction k) simp_all
    then show ?thesis by (metis True)
  next
    case False
    then have "rank (step a) \<le> n" using progress [of a] Suc.prems by auto
    from Suc.IH [OF this] show ?thesis by (simp add: funpow_swap1)
  qed
qed

lemma fixpoint_stays:
  assumes "rank a \<le> n"
  shows "(step ^^ (k + n)) a = (step ^^ n) a"
  by (induction k) (simp_all add: fixpoint_after [OF assms])

end

fun status_rank :: "Status \<Rightarrow> nat" where
  "status_rank Status_init = 4"
| "status_rank Status_debit = 4"
| "status_rank Status_processing = 3"
| "status_rank Status_credit = 2"
| "status_rank Status_fee = 1"
| "status_rank _ = 0"

fun operation_rank :: "MessageOperation \<Rightarrow> nat" where
  "operation_rank MESSAGE_INIT = 6"
| "operation_rank MESSAGE_ROUTE = 5"
| "operation_rank MESSAGE_BALANCE = 4"
| "operation_rank MESSAGE_BLOCK = 3"
| "operation_rank MESSAGE_PROCESS = 2"
| "operation_rank MESSAGE_WAIT = 1"
| "operation_rank MESSAGE_PERSIST = 0"

interpretation stat: stage_machine increment_status status_rank
proof
  fix a show "increment_status a = a \<or> status_rank (increment_status a) < status_rank a"
    by (cases a) (simp_all add: increment_status_def)
qed

interpretation oper: stage_machine increment_operation operation_rank
proof
  fix a show "increment_operation a = a \<or> operation_rank (increment_operation a) < operation_rank a"
    by (cases a) (simp_all add: increment_operation_def)
qed

lemma status_after_4:
  "(increment_status ^^ 4) s = (if s = Status_wating then Status_wating else Status_complete)"
  by (cases s) (simp_all add: increment_status_def eval_nat_numeral)

lemma operation_after_6: "(increment_operation ^^ 6) m = MESSAGE_PERSIST"
  by (cases m) (simp_all add: increment_operation_def eval_nat_numeral)

lemma status_rank_le: "status_rank s \<le> 4"
  by (cases s) simp_all

lemma operation_rank_le: "operation_rank m \<le> 6"
  by (cases m) simp_all

lemma status_increments:
  "(snd \<circ> incrementStatus) ^^ n = (\<lambda>m. m\<lparr>tm_currentStatus := (increment_status ^^ n) (tm_currentStatus m)\<rparr>)"
  by (induction n) (auto simp: fun_eq_iff incrementStatus_def Let_def)

lemma operation_increments:
  "(snd \<circ> incrementOperation) ^^ n =
     (\<lambda>w. w\<lparr>mw_message_operation := (increment_operation ^^ n) (mw_message_operation w)\<rparr>)"
  by (induction n) (auto simp: fun_eq_iff incrementOperation_def Let_def)

section \<open>Properties\<close>

text \<open>The transaction status machine ends. From the fourth \<open>incrementStatus\<close> on, every
  transaction that was not in status \<open>wating\<close> is \<open>complete\<close> and stays so; one that was
  waiting never leaves; nothing but the status of the message changes.\<close>

theorem status_machine_completes:
  "((snd \<circ> incrementStatus) ^^ (k + 4)) m =
     m\<lparr>tm_currentStatus :=
        (if tm_currentStatus m = Status_wating then Status_wating else Status_complete)\<rparr>"
  by (simp add: status_increments stat.fixpoint_stays [OF status_rank_le] status_after_4
      del: funpow.simps)

text \<open>The operation of a routed message reaches \<open>MESSAGE_PERSIST\<close> in at most six
  \<open>incrementOperation\<close>s, whatever it was, and stays there.\<close>

theorem operation_machine_persists:
  "((snd \<circ> incrementOperation) ^^ (k + 6)) w = w\<lparr>mw_message_operation := MESSAGE_PERSIST\<rparr>"
  by (simp add: operation_increments oper.fixpoint_stays [OF operation_rank_le] operation_after_6
      del: funpow.simps)

text \<open>What the helpers rely on of asn1c and protobuf: reading what was written.\<close>

definition wire_ok :: "('any, 'tb, 'ab, 'sb) tx_wire \<Rightarrow> bool" where
  "wire_ok wire \<longleftrightarrow> (\<forall>m. decode_message wire (encode_message wire m) = Inr m)
     \<and> (\<forall>t. unpack_any wire (pack_any wire t) = Some t)
     \<and> (\<forall>t. parse_transaction wire (serialize_transaction wire t) = t)"

lemma wire_okD:
  assumes "wire_ok wire"
  shows "decode_message wire (encode_message wire m) = Inr m"
    and "unpack_any wire (pack_any wire t) = Some t"
    and "parse_transaction wire (serialize_transaction wire t) = t"
  using assms by (simp_all add: wire_ok_def)

lemma getCurrentAccount_ok_iff:
  "(\<exists>a. getCurrentAccount m = Inr a) \<longleftrightarrow> tm_currentStatus m \<noteq> Status_wating"
  by (cases "tm_currentStatus m") (simp_all add: getCurrentAccount_def getStatus_def)

lemma protohelper_fields:
  assumes "TransactionProtoHelper_of_message wire m = Inr t"
  shows "pt_asn1_transaction_message t = encode_message wire m"
    and "getCurrentAccount m = Inr (pt_active_account t)"
  using assms by (auto simp: TransactionProtoHelper_of_message_def result_simps)

lemma protohelper_roundtrip:
  assumes "wire_ok wire" and "TransactionProtoHelper_of_message wire m = Inr t"
  shows "getTransactionMessageHelper wire t = Inr m"
  using assms protohelper_fields [OF assms(2)]
  by (simp add: getTransactionMessageHelper_def wire_okD)


section \<open>Witnesses\<close>

definition plain_wire :: "('any, 'any TransactionMessage_t option,
    'any TransactionMessage_t option ptransaction, 'any TransactionMessage_t option ptransaction) tx_wire" where
  "plain_wire = \<lparr>encode_message = Some,
     decode_message = (\<lambda>b. case b of None \<Rightarrow> Inl Asn1DecodeError | Some m \<Rightarrow> Inr m),
     pack_any = (\<lambda>t. t), unpack_any = Some, serialize_transaction = (\<lambda>t. t),
     parse_transaction = (\<lambda>t. t), empty_message = None\<rparr>"

lemma plain_wire_ok: "wire_ok plain_wire"
  by (simp add: wire_ok_def plain_wire_def)

definition sample_message :: "bytes TransactionMessage_t" where
  "sample_message = TransactionMessageHelper_of_signed
     \<lparr>st_version = PROTOCOL_VERSION, st_transaction = \<lparr>tr_version = PROTOCOL_VERSION, tr_date = ''20180719'', tr_value = 5, tr_parent = [0], tr_sourceAccount = [1], tr_targetAccount = [2],
        tr_actions = []\<rparr>, st_transactionHash = [3], st_signature = [4]\<rparr>"


end
