(* ===== verification/Storage.thy ===== *)
theory Storage
  imports ByteUtils Numbers TransactionService
begin

text \<open>
  The stores a node keeps and the resources that make them transactional:
  \<open>rocks_db/DBManager.cpp\<close>, the \<open>*Resource\<close> and \<open>*ResourceManager\<close> classes of
  \<open>block_db\<close>, \<open>account_db\<close> and \<open>router_db\<close>, and the librdf graph stores of
  \<open>account_db\<close>. RocksDB and librdf are parameters (\<open>rocks\<close>, \<open>rdf_lib\<close>). The state of
  all three is one record, \<open>node_stores\<close>, on which the resources of \<open>TransactionService\<close> act.
  The locale \<open>transactional_store\<close> is what the resource managers promise to the stores.
\<close>

section \<open>The libraries\<close>

text \<open>A RocksDB transaction \<open>'txn\<close> collects writes over a database \<open>'db\<close>; reads see the
  database and the own writes. The statuses of \<open>Commit\<close> and \<open>Rollback\<close> are ignored by the code.\<close>

record ('txn, 'db) rocks =
  BeginTransaction :: "'db \<Rightarrow> 'txn"
  txn_Get :: "'db \<Rightarrow> 'txn \<Rightarrow> bytes \<Rightarrow> bytes option"
  txn_Put :: "bytes \<Rightarrow> bytes \<Rightarrow> 'txn \<Rightarrow> 'txn"
  txn_Commit :: "'txn \<Rightarrow> 'db \<Rightarrow> 'db"
  txn_Rollback :: "'txn \<Rightarrow> 'db \<Rightarrow> 'db"
  txn_Iterate :: "'db \<Rightarrow> 'txn \<Rightarrow> (bytes \<times> bytes) list"

definition db_Get :: "('txn, 'db) rocks \<Rightarrow> 'db \<Rightarrow> bytes \<Rightarrow> bytes option" where
  "db_Get rk db k = txn_Get rk db (BeginTransaction rk db) k"

definition rocks_ok :: "('txn, 'db) rocks \<Rightarrow> bool" where
  "rocks_ok rk \<longleftrightarrow>
     (\<forall>db t k v k'. txn_Get rk db (txn_Put rk k v t) k' = (if k' = k then Some v else txn_Get rk db t k')) \<and>
     (\<forall>db t k. db_Get rk (txn_Commit rk t db) k = txn_Get rk db t k) \<and>
     (\<forall>db t k. db_Get rk (txn_Rollback rk t db) k = db_Get rk db k) \<and>
     (\<forall>db t. map_of (txn_Iterate rk db t) = txn_Get rk db t)"

lemma rocks_okD:
  assumes "rocks_ok rk"
  shows "txn_Get rk db (txn_Put rk k v t) k' = (if k' = k then Some v else txn_Get rk db t k')"
    and "db_Get rk (txn_Commit rk t db) k = txn_Get rk db t k"
    and "db_Get rk (txn_Rollback rk t db) k = db_Get rk db k"
    and "map_of (txn_Iterate rk db t) = txn_Get rk db t"
  using assms unfolding rocks_ok_def by blast+

text \<open>librdf: a graph \<open>'g\<close> of statements \<open>(subject, predicate, object)\<close>, where an object is a
  URI or a typed literal; the model transaction calls return 0 on success.\<close>

datatype rdf_object = Uri_node string | Typed_literal string string

type_synonym rdf_statement = "string \<times> string \<times> rdf_object"

record 'g rdf_lib =
  librdf_new :: 'g
  librdf_model_add_statement :: "rdf_statement \<Rightarrow> 'g \<Rightarrow> 'g"
  librdf_model_remove_statement :: "rdf_statement \<Rightarrow> 'g \<Rightarrow> 'g"
  librdf_model_transaction_start :: "'g \<Rightarrow> bool \<times> 'g"
  librdf_model_transaction_commit :: "'g \<Rightarrow> bool \<times> 'g"
  librdf_model_transaction_rollback :: "'g \<Rightarrow> bool \<times> 'g"
  query_to_string :: "'g \<Rightarrow> string \<Rightarrow> string option"
  query_bindings :: "'g \<Rightarrow> string \<Rightarrow> (string \<times> string) list list option"

section \<open>State\<close>

type_synonym 'txn transaction_map = "(string \<times> 'txn) list"
type_synonym 'db connection_map = "string \<Rightarrow> 'db option"

text \<open>The block store's part: \<open>DBManager::connections\<close>, the thread's \<open>blockResourcePtr\<close> and
  the members \<open>parentBlock\<close> and \<open>blockCount\<close> of \<open>BlockChainStore\<close>.\<close>

record ('txn, 'db) block_part =
  block_connections :: "'db connection_map"
  blockResourcePtr :: "'txn transaction_map option"
  parentBlock :: HashHelper
  blockCount :: c_long

record ('txn, 'db) router_part =
  router_connections :: "'db connection_map"
  routerResourcePtr :: "'txn transaction_map option"

text \<open>A graph session is the name of its store and \<open>activeTransaction\<close>. Of the graph stores the
  model has the directories on disk with their graphs, the configured base directory, and the
  cache \<open>graphs\<close> from the name asked for to the name of the store that is returned.\<close>

record graph_session =
  session_store :: string
  activeTransaction :: bool

record 'txn account_resource =
  transactionMap :: "'txn transaction_map"
  sessionMap :: "(string \<times> graph_session) list"

record ('txn, 'db, 'g) account_part =
  account_connections :: "'db connection_map"
  accountResourcePtr :: "'txn account_resource option"
  graph_base_dir :: "string option"
  graph_data :: "string \<Rightarrow> 'g option"
  graphs :: "string \<Rightarrow> string option"

record ('txn, 'db, 'g) node_stores =
  block_part :: "('txn, 'db) block_part"
  account_part :: "('txn, 'db, 'g) account_part"
  router_part :: "('txn, 'db) router_part"

datatype resource_id = BlockResources | AccountResources | RouterResources

type_synonym ('txn, 'db, 'g) node = "(resource_id, ('txn, 'db, 'g) node_stores) tx_world"

definition on_block :: "(('txn, 'db) block_part, 'a) prog \<Rightarrow> (('txn, 'db, 'g) node_stores, 'a) prog" where
  "on_block m w = (case m (block_part w) of (r, p) \<Rightarrow> (r, w\<lparr>block_part := p\<rparr>))"

definition on_account ::
  "(('txn, 'db, 'g) account_part, 'a) prog \<Rightarrow> (('txn, 'db, 'g) node_stores, 'a) prog" where
  "on_account m w = (case m (account_part w) of (r, p) \<Rightarrow> (r, w\<lparr>account_part := p\<rparr>))"

definition on_router :: "(('txn, 'db) router_part, 'a) prog \<Rightarrow> (('txn, 'db, 'g) node_stores, 'a) prog" where
  "on_router m w = (case m (router_part w) of (r, p) \<Rightarrow> (r, w\<lparr>router_part := p\<rparr>))"

section \<open>DBManager\<close>

text \<open>\<open>connections[name]\<close> of an unknown name is a null pointer, which every caller dereferences.\<close>

definition getConnection :: "'db connection_map \<Rightarrow> string \<Rightarrow> 'db result" where
  "getConnection connections name =
     (case connections name of None \<Rightarrow> Inl NullPointerDereference | Some db \<Rightarrow> Inr db)"

section \<open>Transactions per database\<close>

text \<open>The body all three \<open>getTransaction\<close> methods share, and the \<open>Put\<close> and \<open>Get\<close> calls on a
  transaction that \<open>getTransaction\<close> returned.\<close>

definition open_transaction ::
  "('txn, 'db) rocks \<Rightarrow> 'db connection_map \<Rightarrow> string \<Rightarrow> 'txn transaction_map \<Rightarrow> 'txn transaction_map result" where
  "open_transaction rk connections name tm =
     (if map_of tm name \<noteq> None then Inr tm
      else rmap (\<lambda>db. map_set name (BeginTransaction rk db) tm) (getConnection connections name))"

definition transaction_Put ::
  "('txn, 'db) rocks \<Rightarrow> string \<Rightarrow> bytes \<Rightarrow> bytes \<Rightarrow> 'txn transaction_map \<Rightarrow> 'txn transaction_map" where
  "transaction_Put rk name k v tm = map (\<lambda>(n, t). (n, if n = name then txn_Put rk k v t else t)) tm"

definition transaction_Get ::
  "('txn, 'db) rocks \<Rightarrow> 'db connection_map \<Rightarrow> 'txn transaction_map \<Rightarrow> string \<Rightarrow> bytes \<Rightarrow> bytes option" where
  "transaction_Get rk connections tm name k =
     (case connections name of None \<Rightarrow> None
      | Some db \<Rightarrow> (case map_of tm name of None \<Rightarrow> db_Get rk db k | Some t \<Rightarrow> txn_Get rk db t k))"

definition commit_each ::
  "('txn, 'db) rocks \<Rightarrow> 'txn transaction_map \<Rightarrow> 'db connection_map \<Rightarrow> 'db connection_map" where
  "commit_each rk tm connections =
     foldl (\<lambda>c (n, t). c(n := map_option (txn_Commit rk t) (c n))) connections tm"

definition rollback_each ::
  "('txn, 'db) rocks \<Rightarrow> 'txn transaction_map \<Rightarrow> 'db connection_map \<Rightarrow> 'db connection_map" where
  "rollback_each rk tm connections =
     foldl (\<lambda>c (n, t). c(n := map_option (txn_Rollback rk t) (c n))) connections tm"

section \<open>The resources of the block store\<close>

definition BlockResource_commit ::
  "('txn, 'db) rocks \<Rightarrow> 'txn transaction_map \<Rightarrow> 'db connection_map \<Rightarrow> 'txn transaction_map \<times> 'db connection_map" where
  "BlockResource_commit rk tm connections = ([], commit_each rk tm connections)"

definition BlockResource_rollback ::
  "('txn, 'db) rocks \<Rightarrow> 'txn transaction_map \<Rightarrow> 'db connection_map \<Rightarrow> 'txn transaction_map \<times> 'db connection_map" where
  "BlockResource_rollback rk tm connections = ([], rollback_each rk tm connections)"

definition BlockResource_getTransaction ::
  "('txn, 'db) rocks \<Rightarrow> string \<Rightarrow> (('txn, 'db) block_part, unit) prog" where
  "BlockResource_getTransaction rk name p = (case blockResourcePtr p of
       None \<Rightarrow> (Inl NullPointerDereference, p)
     | Some tm \<Rightarrow> (case open_transaction rk (block_connections p) name tm of
           Inl e \<Rightarrow> (Inl e, p) | Inr tm' \<Rightarrow> (Inr (), p\<lparr>blockResourcePtr := Some tm'\<rparr>)))"

definition BlockResourceManager_commit ::
  "('txn, 'db) rocks \<Rightarrow> ('txn, 'db) block_part \<Rightarrow> ('txn, 'db) block_part" where
  "BlockResourceManager_commit rk p = (case blockResourcePtr p of
       None \<Rightarrow> p
     | Some tm \<Rightarrow> p\<lparr>block_connections := snd (BlockResource_commit rk tm (block_connections p)),
                   blockResourcePtr := None\<rparr>)"

definition BlockResourceManager_rollback ::
  "('txn, 'db) rocks \<Rightarrow> ('txn, 'db) block_part \<Rightarrow> ('txn, 'db) block_part" where
  "BlockResourceManager_rollback rk p = (case blockResourcePtr p of
       None \<Rightarrow> p
     | Some tm \<Rightarrow> p\<lparr>block_connections := snd (BlockResource_rollback rk tm (block_connections p)),
                   blockResourcePtr := None\<rparr>)"

text \<open>The pointer is set before the resource is enlisted.\<close>

definition BlockResourceManager_getResource :: "(('txn, 'db, 'g) node, unit) prog" where
  "BlockResourceManager_getResource =
     sbind (sget (\<lambda>s. blockResourcePtr (block_part (stores s))))
       (\<lambda>ptr. if ptr = None
         then sbind (on_stores (on_block (smodify (\<lambda>p. p\<lparr>blockResourcePtr := Some []\<rparr>))))
                (\<lambda>_. enlistResource BlockResources)
         else sreturn ())"

definition block_Put :: "('txn, 'db) rocks \<Rightarrow> string \<Rightarrow> bytes \<Rightarrow> bytes \<Rightarrow> ('txn, 'db) block_part \<Rightarrow> ('txn, 'db) block_part" where
  "block_Put rk name k v p =
     p\<lparr>blockResourcePtr := map_option (transaction_Put rk name k v) (blockResourcePtr p)\<rparr>"

definition block_Get :: "('txn, 'db) rocks \<Rightarrow> ('txn, 'db) block_part \<Rightarrow> string \<Rightarrow> bytes \<Rightarrow> bytes option" where
  "block_Get rk p name k = transaction_Get rk (block_connections p)
     (case blockResourcePtr p of None \<Rightarrow> [] | Some tm \<Rightarrow> tm) name k"

section \<open>The resources of the router store\<close>

definition RouterResource_commit ::
  "('txn, 'db) rocks \<Rightarrow> 'txn transaction_map \<Rightarrow> 'db connection_map \<Rightarrow> 'txn transaction_map \<times> 'db connection_map" where
  "RouterResource_commit rk tm connections = ([], commit_each rk tm connections)"

definition RouterResource_rollback ::
  "('txn, 'db) rocks \<Rightarrow> 'txn transaction_map \<Rightarrow> 'db connection_map \<Rightarrow> 'txn transaction_map \<times> 'db connection_map" where
  "RouterResource_rollback rk tm connections = ([], rollback_each rk tm connections)"

definition RouterResource_getTransaction ::
  "('txn, 'db) rocks \<Rightarrow> string \<Rightarrow> (('txn, 'db) router_part, unit) prog" where
  "RouterResource_getTransaction rk name p = (case routerResourcePtr p of
       None \<Rightarrow> (Inl NullPointerDereference, p)
     | Some tm \<Rightarrow> (case open_transaction rk (router_connections p) name tm of
           Inl e \<Rightarrow> (Inl e, p) | Inr tm' \<Rightarrow> (Inr (), p\<lparr>routerResourcePtr := Some tm'\<rparr>)))"

definition RouterResourceManager_commit ::
  "('txn, 'db) rocks \<Rightarrow> ('txn, 'db) router_part \<Rightarrow> ('txn, 'db) router_part" where
  "RouterResourceManager_commit rk p = (case routerResourcePtr p of
       None \<Rightarrow> p
     | Some tm \<Rightarrow> p\<lparr>router_connections := snd (RouterResource_commit rk tm (router_connections p)),
                   routerResourcePtr := None\<rparr>)"

definition RouterResourceManager_rollback ::
  "('txn, 'db) rocks \<Rightarrow> ('txn, 'db) router_part \<Rightarrow> ('txn, 'db) router_part" where
  "RouterResourceManager_rollback rk p = (case routerResourcePtr p of
       None \<Rightarrow> p
     | Some tm \<Rightarrow> p\<lparr>router_connections := snd (RouterResource_rollback rk tm (router_connections p)),
                   routerResourcePtr := None\<rparr>)"

definition RouterResourceManager_getResource :: "(('txn, 'db, 'g) node, unit) prog" where
  "RouterResourceManager_getResource =
     sbind (sget (\<lambda>s. routerResourcePtr (router_part (stores s))))
       (\<lambda>ptr. if ptr = None
         then sbind (on_stores (on_router (smodify (\<lambda>p. p\<lparr>routerResourcePtr := Some []\<rparr>))))
                (\<lambda>_. enlistResource RouterResources)
         else sreturn ())"

definition router_Put :: "('txn, 'db) rocks \<Rightarrow> string \<Rightarrow> bytes \<Rightarrow> bytes \<Rightarrow> ('txn, 'db) router_part \<Rightarrow> ('txn, 'db) router_part" where
  "router_Put rk name k v p =
     p\<lparr>routerResourcePtr := map_option (transaction_Put rk name k v) (routerResourcePtr p)\<rparr>"

definition router_Get :: "('txn, 'db) rocks \<Rightarrow> ('txn, 'db) router_part \<Rightarrow> string \<Rightarrow> bytes \<Rightarrow> bytes option" where
  "router_Get rk p name k = transaction_Get rk (router_connections p)
     (case routerResourcePtr p of None \<Rightarrow> [] | Some tm \<Rightarrow> tm) name k"

section \<open>Graph stores\<close>

definition ACCOUNTS_MAPPING :: string where "ACCOUNTS_MAPPING = ''accounts_mapping''"

definition BASE_GRAPH :: string where "BASE_GRAPH = ''base_graph''"

text \<open>\<open>AccountGraphStore::checkForDb\<close>: is there a directory of this name under the base
  directory?\<close>

definition store_checkForDb :: "string \<Rightarrow> (('txn, 'db, 'g) account_part, bool) prog" where
  "store_checkForDb dbName p = (case graph_base_dir p of
       None \<Rightarrow> (Inl AccountsInvalidDBNameException, p)
     | Some d \<Rightarrow> (Inr (graph_data p dbName \<noteq> None), p))"

text \<open>The constructor of \<open>AccountGraphStore\<close> creates the directory when it is missing and opens
  the graph in it otherwise.\<close>

definition new_AccountGraphStore :: "'g rdf_lib \<Rightarrow> string \<Rightarrow> (('txn, 'db, 'g) account_part, string) prog" where
  "new_AccountGraphStore rdf dbName p = (case graph_base_dir p of
       None \<Rightarrow> (Inl AccountsInvalidDBNameException, p)
     | Some d \<Rightarrow> (Inr dbName,
         if graph_data p dbName \<noteq> None then p
         else p\<lparr>graph_data := (graph_data p)(dbName \<mapsto> librdf_new rdf)\<rparr>))"

definition cache_graph :: "string \<Rightarrow> string \<Rightarrow> (('txn, 'db, 'g) account_part, unit) prog" where
  "cache_graph name store = smodify (\<lambda>p. p\<lparr>graphs := (graphs p)(name \<mapsto> store)\<rparr>)"

definition manager_checkForDb :: "string \<Rightarrow> (('txn, 'db, 'g) account_part, bool) prog" where
  "manager_checkForDb dbName =
     sbind (sget (\<lambda>p. graphs p dbName))
       (\<lambda>cached. if cached \<noteq> None then sreturn True else store_checkForDb dbName)"

definition new_AccountGraphStoreManager :: "'g rdf_lib \<Rightarrow> (('txn, 'db, 'g) account_part, unit) prog" where
  "new_AccountGraphStoreManager rdf =
     sbind (smodify (\<lambda>p. p\<lparr>graphs := (\<lambda>_. None)\<rparr>)) (\<lambda>_.
     sbind (manager_checkForDb BASE_GRAPH) (\<lambda>found.
       if found then sbind (new_AccountGraphStore rdf BASE_GRAPH) (cache_graph BASE_GRAPH)
       else sreturn ()))"

text \<open>\<open>operator[]\<close>; \<open>None\<close> is the null pointer. The new store goes into the cache under
  \<open>BASE_GRAPH\<close>, whatever its name.\<close>

definition manager_lookup :: "'g rdf_lib \<Rightarrow> string \<Rightarrow> (('txn, 'db, 'g) account_part, string option) prog" where
  "manager_lookup rdf dbName =
     sbind (sget (\<lambda>p. graphs p dbName)) (\<lambda>cached.
       if cached \<noteq> None then sreturn cached
       else sbind (store_checkForDb dbName) (\<lambda>found.
         if \<not> found then sreturn None
         else sbind (new_AccountGraphStore rdf dbName) (\<lambda>result.
              sbind (cache_graph BASE_GRAPH result) (\<lambda>_. sreturn (Some result)))))"

definition createStore :: "'g rdf_lib \<Rightarrow> string \<Rightarrow> (('txn, 'db, 'g) account_part, string) prog" where
  "createStore rdf dbName =
     sbind (store_checkForDb dbName) (\<lambda>found.
       if found then sthrow DuplicateGraphDBException
       else sbind (new_AccountGraphStore rdf dbName) (\<lambda>result.
            sbind (cache_graph BASE_GRAPH result) (\<lambda>_. sreturn result)))"

section \<open>Graph sessions\<close>

definition update_graph :: "string \<Rightarrow> ('g \<Rightarrow> 'g) \<Rightarrow> ('txn, 'db, 'g) account_part \<Rightarrow> ('txn, 'db, 'g) account_part" where
  "update_graph store f p = p\<lparr>graph_data := (graph_data p)(store := map_option f (graph_data p store))\<rparr>"

text \<open>The three librdf calls that open, commit and roll back a session; \<open>True\<close> is their non-zero
  return code.\<close>

definition graph_call ::
  "('g \<Rightarrow> bool \<times> 'g) \<Rightarrow> string \<Rightarrow> (('txn, 'db, 'g) account_part, bool) prog" where
  "graph_call f store p = (case graph_data p store of
       None \<Rightarrow> (Inl NullPointerDereference, p)
     | Some g \<Rightarrow> (Inr (fst (f g)), update_graph store (\<lambda>_. snd (f g)) p))"

definition new_AccountGraphSession ::
  "'g rdf_lib \<Rightarrow> string option \<Rightarrow> (('txn, 'db, 'g) account_part, graph_session) prog" where
  "new_AccountGraphSession rdf accountGraphStore = (case accountGraphStore of
       None \<Rightarrow> sthrow NullPointerDereference
     | Some store \<Rightarrow> sbind (graph_call (librdf_model_transaction_start rdf) store)
         (\<lambda>failed. sreturn \<lparr>session_store = store, activeTransaction = \<not> failed\<rparr>))"

definition AccountGraphSession_commit ::
  "'g rdf_lib \<Rightarrow> graph_session \<Rightarrow> (('txn, 'db, 'g) account_part, graph_session) prog" where
  "AccountGraphSession_commit rdf session =
     (if activeTransaction session
      then sbind (graph_call (librdf_model_transaction_commit rdf) (session_store session)) (\<lambda>failed.
           if failed then sthrow FailedToCommitGraphTransactionException
           else sreturn (session\<lparr>activeTransaction := False\<rparr>))
      else sreturn session)"

definition AccountGraphSession_rollback ::
  "'g rdf_lib \<Rightarrow> graph_session \<Rightarrow> (('txn, 'db, 'g) account_part, graph_session) prog" where
  "AccountGraphSession_rollback rdf session =
     (if activeTransaction session
      then sbind (graph_call (librdf_model_transaction_rollback rdf) (session_store session)) (\<lambda>failed.
           if failed then sthrow FailedToRollbackGraphTransactionException
           else sreturn (session\<lparr>activeTransaction := False\<rparr>))
      else sreturn session)"

section \<open>The resources of the account store\<close>

definition update_resource ::
  "('txn account_resource \<Rightarrow> 'txn account_resource) \<Rightarrow> ('txn, 'db, 'g) account_part \<Rightarrow> ('txn, 'db, 'g) account_part" where
  "update_resource f p = p\<lparr>accountResourcePtr := map_option f (accountResourcePtr p)\<rparr>"

definition resource_sessions :: "('txn, 'db, 'g) account_part \<Rightarrow> (string \<times> graph_session) list" where
  "resource_sessions p = (case accountResourcePtr p of None \<Rightarrow> [] | Some r \<Rightarrow> sessionMap r)"

definition resource_transactions :: "('txn, 'db, 'g) account_part \<Rightarrow> 'txn transaction_map" where
  "resource_transactions p = (case accountResourcePtr p of None \<Rightarrow> [] | Some r \<Rightarrow> transactionMap r)"

text \<open>The loop over \<open>sessionMap\<close>; \<open>end\<close> is \<open>commit\<close> or \<open>rollback\<close>.\<close>

definition end_sessions ::
  "(graph_session \<Rightarrow> (('txn, 'db, 'g) account_part, graph_session) prog) \<Rightarrow>
   (('txn, 'db, 'g) account_part, unit) prog" where
  "end_sessions session_end p = sfor (resource_sessions p)
     (\<lambda>(name, session). sbind (session_end session) (\<lambda>session'.
        smodify (update_resource (\<lambda>r. r\<lparr>sessionMap := map_set name session' (sessionMap r)\<rparr>)))) p"

definition AccountResource_commit ::
  "('txn, 'db) rocks \<Rightarrow> 'g rdf_lib \<Rightarrow> (('txn, 'db, 'g) account_part, unit) prog" where
  "AccountResource_commit rk rdf =
     sbind (smodify (\<lambda>p. update_resource (\<lambda>r. r\<lparr>transactionMap := []\<rparr>)
              (p\<lparr>account_connections := commit_each rk (resource_transactions p) (account_connections p)\<rparr>)))
     (\<lambda>_. sbind (end_sessions (AccountGraphSession_commit rdf))
     (\<lambda>_. smodify (update_resource (\<lambda>r. r\<lparr>sessionMap := []\<rparr>))))"

definition AccountResource_rollback ::
  "('txn, 'db) rocks \<Rightarrow> 'g rdf_lib \<Rightarrow> (('txn, 'db, 'g) account_part, unit) prog" where
  "AccountResource_rollback rk rdf =
     sbind (smodify (\<lambda>p. update_resource (\<lambda>r. r\<lparr>transactionMap := []\<rparr>)
              (p\<lparr>account_connections := rollback_each rk (resource_transactions p) (account_connections p)\<rparr>)))
     (\<lambda>_. sbind (end_sessions (AccountGraphSession_rollback rdf))
     (\<lambda>_. smodify (update_resource (\<lambda>r. r\<lparr>sessionMap := []\<rparr>))))"

definition AccountResource_getTransaction ::
  "('txn, 'db) rocks \<Rightarrow> string \<Rightarrow> (('txn, 'db, 'g) account_part, unit) prog" where
  "AccountResource_getTransaction rk name p = (case accountResourcePtr p of
       None \<Rightarrow> (Inl NullPointerDereference, p)
     | Some r \<Rightarrow> (case open_transaction rk (account_connections p) name (transactionMap r) of
           Inl e \<Rightarrow> (Inl e, p)
         | Inr tm' \<Rightarrow> (Inr (), p\<lparr>accountResourcePtr := Some (r\<lparr>transactionMap := tm'\<rparr>)\<rparr>)))"

definition AccountResource_getGraphSession ::
  "'g rdf_lib \<Rightarrow> string \<Rightarrow> (('txn, 'db, 'g) account_part, graph_session) prog" where
  "AccountResource_getGraphSession rdf name =
     sbind (sget (\<lambda>p. map_of (resource_sessions p) name)) (\<lambda>found. case found of
         Some session \<Rightarrow> sreturn session
       | None \<Rightarrow> sbind (manager_lookup rdf name) (\<lambda>accountGraphStorePtr.
           sbind (new_AccountGraphSession rdf accountGraphStorePtr) (\<lambda>session.
           sbind (smodify (update_resource (\<lambda>r. r\<lparr>sessionMap := map_set name session (sessionMap r)\<rparr>)))
             (\<lambda>_. sreturn session))))"

definition AccountResourceManager_commit ::
  "('txn, 'db) rocks \<Rightarrow> 'g rdf_lib \<Rightarrow> (('txn, 'db, 'g) account_part, unit) prog" where
  "AccountResourceManager_commit rk rdf =
     sbind (sget accountResourcePtr) (\<lambda>ptr. case ptr of
         None \<Rightarrow> sreturn ()
       | Some r \<Rightarrow> sbind (AccountResource_commit rk rdf)
           (\<lambda>_. smodify (\<lambda>p. p\<lparr>accountResourcePtr := None\<rparr>)))"

definition AccountResourceManager_rollback ::
  "('txn, 'db) rocks \<Rightarrow> 'g rdf_lib \<Rightarrow> (('txn, 'db, 'g) account_part, unit) prog" where
  "AccountResourceManager_rollback rk rdf =
     sbind (sget accountResourcePtr) (\<lambda>ptr. case ptr of
         None \<Rightarrow> sreturn ()
       | Some r \<Rightarrow> sbind (AccountResource_rollback rk rdf)
           (\<lambda>_. smodify (\<lambda>p. p\<lparr>accountResourcePtr := None\<rparr>)))"

definition AccountResourceManager_getResource :: "(('txn, 'db, 'g) node, unit) prog" where
  "AccountResourceManager_getResource =
     sbind (sget (\<lambda>s. accountResourcePtr (account_part (stores s)))) (\<lambda>ptr.
       if ptr = None
       then sbind (on_stores (on_account (smodify (\<lambda>p.
                p\<lparr>accountResourcePtr := Some \<lparr>transactionMap = [], sessionMap = []\<rparr>\<rparr>))))
              (\<lambda>_. enlistResource AccountResources)
       else sreturn ())"

definition account_Put ::
  "('txn, 'db) rocks \<Rightarrow> string \<Rightarrow> bytes \<Rightarrow> bytes \<Rightarrow> ('txn, 'db, 'g) account_part \<Rightarrow> ('txn, 'db, 'g) account_part" where
  "account_Put rk name k v = update_resource (\<lambda>r. r\<lparr>transactionMap := transaction_Put rk name k v (transactionMap r)\<rparr>)"

definition account_Get ::
  "('txn, 'db) rocks \<Rightarrow> ('txn, 'db, 'g) account_part \<Rightarrow> string \<Rightarrow> bytes \<Rightarrow> bytes option" where
  "account_Get rk p name k = transaction_Get rk (account_connections p) (resource_transactions p) name k"

section \<open>The resources together\<close>

definition node_resources ::
  "('txn, 'db) rocks \<Rightarrow> 'g rdf_lib \<Rightarrow> (resource_id, ('txn, 'db, 'g) node_stores) resource_methods" where
  "node_resources rk rdf = \<lparr>
     res_commit = (\<lambda>r. case r of
         BlockResources \<Rightarrow> on_block (smodify (BlockResourceManager_commit rk))
       | AccountResources \<Rightarrow> on_account (AccountResourceManager_commit rk rdf)
       | RouterResources \<Rightarrow> on_router (smodify (RouterResourceManager_commit rk))),
     res_rollback = (\<lambda>r. case r of
         BlockResources \<Rightarrow> on_block (smodify (BlockResourceManager_rollback rk))
       | AccountResources \<Rightarrow> on_account (AccountResourceManager_rollback rk rdf)
       | RouterResources \<Rightarrow> on_router (smodify (RouterResourceManager_rollback rk)))\<rparr>"

section \<open>What a resource manager promises\<close>

definition connection_Get :: "('txn, 'db) rocks \<Rightarrow> 'db connection_map \<Rightarrow> string \<Rightarrow> bytes \<Rightarrow> bytes option" where
  "connection_Get rk connections name k =
     (case connections name of None \<Rightarrow> None | Some db \<Rightarrow> db_Get rk db k)"

text \<open>\<open>get\<close> is what the thread reads and \<open>stored\<close> what is on disk: writes show at once to the
  thread that made them, reach the disk with \<open>commit\<close> and are gone after \<open>rollback\<close>.\<close>

locale transactional_store =
  fixes ok :: bool and wf :: "'p \<Rightarrow> bool" and opened :: "'p \<Rightarrow> string \<Rightarrow> bool"
    and put :: "string \<Rightarrow> bytes \<Rightarrow> bytes \<Rightarrow> 'p \<Rightarrow> 'p"
    and get :: "'p \<Rightarrow> string \<Rightarrow> bytes \<Rightarrow> bytes option"
    and stored :: "'p \<Rightarrow> string \<Rightarrow> bytes \<Rightarrow> bytes option"
    and commit :: "'p \<Rightarrow> 'p" and rollback :: "'p \<Rightarrow> 'p"
  assumes get_put: "ok \<Longrightarrow> opened p n \<Longrightarrow>
        get (put n k v p) n' k' = (if n' = n \<and> k' = k then Some v else get p n' k')"
    and stored_put: "stored (put n k v p) = stored p"
    and opened_put: "opened (put n k v p) n' = opened p n'"
    and wf_put: "wf p \<Longrightarrow> wf (put n k v p)"
    and stored_commit: "ok \<Longrightarrow> wf p \<Longrightarrow> stored (commit p) = get p"
    and stored_rollback: "ok \<Longrightarrow> wf p \<Longrightarrow> stored (rollback p) = stored p"
begin

definition puts :: "(string \<times> bytes \<times> bytes) list \<Rightarrow> 'p \<Rightarrow> 'p" where
  "puts ws p = fold (\<lambda>(n, k, v). put n k v) ws p"

lemma puts_keep:
  "stored (puts ws p) = stored p \<and> (wf p \<longrightarrow> wf (puts ws p)) \<and> (\<forall>n. opened (puts ws p) n = opened p n)"
  unfolding puts_def
  by (induction ws arbitrary: p) (auto simp: stored_put opened_put wf_put)

lemma get_puts:
  assumes "ok" and "\<forall>(n, k, v) \<in> set ws. opened p n"
  shows "get (puts ws p) n k =
    (case map_of (map (\<lambda>(n, k, v). ((n, k), v)) (rev ws)) (n, k) of Some v \<Rightarrow> Some v | None \<Rightarrow> get p n k)"
  using assms(2) unfolding puts_def
proof (induction ws arbitrary: p)
  case Nil
  then show ?case by simp
next
  case (Cons w ws)
  obtain n' k' v' where w: "w = (n', k', v')" by (cases w)
  with Cons.prems have "\<forall>(n, k, v) \<in> set ws. opened (put n' k' v' p) n"
    by (auto simp: opened_put)
  with Cons.IH [OF this] w Cons.prems show ?case
    by (auto simp: get_put [OF assms(1)] map_add_def split: option.splits)
qed

lemma commit_puts:
  assumes "ok" and "wf p" and "\<forall>(n, k, v) \<in> set ws. opened p n"
  shows "stored (commit (puts ws p)) n k =
    (case map_of (map (\<lambda>(n, k, v). ((n, k), v)) (rev ws)) (n, k) of Some v \<Rightarrow> Some v | None \<Rightarrow> get p n k)"
  using assms puts_keep by (simp add: stored_commit get_puts)

lemma rollback_puts: "ok \<Longrightarrow> wf p \<Longrightarrow> stored (rollback (puts ws p)) = stored p"
  using puts_keep by (simp add: stored_rollback)

end

lemma map_of_transaction_Put [simp]:
  "map_of (transaction_Put rk name k v tm) n =
     (if n = name then map_option (txn_Put rk k v) (map_of tm n) else map_of tm n)"
proof (induction tm)
  case Nil
  then show ?case by (simp add: transaction_Put_def)
next
  case (Cons e tm)
  then show ?case by (cases e; cases "n = name") (simp_all add: transaction_Put_def)
qed

lemma keys_transaction_Put [simp]: "map fst (transaction_Put rk name k v tm) = map fst tm"
  by (induction tm) (auto simp: transaction_Put_def)

lemma commit_each_lookup:
  "distinct (map fst tm) \<Longrightarrow> commit_each rk tm c n =
     (case map_of tm n of None \<Rightarrow> c n | Some t \<Rightarrow> map_option (txn_Commit rk t) (c n))"
proof (induction tm arbitrary: c)
  case Nil
  then show ?case by (simp add: commit_each_def)
next
  case (Cons e tm)
  obtain m t where e: "e = (m, t)" by (cases e)
  with Cons.prems have "map_of tm m = None" by (simp add: map_of_eq_None_iff)
  with Cons e show ?case by (auto simp: commit_each_def split: option.splits)
qed

lemma rollback_each_lookup:
  "distinct (map fst tm) \<Longrightarrow> rollback_each rk tm c n =
     (case map_of tm n of None \<Rightarrow> c n | Some t \<Rightarrow> map_option (txn_Rollback rk t) (c n))"
proof (induction tm arbitrary: c)
  case Nil
  then show ?case by (simp add: rollback_each_def)
next
  case (Cons e tm)
  obtain m t where e: "e = (m, t)" by (cases e)
  with Cons.prems have "map_of tm m = None" by (simp add: map_of_eq_None_iff)
  with Cons e show ?case by (auto simp: rollback_each_def split: option.splits)
qed

lemma connection_Get_commit:
  assumes "rocks_ok rk" and "distinct (map fst tm)"
  shows "connection_Get rk (commit_each rk tm c) = transaction_Get rk c tm"
  by (rule ext)+ (auto simp: connection_Get_def transaction_Get_def commit_each_lookup [OF assms(2)]
      rocks_okD(2) [OF assms(1)] split: option.splits)

lemma connection_Get_rollback:
  assumes "rocks_ok rk" and "distinct (map fst tm)"
  shows "connection_Get rk (rollback_each rk tm c) = connection_Get rk c"
  by (rule ext)+ (auto simp: connection_Get_def rollback_each_lookup [OF assms(2)]
      rocks_okD(3) [OF assms(1)] split: option.splits)

lemma transaction_Get_Put:
  assumes "rocks_ok rk" and "map_of tm n \<noteq> None" and "c n \<noteq> None"
  shows "transaction_Get rk c (transaction_Put rk n k v tm) n' k' =
    (if n' = n \<and> k' = k then Some v else transaction_Get rk c tm n' k')"
  using assms(2,3) by (auto simp: transaction_Get_def rocks_okD(1) [OF assms(1)] split: option.splits)

lemma transaction_Get_Nil: "transaction_Get rk c [] = connection_Get rk c"
  by (rule ext)+ (simp add: transaction_Get_def connection_Get_def split: option.splits)

text \<open>The states of the three managers.\<close>

definition block_opened :: "('txn, 'db) block_part \<Rightarrow> string \<Rightarrow> bool" where
  "block_opened p n \<longleftrightarrow> block_connections p n \<noteq> None \<and>
     (case blockResourcePtr p of None \<Rightarrow> False | Some tm \<Rightarrow> map_of tm n \<noteq> None)"

definition block_wf :: "('txn, 'db) block_part \<Rightarrow> bool" where
  "block_wf p \<longleftrightarrow> (case blockResourcePtr p of None \<Rightarrow> True | Some tm \<Rightarrow> distinct (map fst tm))"

definition block_stored :: "('txn, 'db) rocks \<Rightarrow> ('txn, 'db) block_part \<Rightarrow> string \<Rightarrow> bytes \<Rightarrow> bytes option" where
  "block_stored rk p = connection_Get rk (block_connections p)"

lemmas block_store_defs = block_opened_def block_wf_def block_stored_def block_Put_def block_Get_def
  BlockResourceManager_commit_def BlockResourceManager_rollback_def BlockResource_commit_def
  BlockResource_rollback_def

interpretation blk: transactional_store "rocks_ok rk" block_wf block_opened "block_Put rk" "block_Get rk"
  "block_stored rk" "BlockResourceManager_commit rk" "BlockResourceManager_rollback rk" for rk
  by unfold_locales
     (auto simp: block_store_defs transaction_Get_Put connection_Get_commit connection_Get_rollback
       transaction_Get_Nil fun_eq_iff split: option.splits)

definition router_opened :: "('txn, 'db) router_part \<Rightarrow> string \<Rightarrow> bool" where
  "router_opened p n \<longleftrightarrow> router_connections p n \<noteq> None \<and>
     (case routerResourcePtr p of None \<Rightarrow> False | Some tm \<Rightarrow> map_of tm n \<noteq> None)"

definition router_wf :: "('txn, 'db) router_part \<Rightarrow> bool" where
  "router_wf p \<longleftrightarrow> (case routerResourcePtr p of None \<Rightarrow> True | Some tm \<Rightarrow> distinct (map fst tm))"

definition router_stored :: "('txn, 'db) rocks \<Rightarrow> ('txn, 'db) router_part \<Rightarrow> string \<Rightarrow> bytes \<Rightarrow> bytes option" where
  "router_stored rk p = connection_Get rk (router_connections p)"

lemmas router_store_defs = router_opened_def router_wf_def router_stored_def router_Put_def router_Get_def
  RouterResourceManager_commit_def RouterResourceManager_rollback_def RouterResource_commit_def
  RouterResource_rollback_def

interpretation rtr: transactional_store "rocks_ok rk" router_wf router_opened "router_Put rk" "router_Get rk"
  "router_stored rk" "RouterResourceManager_commit rk" "RouterResourceManager_rollback rk" for rk
  by unfold_locales
     (auto simp: router_store_defs transaction_Get_Put connection_Get_commit connection_Get_rollback
       transaction_Get_Nil fun_eq_iff split: option.splits)

text \<open>Ending the graph sessions leaves the databases and the transactions on them alone.\<close>

definition account_core ::
  "('txn, 'db, 'g) account_part \<Rightarrow> 'db connection_map \<times> 'txn transaction_map option" where
  "account_core p = (account_connections p, map_option transactionMap (accountResourcePtr p))"

definition account_opened :: "('txn, 'db, 'g) account_part \<Rightarrow> string \<Rightarrow> bool" where
  "account_opened p n \<longleftrightarrow> account_connections p n \<noteq> None \<and> map_of (resource_transactions p) n \<noteq> None"

definition account_wf :: "('txn, 'db, 'g) account_part \<Rightarrow> bool" where
  "account_wf p \<longleftrightarrow> distinct (map fst (resource_transactions p))"

definition account_stored ::
  "('txn, 'db) rocks \<Rightarrow> ('txn, 'db, 'g) account_part \<Rightarrow> string \<Rightarrow> bytes \<Rightarrow> bytes option" where
  "account_stored rk p = connection_Get rk (account_connections p)"

lemma account_core_connections: "account_core q = account_core p \<Longrightarrow> account_connections q = account_connections p"
  by (simp add: account_core_def)

lemma account_core_sessions [simp]:
  "account_core (update_resource (\<lambda>r. r\<lparr>sessionMap := f r\<rparr>) p) = account_core p"
  by (simp add: account_core_def update_resource_def option.map_comp comp_def)

lemma graph_call_core: "account_core (snd (graph_call f store p)) = account_core p"
  by (simp add: graph_call_def update_graph_def account_core_def split: option.splits)

lemma session_end_core:
  "account_core (snd (AccountGraphSession_commit rdf session p)) = account_core p"
  "account_core (snd (AccountGraphSession_rollback rdf session p)) = account_core p"
  using graph_call_core [of "librdf_model_transaction_commit rdf" "session_store session" p]
    graph_call_core [of "librdf_model_transaction_rollback rdf" "session_store session" p]
  by (auto simp: AccountGraphSession_commit_def AccountGraphSession_rollback_def prog_defs
      split: prod.splits sum.splits)

lemma end_sessions_core:
  fixes f :: "graph_session \<Rightarrow> (('txn, 'db, 'g) account_part, graph_session) prog"
  assumes "\<And>session p. account_core (snd (f session p)) = account_core p"
  shows "account_core (snd (end_sessions f p)) = account_core p"
  unfolding end_sessions_def
proof (rule sfor_invariant [where P = "\<lambda>q. account_core q = account_core p"])
  fix x :: "string \<times> graph_session" and q :: "('txn, 'db, 'g) account_part"
  assume q: "account_core q = account_core p"
  obtain name session where x: "x = (name, session)" by (cases x)
  from assms [of session q] q show "account_core (snd ((case x of (name, session) \<Rightarrow>
      sbind (f session) (\<lambda>session'. smodify (update_resource
        (\<lambda>r. r\<lparr>sessionMap := map_set name session' (sessionMap r)\<rparr>)))) q)) = account_core p"
    by (auto simp: x prog_defs split: prod.splits sum.splits)
qed simp

lemma account_commit_connections:
  "account_connections (snd (AccountResourceManager_commit rk rdf p)) =
     commit_each rk (resource_transactions p) (account_connections p)"
proof (cases "accountResourcePtr p")
  case None
  then show ?thesis
    by (simp add: AccountResourceManager_commit_def prog_defs resource_transactions_def commit_each_def)
next
  case (Some r)
  let ?q = "update_resource (\<lambda>r. r\<lparr>transactionMap := []\<rparr>)
      (p\<lparr>account_connections := commit_each rk (resource_transactions p) (account_connections p)\<rparr>)"
  have "account_connections (snd (end_sessions (AccountGraphSession_commit rdf) ?q)) =
      account_connections ?q"
    by (rule account_core_connections, rule end_sessions_core, rule session_end_core)
  with Some show ?thesis
    by (auto simp: AccountResourceManager_commit_def AccountResource_commit_def prog_defs
        update_resource_def split: prod.splits sum.splits)
qed

lemma account_rollback_connections:
  "account_connections (snd (AccountResourceManager_rollback rk rdf p)) =
     rollback_each rk (resource_transactions p) (account_connections p)"
proof (cases "accountResourcePtr p")
  case None
  then show ?thesis
    by (simp add: AccountResourceManager_rollback_def prog_defs resource_transactions_def rollback_each_def)
next
  case (Some r)
  let ?q = "update_resource (\<lambda>r. r\<lparr>transactionMap := []\<rparr>)
      (p\<lparr>account_connections := rollback_each rk (resource_transactions p) (account_connections p)\<rparr>)"
  have "account_connections (snd (end_sessions (AccountGraphSession_rollback rdf) ?q)) =
      account_connections ?q"
    by (rule account_core_connections, rule end_sessions_core, rule session_end_core)
  with Some show ?thesis
    by (auto simp: AccountResourceManager_rollback_def AccountResource_rollback_def prog_defs
        update_resource_def split: prod.splits sum.splits)
qed

lemma account_Put_simps [simp]:
  "account_connections (account_Put rk n k v p) = account_connections p"
  "resource_transactions (account_Put rk n k v p) = transaction_Put rk n k v (resource_transactions p)"
  by (auto simp: account_Put_def update_resource_def resource_transactions_def transaction_Put_def
      split: option.splits)

interpretation acc: transactional_store "rocks_ok rk" account_wf account_opened "account_Put rk" "account_Get rk"
  "account_stored rk" "\<lambda>p. snd (AccountResourceManager_commit rk rdf p)"
  "\<lambda>p. snd (AccountResourceManager_rollback rk rdf p)" for rk rdf
  by unfold_locales
     (auto simp: account_opened_def account_wf_def account_stored_def account_Get_def
       transaction_Get_Put connection_Get_commit connection_Get_rollback
       account_commit_connections account_rollback_connections fun_eq_iff split: option.splits)

section \<open>A concrete RocksDB for the witnesses\<close>

text \<open>A database and a transaction are the lists of the pairs written, newest first.\<close>

type_synonym plain_db = "(bytes \<times> bytes) list"

definition plain_rocks :: "(plain_db, plain_db) rocks" where
  "plain_rocks = \<lparr>BeginTransaction = (\<lambda>db. []),
     txn_Get = (\<lambda>db t. map_of (t @ db)),
     txn_Put = (\<lambda>k v t. (k, v) # t),
     txn_Commit = (\<lambda>t db. t @ db),
     txn_Rollback = (\<lambda>t db. db),
     txn_Iterate = (\<lambda>db t. t @ db)\<rparr>"

lemma plain_rocks_ok: "rocks_ok plain_rocks"
  by (simp add: rocks_ok_def plain_rocks_def db_Get_def fun_eq_iff)

end
