(* ===== verification/BlockChain.thy ===== *)
theory BlockChain
  imports Storage Transactions Merkle
begin

text \<open>
  The block store, \<open>libs/block_db\<close>: the ASN.1 blocks, the builders \<open>BlockBuilder\<close> and
  \<open>SignedBlockBuilder\<close>, the leaves of \<open>MerkleUtils\<close>, and \<open>BlockChainStore\<close> with its indexes: the
  blocks by hash, the child of each block, the block of each transaction, the hash of the last
  block and the number of blocks. The serialisers, the clock, SHA-256 and the signature library
  are parameters.
\<close>

section \<open>Blocks\<close>

record 'any Block_t =
  bk_version :: c_long
  bk_date :: bytes
  bk_parent :: bytes
  bk_transactions :: "'any TransactionMessage_t list"
  bk_merkelRoot :: bytes

record 'any SignedBlock_t =
  sb_version :: c_long
  sb_date :: bytes
  sb_parent :: bytes
  sb_block :: "'any Block_t"
  sb_hash :: bytes
  sb_signature :: bytes

record 'any block_lib =
  encode_Block :: "'any Block_t \<Rightarrow> bytes result"
  encode_SignedBlock :: "'any SignedBlock_t \<Rightarrow> bytes result"
  generateHash :: "bytes \<Rightarrow> bytes"
  sign_bytes :: "bytes \<Rightarrow> bytes result"

section \<open>MerkleUtils\<close>

text \<open>The constructor: the parent, then the hash of each transaction followed by the hashes of
  its change sets.\<close>

definition MerkleUtils_of_block :: "'any Block_t \<Rightarrow> HashHelper list result" where
  "MerkleUtils_of_block block =
     (let hashs = [HashHelper_of_hash (bk_parent block)] @
        concat (map (\<lambda>transactionMessage. HashHelper_of_hash (tm_transactionHash transactionMessage) #
            map (\<lambda>c. HashHelper_of_hash (sc_changeSetHash c)) (tm_changeSet transactionMessage))
          (bk_transactions block))
      in if length hashs = 0 then Inl ZeroLengthHashListException else Inr hashs)"

section \<open>BlockBuilder\<close>

text \<open>The member \<open>block\<close> is null once the block has been released.\<close>

definition new_BlockBuilder :: "bytes \<Rightarrow> 'any Block_t" where
  "new_BlockBuilder date =
     \<lparr>bk_version = PROTOCOL_VERSION, bk_date = date, bk_parent = [], bk_transactions = [], bk_merkelRoot = []\<rparr>"

definition BlockBuilder_of_parent :: "bytes \<Rightarrow> HashHelper \<Rightarrow> 'any Block_t" where
  "BlockBuilder_of_parent date parentHash =
     \<lparr>bk_version = PROTOCOL_VERSION, bk_date = date, bk_parent = HashHelper_Hash_t parentHash,
      bk_transactions = [], bk_merkelRoot = []\<rparr>"

definition addTransactionMessage :: "'any Block_t \<Rightarrow> 'any TransactionMessage_t \<Rightarrow> 'any Block_t" where
  "addTransactionMessage block transaction =
     block\<lparr>bk_transactions := bk_transactions block @ [transaction]\<rparr>"

text \<open>The conversion operator returns the finished block; \<open>None\<close> is a computation that does not
  end.\<close>

definition BlockBuilder_block :: "(bytes \<Rightarrow> bytes) \<Rightarrow> 'any Block_t \<Rightarrow> 'any Block_t result option" where
  "BlockBuilder_block H block = (case MerkleUtils_of_block block of
       Inl e \<Rightarrow> Some (Inl e)
     | Inr hashs \<Rightarrow> map_option (\<lambda>root. Inr (block\<lparr>bk_merkelRoot := HashHelper_Hash_t root\<rparr>))
         (merkle_compute H hashs))"

section \<open>SignedBlockBuilder\<close>

definition getBlockHash :: "'any block_lib \<Rightarrow> 'any Block_t \<Rightarrow> HashHelper result" where
  "getBlockHash lib block = rmap (generateHash lib) (encode_Block lib block)"

text \<open>The builder's member \<open>signedBlock\<close>; the memory the constructor clears has empty fields.\<close>

definition SignedBlockBuilder_of_block ::
  "'any block_lib \<Rightarrow> bytes \<Rightarrow> 'any Block_t \<Rightarrow> 'any SignedBlock_t option result" where
  "SignedBlockBuilder_of_block lib date block =
     rmap (\<lambda>h. Some \<lparr>sb_version = 0, sb_date = date, sb_parent = HashHelper_Hash_t (HashHelper_of_hash (bk_parent block)),
                     sb_block = block, sb_hash = HashHelper_Hash_t h, sb_signature = []\<rparr>)
       (getBlockHash lib block)"

definition setBlock ::
  "'any block_lib \<Rightarrow> 'any SignedBlock_t option \<Rightarrow> 'any Block_t \<Rightarrow> 'any SignedBlock_t option result" where
  "setBlock lib signedBlock block = (case signedBlock of
       None \<Rightarrow> Inl SignedBlockReleasedException
     | Some sb \<Rightarrow> rmap (\<lambda>h. Some (sb\<lparr>sb_block := block,
           sb_parent := HashHelper_Hash_t (HashHelper_of_hash (bk_parent block)), sb_hash := HashHelper_Hash_t h\<rparr>))
         (getBlockHash lib block))"

definition SignedBlockBuilder_sign ::
  "'any block_lib \<Rightarrow> 'any SignedBlock_t option \<Rightarrow> 'any SignedBlock_t option result" where
  "SignedBlockBuilder_sign lib signedBlock = (case signedBlock of
       None \<Rightarrow> Inl SignedBlockReleasedException
     | Some sb \<Rightarrow> rmap (\<lambda>v. Some (sb\<lparr>sb_signature := v\<rparr>)) (sign_bytes lib (HashHelper_of_hash (sb_hash sb))))"

text \<open>\<open>operator SignedBlock_t*\<close> releases the block to the caller.\<close>

definition SignedBlockBuilder_release ::
  "'any SignedBlock_t option \<Rightarrow> 'any SignedBlock_t option \<times> 'any SignedBlock_t option" where
  "SignedBlockBuilder_release signedBlock = (signedBlock, None)"

section \<open>BlockChainStore\<close>

definition BLOCKS_INDEX :: string where "BLOCKS_INDEX = ''blocks''"
definition TRANSACTIONS_INDEX :: string where "TRANSACTIONS_INDEX = ''transactions''"
definition CHILD_INDEX :: string where "CHILD_INDEX = ''childs''"
definition GENESIS_KEY :: string where
  "GENESIS_KEY = ''22aec58889504ab835d6fc62b79cd342cf13a6202883dd013781005b49e59df2''"
definition PARENT_KEY :: string where "PARENT_KEY = ''PARENT_KEY''"
definition BLOCK_COUNT :: string where "BLOCK_COUNT = ''BLOCK_COUNT''"

text \<open>Acting on the block store in the code's order: the thread's resource first.\<close>

definition with_block_resource ::
  "(('txn, 'db) block_part, 'a) prog \<Rightarrow> (('txn, 'db, 'g) node, 'a) prog" where
  "with_block_resource m = sbind BlockResourceManager_getResource (\<lambda>_. on_stores (on_block m))"

definition new_BlockChainStore :: "('txn, 'db) block_part \<Rightarrow> ('txn, 'db) block_part" where
  "new_BlockChainStore p = p\<lparr>parentBlock := [], blockCount := - 1\<rparr>"

definition getParentHash :: "('txn, 'db) rocks \<Rightarrow> (('txn, 'db, 'g) node, HashHelper) prog" where
  "getParentHash rk =
     sbind (sget (\<lambda>s. parentBlock (block_part (stores s)))) (\<lambda>parent.
       if HashHelper_empty parent
       then with_block_resource (sbind (BlockResource_getTransaction rk BLOCKS_INDEX) (\<lambda>_.
              sbind (sget (\<lambda>p. block_Get rk p BLOCKS_INDEX (SliceHelper_of_string PARENT_KEY))) (\<lambda>found.
                case found of
                  None \<Rightarrow> sthrow InvalidParentKeyIdentifierException
                | Some v \<Rightarrow> sbind (smodify (\<lambda>p. p\<lparr>parentBlock := HashHelper_of_string (copyVectorToString v)\<rparr>))
                    (\<lambda>_. sget parentBlock))))
       else sreturn parent)"

definition getBlockCount :: "('txn, 'db) rocks \<Rightarrow> (('txn, 'db, 'g) node, c_long) prog" where
  "getBlockCount rk =
     sbind (sget (\<lambda>s. blockCount (block_part (stores s)))) (\<lambda>count.
       if count = - 1
       then with_block_resource (sbind (BlockResource_getTransaction rk BLOCKS_INDEX) (\<lambda>_.
              sbind (sget (\<lambda>p. block_Get rk p BLOCKS_INDEX (SliceHelper_of_string BLOCK_COUNT))) (\<lambda>found.
                case found of
                  None \<Rightarrow> sreturn (- 1)
                | Some v \<Rightarrow> sbind (smodify (\<lambda>p. p\<lparr>blockCount := word_of_int (atol (copyVectorToString v))\<rparr>))
                    (\<lambda>_. sget blockCount))))
       else sreturn count)"

definition requireGenesis :: "('txn, 'db) rocks \<Rightarrow> text_codecs \<Rightarrow> (('txn, 'db, 'g) node, bool) prog" where
  "requireGenesis rk codecs =
     sbind BlockResourceManager_getResource (\<lambda>_.
     sbind (slift (HashHelper_of_encoded codecs GENESIS_KEY HEX)) (\<lambda>parentHash.
     sbind (on_stores (on_block (BlockResource_getTransaction rk CHILD_INDEX))) (\<lambda>_.
     sbind (sget (\<lambda>s. block_Get rk (block_part (stores s)) CHILD_INDEX
              (SliceHelper_of_vector (copyFromSecure (HashHelper_SecureVector parentHash))))) (\<lambda>found.
       case found of
         None \<Rightarrow> sreturn True
       | Some v \<Rightarrow> if v = [] then sreturn True
           else sbind (getBlockCount rk) (\<lambda>_. sbind (getParentHash rk) (\<lambda>_. sreturn False))))))"

text \<open>\<open>writeBlock\<close>: the block under its hash, the block as the child of its parent, the last block
  with the cached \<open>parentBlock\<close>, the count with the cached \<open>blockCount\<close>, and one entry per
  transaction.\<close>

definition increment_count :: "c_long \<Rightarrow> c_long" where
  "increment_count count = (let count' = (if count = - 1 then 0 else count) in count' + 1)"

definition write_block_body ::
  "('txn, 'db) rocks \<Rightarrow> bytes \<Rightarrow> 'any SignedBlock_t \<Rightarrow> (('txn, 'db) block_part, unit) prog" where
  "write_block_body rk valueHelper signedBlock =
     (let blockHashHelper = SliceHelper_of_vector (copyFromSecure (HashHelper_of_hash (sb_hash signedBlock)));
          parentHashHelper = SliceHelper_of_vector (copyFromSecure (HashHelper_of_hash (sb_parent signedBlock)))
      in sbind (smodify (block_Put rk BLOCKS_INDEX blockHashHelper valueHelper)) (\<lambda>_.
         sbind (smodify (block_Put rk CHILD_INDEX parentHashHelper blockHashHelper)) (\<lambda>_.
         sbind (smodify (block_Put rk BLOCKS_INDEX (SliceHelper_of_string PARENT_KEY) blockHashHelper)) (\<lambda>_.
         sbind (smodify (\<lambda>p. p\<lparr>parentBlock := blockHashHelper\<rparr>)) (\<lambda>_.
         sbind (smodify (\<lambda>p. p\<lparr>blockCount := increment_count (blockCount p)\<rparr>)) (\<lambda>_.
         sbind (smodify (\<lambda>p. block_Put rk BLOCKS_INDEX (SliceHelper_of_string BLOCK_COUNT)
                  (SliceHelper_of_string (show_int (sint (blockCount p)))) p)) (\<lambda>_.
         sfor (bk_transactions (sb_block signedBlock)) (\<lambda>t. smodify (block_Put rk TRANSACTIONS_INDEX
             (SliceHelper_of_vector (copyFromSecure (HashHelper_of_hash (tm_transactionHash t))))
             blockHashHelper)))))))))"

definition writeBlock_on_resource ::
  "('txn, 'db) rocks \<Rightarrow> 'any block_lib \<Rightarrow> 'any SignedBlock_t \<Rightarrow> (('txn, 'db) block_part, unit) prog" where
  "writeBlock_on_resource rk lib signedBlock =
     sbind (BlockResource_getTransaction rk BLOCKS_INDEX) (\<lambda>_.
      sbind (BlockResource_getTransaction rk CHILD_INDEX) (\<lambda>_.
      sbind (BlockResource_getTransaction rk TRANSACTIONS_INDEX) (\<lambda>_.
      sbind (slift (encode_SignedBlock lib signedBlock)) (\<lambda>bytes.
      write_block_body rk (SliceHelper_of_vector bytes) signedBlock))))"

definition writeBlock ::
  "('txn, 'db) rocks \<Rightarrow> 'any block_lib \<Rightarrow> 'any SignedBlock_t \<Rightarrow> (('txn, 'db, 'g) node, unit) prog" where
  "writeBlock rk lib signedBlock = with_block_resource (writeBlock_on_resource rk lib signedBlock)"

section \<open>The effect of writing a block\<close>

definition block_writes :: "c_long \<Rightarrow> bytes \<Rightarrow> 'any SignedBlock_t \<Rightarrow> (string \<times> bytes \<times> bytes) list" where
  "block_writes count value_bytes signedBlock =
     [(BLOCKS_INDEX, sb_hash signedBlock, value_bytes),
      (CHILD_INDEX, sb_parent signedBlock, sb_hash signedBlock),
      (BLOCKS_INDEX, copyStringToVector PARENT_KEY, sb_hash signedBlock),
      (BLOCKS_INDEX, copyStringToVector BLOCK_COUNT, copyStringToVector (show_int (sint count)))] @
     map (\<lambda>t. (TRANSACTIONS_INDEX, tm_transactionHash t, sb_hash signedBlock))
       (bk_transactions (sb_block signedBlock))"

lemma block_Put_caches [simp]:
  "(block_Put rk n k v p)\<lparr>parentBlock := h\<rparr> = block_Put rk n k v (p\<lparr>parentBlock := h\<rparr>)"
  "(block_Put rk n k v p)\<lparr>blockCount := c\<rparr> = block_Put rk n k v (p\<lparr>blockCount := c\<rparr>)"
  "blockCount (block_Put rk n k v p) = blockCount p"
  "parentBlock (block_Put rk n k v p) = parentBlock p"
  by (simp_all add: block_Put_def)

lemma write_block_body_eq:
  "write_block_body rk v sb p = (Inr (), blk.puts rk (block_writes (increment_count (blockCount p)) v sb)
     (p\<lparr>parentBlock := sb_hash sb, blockCount := increment_count (blockCount p)\<rparr>))"
  by (simp add: write_block_body_def Let_def prog_defs sfor_smodify
      blk.puts_def block_writes_def fold_map comp_def)

lemma with_block_resource_enlists:
  assumes "transactionWrapper s = Some rs" and "blockResourcePtr (block_part (stores s)) = None"
  shows "with_block_resource m s = (case m ((block_part (stores s))\<lparr>blockResourcePtr := Some []\<rparr>) of
     (r, q) \<Rightarrow> (r, s\<lparr>transactionWrapper := Some (rs @ [BlockResources]),
                     stores := (stores s)\<lparr>block_part := q\<rparr>\<rparr>))"
  using assms
  by (simp add: with_block_resource_def BlockResourceManager_getResource_def prog_defs on_stores_def
      on_block_def enlistResource_def TransactionWrapper_enlist_def split: prod.splits)

lemma with_block_resource_then_throw:
  fixes m :: "(('txn, 'db) block_part, 'a) prog"
  shows "sbind (with_block_resource m) (\<lambda>_. sthrow e) =
    (with_block_resource (sbind m (\<lambda>_. sthrow e)) :: (('txn, 'db, 'g) node, 'b) prog)"
proof (rule ext)
  fix s :: "('txn, 'db, 'g) node"
  obtain r and t :: "('txn, 'db, 'g) node" where r: "BlockResourceManager_getResource s = (r, t)" by fastforce
  obtain r' q where "m (block_part (stores t)) = (r', q)" by fastforce
  with r show "sbind (with_block_resource m) (\<lambda>_. sthrow e) s = with_block_resource (sbind m (\<lambda>_. sthrow e)) s"
    by (cases r; cases r') (simp_all add: with_block_resource_def sbind_def sthrow_def on_stores_def on_block_def)
qed

lemma with_block_resource_open:
  assumes "blockResourcePtr (block_part (stores s)) = Some tm"
  shows "with_block_resource m s = (case m (block_part (stores s)) of
     (r, q) \<Rightarrow> (r, s\<lparr>stores := (stores s)\<lparr>block_part := q\<rparr>\<rparr>))"
  using assms
  by (simp add: with_block_resource_def BlockResourceManager_getResource_def prog_defs on_stores_def
      on_block_def split: prod.splits)

text \<open>A transaction scope around one use of the block store commits what the store did, or rolls
  it back when the use throws.\<close>

lemma block_transaction:
  assumes "transactionWrapper s = None" and "blockResourcePtr (block_part (stores s)) = None"
  shows "in_transaction (node_resources rk rdf) (with_block_resource m) s =
    (case m ((block_part (stores s))\<lparr>blockResourcePtr := Some []\<rparr>) of
       (Inr a, q) \<Rightarrow> (Inr a, s\<lparr>stores := (stores s)\<lparr>block_part := BlockResourceManager_commit rk q\<rparr>\<rparr>)
     | (Inl e, q) \<Rightarrow> (Inl e, s\<lparr>stores := (stores s)\<lparr>block_part := BlockResourceManager_rollback rk q\<rparr>\<rparr>))"
proof -
  have "with_block_resource m (s\<lparr>transactionWrapper := Some []\<rparr>) =
      (case m ((block_part (stores s))\<lparr>blockResourcePtr := Some []\<rparr>) of
        (r, q) \<Rightarrow> (r, s\<lparr>transactionWrapper := Some [BlockResources],
                       stores := (stores s)\<lparr>block_part := q\<rparr>\<rparr>))"
    using assms by (simp add: with_block_resource_enlists)
  with assms show ?thesis
    by (simp add: in_transaction_def tx_defs prog_defs on_stores_def on_block_def node_resources_def
        split: prod.splits sum.splits)
qed

text \<open>Transactions that were begun and not yet written to: reads through them are reads of the
  database.\<close>

definition fresh_transactions ::
  "('txn, 'db) rocks \<Rightarrow> 'db connection_map \<Rightarrow> 'txn transaction_map \<Rightarrow> bool" where
  "fresh_transactions rk c tm \<longleftrightarrow> distinct (map fst tm) \<and>
     (\<forall>(n, t) \<in> set tm. \<exists>db. c n = Some db \<and> t = BeginTransaction rk db)"

lemma fresh_transactions_Get:
  assumes "fresh_transactions rk c tm"
  shows "transaction_Get rk c tm = connection_Get rk c"
proof (rule ext)+
  fix n k
  show "transaction_Get rk c tm n k = connection_Get rk c n k"
  proof (cases "map_of tm n")
    case None
    then show ?thesis by (simp add: transaction_Get_def connection_Get_def split: option.splits)
  next
    case (Some t)
    then have "(n, t) \<in> set tm" by (rule map_of_SomeD)
    with assms obtain db where "c n = Some db" "t = BeginTransaction rk db"
      unfolding fresh_transactions_def by fastforce
    with Some show ?thesis by (simp add: transaction_Get_def connection_Get_def db_Get_def)
  qed
qed

lemma getTransaction_opens:
  assumes "blockResourcePtr p = Some tm" and "block_connections p n \<noteq> None"
    and fresh: "fresh_transactions rk (block_connections p) tm"
  shows "\<exists>tm'. BlockResource_getTransaction rk n p = (Inr (), p\<lparr>blockResourcePtr := Some tm'\<rparr>) \<and>
     fresh_transactions rk (block_connections p) tm' \<and>
     (\<forall>m. map_of tm' m \<noteq> None \<longleftrightarrow> m = n \<or> map_of tm m \<noteq> None)"
proof (cases "map_of tm n = None")
  case True
  from assms(2) obtain db where db: "block_connections p n = Some db" by auto
  let ?tm = "map_set n (BeginTransaction rk db) tm"
  have "set ?tm = insert (n, BeginTransaction rk db) (set tm)"
    using True by (auto simp: map_set_def set_insort_key map_of_eq_None_iff)
  then have "fresh_transactions rk (block_connections p) ?tm"
    using fresh db by (auto simp: fresh_transactions_def)
  with True assms(1) db show ?thesis
    by (intro exI [of _ ?tm])
       (auto simp: BlockResource_getTransaction_def open_transaction_def getConnection_def)
next
  case False
  with assms show ?thesis
    by (intro exI [of _ tm]) (auto simp: BlockResource_getTransaction_def open_transaction_def)
qed

definition block_store_ready :: "('txn, 'db, 'g) node \<Rightarrow> bool" where
  "block_store_ready s \<longleftrightarrow> transactionWrapper s = None \<and> blockResourcePtr (block_part (stores s)) = None \<and>
     (\<forall>n \<in> {BLOCKS_INDEX, CHILD_INDEX, TRANSACTIONS_INDEX}. block_connections (block_part (stores s)) n \<noteq> None)"

text \<open>The whole of \<open>writeBlock\<close> on a resource that was just created.\<close>

lemma writeBlock_body_effect:
  assumes "blockResourcePtr p = Some []"
    and con: "\<forall>n \<in> {BLOCKS_INDEX, CHILD_INDEX, TRANSACTIONS_INDEX}. block_connections p n \<noteq> None"
    and "encode_SignedBlock lib sb = Inr v"
  shows "\<exists>tm. fresh_transactions rk (block_connections p) tm \<and>
    (\<forall>n \<in> {BLOCKS_INDEX, CHILD_INDEX, TRANSACTIONS_INDEX}. map_of tm n \<noteq> None) \<and>
    writeBlock_on_resource rk lib sb p =
    (Inr (), blk.puts rk (block_writes (increment_count (blockCount p)) v sb)
       (p\<lparr>blockResourcePtr := Some tm, parentBlock := sb_hash sb, blockCount := increment_count (blockCount p)\<rparr>))"
proof -
  have "fresh_transactions rk (block_connections p) []" by (simp add: fresh_transactions_def)
  from getTransaction_opens [OF assms(1) _ this, of BLOCKS_INDEX] con
  obtain t1 where t1: "BlockResource_getTransaction rk BLOCKS_INDEX p = (Inr (), p\<lparr>blockResourcePtr := Some t1\<rparr>)"
    "fresh_transactions rk (block_connections p) t1" "map_of t1 BLOCKS_INDEX \<noteq> None" by blast
  from getTransaction_opens [of "p\<lparr>blockResourcePtr := Some t1\<rparr>" t1 CHILD_INDEX rk] t1 con
  obtain t2 where t2: "BlockResource_getTransaction rk CHILD_INDEX (p\<lparr>blockResourcePtr := Some t1\<rparr>) =
      (Inr (), p\<lparr>blockResourcePtr := Some t2\<rparr>)"
    "fresh_transactions rk (block_connections p) t2" "map_of t2 BLOCKS_INDEX \<noteq> None" "map_of t2 CHILD_INDEX \<noteq> None"
    by auto
  from getTransaction_opens [of "p\<lparr>blockResourcePtr := Some t2\<rparr>" t2 TRANSACTIONS_INDEX rk] t2 con
  obtain t3 where t3: "BlockResource_getTransaction rk TRANSACTIONS_INDEX (p\<lparr>blockResourcePtr := Some t2\<rparr>) =
      (Inr (), p\<lparr>blockResourcePtr := Some t3\<rparr>)"
    "fresh_transactions rk (block_connections p) t3" "map_of t3 BLOCKS_INDEX \<noteq> None" "map_of t3 CHILD_INDEX \<noteq> None"
    "map_of t3 TRANSACTIONS_INDEX \<noteq> None"
    by auto
  show ?thesis
    using t1(1) t2(1) t3 assms(3)
    by (intro exI [of _ t3]) (simp add: writeBlock_on_resource_def sbind_def slift_def write_block_body_eq)
qed

lemma block_cache_view [simp]:
  "block_Get rk (p\<lparr>parentBlock := h, blockCount := c\<rparr>) = block_Get rk p"
  "block_opened (p\<lparr>parentBlock := h, blockCount := c\<rparr>) = block_opened p"
  "block_wf (p\<lparr>parentBlock := h, blockCount := c\<rparr>) = block_wf p"
  by (auto simp: block_Get_def block_opened_def block_wf_def fun_eq_iff)

lemma block_puts_caches [simp]:
  "parentBlock (blk.puts rk ws p) = parentBlock p" "blockCount (blk.puts rk ws p) = blockCount p"
  "block_connections (blk.puts rk ws p) = block_connections p"
proof -
  have "parentBlock (blk.puts rk ws p) = parentBlock p \<and> blockCount (blk.puts rk ws p) = blockCount p \<and>
      block_connections (blk.puts rk ws p) = block_connections p"
    unfolding blk.puts_def
    by (rule fold_invariant [where Q = "\<lambda>_. True" and P = "\<lambda>q. parentBlock q = parentBlock p \<and>
        blockCount q = blockCount p \<and> block_connections q = block_connections p"])
      (simp_all add: block_Put_def split: prod.splits)
  then show "parentBlock (blk.puts rk ws p) = parentBlock p" "blockCount (blk.puts rk ws p) = blockCount p"
    "block_connections (blk.puts rk ws p) = block_connections p" by simp_all
qed

lemma block_commit_caches [simp]:
  "parentBlock (BlockResourceManager_commit rk p) = parentBlock p"
  "blockCount (BlockResourceManager_commit rk p) = blockCount p"
  "blockResourcePtr (BlockResourceManager_commit rk p) = None"
  "parentBlock (BlockResourceManager_rollback rk p) = parentBlock p"
  "blockCount (BlockResourceManager_rollback rk p) = blockCount p"
  "blockResourcePtr (BlockResourceManager_rollback rk p) = None"
  by (auto simp: BlockResourceManager_commit_def BlockResourceManager_rollback_def split: option.splits)

lemma commit_each_None: "(commit_each rk tm c n = None) = (c n = None)"
  unfolding commit_each_def
proof (induction tm arbitrary: c)
  case Nil
  then show ?case by simp
next
  case (Cons e tm)
  then show ?case by (cases e) simp
qed

lemma rollback_each_None: "(rollback_each rk tm c n = None) = (c n = None)"
  unfolding rollback_each_def
proof (induction tm arbitrary: c)
  case Nil
  then show ?case by simp
next
  case (Cons e tm)
  then show ?case by (cases e) simp
qed

lemma block_commit_connections [simp]:
  "(block_connections (BlockResourceManager_commit rk p) n = None) = (block_connections p n = None)"
  "(block_connections (BlockResourceManager_rollback rk p) n = None) = (block_connections p n = None)"
  by (simp_all add: BlockResourceManager_commit_def BlockResource_commit_def commit_each_None
      BlockResourceManager_rollback_def BlockResource_rollback_def rollback_each_None split: option.splits)

lemma block_stored_pointer [simp]:
  "block_stored rk (p\<lparr>blockResourcePtr := x\<rparr>) = block_stored rk p"
  by (simp add: block_stored_def)

text \<open>The committed contents after a block has been written: the writes of the block over what was
  stored before.\<close>

definition last_write :: "(string \<times> bytes \<times> bytes) list \<Rightarrow> string \<Rightarrow> bytes \<Rightarrow> bytes option" where
  "last_write ws n k = map_of (map (\<lambda>(n, k, v). ((n, k), v)) (rev ws)) (n, k)"

lemma writeBlock_commit:
  fixes p :: "('txn, 'db) block_part" and rk :: "('txn, 'db) rocks"
  assumes rk: "rocks_ok rk" and con: "\<forall>n \<in> {BLOCKS_INDEX, CHILD_INDEX, TRANSACTIONS_INDEX}. block_connections p n \<noteq> None"
    and enc: "encode_SignedBlock lib sb = Inr v"
  defines "c \<equiv> increment_count (blockCount p)"
  shows "\<exists>q. writeBlock_on_resource rk lib sb (p\<lparr>blockResourcePtr := Some []\<rparr>) = (Inr (), q) \<and>
    parentBlock q = sb_hash sb \<and> blockCount q = c \<and> block_connections q = block_connections p \<and>
    (\<forall>n k. block_stored rk (BlockResourceManager_commit rk q) n k = (case last_write (block_writes c v sb) n k of
        Some x \<Rightarrow> Some x | None \<Rightarrow> block_stored rk p n k))"
proof -
  let ?start = "p\<lparr>blockResourcePtr := Some []\<rparr>"
  obtain tm where fresh: "fresh_transactions rk (block_connections ?start) tm"
    and tm: "\<forall>n \<in> {BLOCKS_INDEX, CHILD_INDEX, TRANSACTIONS_INDEX}. map_of tm n \<noteq> None"
    and body: "writeBlock_on_resource rk lib sb ?start =
      (Inr (), blk.puts rk (block_writes c v sb) (?start\<lparr>blockResourcePtr := Some tm,
         parentBlock := sb_hash sb, blockCount := c\<rparr>))"
    using writeBlock_body_effect [of ?start, OF _ _ enc, of rk] con unfolding c_def by auto
  let ?b = "?start\<lparr>blockResourcePtr := Some tm, parentBlock := sb_hash sb, blockCount := c\<rparr>"
  let ?q = "blk.puts rk (block_writes c v sb) ?b"
  have wf: "block_wf ?b" using fresh by (simp add: block_wf_def fresh_transactions_def)
  have opn: "\<forall>(n, k, x) \<in> set (block_writes c v sb). block_opened ?b n"
    using con tm by (auto simp: block_writes_def block_opened_def)
  have view: "block_stored rk p = block_Get rk ?b"
    using fresh by (simp add: block_Get_def block_stored_def fresh_transactions_Get fun_eq_iff)
  have "\<forall>n k. block_stored rk (BlockResourceManager_commit rk ?q) n k = (case last_write (block_writes c v sb) n k of
        Some x \<Rightarrow> Some x | None \<Rightarrow> block_stored rk p n k)"
    unfolding last_write_def view by (intro allI, rule blk.commit_puts [OF rk wf opn])
  with body show ?thesis by (intro exI [of _ ?q]) simp
qed

lemma writeBlock_transaction:
  fixes s :: "('txn, 'db, 'g) node" and rk :: "('txn, 'db) rocks" and rdf :: "'g rdf_lib"
  assumes rk: "rocks_ok rk" and ready: "block_store_ready s" and enc: "encode_SignedBlock lib sb = Inr v"
  defines "c \<equiv> increment_count (blockCount (block_part (stores s)))"
  shows "\<exists>q. in_transaction (node_resources rk rdf) (writeBlock rk lib sb) s =
      (Inr (), s\<lparr>stores := (stores s)\<lparr>block_part := q\<rparr>\<rparr>) \<and>
    block_store_ready (s\<lparr>stores := (stores s)\<lparr>block_part := q\<rparr>\<rparr>) \<and>
    parentBlock q = sb_hash sb \<and> blockCount q = c \<and>
    (\<forall>n k. block_stored rk q n k = (case last_write (block_writes c v sb) n k of
        Some x \<Rightarrow> Some x | None \<Rightarrow> block_stored rk (block_part (stores s)) n k))"
proof -
  let ?p = "block_part (stores s)"
  from ready have con: "\<forall>n \<in> {BLOCKS_INDEX, CHILD_INDEX, TRANSACTIONS_INDEX}. block_connections ?p n \<noteq> None"
    by (simp add: block_store_ready_def)
  obtain b where b: "writeBlock_on_resource rk lib sb (?p\<lparr>blockResourcePtr := Some []\<rparr>) = (Inr (), b)"
    "parentBlock b = sb_hash sb" "blockCount b = c" "block_connections b = block_connections ?p"
    "\<forall>n k. block_stored rk (BlockResourceManager_commit rk b) n k = (case last_write (block_writes c v sb) n k of
        Some x \<Rightarrow> Some x | None \<Rightarrow> block_stored rk ?p n k)"
    using writeBlock_commit [OF rk con enc] unfolding c_def by blast
  let ?q = "BlockResourceManager_commit rk b"
  have "in_transaction (node_resources rk rdf) (writeBlock rk lib sb) s =
      (Inr (), s\<lparr>stores := (stores s)\<lparr>block_part := ?q\<rparr>\<rparr>)"
    using ready b(1) by (simp add: writeBlock_def block_transaction block_store_ready_def)
  moreover have "block_store_ready (s\<lparr>stores := (stores s)\<lparr>block_part := ?q\<rparr>\<rparr>)"
    using ready b(4) by (simp add: block_store_ready_def)
  ultimately show ?thesis using b(2,3,5) by (intro exI [of _ ?q]) simp
qed

lemma index_names [simp]:
  "BLOCKS_INDEX \<noteq> CHILD_INDEX" "CHILD_INDEX \<noteq> BLOCKS_INDEX" "TRANSACTIONS_INDEX \<noteq> BLOCKS_INDEX"
  "BLOCKS_INDEX \<noteq> TRANSACTIONS_INDEX" "TRANSACTIONS_INDEX \<noteq> CHILD_INDEX" "CHILD_INDEX \<noteq> TRANSACTIONS_INDEX"
  by (simp_all add: BLOCKS_INDEX_def CHILD_INDEX_def TRANSACTIONS_INDEX_def)

lemma key_names [simp]: "PARENT_KEY \<noteq> BLOCK_COUNT" "BLOCK_COUNT \<noteq> PARENT_KEY"
  by (simp_all add: PARENT_KEY_def BLOCK_COUNT_def)

lemma map_of_constant:
  "map_of (map (\<lambda>t. (f t, h)) ts) k = (if k \<in> f ` set ts then Some h else None)"
  by (induction ts) auto

lemma last_write_block:
  "last_write (block_writes c v sb) CHILD_INDEX k = (if k = sb_parent sb then Some (sb_hash sb) else None)"
  "last_write (block_writes c v sb) BLOCKS_INDEX k =
     (if k = copyStringToVector BLOCK_COUNT then Some (copyStringToVector (show_int (sint c)))
      else if k = copyStringToVector PARENT_KEY then Some (sb_hash sb)
      else if k = sb_hash sb then Some v else None)"
  "last_write (block_writes c v sb) TRANSACTIONS_INDEX k =
     (if k \<in> tm_transactionHash ` set (bk_transactions (sb_block sb)) then Some (sb_hash sb) else None)"
proof -
  let ?ts = "rev (bk_transactions (sb_block sb))"
  have tx: "map_of (map (\<lambda>t. ((TRANSACTIONS_INDEX, tm_transactionHash t), sb_hash sb)) ?ts) (n, k) =
      (if n = TRANSACTIONS_INDEX \<and> k \<in> tm_transactionHash ` set ?ts then Some (sb_hash sb) else None)" for n
    by (subst map_of_constant) auto
  have eq: "last_write (block_writes c v sb) n k = map_of
      (map (\<lambda>t. ((TRANSACTIONS_INDEX, tm_transactionHash t), sb_hash sb)) ?ts @
       [((BLOCKS_INDEX, copyStringToVector BLOCK_COUNT), copyStringToVector (show_int (sint c))),
        ((BLOCKS_INDEX, copyStringToVector PARENT_KEY), sb_hash sb),
        ((CHILD_INDEX, sb_parent sb), sb_hash sb), ((BLOCKS_INDEX, sb_hash sb), v)]) (n, k)" for n
    by (simp add: last_write_def block_writes_def rev_map comp_def)
  show "last_write (block_writes c v sb) CHILD_INDEX k = (if k = sb_parent sb then Some (sb_hash sb) else None)"
    "last_write (block_writes c v sb) BLOCKS_INDEX k =
     (if k = copyStringToVector BLOCK_COUNT then Some (copyStringToVector (show_int (sint c)))
      else if k = copyStringToVector PARENT_KEY then Some (sb_hash sb)
      else if k = sb_hash sb then Some v else None)"
    "last_write (block_writes c v sb) TRANSACTIONS_INDEX k =
     (if k \<in> tm_transactionHash ` set (bk_transactions (sb_block sb)) then Some (sb_hash sb) else None)"
    by (simp_all only: eq map_of_append map_add_def tx) auto
qed

definition valid_block_hash :: "bytes \<Rightarrow> bool" where
  "valid_block_hash h \<longleftrightarrow> h \<noteq> copyStringToVector PARENT_KEY \<and> h \<noteq> copyStringToVector BLOCK_COUNT"

text \<open>Writing a list of blocks, each in its own transaction scope.\<close>

definition write_blocks ::
  "('txn, 'db) rocks \<Rightarrow> 'g rdf_lib \<Rightarrow> 'any block_lib \<Rightarrow> 'any SignedBlock_t list \<Rightarrow> (('txn, 'db, 'g) node, unit) prog" where
  "write_blocks rk rdf lib sbs = sfor sbs (\<lambda>sb. in_transaction (node_resources rk rdf) (writeBlock rk lib sb))"

lemma write_blocks_store:
  assumes "rocks_ok rk" and "block_store_ready s"
    and "\<forall>b \<in> set sbs. is_ok (encode_SignedBlock lib b)"
    and "distinct (map sb_parent sbs)" and "distinct (map sb_hash sbs)"
    and "\<forall>b \<in> set sbs. valid_block_hash (sb_hash b)"
  shows "\<exists>q. write_blocks rk rdf lib sbs s = (Inr (), s\<lparr>stores := (stores s)\<lparr>block_part := q\<rparr>\<rparr>) \<and>
    block_store_ready (s\<lparr>stores := (stores s)\<lparr>block_part := q\<rparr>\<rparr>) \<and>
    blockCount q = (increment_count ^^ length sbs) (blockCount (block_part (stores s))) \<and>
    (sbs \<noteq> [] \<longrightarrow> parentBlock q = sb_hash (last sbs)) \<and>
    (\<forall>b \<in> set sbs. block_stored rk q CHILD_INDEX (sb_parent b) = Some (sb_hash b)) \<and>
    (\<forall>b \<in> set sbs. \<exists>v. encode_SignedBlock lib b = Inr v \<and> block_stored rk q BLOCKS_INDEX (sb_hash b) = Some v)"
  using assms(3-6)
proof (induction sbs rule: rev_induct)
  case Nil
  show ?case
    using assms(2) by (intro exI [of _ "block_part (stores s)"]) (simp add: write_blocks_def)
next
  case (snoc b bs)
  then obtain q where q: "write_blocks rk rdf lib bs s = (Inr (), s\<lparr>stores := (stores s)\<lparr>block_part := q\<rparr>\<rparr>)"
    and ready: "block_store_ready (s\<lparr>stores := (stores s)\<lparr>block_part := q\<rparr>\<rparr>)"
    and count: "blockCount q = (increment_count ^^ length bs) (blockCount (block_part (stores s)))"
    and child: "\<forall>b \<in> set bs. block_stored rk q CHILD_INDEX (sb_parent b) = Some (sb_hash b)"
    and blocks: "\<forall>b \<in> set bs. \<exists>v. encode_SignedBlock lib b = Inr v \<and> block_stored rk q BLOCKS_INDEX (sb_hash b) = Some v"
    by auto
  obtain v where v: "encode_SignedBlock lib b = Inr v"
    using snoc.prems(1) by (auto simp: is_ok_iff)
  obtain q' where q': "in_transaction (node_resources rk rdf) (writeBlock rk lib b)
        (s\<lparr>stores := (stores s)\<lparr>block_part := q\<rparr>\<rparr>) = (Inr (), s\<lparr>stores := (stores s)\<lparr>block_part := q'\<rparr>\<rparr>)"
    and "block_store_ready (s\<lparr>stores := (stores s)\<lparr>block_part := q'\<rparr>\<rparr>)"
    and "parentBlock q' = sb_hash b" and "blockCount q' = increment_count (blockCount q)"
    and stored: "\<forall>n k. block_stored rk q' n k = (case last_write (block_writes (increment_count (blockCount q)) v b) n k of
        Some x \<Rightarrow> Some x | None \<Rightarrow> block_stored rk q n k)"
    using writeBlock_transaction [OF assms(1) ready v, of rdf] by (auto cong: option.case_cong)
  moreover have other: "sb_parent b' \<noteq> sb_parent b \<and> sb_hash b' \<noteq> sb_hash b" if "b' \<in> set bs" for b'
    using that snoc.prems(2,3) by (auto simp: image_iff)
  have "\<forall>b \<in> set (bs @ [b]). block_stored rk q' CHILD_INDEX (sb_parent b) = Some (sb_hash b)"
    using child other by (simp add: stored last_write_block)
  moreover have "\<forall>b \<in> set (bs @ [b]). \<exists>v. encode_SignedBlock lib b = Inr v \<and>
       block_stored rk q' BLOCKS_INDEX (sb_hash b) = Some v"
    using blocks v snoc.prems(4) other by (simp add: stored last_write_block valid_block_hash_def)
  moreover have "write_blocks rk rdf lib (bs @ [b]) s = (Inr (), s\<lparr>stores := (stores s)\<lparr>block_part := q'\<rparr>\<rparr>)"
    using q q'(1) by (simp add: write_blocks_def sfor_append)
  ultimately show ?case
    using count by (intro exI [of _ q']) simp
qed

fun child_walk :: "(bytes \<Rightarrow> bytes option) \<Rightarrow> nat \<Rightarrow> bytes \<Rightarrow> bytes option" where
  "child_walk child 0 h = Some h"
| "child_walk child (Suc n) h = Option.bind (child h) (child_walk child n)"

fun linked :: "bytes \<Rightarrow> 'any SignedBlock_t list \<Rightarrow> bool" where
  "linked h [] = True"
| "linked h (b # bs) = (sb_parent b = h \<and> linked (sb_hash b) bs)"

lemma linked_walk:
  assumes "linked h bs" and "\<forall>b \<in> set bs. child (sb_parent b) = Some (sb_hash b)"
  shows "i \<le> length bs \<Longrightarrow> child_walk child i h = Some ((h # map sb_hash bs) ! i)"
  using assms
proof (induction bs arbitrary: h i)
  case Nil
  then show ?case by simp
next
  case (Cons b bs)
  then show ?case by (cases i) auto
qed

lemma linked_parents:
  "linked h bs \<Longrightarrow> map sb_parent bs = butlast (h # map sb_hash bs)"
  by (induction bs arbitrary: h) (auto simp: butlast_append)

lemma increment_count_first: "n < 2 ^ 63 \<Longrightarrow> (increment_count ^^ Suc n) (- 1) = of_nat (Suc n)"
proof (induction n)
  case 0
  then show ?case by (simp add: increment_count_def)
next
  case (Suc n)
  have "(of_nat (Suc n) :: c_long) \<noteq> - 1"
  proof
    assume "(of_nat (Suc n) :: c_long) = - 1"
    then have "unat (of_nat (Suc n) :: c_long) = unat (- 1 :: c_long)" by (rule arg_cong)
    then have "Suc n mod 2 ^ 64 = 2 ^ 64 - 1"
      unfolding unat_of_nat by (simp add: unsigned_minus_1_eq_mask mask_eq_exp_minus_1 del: of_nat_Suc)
    moreover have "Suc n mod 2 ^ 64 = Suc n" using Suc.prems by simp
    ultimately show False using Suc.prems by simp
  qed
  then have "increment_count (of_nat (Suc n)) = of_nat (Suc (Suc n))"
    by (simp only: increment_count_def Let_def if_False) simp
  moreover have "(increment_count ^^ Suc n) (- 1) = of_nat (Suc n)" using Suc by simp
  ultimately show ?case by (simp only: funpow.simps comp_apply)
qed

section \<open>Properties\<close>

text \<open>C2: the chain on disk is the chain that was written. Starting from an empty store, writing a
  list of blocks whose parents are linked from the genesis hash, each block in a transaction scope
  of its own, succeeds; walking the child index \<open>i\<close> steps from the genesis hash leads to the
  \<open>i\<close>-th block, every block can be read back under its hash, the block count is the number of
  blocks and the next parent is the hash of the last one.\<close>

theorem written_chain_is_readable:
  fixes s :: "('txn, 'db, 'g) node" and rk :: "('txn, 'db) rocks" and rdf :: "'g rdf_lib"
  assumes "rocks_ok rk" and "block_store_ready s" and "blockCount (block_part (stores s)) = - 1"
    and "sbs \<noteq> []" and "length sbs < 2 ^ 63" and "linked genesis sbs"
    and "distinct (genesis # map sb_hash sbs)"
    and "\<forall>b \<in> set sbs. valid_block_hash (sb_hash b)"
    and "\<forall>b \<in> set sbs. is_ok (encode_SignedBlock lib b)"
  shows "\<exists>t. write_blocks rk rdf lib sbs s = (Inr (), t) \<and> block_store_ready t \<and>
    blockCount (block_part (stores t)) = of_nat (length sbs) \<and>
    parentBlock (block_part (stores t)) = sb_hash (last sbs) \<and>
    (\<forall>i \<le> length sbs. child_walk (block_stored rk (block_part (stores t)) CHILD_INDEX) i genesis =
       Some ((genesis # map sb_hash sbs) ! i)) \<and>
    (\<forall>b \<in> set sbs. \<exists>v. encode_SignedBlock lib b = Inr v \<and>
       block_stored rk (block_part (stores t)) BLOCKS_INDEX (sb_hash b) = Some v)"
proof -
  have "distinct (map sb_parent sbs)"
    using assms(6,7) by (metis distinct_butlast linked_parents)
  then obtain q where q: "write_blocks rk rdf lib sbs s = (Inr (), s\<lparr>stores := (stores s)\<lparr>block_part := q\<rparr>\<rparr>)"
    "block_store_ready (s\<lparr>stores := (stores s)\<lparr>block_part := q\<rparr>\<rparr>)"
    "blockCount q = (increment_count ^^ length sbs) (- 1)" "parentBlock q = sb_hash (last sbs)"
    "\<forall>b \<in> set sbs. block_stored rk q CHILD_INDEX (sb_parent b) = Some (sb_hash b)"
    "\<forall>b \<in> set sbs. \<exists>v. encode_SignedBlock lib b = Inr v \<and> block_stored rk q BLOCKS_INDEX (sb_hash b) = Some v"
    using write_blocks_store [OF assms(1,2,9) _ _ assms(8), of rdf] assms(3,4,7) by auto
  moreover from assms(4,5) have "(increment_count ^^ length sbs) (- 1) = (of_nat (length sbs) :: c_long)"
    using increment_count_first [of "length sbs - 1"] by simp
  ultimately show ?thesis
    using linked_walk [OF assms(6) q(5)]
    by (intro exI [of _ "s\<lparr>stores := (stores s)\<lparr>block_part := q\<rparr>\<rparr>"]) simp
qed

text \<open>C34: a block that is rolled back stays in the cache. When the transaction that wrote a block
  throws afterwards, nothing of the block reaches the disk, but \<open>BlockChainStore\<close> keeps its hash
  as the next parent and counts it.\<close>

theorem rolled_back_block_stays_cached:
  fixes s :: "('txn, 'db, 'g) node" and rk :: "('txn, 'db) rocks" and rdf :: "'g rdf_lib"
  assumes "rocks_ok rk" and "block_store_ready s" and "encode_SignedBlock lib sb = Inr v"
    and "sb_hash sb \<noteq> []"
  shows "\<exists>t. in_transaction (node_resources rk rdf) (sbind (writeBlock rk lib sb) (\<lambda>_. sthrow e)) s = (Inl e, t) \<and>
    block_stored rk (block_part (stores t)) = block_stored rk (block_part (stores s)) \<and>
    blockCount (block_part (stores t)) = increment_count (blockCount (block_part (stores s))) \<and>
    getParentHash rk t = (Inr (sb_hash sb), t)"
proof -
  let ?p = "block_part (stores s)" let ?start = "?p\<lparr>blockResourcePtr := Some []\<rparr>"
  let ?c = "increment_count (blockCount ?p)"
  have con: "\<forall>n \<in> {BLOCKS_INDEX, CHILD_INDEX, TRANSACTIONS_INDEX}. block_connections ?start n \<noteq> None"
    using assms(2) by (simp add: block_store_ready_def)
  obtain tm where fresh: "fresh_transactions rk (block_connections ?start) tm"
    and body: "writeBlock_on_resource rk lib sb ?start = (Inr (), blk.puts rk (block_writes ?c v sb) (?start\<lparr>blockResourcePtr := Some tm,
         parentBlock := sb_hash sb, blockCount := ?c\<rparr>))"
    using writeBlock_body_effect [OF _ con assms(3), of rk] by auto
  let ?b = "?start\<lparr>blockResourcePtr := Some tm, parentBlock := sb_hash sb, blockCount := ?c\<rparr>"
  let ?q = "BlockResourceManager_rollback rk (blk.puts rk (block_writes ?c v sb) ?b)"
  let ?t = "s\<lparr>stores := (stores s)\<lparr>block_part := ?q\<rparr>\<rparr>"
  let ?m = "writeBlock_on_resource rk lib sb"
  have "in_transaction (node_resources rk rdf) (sbind (writeBlock rk lib sb) (\<lambda>_. sthrow e)) s = (Inl e, ?t)"
    using assms(2) body unfolding writeBlock_def with_block_resource_then_throw
    by (simp add: block_transaction block_store_ready_def sbind_def sthrow_def)
  moreover have "block_wf ?b" using fresh by (simp add: block_wf_def fresh_transactions_def)
  then have "block_stored rk ?q = block_stored rk ?b"
    using blk.rollback_puts [OF assms(1), of ?b "block_writes ?c v sb"] by simp
  moreover have "block_stored rk ?b = block_stored rk ?p" by (simp add: block_stored_def)
  moreover have "getParentHash rk ?t = (Inr (sb_hash sb), ?t)"
    using assms(4) by (simp add: getParentHash_def prog_defs HashHelper_empty_def)
  ultimately show ?thesis by (intro exI [of _ ?t]) simp
qed

text \<open>C20: the Merkle root of a block does not depend on its transactions. It is decided by the
  parent hash and the number of leaves: replacing every transaction by others with the same number
  of change sets leaves the root as it is. The tree hashes the left child twice.\<close>

theorem merkle_root_ignores_transactions:
  fixes b :: "'any Block_t"
  assumes "MerkleUtils_of_block b = Inr hs"
  shows "merkle_compute H hs = Some (((\<lambda>h. H (h @ h)) ^^ tree_height (length hs)) (bk_parent b)) \<and>
    BlockBuilder_block H b = Some (Inr (b\<lparr>bk_merkelRoot :=
      ((\<lambda>h. H (h @ h)) ^^ tree_height (length hs)) (bk_parent b)\<rparr>))"
proof -
  have "hs \<noteq> []" "hs ! 0 = bk_parent b"
    using assms by (auto simp: MerkleUtils_of_block_def Let_def split: if_splits)
  moreover have "merkle_compute H hs = Some (((\<lambda>h. H (h @ h)) ^^ tree_height (length hs)) (hs ! 0))"
    using mk.reduce_first_leaf [OF merkle_pair_left \<open>hs \<noteq> []\<close>] by simp
  ultimately show ?thesis using assms by (simp add: BlockBuilder_block_def)
qed

text \<open>Using the block store outside a transaction poisons the thread. The first use throws
  \<open>NoTransactionException\<close> but leaves \<open>blockResourcePtr\<close> set; from then on the thread's
  transactions no longer enlist the resource, so a block that is written in a transaction scope
  that ends without an exception is never stored.\<close>

theorem store_use_outside_transaction_loses_blocks:
  fixes s :: "('txn, 'db, 'g) node" and rk :: "('txn, 'db) rocks" and rdf :: "'g rdf_lib"
  assumes "block_store_ready s" and "HashHelper_empty (parentBlock (block_part (stores s)))"
    and "encode_SignedBlock lib sb = Inr v"
  shows "\<exists>s1 s2. getParentHash rk s = (Inl NoTransactionException, s1) \<and>
    in_transaction (node_resources rk rdf) (writeBlock rk lib sb) s1 = (Inr (), s2) \<and>
    block_stored rk (block_part (stores s2)) = block_stored rk (block_part (stores s))"
proof -
  let ?p = "block_part (stores s)" let ?start = "?p\<lparr>blockResourcePtr := Some []\<rparr>"
  let ?s1 = "s\<lparr>stores := (stores s)\<lparr>block_part := ?start\<rparr>\<rparr>"
  let ?open = "?s1\<lparr>transactionWrapper := Some []\<rparr>"
  have con: "\<forall>n \<in> {BLOCKS_INDEX, CHILD_INDEX, TRANSACTIONS_INDEX}. block_connections ?start n \<noteq> None"
    using assms(1) by (simp add: block_store_ready_def)
  obtain q where body: "writeBlock rk lib sb ?open = (Inr (), ?open\<lparr>stores := (stores s)\<lparr>block_part := q\<rparr>\<rparr>)"
    and q: "block_connections q = block_connections ?p"
    using writeBlock_body_effect [OF _ con assms(3), of rk]
    by (force simp: writeBlock_def with_block_resource_open)
  have "getParentHash rk s = (Inl NoTransactionException, ?s1)"
    using assms(1,2) by (simp add: getParentHash_def with_block_resource_def BlockResourceManager_getResource_def
        prog_defs on_stores_def on_block_def enlistResource_def block_store_ready_def)
  moreover have "in_transaction (node_resources rk rdf) (writeBlock rk lib sb) ?s1 =
      (Inr (), s\<lparr>stores := (stores s)\<lparr>block_part := q\<rparr>\<rparr>)"
    using assms(1) body by (simp add: in_transaction_def tx_defs prog_defs block_store_ready_def)
  ultimately show ?thesis using q by (auto simp: block_stored_def)
qed

section \<open>Witnesses\<close>

definition plain_node :: "(plain_db, plain_db, 'g) node" where
  "plain_node = \<lparr>transactionWrapper = None, stores = \<lparr>
     block_part = \<lparr>block_connections = (\<lambda>_. Some []), blockResourcePtr = None, parentBlock = [], blockCount = - 1\<rparr>,
     account_part = \<lparr>account_connections = (\<lambda>_. Some []), accountResourcePtr = None,
       graph_base_dir = Some ''graphs'', graph_data = (\<lambda>_. None), graphs = (\<lambda>_. None)\<rparr>,
     router_part = \<lparr>router_connections = (\<lambda>_. Some []), routerResourcePtr = None\<rparr>\<rparr>\<rparr>"

lemma plain_node_ready: "block_store_ready plain_node"
  by (simp add: block_store_ready_def plain_node_def)

definition plain_block_lib :: "'any block_lib" where
  "plain_block_lib = \<lparr>encode_Block = (\<lambda>b. Inr (bk_parent b)), encode_SignedBlock = (\<lambda>b. Inr (sb_parent b @ sb_hash b)),
     generateHash = (\<lambda>b. b), sign_bytes = (\<lambda>b. Inr b)\<rparr>"

definition plain_block :: "bytes \<Rightarrow> bytes \<Rightarrow> 'any SignedBlock_t" where
  "plain_block parent h = \<lparr>sb_version = 0, sb_date = [], sb_parent = parent, sb_block = new_BlockBuilder [],
     sb_hash = h, sb_signature = []\<rparr>"

lemma valid_block_hash_single [simp]: "valid_block_hash [b]"
  by (simp add: valid_block_hash_def copyStringToVector_def PARENT_KEY_def BLOCK_COUNT_def)

theorem written_chain_is_readable_witness:
  "\<exists>t. write_blocks plain_rocks undefined plain_block_lib [plain_block [0] [1], plain_block [1] [2]] plain_node = (Inr (), t) \<and>
     blockCount (block_part (stores t)) = 2 \<and> parentBlock (block_part (stores t)) = [2] \<and>
     child_walk (block_stored plain_rocks (block_part (stores t)) CHILD_INDEX) 2 [0] = Some [2]"
proof -
  let ?bs = "[plain_block [0] [1], plain_block [1] [2]]"
  have "linked [0] ?bs" "distinct ([0] # map sb_hash ?bs)" "\<forall>b \<in> set ?bs. valid_block_hash (sb_hash b)"
    "\<forall>b \<in> set ?bs. is_ok (encode_SignedBlock plain_block_lib b)" "length ?bs < 2 ^ 63" "?bs \<noteq> []"
    "blockCount (block_part (stores plain_node)) = - 1"
    by (simp_all add: plain_block_def plain_block_lib_def plain_node_def)
  note hyps = this
  show ?thesis
    using written_chain_is_readable [OF plain_rocks_ok plain_node_ready hyps(7,6,5,1-4), of undefined]
    by (elim exE conjE) (intro exI conjI, assumption, simp_all add: plain_block_def)
qed

theorem rolled_back_block_stays_cached_witness:
  "\<exists>t. in_transaction (node_resources plain_rocks undefined)
        (sbind (writeBlock plain_rocks plain_block_lib (plain_block [0] [1])) (\<lambda>_. sthrow LibraryError)) plain_node =
      (Inl LibraryError, t) \<and> getParentHash plain_rocks t = (Inr [1], t)"
  using rolled_back_block_stays_cached [of plain_rocks plain_node plain_block_lib "plain_block [0] [1]" "[0, 1]"
      undefined LibraryError]
  by (auto simp: plain_rocks_ok plain_node_ready plain_block_def plain_block_lib_def)

theorem merkle_root_ignores_transactions_witness:
  "merkle_compute (\<lambda>b. b @ b) [[7], [8], [9]] = Some (((\<lambda>h. (h @ h) @ (h @ h)) ^^ tree_height 3) [7])"
proof -
  let ?b = "\<lparr>bk_version = 1, bk_date = [], bk_parent = [7],
      bk_transactions = map (\<lambda>h. \<lparr>tm_version = 1, tm_sourceAccount = [], tm_targetAccount = [], tm_feeAccount = [],
        tm_transactionHash = h, tm_signature = [], tm_signedTransaction = undefined, tm_transactionTrace = [],
        tm_currentStatus = Status_init, tm_changeSet = []\<rparr>) [[8], [9]], bk_merkelRoot = []\<rparr>"
  have "MerkleUtils_of_block ?b = Inr [[7], [8], [9]]" by (simp add: MerkleUtils_of_block_def)
  from conjunct1 [OF merkle_root_ignores_transactions [OF this, of "\<lambda>b. b @ b"]] show ?thesis
    by (simp add: numeral_3_eq_3)
qed

theorem store_use_outside_transaction_loses_blocks_witness:
  "\<exists>s1 s2. getParentHash plain_rocks plain_node = (Inl NoTransactionException, s1) \<and>
     in_transaction (node_resources plain_rocks undefined) (writeBlock plain_rocks plain_block_lib (plain_block [0] [1])) s1 =
       (Inr (), s2) \<and> block_stored plain_rocks (block_part (stores s2)) BLOCKS_INDEX [1] = None"
proof -
  have "HashHelper_empty (parentBlock (block_part (stores plain_node)))"
    "encode_SignedBlock plain_block_lib (plain_block [0] [1]) = Inr [0, 1]"
    by (simp_all add: plain_node_def plain_block_lib_def plain_block_def HashHelper_empty_def)
  moreover have "block_stored plain_rocks (block_part (stores plain_node)) BLOCKS_INDEX [1] = None"
    by (simp add: plain_node_def block_stored_def connection_Get_def plain_rocks_def db_Get_def)
  ultimately show ?thesis
    using store_use_outside_transaction_loses_blocks [OF plain_node_ready, of plain_block_lib "plain_block [0] [1]"
        "[0, 1]" plain_rocks undefined] by metis
qed

end
