(* ===== verification/Rdf.thy ===== *)
theory Rdf
  imports ByteUtils Numbers
begin

text \<open>
  The RDF change sets of \<open>libs/asn1\<close>: models of subjects with predicates and objects, and the
  helpers \<open>RDFModelHelper\<close>, \<open>RDFSubjectHelper\<close>, \<open>RDFPredicateHelper\<close> and \<open>RDFObjectHelper\<close>.
  A \<open>UTF8String\<close> is a \<open>string\<close>; \<open>RDFObjectHelper\<close> reads its fields as C strings, so a NUL ends them.
\<close>

section \<open>ASN.1 data\<close>

datatype RDFChange = RDFChange_persist | RDFChange_remove | RDFChange_none

record RDFObject =
  ro_value :: string
  ro_type :: string
  ro_lang :: string
  ro_dataType :: string

record RDFPredicate =
  rp_predicate :: string
  rp_objects :: "RDFObject list"

record RDFSubject =
  rs_subject :: string
  rs_predicates :: "RDFPredicate list"

datatype RDFDataFormat = rdfSubject RDFSubject | rdfNtGroup "(string \<times> string \<times> string) list"

record RDFModel =
  rm_action :: RDFChange
  rm_data :: "RDFDataFormat list"

definition LITERAL :: string where "LITERAL = ''literal''"
definition URI :: string where "URI = ''uri''"
definition RDF_LANGUAGE :: string where "RDF_LANGUAGE = ''en''"

section \<open>Objects\<close>

definition c_str :: "string \<Rightarrow> string" where
  "c_str s = takeWhile (\<lambda>c. c \<noteq> CHR 0x00) s"

definition RDFObjectHelper_of_object :: "RDFObject \<Rightarrow> RDFObject" where
  "RDFObjectHelper_of_object obj = \<lparr>ro_value = c_str (ro_value obj), ro_type = c_str (ro_type obj),
     ro_lang = c_str (ro_lang obj), ro_dataType = c_str (ro_dataType obj)\<rparr>"

definition RDFObjectHelper_of_value :: "string \<Rightarrow> string \<Rightarrow> RDFObject" where
  "RDFObjectHelper_of_value v dataType =
     \<lparr>ro_value = v, ro_type = LITERAL, ro_lang = RDF_LANGUAGE, ro_dataType = dataType\<rparr>"

text \<open>The conversion operator copies the members into a new \<open>RDFObject_t\<close>.\<close>

definition RDFObjectHelper_object :: "RDFObject \<Rightarrow> RDFObject" where
  "RDFObjectHelper_object this = \<lparr>ro_value = ro_value this, ro_type = ro_type this,
     ro_lang = ro_lang this, ro_dataType = ro_dataType this\<rparr>"

definition new_RDFObjectHelper :: RDFObject where
  "new_RDFObjectHelper = \<lparr>ro_value = [], ro_type = LITERAL, ro_lang = RDF_LANGUAGE, ro_dataType = []\<rparr>"

definition object_setValue :: "RDFObject \<Rightarrow> string \<Rightarrow> RDFObject" where
  "object_setValue this v = this\<lparr>ro_value := v\<rparr>"

definition object_getValue :: "RDFObject \<Rightarrow> string" where
  "object_getValue this = ro_value this"

definition object_setType :: "RDFObject \<Rightarrow> string \<Rightarrow> RDFObject" where
  "object_setType this t = this\<lparr>ro_type := t\<rparr>"

definition object_getType :: "RDFObject \<Rightarrow> string" where
  "object_getType this = ro_type this"

definition object_setLang :: "RDFObject \<Rightarrow> string \<Rightarrow> RDFObject" where
  "object_setLang this lang = this\<lparr>ro_lang := lang\<rparr>"

definition object_getLang :: "RDFObject \<Rightarrow> string" where
  "object_getLang this = ro_lang this"

definition object_setDataType :: "RDFObject \<Rightarrow> string \<Rightarrow> RDFObject" where
  "object_setDataType this dataType = this\<lparr>ro_dataType := dataType\<rparr>"

definition object_getDataType :: "RDFObject \<Rightarrow> string" where
  "object_getDataType this = ro_dataType this"

section \<open>Predicates\<close>

definition RDFPredicateHelper_of_string :: "string \<Rightarrow> RDFPredicate" where
  "RDFPredicateHelper_of_string predicate = \<lparr>rp_predicate = predicate, rp_objects = []\<rparr>"

definition addObject :: "RDFPredicate \<Rightarrow> RDFObject \<Rightarrow> RDFPredicate" where
  "addObject this obj = this\<lparr>rp_objects := rp_objects this @ [RDFObjectHelper_object obj]\<rparr>"

definition setPredicate :: "RDFPredicate \<Rightarrow> string \<Rightarrow> RDFPredicate" where
  "setPredicate this predicate = this\<lparr>rp_predicate := predicate\<rparr>"

definition getPredicate :: "RDFPredicate \<Rightarrow> string" where
  "getPredicate this = rp_predicate this"

definition listObjects :: "RDFPredicate \<Rightarrow> RDFObject list" where
  "listObjects this = map RDFObjectHelper_of_object (rp_objects this)"

definition getStringLiteral :: "RDFPredicate \<Rightarrow> string" where
  "getStringLiteral this = (case rp_objects this of
       [] \<Rightarrow> [] | obj # _ \<Rightarrow> ro_value (RDFObjectHelper_of_object obj))"

definition getLongLiteral :: "RDFPredicate \<Rightarrow> c_long" where
  "getLongLiteral this = (case rp_objects this of
       [] \<Rightarrow> 0 | obj # _ \<Rightarrow> word_of_int (atol (ro_value (RDFObjectHelper_of_object obj))))"

section \<open>Subjects\<close>

definition RDFSubjectHelper_of_string :: "string \<Rightarrow> RDFSubject" where
  "RDFSubjectHelper_of_string subject = \<lparr>rs_subject = subject, rs_predicates = []\<rparr>"

definition containsPredicate :: "RDFSubject \<Rightarrow> string \<Rightarrow> bool" where
  "containsPredicate this predicate = list_ex (\<lambda>p. rp_predicate p = predicate) (rs_predicates this)"

text \<open>\<open>operator []\<close>: the first predicate of the name.\<close>

definition subject_predicate :: "RDFSubject \<Rightarrow> string \<Rightarrow> RDFPredicate result" where
  "subject_predicate this predicate = (case find (\<lambda>p. rp_predicate p = predicate) (rs_predicates this) of
       None \<Rightarrow> Inl PredicateNotFoundException | Some p \<Rightarrow> Inr p)"

definition setSubject :: "RDFSubject \<Rightarrow> string \<Rightarrow> RDFSubject" where
  "setSubject this subject = this\<lparr>rs_subject := subject\<rparr>"

definition addPredicate :: "RDFSubject \<Rightarrow> RDFPredicate \<Rightarrow> RDFSubject" where
  "addPredicate this predicate = this\<lparr>rs_predicates := rs_predicates this @ [predicate]\<rparr>"

definition getSubject :: "RDFSubject \<Rightarrow> string" where
  "getSubject this = rs_subject this"

definition getPredicates :: "RDFSubject \<Rightarrow> RDFPredicate list" where
  "getPredicates this = rs_predicates this"

definition listPredicates :: "RDFSubject \<Rightarrow> string list" where
  "listPredicates this = map rp_predicate (rs_predicates this)"

text \<open>\<open>substr(0, find_last_of("/"))\<close>; without a slash the position is \<open>npos\<close> and the whole subject
  is returned.\<close>

definition before_last_slash :: "string \<Rightarrow> string" where
  "before_last_slash s = (if CHR ''/'' \<in> set s
     then rev (tl (dropWhile (\<lambda>c. c \<noteq> CHR ''/'') (rev s))) else s)"

definition getOntologyClass :: "RDFSubject \<Rightarrow> string" where
  "getOntologyClass this = before_last_slash (getSubject this)"

section \<open>Models\<close>

definition new_RDFModelHelper :: RDFModel where
  "new_RDFModelHelper = \<lparr>rm_action = RDFChange_persist, rm_data = []\<rparr>"

definition RDFModelHelper_of_change :: "RDFChange \<Rightarrow> RDFModel" where
  "RDFModelHelper_of_change change = \<lparr>rm_action = change, rm_data = []\<rparr>"

definition setChange :: "RDFModel \<Rightarrow> RDFChange \<Rightarrow> RDFModel" where
  "setChange this change = this\<lparr>rm_action := change\<rparr>"

definition addSubject :: "RDFModel \<Rightarrow> RDFSubject \<Rightarrow> RDFModel" where
  "addSubject this subject = this\<lparr>rm_data := rm_data this @ [rdfSubject subject]\<rparr>"

fun subjects_of :: "RDFDataFormat list \<Rightarrow> RDFSubject list" where
  "subjects_of [] = []"
| "subjects_of (rdfSubject s # ds) = s # subjects_of ds"
| "subjects_of (rdfNtGroup g # ds) = subjects_of ds"

definition subjects :: "RDFModel \<Rightarrow> string list" where
  "subjects this = map rs_subject (subjects_of (rm_data this))"

text \<open>\<open>getSubjects\<close> does not look at \<open>present\<close>: an entry that is no subject is read through the
  wrong member of the union.\<close>

fun as_subject :: "RDFDataFormat \<Rightarrow> RDFSubject result" where
  "as_subject (rdfSubject s) = Inr s"
| "as_subject (rdfNtGroup g) = Inl UndefinedBehaviour"

definition getSubjects :: "RDFModel \<Rightarrow> RDFSubject list result" where
  "getSubjects this = rfold (\<lambda>d acc. rmap (\<lambda>s. acc @ [s]) (as_subject d)) (rm_data this) []"

definition model_contains :: "RDFModel \<Rightarrow> string \<Rightarrow> bool" where
  "model_contains this subject = list_ex (\<lambda>s. rs_subject s = subject) (subjects_of (rm_data this))"

definition model_subject :: "RDFModel \<Rightarrow> string \<Rightarrow> RDFSubject result" where
  "model_subject this subject = (case find (\<lambda>s. rs_subject s = subject) (subjects_of (rm_data this)) of
       None \<Rightarrow> Inl SubjectNotFoundInModelException | Some s \<Rightarrow> Inr s)"

section \<open>Lemmas\<close>

lemma subjects_of_append [simp]: "subjects_of (ds @ es) = subjects_of ds @ subjects_of es"
  by (induction ds rule: subjects_of.induct) auto

lemma model_subject_found_iff: "is_ok (model_subject m s) \<longleftrightarrow> s \<in> set (subjects m)"
proof -
  have "find (\<lambda>x. rs_subject x = s) xs \<noteq> None \<longleftrightarrow> s \<in> rs_subject ` set xs" for xs
    by (auto simp: find_None_iff)
  from this [of "subjects_of (rm_data m)"] show ?thesis
    by (cases "find (\<lambda>x. rs_subject x = s) (subjects_of (rm_data m))")
       (simp_all add: model_subject_def subjects_def)
qed

lemma model_contains_iff: "model_contains m s \<longleftrightarrow> s \<in> set (subjects m)"
  by (auto simp: model_contains_def subjects_def list_ex_iff)

lemma getSubjects_eq:
  assumes "\<forall>d \<in> set (rm_data m). is_ok (as_subject d)"
  shows "getSubjects m = Inr (subjects_of (rm_data m))"
proof -
  have "rfold (\<lambda>d acc. rmap (\<lambda>s. acc @ [s]) (as_subject d)) ds acc = Inr (acc @ subjects_of ds)"
    if "\<forall>d \<in> set ds. is_ok (as_subject d)" for ds acc
    using that by (induction ds arbitrary: acc rule: subjects_of.induct) auto
  with assms show ?thesis by (simp add: getSubjects_def)
qed

lemma before_last_slash_append:
  "CHR ''/'' \<notin> set t \<Longrightarrow> before_last_slash (s @ CHR ''/'' # t) = s"
proof -
  assume "CHR ''/'' \<notin> set t"
  then have "dropWhile (\<lambda>c. c \<noteq> CHR ''/'') (rev t @ CHR ''/'' # rev s) = CHR ''/'' # rev s"
    by (subst dropWhile_append2) auto
  then show ?thesis by (simp add: before_last_slash_def)
qed

end
