(* ===== verification/RouterUtils.thy ===== *)
theory RouterUtils
  imports ByteUtils Transactions
begin

text \<open>
  The routing messages of \<open>protocol/proto/Route.proto\<close> and their helpers in \<open>libs/router_utils\<close>:
  \<open>PushAccountHelper\<close>, \<open>AccountRoutingStoreHelper\<close> and \<open>RpcPeerHelper\<close>. The protobuf parser and
  serialiser of the routing store are the parameter \<open>routing_wire\<close>.
\<close>

section \<open>Messages\<close>

datatype PushAccount = PushAccount (pa_version: c_long) (pa_account_hash: bytes)
  (pa_management_account_hash: bytes) (pa_child_accounts: "PushAccount list")

record AccountRoutingStore =
  ars_version :: c_long
  ars_management_account_hash :: bytes

record RpcPeer =
  rpc_version :: c_long
  rpc_account_hash :: bytes
  rpc_server :: bool
  rpc_accountInfo :: "PushAccount option"

record routing_wire =
  serialize_routing :: "AccountRoutingStore \<Rightarrow> string"
  parse_routing :: "string \<Rightarrow> AccountRoutingStore"

definition routing_wire_ok :: "routing_wire \<Rightarrow> bool" where
  "routing_wire_ok w \<longleftrightarrow> (\<forall>r. parse_routing w (serialize_routing w r) = r)"

definition empty_PushAccount :: PushAccount where
  "empty_PushAccount = PushAccount 0 [] [] []"

definition empty_RpcPeer :: RpcPeer where
  "empty_RpcPeer = \<lparr>rpc_version = 0, rpc_account_hash = [], rpc_server = False, rpc_accountInfo = None\<rparr>"

section \<open>PushAccountHelper\<close>

definition new_PushAccountHelper :: PushAccount where
  "new_PushAccountHelper = PushAccount PROTOCOL_VERSION [] [] []"

definition push_setAccountHash :: "PushAccount \<Rightarrow> HashHelper \<Rightarrow> PushAccount" where
  "push_setAccountHash this accountHash = (case this of PushAccount v a m cs \<Rightarrow>
     PushAccount v (HashHelper_SecureVector accountHash) m cs)"

definition push_getAccountHash :: "PushAccount \<Rightarrow> HashHelper" where
  "push_getAccountHash this = HashHelper_of_string (copyVectorToString (pa_account_hash this))"

definition push_getAccountHashBytes :: "PushAccount \<Rightarrow> bytes" where
  "push_getAccountHashBytes this = pa_account_hash this"

definition push_setManagementAccountHash :: "PushAccount \<Rightarrow> HashHelper \<Rightarrow> PushAccount" where
  "push_setManagementAccountHash this accountHash = (case this of PushAccount v a m cs \<Rightarrow>
     PushAccount v a (HashHelper_SecureVector accountHash) cs)"

definition push_getManagementAccountHash :: "PushAccount \<Rightarrow> HashHelper" where
  "push_getManagementAccountHash this = HashHelper_of_string (copyVectorToString (pa_management_account_hash this))"

definition push_getManagementAccountHashBytes :: "PushAccount \<Rightarrow> bytes" where
  "push_getManagementAccountHashBytes this = pa_management_account_hash this"

definition addChildAccount :: "PushAccount \<Rightarrow> PushAccount \<Rightarrow> PushAccount" where
  "addChildAccount this child = (case this of PushAccount v a m cs \<Rightarrow> PushAccount v a m (cs @ [child]))"

definition getChildren :: "PushAccount \<Rightarrow> PushAccount list" where
  "getChildren this = pa_child_accounts this"

section \<open>AccountRoutingStoreHelper\<close>

definition new_AccountRoutingStoreHelper :: AccountRoutingStore where
  "new_AccountRoutingStoreHelper = \<lparr>ars_version = PROTOCOL_VERSION, ars_management_account_hash = []\<rparr>"

definition routing_setManagementAccountHash :: "AccountRoutingStore \<Rightarrow> bytes \<Rightarrow> AccountRoutingStore" where
  "routing_setManagementAccountHash this accountHash = this\<lparr>ars_management_account_hash := accountHash\<rparr>"

definition routing_getManagementAccountHash :: "AccountRoutingStore \<Rightarrow> HashHelper" where
  "routing_getManagementAccountHash this =
     HashHelper_of_string (copyVectorToString (ars_management_account_hash this))"

definition routing_getManagementAccountHashBytes :: "AccountRoutingStore \<Rightarrow> bytes" where
  "routing_getManagementAccountHashBytes this = ars_management_account_hash this"

definition routing_toString :: "routing_wire \<Rightarrow> AccountRoutingStore \<Rightarrow> string" where
  "routing_toString w this = serialize_routing w this"

section \<open>RpcPeerHelper\<close>

definition new_RpcPeerHelper :: RpcPeer where
  "new_RpcPeerHelper = empty_RpcPeer\<lparr>rpc_version := PROTOCOL_VERSION\<rparr>"

definition peer_setAccountHash :: "RpcPeer \<Rightarrow> HashHelper \<Rightarrow> RpcPeer" where
  "peer_setAccountHash this accountHash = this\<lparr>rpc_account_hash := HashHelper_SecureVector accountHash\<rparr>"

definition peer_getAccountHash :: "RpcPeer \<Rightarrow> HashHelper" where
  "peer_getAccountHash this = HashHelper_of_string (copyVectorToString (rpc_account_hash this))"

definition peer_getAccountHashBytes :: "RpcPeer \<Rightarrow> bytes" where
  "peer_getAccountHashBytes this = rpc_account_hash this"

definition peer_getAccountHashString :: "RpcPeer \<Rightarrow> string" where
  "peer_getAccountHashString this = copyVectorToString (rpc_account_hash this)"

definition setServer :: "RpcPeer \<Rightarrow> bool \<Rightarrow> RpcPeer" where
  "setServer this server = this\<lparr>rpc_server := server\<rparr>"

definition isServer :: "RpcPeer \<Rightarrow> bool" where
  "isServer this = rpc_server this"

definition setPushAccount :: "RpcPeer \<Rightarrow> PushAccount \<Rightarrow> RpcPeer" where
  "setPushAccount this pushAccount = this\<lparr>rpc_accountInfo := Some pushAccount\<rparr>"

text \<open>The accessor of an unset submessage returns the default instance.\<close>

definition getPushAccount :: "RpcPeer \<Rightarrow> PushAccount" where
  "getPushAccount this = (case rpc_accountInfo this of None \<Rightarrow> empty_PushAccount | Some p \<Rightarrow> p)"

text \<open>\<open>toString\<close> parses the empty string into the message: the result is empty and the message is
  cleared.\<close>

definition peer_toString :: "(string \<Rightarrow> RpcPeer) \<Rightarrow> RpcPeer \<Rightarrow> string \<times> RpcPeer" where
  "peer_toString ParseFromString this = (let result = '''' in (result, ParseFromString result))"

section \<open>Lemmas\<close>

lemma push_simps [simp]:
  "pa_account_hash (push_setAccountHash p h) = h"
  "pa_management_account_hash (push_setAccountHash p h) = pa_management_account_hash p"
  "pa_child_accounts (push_setAccountHash p h) = pa_child_accounts p"
  "pa_management_account_hash (push_setManagementAccountHash p h) = h"
  "pa_account_hash (push_setManagementAccountHash p h) = pa_account_hash p"
  "pa_child_accounts (push_setManagementAccountHash p h) = pa_child_accounts p"
  "pa_child_accounts (addChildAccount p c) = pa_child_accounts p @ [c]"
  "pa_account_hash (addChildAccount p c) = pa_account_hash p"
  "pa_management_account_hash (addChildAccount p c) = pa_management_account_hash p"
  by (cases p; simp add: push_setAccountHash_def push_setManagementAccountHash_def addChildAccount_def
      HashHelper_SecureVector_def)+

text \<open>All accounts of a tree with the hash that manages them, in the order the router visits them.\<close>

fun tree_accounts :: "PushAccount \<Rightarrow> (bytes \<times> bytes) list" where
  "tree_accounts (PushAccount v a m cs) = (a, m) # concat (map tree_accounts cs)"

end
