(* ===== verification/AccountDb.thy ===== *)
theory AccountDb
  imports Storage Transactions Rdf RouterUtils
begin

text \<open>
  The account store, \<open>libs/account_db\<close>: the rules for account change sets
  (\<open>AccountSystemOntologyTypes\<close>), the statements of a transaction (\<open>AccountRDFStatement\<close>,
  \<open>AccountRDFStatementBuilder\<close>), the graph sessions' writes (\<open>AccountGraphSession\<close>) and
  \<open>AccountStore\<close> itself. The protobuf form of \<open>AccountInfo\<close> and the BER decoding of an RDF model are
  parameters.
\<close>

section \<open>Accounts\<close>

record AccountInfo =
  ai_version :: c_long
  ai_account_hash :: bytes
  ai_parent_account_hash :: bytes
  ai_account_type :: string
  ai_graph_name :: string

definition empty_AccountInfo :: AccountInfo where
  "empty_AccountInfo = \<lparr>ai_version = 0, ai_account_hash = [], ai_parent_account_hash = [],
     ai_account_type = [], ai_graph_name = []\<rparr>"

record 'any account_wire =
  serialize_info :: "AccountInfo \<Rightarrow> string"
  parse_info :: "string \<Rightarrow> AccountInfo"
  extract_RDFModel :: "'any \<Rightarrow> RDFModel result"

definition account_wire_ok :: "'any account_wire \<Rightarrow> bool" where
  "account_wire_ok w \<longleftrightarrow> (\<forall>i. parse_info w (serialize_info w i) = i)"

section \<open>AccountSystemOntologyTypes\<close>

definition ACCOUNT_ONTOLOGY_CLASS :: string where
  "ACCOUNT_ONTOLOGY_CLASS = ''http://keto-coin.io/schema/rdf/1.0/keto/Account#Account''"
definition PREDICATE_STATUS :: string where
  "PREDICATE_STATUS = ''http://keto-coin.io/schema/rdf/1.0/keto/Account#status''"
definition PREDICATE_ID :: string where
  "PREDICATE_ID = ''http://keto-coin.io/schema/rdf/1.0/keto/Account#id''"
definition PREDICATE_PARENT :: string where
  "PREDICATE_PARENT = ''http://keto-coin.io/schema/rdf/1.0/keto/Account#parent''"
definition PREDICATE_TYPE :: string where
  "PREDICATE_TYPE = ''http://keto-coin.io/schema/rdf/1.0/keto/Account#type''"
definition ACCOUNT_CREATE_OBJECT_STATUS :: string where "ACCOUNT_CREATE_OBJECT_STATUS = ''create''"
definition ACCOUNT_TYPE_MASTER :: string where "ACCOUNT_TYPE_MASTER = ''master''"

definition ONTOLOGY_CLASSES :: "string list" where
  "ONTOLOGY_CLASSES = [ACCOUNT_ONTOLOGY_CLASS]"

definition objectEqual :: "RDFObject list \<Rightarrow> string \<Rightarrow> bool" where
  "objectEqual objectHelpers v = list_ex (\<lambda>objectHelper. ro_value objectHelper = v) objectHelpers"

definition isAccountOntologyClass :: "RDFSubject \<Rightarrow> bool" where
  "isAccountOntologyClass subject \<longleftrightarrow> getOntologyClass subject = ACCOUNT_ONTOLOGY_CLASS"

text \<open>A new account's subject must have the status \<open>create\<close> and the id of the account. The id is
  only looked up when the status is right.\<close>

definition validateClassOperation :: "text_codecs \<Rightarrow> HashHelper \<Rightarrow> bool \<Rightarrow> RDFSubject \<Rightarrow> bool result" where
  "validateClassOperation codecs accountHash existingAccount subject =
     (if getOntologyClass subject \<notin> set ONTOLOGY_CLASSES then Inr True
      else if getOntologyClass subject = ACCOUNT_ONTOLOGY_CLASS \<and> \<not> existingAccount
      then rbind (subject_predicate subject PREDICATE_STATUS) (\<lambda>status.
             if \<not> objectEqual (listObjects status) ACCOUNT_CREATE_OBJECT_STATUS then Inr False
             else rbind (subject_predicate subject PREDICATE_ID) (\<lambda>account_id.
                  rbind (HashHelper_getHash codecs accountHash HEX) (\<lambda>hash.
                  Inr (objectEqual (listObjects account_id) hash))))
      else Inr True)"

section \<open>AccountRDFStatement\<close>

datatype RDFDBOperation = PERSIST | REMOVE

definition AccountRDFStatement_of_change :: "'any account_wire \<Rightarrow> 'any ChangeData \<Rightarrow> RDFModel result" where
  "AccountRDFStatement_of_change w changeData = (case changeData of
       asn1Change a \<Rightarrow> extract_RDFModel w a
     | binaryChange b \<Rightarrow> Inl UnsupportedChangeTypeFormatException)"

definition getOperation :: "RDFModel \<Rightarrow> RDFDBOperation" where
  "getOperation rdfModel = (if rm_action rdfModel = RDFChange_persist then PERSIST else REMOVE)"

section \<open>AccountRDFStatementBuilder\<close>

record statement_builder =
  builder_action :: string
  builder_accountInfo :: AccountInfo
  builder_statements :: "RDFModel list"

text \<open>The account that a transaction acts on in its current state; in the other states the hash
  stays empty.\<close>

definition account_of_status :: "'any TransactionMessage_t \<Rightarrow> HashHelper" where
  "account_of_status m =
     (if getStatus m = Status_debit \<or> getStatus m = Status_init then getSourceAccount m
      else if getStatus m = Status_fee then getFeeAccount m
      else if getStatus m = Status_credit \<or> getStatus m = Status_complete then getTargetAccount m
      else [])"

definition hex_bytes :: "text_codecs \<Rightarrow> string \<Rightarrow> bytes result" where
  "hex_bytes codecs s = HashHelper_of_encoded codecs s HEX"

text \<open>What an account subject sets: the action, the hash, the parent when there is one, the type.\<close>

definition read_account_subject ::
  "text_codecs \<Rightarrow> RDFSubject \<Rightarrow> statement_builder \<Rightarrow> statement_builder result" where
  "read_account_subject codecs subject b =
     rbind (subject_predicate subject PREDICATE_STATUS) (\<lambda>status.
     let b1 = b\<lparr>builder_action := getStringLiteral status\<rparr> in
     rbind (subject_predicate subject PREDICATE_ID) (\<lambda>account_id.
     rbind (hex_bytes codecs (getStringLiteral account_id)) (\<lambda>accountHash.
     let b2 = b1\<lparr>builder_accountInfo := (builder_accountInfo b1)\<lparr>ai_account_hash := accountHash\<rparr>\<rparr> in
     rbind (if containsPredicate subject PREDICATE_PARENT
            then rbind (subject_predicate subject PREDICATE_PARENT) (\<lambda>parent.
                 rbind (hex_bytes codecs (getStringLiteral parent)) (\<lambda>parentAccountHash.
                 Inr (b2\<lparr>builder_accountInfo := (builder_accountInfo b2)\<lparr>ai_parent_account_hash := parentAccountHash\<rparr>\<rparr>)))
            else Inr b2) (\<lambda>b3.
     rbind (subject_predicate subject PREDICATE_TYPE) (\<lambda>type.
     Inr (b3\<lparr>builder_accountInfo := (builder_accountInfo b3)\<lparr>ai_account_type := getStringLiteral type\<rparr>\<rparr>))))))"

definition read_subject ::
  "text_codecs \<Rightarrow> HashHelper \<Rightarrow> bool \<Rightarrow> RDFModel \<Rightarrow> string \<Rightarrow> statement_builder \<Rightarrow> statement_builder result" where
  "read_subject codecs accountHash existingAccount model subject b =
     rbind (model_subject model subject) (\<lambda>subjectPtr.
     rbind (validateClassOperation codecs accountHash existingAccount subjectPtr) (\<lambda>valid.
     if \<not> valid then Inl InvalidAccountOperationException
     else if isAccountOntologyClass subjectPtr then read_account_subject codecs subjectPtr b
     else Inr b))"

definition read_change ::
  "text_codecs \<Rightarrow> 'any account_wire \<Rightarrow> HashHelper \<Rightarrow> bool \<Rightarrow> 'any ChangeData \<Rightarrow> statement_builder \<Rightarrow> statement_builder result" where
  "read_change codecs w accountHash existingAccount change b =
     rbind (AccountRDFStatement_of_change w change) (\<lambda>model.
     rbind (rfold (read_subject codecs accountHash existingAccount model) (subjects model) b) (\<lambda>b'.
     Inr (b'\<lparr>builder_statements := builder_statements b' @ [model]\<rparr>)))"

definition new_AccountRDFStatementBuilder ::
  "text_codecs \<Rightarrow> 'any account_wire \<Rightarrow> 'any TransactionMessage_t \<Rightarrow> bool \<Rightarrow> statement_builder result" where
  "new_AccountRDFStatementBuilder codecs w m existingAccount =
     rfold (\<lambda>signedChangeSet. rfold (read_change codecs w (account_of_status m) existingAccount)
              (cs_changes (sc_changeSet signedChangeSet)))
       (tm_changeSet m)
       \<lparr>builder_action = [], builder_accountInfo = empty_AccountInfo\<lparr>ai_version := PROTOCOL_VERSION\<rparr>,
        builder_statements = []\<rparr>"

section \<open>AccountGraphSession\<close>

definition statement_of ::
  "string \<Rightarrow> string \<Rightarrow> RDFObject \<Rightarrow> rdf_statement result" where
  "statement_of subject predicate objectHelper =
     (if ro_type objectHelper = LITERAL
      then Inr (subject, predicate, Typed_literal (ro_value objectHelper) (ro_dataType objectHelper))
      else if ro_type objectHelper = URI then Inr (subject, predicate, Uri_node (ro_value objectHelper))
      else Inl UnsupportedDataTypeTransactionException)"

definition AccountGraphSession_persist ::
  "'g rdf_lib \<Rightarrow> graph_session \<Rightarrow> RDFSubject \<Rightarrow> (('txn, 'db, 'g) account_part, unit) prog" where
  "AccountGraphSession_persist rdf session subject =
     sfor (getPredicates subject) (\<lambda>predicate. sfor (listObjects predicate) (\<lambda>objectHelper.
       sbind (slift (statement_of (getSubject subject) (getPredicate predicate) objectHelper)) (\<lambda>statement.
       smodify (update_graph (session_store session) (librdf_model_add_statement rdf statement)))))"

definition AccountGraphSession_remove ::
  "'g rdf_lib \<Rightarrow> graph_session \<Rightarrow> RDFSubject \<Rightarrow> (('txn, 'db, 'g) account_part, unit) prog" where
  "AccountGraphSession_remove rdf session subject =
     sfor (getPredicates subject) (\<lambda>predicate. sfor (listObjects predicate) (\<lambda>objectHelper.
       sbind (slift (statement_of (getSubject subject) (getPredicate predicate) objectHelper)) (\<lambda>statement.
       smodify (update_graph (session_store session) (librdf_model_remove_statement rdf statement)))))"

definition AccountGraphSession_query ::
  "'g rdf_lib \<Rightarrow> graph_session \<Rightarrow> string \<Rightarrow> (('txn, 'db, 'g) account_part, string) prog" where
  "AccountGraphSession_query rdf session queryStr =
     sget (\<lambda>p. case Option.bind (graph_data p (session_store session)) (\<lambda>g. query_to_string rdf g queryStr) of
       None \<Rightarrow> ''NA'' | Some strResult \<Rightarrow> strResult)"

definition AccountGraphSession_executeQuery ::
  "'g rdf_lib \<Rightarrow> graph_session \<Rightarrow> string \<Rightarrow> (('txn, 'db, 'g) account_part, (string \<times> string) list list) prog" where
  "AccountGraphSession_executeQuery rdf session queryStr =
     sget (\<lambda>p. case Option.bind (graph_data p (session_store session)) (\<lambda>g. query_bindings rdf g queryStr) of
       None \<Rightarrow> [] | Some rows \<Rightarrow> rows)"

section \<open>AccountStore\<close>

definition with_account_resource ::
  "(('txn, 'db, 'g) account_part, 'a) prog \<Rightarrow> (('txn, 'db, 'g) node, 'a) prog" where
  "with_account_resource m = sbind AccountResourceManager_getResource (\<lambda>_. on_stores (on_account m))"

text \<open>\<open>None\<close> is the result \<open>false\<close>, which leaves the caller's \<open>AccountInfo\<close> alone.\<close>

definition getAccountInfo ::
  "('txn, 'db) rocks \<Rightarrow> 'any account_wire \<Rightarrow> HashHelper \<Rightarrow> (('txn, 'db, 'g) node, AccountInfo option) prog" where
  "getAccountInfo rk w accountHash = with_account_resource
     (sbind (AccountResource_getTransaction rk ACCOUNTS_MAPPING) (\<lambda>_.
      sget (\<lambda>p. map_option (\<lambda>v. parse_info w (copyVectorToString v))
        (account_Get rk p ACCOUNTS_MAPPING (SliceHelper_of_vector (copyFromSecure accountHash))))))"

definition setAccountInfo ::
  "('txn, 'db) rocks \<Rightarrow> 'any account_wire \<Rightarrow> HashHelper \<Rightarrow> AccountInfo \<Rightarrow> (('txn, 'db, 'g) node, unit) prog" where
  "setAccountInfo rk w accountHash accountInfo = with_account_resource
     (sbind (AccountResource_getTransaction rk ACCOUNTS_MAPPING) (\<lambda>_.
      smodify (account_Put rk ACCOUNTS_MAPPING (SliceHelper_of_vector (copyFromSecure accountHash))
        (SliceHelper_of_string (serialize_info w accountInfo)))))"

definition createAccount ::
  "('txn, 'db) rocks \<Rightarrow> 'g rdf_lib \<Rightarrow> text_codecs \<Rightarrow> 'any account_wire \<Rightarrow> HashHelper \<Rightarrow> statement_builder \<Rightarrow>
   (('txn, 'db, 'g) node, AccountInfo) prog" where
  "createAccount rk rdf codecs w accountHash builder =
     (if builder_action builder \<noteq> ACCOUNT_CREATE_OBJECT_STATUS then sthrow InvalidAccountOperationException
      else let accountInfo = builder_accountInfo builder in
        sbind (if ai_account_type accountInfo = ACCOUNT_TYPE_MASTER
          then sbind (if ai_parent_account_hash accountInfo = [] then sreturn (accountInfo\<lparr>ai_graph_name := BASE_GRAPH\<rparr>)
                      else sbind (slift (HashHelper_getHash codecs accountHash HEX))
                             (\<lambda>h. sreturn (accountInfo\<lparr>ai_graph_name := h\<rparr>))) (\<lambda>info.
               sbind (on_stores (on_account (manager_checkForDb (ai_graph_name info)))) (\<lambda>found.
               sbind (if \<not> found then sbind (on_stores (on_account (createStore rdf (ai_graph_name info)))) (\<lambda>_. sreturn ())
                      else sreturn ()) (\<lambda>_.
               sreturn info)))
          else sbind (getAccountInfo rk w (HashHelper_of_string (copyVectorToString (ai_parent_account_hash accountInfo)))) (\<lambda>parent.
               case parent of
                 None \<Rightarrow> sthrow InvalidParentAccountException
               | Some parentAccountInfo \<Rightarrow> sreturn (accountInfo\<lparr>ai_graph_name := ai_graph_name parentAccountInfo\<rparr>)))
        (\<lambda>info. sbind (setAccountInfo rk w accountHash info) (\<lambda>_. sreturn info)))"

text \<open>The loop of \<open>applyTransaction\<close> over the subjects of one statement.\<close>

definition apply_statement ::
  "'g rdf_lib \<Rightarrow> graph_session \<Rightarrow> RDFModel \<Rightarrow> (('txn, 'db, 'g) account_part, unit) prog" where
  "apply_statement rdf session rdfModel =
     sbind (slift (getSubjects rdfModel)) (\<lambda>rdfSubjects. sfor rdfSubjects (\<lambda>rdfSubject.
       if getOperation rdfModel = PERSIST then AccountGraphSession_persist rdf session rdfSubject
       else AccountGraphSession_remove rdf session rdfSubject))"

definition applyTransaction ::
  "('txn, 'db) rocks \<Rightarrow> 'g rdf_lib \<Rightarrow> text_codecs \<Rightarrow> 'any account_wire \<Rightarrow> 'any TransactionMessage_t \<Rightarrow>
   (('txn, 'db, 'g) node, unit) prog" where
  "applyTransaction rk rdf codecs w m =
     sbind AccountResourceManager_getResource (\<lambda>_.
     let accountHash = account_of_status m in
     sbind (getAccountInfo rk w accountHash) (\<lambda>found.
     sbind (slift (new_AccountRDFStatementBuilder codecs w m (found \<noteq> None))) (\<lambda>builder.
     sbind (case found of
              None \<Rightarrow> createAccount rk rdf codecs w accountHash builder
            | Some accountInfo \<Rightarrow> sreturn accountInfo) (\<lambda>accountInfo.
     sbind (on_stores (on_account (AccountResource_getGraphSession rdf (ai_graph_name accountInfo)))) (\<lambda>session.
     sfor (builder_statements builder) (\<lambda>statement. on_stores (on_account (apply_statement rdf session statement))))))))"

definition sparqlQuery ::
  "'g rdf_lib \<Rightarrow> AccountInfo \<Rightarrow> string \<Rightarrow> (('txn, 'db, 'g) node, string) prog" where
  "sparqlQuery rdf accountInfo query = with_account_resource
     (sbind (AccountResource_getGraphSession rdf (ai_graph_name accountInfo)) (\<lambda>session.
      AccountGraphSession_query rdf session query))"

record contract_message =
  cm_account_hash :: string
  cm_contract_name :: string
  cm_contract :: string

text \<open>The branch without a name looks a contract up by its hash, but puts the account hash into the
  query.\<close>

definition contract_query :: "contract_message \<Rightarrow> string" where
  "contract_query msg =
     (if cm_contract_name msg \<noteq> []
      then ''SELECT ?code WHERE { ?contract <http://keto-coin.io/schema/rdf/1.0/keto/Contract#name> '' @ [CHR 0x27] @
           cm_contract_name msg @ [CHR 0x27] @ ''^^<http://www.w3.org/2001/XMLSchema#string> . '' @
           ''?contract <http://keto-coin.io/schema/rdf/1.0/keto/Contract#value> ?code . } ''
      else ''SELECT ?code WHERE { ?contract <http://keto-coin.io/schema/rdf/1.0/keto/Contract#hash> '' @ [CHR 0x27] @
           cm_account_hash msg @ [CHR 0x27] @ ''^^<http://www.w3.org/2001/XMLSchema#string> . '' @
           ''?contract <http://keto-coin.io/schema/rdf/1.0/keto/Contract#value> ?code . } '')"

definition getContract ::
  "'g rdf_lib \<Rightarrow> AccountInfo \<Rightarrow> contract_message \<Rightarrow> (('txn, 'db, 'g) node, contract_message) prog" where
  "getContract rdf accountInfo msg = with_account_resource
     (sbind (AccountResource_getGraphSession rdf (ai_graph_name accountInfo)) (\<lambda>session.
      sbind (AccountGraphSession_executeQuery rdf session (contract_query msg)) (\<lambda>rows.
        if length rows = 1
        then sreturn (msg\<lparr>cm_contract := (case map_of (rows ! 0) ''code'' of None \<Rightarrow> [] | Some v \<Rightarrow> v)\<rparr>)
        else sthrow UnknownContractException)))"

section \<open>The routing tree of a node\<close>

text \<open>\<open>buildNodeAccountRouting\<close> with the depth of the call stack as fuel: \<open>None\<close> is a stack that
  was not deep enough.\<close>

fun build_children ::
  "nat \<Rightarrow> bytes \<Rightarrow> AccountInfo list \<Rightarrow> AccountInfo list \<Rightarrow> PushAccount \<Rightarrow> PushAccount option" where
  "build_children depth accountHash all [] p = Some p"
| "build_children depth accountHash all (info # infos) p =
     (if accountHash = ai_parent_account_hash info
      then (case depth of
          0 \<Rightarrow> None
        | Suc d \<Rightarrow>
            let child = push_setManagementAccountHash
                  (push_setAccountHash new_PushAccountHelper (ai_account_hash info)) accountHash
            in (case build_children d (ai_account_hash info) all all child of
                None \<Rightarrow> None
              | Some child' \<Rightarrow> build_children depth accountHash all infos (addChildAccount p child')))
      else build_children depth accountHash all infos p)"

definition buildNodeAccountRouting :: "nat \<Rightarrow> bytes \<Rightarrow> AccountInfo list \<Rightarrow> PushAccount \<Rightarrow> PushAccount option" where
  "buildNodeAccountRouting depth accountHash accountInfoVector p =
     build_children depth accountHash accountInfoVector accountInfoVector p"

definition getNodeAccountRouting ::
  "nat \<Rightarrow> ('txn, 'db) rocks \<Rightarrow> 'any account_wire \<Rightarrow> HashHelper \<Rightarrow> RpcPeer \<Rightarrow> (('txn, 'db, 'g) node, RpcPeer option) prog" where
  "getNodeAccountRouting depth rk w accountHash rpcPeer = with_account_resource
     (sbind (AccountResource_getTransaction rk ACCOUNTS_MAPPING) (\<lambda>_.
      sget (\<lambda>p.
        let entries = (case (account_connections p ACCOUNTS_MAPPING, map_of (resource_transactions p) ACCOUNTS_MAPPING) of
              (Some db, Some t) \<Rightarrow> txn_Iterate rk db t | _ \<Rightarrow> []);
            accountInfoVector = map (\<lambda>(k, v). parse_info w (copyVectorToString v)) entries
        in map_option (setPushAccount (peer_setAccountHash rpcPeer accountHash))
             (buildNodeAccountRouting depth accountHash accountInfoVector
               (push_setAccountHash new_PushAccountHelper accountHash)))))"

section \<open>Lemmas on the routing tree\<close>

lemma tree_accounts_addChild [simp]:
  "tree_accounts (addChildAccount p c) = tree_accounts p @ tree_accounts c"
  by (cases p) (simp add: addChildAccount_def)

lemma tree_accounts_new_child [simp]:
  "tree_accounts (push_setManagementAccountHash (push_setAccountHash new_PushAccountHelper a) m) = [(a, m)]"
  by (simp add: push_setManagementAccountHash_def push_setAccountHash_def new_PushAccountHelper_def
      HashHelper_SecureVector_def)

lemma tree_accounts_new [simp]: "tree_accounts (push_setAccountHash new_PushAccountHelper a) = [(a, [])]"
  by (simp add: push_setAccountHash_def new_PushAccountHelper_def HashHelper_SecureVector_def)

text \<open>The parent to child edges of the stored accounts, and the accounts below a hash with their
  parents.\<close>

definition account_edges :: "AccountInfo list \<Rightarrow> (bytes \<times> bytes) set" where
  "account_edges all = {(ai_parent_account_hash i, ai_account_hash i) | i. i \<in> set all}"

definition below :: "AccountInfo list \<Rightarrow> bytes \<Rightarrow> (bytes \<times> bytes) set" where
  "below all h = {(ai_account_hash i, ai_parent_account_hash i) | i. i \<in> set all \<and>
     (h, ai_parent_account_hash i) \<in> (account_edges all)\<^sup>*}"

lemma below_unfold:
  "below all h = (\<Union>i \<in> {i \<in> set all. ai_parent_account_hash i = h}. insert (ai_account_hash i, h) (below all (ai_account_hash i)))"
    (is "_ = ?r")
proof (intro subset_antisym subsetI)
  fix x assume "x \<in> below all h"
  then obtain i where i: "x = (ai_account_hash i, ai_parent_account_hash i)" "i \<in> set all"
    "(h, ai_parent_account_hash i) \<in> (account_edges all)\<^sup>*"
    by (auto simp: below_def)
  from i(3) show "x \<in> ?r"
  proof (cases rule: converse_rtranclE)
    case base
    with i(1,2) show ?thesis by blast
  next
    case (step y)
    then obtain j where "j \<in> set all" "ai_parent_account_hash j = h" "ai_account_hash j = y"
      by (auto simp: account_edges_def)
    moreover have "x \<in> below all y" using i(1,2) step(2) by (auto simp: below_def)
    ultimately show ?thesis by blast
  qed
next
  fix x assume "x \<in> ?r"
  then obtain i where i: "i \<in> set all" "ai_parent_account_hash i = h"
    and x: "x = (ai_account_hash i, h) \<or> x \<in> below all (ai_account_hash i)"
    by blast
  then have "(h, ai_account_hash i) \<in> account_edges all" by (auto simp: account_edges_def)
  with i x show "x \<in> below all h"
    unfolding below_def by (auto intro: converse_rtrancl_into_rtrancl)
qed

lemma build_children_accounts:
  "build_children d h all infos p = Some q \<Longrightarrow> set (tree_accounts q) = set (tree_accounts p) \<union>
     (\<Union>i \<in> {i \<in> set infos. ai_parent_account_hash i = h}. insert (ai_account_hash i, h) (below all (ai_account_hash i)))"
proof (induction d h all infos p arbitrary: q rule: build_children.induct)
  case (1 d h all p)
  then show ?case by simp
next
  case (2 d h all i infos p)
  show ?case
  proof (cases "h = ai_parent_account_hash i")
    case False
    with 2 show ?thesis by auto
  next
    case True
    let ?child = "push_setManagementAccountHash (push_setAccountHash new_PushAccountHelper (ai_account_hash i)) h"
    from True 2(4) obtain d' c where d: "d = Suc d'"
      and c: "build_children d' (ai_account_hash i) all all ?child = Some c"
      and q: "build_children d h all infos (addChildAccount p c) = Some q"
      by (auto simp: Let_def split: nat.splits option.splits)
    have "set (tree_accounts c) = insert (ai_account_hash i, h) (below all (ai_account_hash i))"
      using 2(1) [OF True d refl c] below_unfold [of all "ai_account_hash i"] by simp
    moreover have "set (tree_accounts q) = set (tree_accounts (addChildAccount p c)) \<union>
        (\<Union>i \<in> {i \<in> set infos. ai_parent_account_hash i = h}. insert (ai_account_hash i, h) (below all (ai_account_hash i)))"
      using 2(2) [OF True d refl c q] .
    ultimately show ?thesis using True by auto
  qed
qed

lemma build_children_returns:
  assumes "\<And>i. i \<in> set all \<Longrightarrow> rank (ai_account_hash i) < (rank (ai_parent_account_hash i) :: nat)"
  shows "set infos \<subseteq> set all \<Longrightarrow> rank h \<le> d \<Longrightarrow> build_children d h all infos p \<noteq> None"
  using assms
proof (induction d h all infos p rule: build_children.induct)
  case (1 d h all p)
  then show ?case by simp
next
  case (2 d h all i infos p)
  show ?case
  proof (cases "h = ai_parent_account_hash i")
    case False
    with 2 show ?thesis by auto
  next
    case True
    let ?child = "push_setManagementAccountHash (push_setAccountHash new_PushAccountHelper (ai_account_hash i)) h"
    note rank = 2(6)
    from 2(4) have "i \<in> set all" by simp
    from rank [OF this] have r: "rank (ai_account_hash i) < rank h" unfolding True .
    with 2(5) obtain d' where d: "d = Suc d'" by (cases d) auto
    with r 2(5) have "rank (ai_account_hash i) \<le> d'" by simp
    with 2(1) [OF True d refl _ _ rank] obtain c where c: "build_children d' (ai_account_hash i) all all ?child = Some c"
      by auto
    with 2(2) [OF True d refl c _ _ rank] 2(4,5) True d show ?thesis by (simp add: Let_def)
  qed
qed

lemma self_parent_never_returns:
  assumes "j \<in> set all" and "ai_parent_account_hash j = ai_account_hash j"
  shows "j \<in> set infos \<Longrightarrow> build_children d (ai_account_hash j) all infos p = None"
proof (induction d arbitrary: infos p)
  case 0
  then show ?case using assms(2) by (induction infos arbitrary: p) (auto split: if_splits)
next
  case (Suc d)
  from Suc.prems show ?case
  proof (induction infos arbitrary: p)
    case Nil
    then show ?case by simp
  next
    case (Cons i infos)
    show ?case
    proof (cases "i = j")
      case True
      with Suc.IH [OF assms(1)] assms(2) show ?thesis by (simp add: Let_def)
    next
      case False
      with Cons have "build_children (Suc d) (ai_account_hash j) all infos p = None" for p by auto
      then show ?thesis by (auto simp: Let_def split: option.splits)
    qed
  qed
qed

section \<open>Properties\<close>

text \<open>C15: the routing tree of a node is complete. If the stored accounts form a forest (each
  account ranks below its parent), building the tree of an account returns, the rank bounds the
  depth of the recursion, and the tree has exactly the accounts that descend from it, each with
  its parent as its management account.\<close>

theorem routing_tree_complete:
  assumes "\<forall>i \<in> set accounts. rank (ai_account_hash i) < (rank (ai_parent_account_hash i) :: nat)"
    and "rank h \<le> depth"
  shows "\<exists>tree. buildNodeAccountRouting depth h accounts (push_setAccountHash new_PushAccountHelper h) = Some tree \<and>
    set (tree_accounts tree) = insert (h, []) {(ai_account_hash i, ai_parent_account_hash i) | i.
      i \<in> set accounts \<and> (h, ai_parent_account_hash i) \<in>
        {(ai_parent_account_hash j, ai_account_hash j) | j. j \<in> set accounts}\<^sup>*}"
proof -
  let ?p = "push_setAccountHash new_PushAccountHelper h"
  obtain tree where tree: "build_children depth h accounts accounts ?p = Some tree"
    using build_children_returns [of accounts rank accounts h depth ?p] assms by auto
  have "set (tree_accounts tree) = insert (h, []) (below accounts h)"
    using build_children_accounts [OF tree] below_unfold [of accounts h] by simp
  with tree show ?thesis
    by (simp add: buildNodeAccountRouting_def below_def account_edges_def)
qed

text \<open>An account that is its own parent makes the routing tree infinite: no stack is deep
  enough for \<open>buildNodeAccountRouting\<close> of that account.\<close>

theorem self_parent_overflows:
  assumes "info \<in> set accounts" and "ai_parent_account_hash info = ai_account_hash info"
  shows "buildNodeAccountRouting depth (ai_account_hash info) accounts p = None"
  unfolding buildNodeAccountRouting_def using assms(1,2,1) by (rule self_parent_never_returns)

section \<open>Transactions on the account store\<close>

definition account_store_ready :: "('txn, 'db, 'g) node \<Rightarrow> bool" where
  "account_store_ready s \<longleftrightarrow> transactionWrapper s = None \<and> accountResourcePtr (account_part (stores s)) = None \<and>
     account_connections (account_part (stores s)) ACCOUNTS_MAPPING \<noteq> None"

lemma resource_views [simp]:
  "resource_transactions (p\<lparr>accountResourcePtr := Some r\<rparr>) = transactionMap r"
  "resource_sessions (p\<lparr>accountResourcePtr := Some r\<rparr>) = sessionMap r"
  by (simp_all add: resource_transactions_def resource_sessions_def)

lemma account_commit_plain:
  assumes "accountResourcePtr q = Some r" and "sessionMap r = []"
  shows "AccountResourceManager_commit rk rdf q = (Inr (), q\<lparr>accountResourcePtr := None,
    account_connections := commit_each rk (transactionMap r) (account_connections q)\<rparr>)"
  using assms
  by (simp add: AccountResourceManager_commit_def AccountResource_commit_def prog_defs update_resource_def
      end_sessions_def resource_sessions_def resource_transactions_def)

lemma account_transaction:
  assumes ready: "account_store_ready s"
    and m: "m ((account_part (stores s))\<lparr>accountResourcePtr := Some \<lparr>transactionMap = [], sessionMap = []\<rparr>\<rparr>) = (Inr a, q)"
    and q: "accountResourcePtr q = Some r" "sessionMap r = []"
  shows "in_transaction (node_resources rk rdf) (with_account_resource m) s =
    (Inr a, s\<lparr>stores := (stores s)\<lparr>account_part := snd (AccountResourceManager_commit rk rdf q)\<rparr>\<rparr>)"
proof -
  have "with_account_resource m (s\<lparr>transactionWrapper := Some []\<rparr>) =
      (Inr a, s\<lparr>transactionWrapper := Some [AccountResources], stores := (stores s)\<lparr>account_part := q\<rparr>\<rparr>)"
    using ready m by (simp add: with_account_resource_def AccountResourceManager_getResource_def prog_defs
        on_stores_def on_account_def enlistResource_def TransactionWrapper_enlist_def account_store_ready_def)
  with ready show ?thesis
    by (simp add: in_transaction_def tx_defs prog_defs on_stores_def on_account_def node_resources_def
        account_commit_plain [OF q] account_store_ready_def)
qed

lemma account_getTransaction_first:
  assumes "accountResourcePtr p = Some \<lparr>transactionMap = [], sessionMap = []\<rparr>" and "account_connections p n = Some db"
  shows "AccountResource_getTransaction rk n p = (Inr (), p\<lparr>accountResourcePtr :=
    Some \<lparr>transactionMap = [(n, BeginTransaction rk db)], sessionMap = []\<rparr>\<rparr>)"
  using assms by (simp add: AccountResource_getTransaction_def open_transaction_def getConnection_def map_set_def)

text \<open>C16: an account that was written can be read back. After \<open>setAccountInfo\<close> in one transaction,
  \<open>getAccountInfo\<close> in a later one returns the account for its hash, and every other hash still has
  the account it had.\<close>

theorem account_info_roundtrip:
  fixes s :: "('txn, 'db, 'g) node" and rk :: "('txn, 'db) rocks" and rdf :: "'g rdf_lib"
  assumes "rocks_ok rk" and "account_wire_ok w" and "account_store_ready s"
  shows "\<exists>t. in_transaction (node_resources rk rdf) (setAccountInfo rk w h info) s = (Inr (), t) \<and>
    account_store_ready t \<and>
    fst (in_transaction (node_resources rk rdf) (getAccountInfo rk w h) t) = Inr (Some info) \<and>
    (\<forall>h'. h' \<noteq> h \<longrightarrow> fst (in_transaction (node_resources rk rdf) (getAccountInfo rk w h') t) =
       fst (in_transaction (node_resources rk rdf) (getAccountInfo rk w h') s))"
proof -
  let ?p = "account_part (stores s)"
  obtain db where db: "account_connections ?p ACCOUNTS_MAPPING = Some db"
    using assms(3) by (auto simp: account_store_ready_def)
  let ?v = "SliceHelper_of_string (serialize_info w info)"
  let ?t = "txn_Put rk (SliceHelper_of_vector (copyFromSecure h)) ?v (BeginTransaction rk db)"
  let ?q = "?p\<lparr>accountResourcePtr := Some \<lparr>transactionMap = [(ACCOUNTS_MAPPING, ?t)], sessionMap = []\<rparr>\<rparr>"
  let ?s = "s\<lparr>stores := (stores s)\<lparr>account_part := snd (AccountResourceManager_commit rk rdf ?q)\<rparr>\<rparr>"
  have get: "fst (in_transaction (node_resources rk rdf) (getAccountInfo rk w h') u) =
      Inr (map_option (\<lambda>v. parse_info w (copyVectorToString v)) (account_stored rk (account_part (stores u)) ACCOUNTS_MAPPING h'))"
    if ready: "account_store_ready u" for u :: "('txn, 'db, 'g) node" and h'
  proof -
    obtain d where d: "account_connections (account_part (stores u)) ACCOUNTS_MAPPING = Some d"
      using ready by (auto simp: account_store_ready_def)
    show ?thesis
      unfolding getAccountInfo_def
      by (subst account_transaction [OF ready, where r = "\<lparr>transactionMap = [(ACCOUNTS_MAPPING,
             BeginTransaction rk d)], sessionMap = []\<rparr>"],
          simp add: sbind_def sget_def account_getTransaction_first d,
          simp_all add: account_Get_def transaction_Get_def d
           account_stored_def connection_Get_def db_Get_def SliceHelper_of_vector_def)
  qed
  have set: "in_transaction (node_resources rk rdf) (setAccountInfo rk w h info) s = (Inr (), ?s)"
    unfolding setAccountInfo_def
    by (rule account_transaction [OF assms(3), where r = "\<lparr>transactionMap = [(ACCOUNTS_MAPPING, ?t)], sessionMap = []\<rparr>"])
       (simp_all add: sbind_def smodify_def account_getTransaction_first db account_Put_def update_resource_def
         transaction_Put_def)
  have ready: "account_store_ready ?s"
    using assms(3) db by (simp add: account_store_ready_def account_commit_plain commit_each_def)
  have "account_wf ?q" "account_opened ?q ACCOUNTS_MAPPING"
    using db by (simp_all add: account_wf_def account_opened_def)
  then have stored: "account_stored rk (account_part (stores ?s)) ACCOUNTS_MAPPING h' =
      (if h' = h then Some ?v else account_stored rk ?p ACCOUNTS_MAPPING h')" for h'
    using acc.stored_commit [OF assms(1), of ?q rdf] db rocks_okD(1) [OF assms(1)]
    by (simp add: account_Get_def transaction_Get_def account_stored_def connection_Get_def db_Get_def
        SliceHelper_of_vector_def)
  obtain t where t: "in_transaction (node_resources rk rdf) (setAccountInfo rk w h info) s = (Inr (), t)"
    and ready_t: "account_store_ready t"
    and stored_t: "\<And>h'. account_stored rk (account_part (stores t)) ACCOUNTS_MAPPING h' =
      (if h' = h then Some ?v else account_stored rk ?p ACCOUNTS_MAPPING h')"
    using set ready stored by blast
  then show ?thesis
    using assms(2) by (intro exI [of _ t]) (simp add: get [OF ready_t] get [OF assms(3)]
        account_wire_ok_def)
qed

text \<open>The graph cache confuses stores. Looking a store up by its name caches it under
  \<open>base_graph\<close>: from then on the base graph's session is one of that other store, and a statement
  persisted in it goes to the other graph while the base graph keeps its contents.\<close>

theorem graph_lookup_hijacks_base_graph:
  assumes "graph_base_dir p \<noteq> None" and "graphs p name = None" and "graph_data p name = Some g"
    and "name \<noteq> BASE_GRAPH" and "statement_of (getSubject subject) (getPredicate predicate) obj = Inr st"
    and "listObjects predicate = [obj]" and "getPredicates subject = [predicate]"
  shows "\<exists>q. manager_lookup rdf name p = (Inr (Some name), q) \<and>
    manager_lookup rdf BASE_GRAPH q = (Inr (Some name), q) \<and>
    (\<forall>active. \<exists>r. AccountGraphSession_persist rdf \<lparr>session_store = name, activeTransaction = active\<rparr> subject q = (Inr (), r) \<and>
       graph_data r name = Some (librdf_model_add_statement rdf st g) \<and>
       graph_data r BASE_GRAPH = graph_data p BASE_GRAPH)"
proof -
  let ?q = "p\<lparr>graphs := (graphs p)(BASE_GRAPH \<mapsto> name)\<rparr>"
  from assms(1) obtain d where d: "graph_base_dir p = Some d" by auto
  have "manager_lookup rdf name p = (Inr (Some name), ?q)"
    using assms(2,3) d by (simp add: manager_lookup_def prog_defs store_checkForDb_def
        new_AccountGraphStore_def cache_graph_def)
  moreover have "manager_lookup rdf BASE_GRAPH ?q = (Inr (Some name), ?q)"
    by (simp add: manager_lookup_def prog_defs)
  moreover have "\<forall>active. \<exists>r. AccountGraphSession_persist rdf
       \<lparr>session_store = name, activeTransaction = active\<rparr> subject ?q = (Inr (), r) \<and>
       graph_data r name = Some (librdf_model_add_statement rdf st g) \<and>
       graph_data r BASE_GRAPH = graph_data p BASE_GRAPH"
    using assms(3-7) by (simp add: AccountGraphSession_persist_def prog_defs update_graph_def)
  ultimately show ?thesis by blast
qed


section \<open>Witnesses\<close>

definition plain_info :: "byte \<Rightarrow> byte \<Rightarrow> AccountInfo" where
  "plain_info h parent = empty_AccountInfo\<lparr>ai_account_hash := [h], ai_parent_account_hash := [parent]\<rparr>"

theorem routing_tree_complete_witness:
  "\<exists>tree. buildNodeAccountRouting 2 [1] [plain_info 2 1, plain_info 3 2] (push_setAccountHash new_PushAccountHelper [1]) = Some tree \<and>
     ([2], [1]) \<in> set (tree_accounts tree)"
proof -
  define rank :: "bytes \<Rightarrow> nat" where "rank h = (if h = [1] then 2 else if h = [2] then 1 else 0)" for h
  have ranked: "\<forall>i \<in> set [plain_info 2 1, plain_info 3 2].
      rank (ai_account_hash i) < rank (ai_parent_account_hash i)"
    by (auto simp: rank_def plain_info_def)
  have "rank [1] \<le> 2" by (simp add: rank_def)
  from routing_tree_complete [of "[plain_info 2 1, plain_info 3 2]" rank "[1]" 2, OF ranked this] show ?thesis
    by (elim exE conjE) (intro exI conjI, assumption, simp only:, rule insertI2, rule CollectI,
        rule exI [of _ "plain_info 2 1"], simp add: plain_info_def)
qed

theorem self_parent_overflows_witness:
  "buildNodeAccountRouting 1000 [7] [plain_info 2 1, plain_info 7 7] new_PushAccountHelper = None"
  using self_parent_overflows [of "plain_info 7 7" "[plain_info 2 1, plain_info 7 7]" 1000 new_PushAccountHelper]
  by (simp add: plain_info_def)

definition plain_account_wire :: "'any account_wire" where
  "plain_account_wire = \<lparr>
     serialize_info = (\<lambda>i. pack_fields [show_int (sint (ai_version i)), copyVectorToString (ai_account_hash i),
       copyVectorToString (ai_parent_account_hash i), ai_account_type i, ai_graph_name i]),
     parse_info = (\<lambda>s. case unpack_fields s of
         [v, a, p, t, g] \<Rightarrow> \<lparr>ai_version = word_of_int (atol v), ai_account_hash = copyStringToVector a,
           ai_parent_account_hash = copyStringToVector p, ai_account_type = t, ai_graph_name = g\<rparr>
       | _ \<Rightarrow> empty_AccountInfo),
     extract_RDFModel = (\<lambda>a. Inl Asn1DecodeError)\<rparr>"

lemma plain_account_wire_ok: "account_wire_ok plain_account_wire"
  by (simp add: account_wire_ok_def plain_account_wire_def atol_show_int)

definition account_node :: "(plain_db, plain_db, nat) node" where
  "account_node = \<lparr>transactionWrapper = None, stores = \<lparr>
     block_part = \<lparr>block_connections = (\<lambda>_. Some []), blockResourcePtr = None, parentBlock = [], blockCount = - 1\<rparr>,
     account_part = \<lparr>account_connections = (\<lambda>_. Some []), accountResourcePtr = None,
       graph_base_dir = Some ''graphs'', graph_data = [''abc'' \<mapsto> 0, ''base_graph'' \<mapsto> 5], graphs = (\<lambda>_. None)\<rparr>,
     router_part = \<lparr>router_connections = (\<lambda>_. Some []), routerResourcePtr = None\<rparr>\<rparr>\<rparr>"

text \<open>A graph that only counts its statements.\<close>

definition counting_rdf :: "nat rdf_lib" where
  "counting_rdf = \<lparr>librdf_new = 0, librdf_model_add_statement = (\<lambda>st g. g + 1),
     librdf_model_remove_statement = (\<lambda>st g. g - 1), librdf_model_transaction_start = (\<lambda>g. (True, g)),
     librdf_model_transaction_commit = (\<lambda>g. (False, g)), librdf_model_transaction_rollback = (\<lambda>g. (False, g)),
     query_to_string = (\<lambda>g q. None), query_bindings = (\<lambda>g q. None)\<rparr>"

lemma account_node_ready: "account_store_ready account_node"
  by (simp add: account_store_ready_def account_node_def)

theorem account_info_roundtrip_witness:
  "\<exists>t. in_transaction (node_resources plain_rocks counting_rdf) (setAccountInfo plain_rocks (plain_account_wire :: unit account_wire) [1] (plain_info 1 0))
        account_node = (Inr (), t) \<and>
     fst (in_transaction (node_resources plain_rocks counting_rdf) (getAccountInfo plain_rocks (plain_account_wire :: unit account_wire) [1]) t) =
       Inr (Some (plain_info 1 0))"
  using account_info_roundtrip [of plain_rocks "plain_account_wire :: unit account_wire" account_node counting_rdf
      "[1]" "plain_info 1 0", OF plain_rocks_ok plain_account_wire_ok account_node_ready]
  by (elim exE conjE) (intro exI conjI, assumption+)

theorem graph_lookup_hijacks_base_graph_witness:
  "\<exists>q. manager_lookup counting_rdf ''abc'' (account_part (stores account_node)) = (Inr (Some ''abc''), q) \<and>
     manager_lookup counting_rdf BASE_GRAPH q = (Inr (Some ''abc''), q)"
proof -
  let ?o = "RDFObjectHelper_of_value ''v'' ''t''"
  let ?p = "addObject (RDFPredicateHelper_of_string ''p'') ?o"
  let ?s = "addPredicate (RDFSubjectHelper_of_string ''s'') ?p"
  have "graph_base_dir (account_part (stores account_node)) \<noteq> None"
    "graphs (account_part (stores account_node)) ''abc'' = None"
    "graph_data (account_part (stores account_node)) ''abc'' = Some 0" "''abc'' \<noteq> BASE_GRAPH"
    by (simp_all add: account_node_def BASE_GRAPH_def)
  moreover have "listObjects ?p = [?o]" "getPredicates ?s = [?p]"
    "statement_of (getSubject ?s) (getPredicate ?p) ?o = Inr (''s'', ''p'', Typed_literal ''v'' ''t'')"
    by (simp_all add: listObjects_def addObject_def RDFPredicateHelper_of_string_def RDFObjectHelper_object_def
        RDFObjectHelper_of_object_def RDFObjectHelper_of_value_def c_str_def LITERAL_def RDF_LANGUAGE_def
        getPredicates_def addPredicate_def RDFSubjectHelper_of_string_def statement_of_def getSubject_def getPredicate_def)
  ultimately show ?thesis
    using graph_lookup_hijacks_base_graph [of "account_part (stores account_node)" "''abc''" 0 ?s ?p ?o _ counting_rdf] by blast
qed


end
