(* ===== verification/RouterDb.thy ===== *)
theory RouterDb
  imports Storage RouterUtils
begin

text \<open>
  The routing table, \<open>libs/router_db/RouterStore.cpp\<close>: for each account the hash of the account that
  manages it, filled from the push account trees of the peers.
\<close>

definition ROUTER_INDEX :: string where "ROUTER_INDEX = ''routes''"

definition with_router_resource ::
  "(('txn, 'db) router_part, 'a) prog \<Rightarrow> (('txn, 'db, 'g) node, 'a) prog" where
  "with_router_resource m = sbind RouterResourceManager_getResource (\<lambda>_. on_stores (on_router m))"

definition getAccountRouting ::
  "('txn, 'db) rocks \<Rightarrow> routing_wire \<Rightarrow> HashHelper \<Rightarrow> (('txn, 'db, 'g) node, AccountRoutingStore option) prog" where
  "getAccountRouting rk w accountHash = with_router_resource
     (sbind (RouterResource_getTransaction rk ROUTER_INDEX) (\<lambda>_.
      sget (\<lambda>p. map_option (\<lambda>v. parse_routing w (copyVectorToString v))
        (router_Get rk p ROUTER_INDEX (SliceHelper_of_vector (copyFromSecure accountHash))))))"

definition setAccountRouting ::
  "('txn, 'db) rocks \<Rightarrow> routing_wire \<Rightarrow> HashHelper \<Rightarrow> AccountRoutingStore \<Rightarrow> (('txn, 'db, 'g) node, unit) prog" where
  "setAccountRouting rk w accountHash routing = with_router_resource
     (sbind (RouterResource_getTransaction rk ROUTER_INDEX) (\<lambda>_.
      smodify (router_Put rk ROUTER_INDEX (SliceHelper_of_vector (copyFromSecure accountHash))
        (SliceHelper_of_string (serialize_routing w routing)))))"

text \<open>The entry \<open>pushAccountRouting\<close> writes for one account of the tree.\<close>

definition routing_entry :: "routing_wire \<Rightarrow> bytes \<Rightarrow> bytes" where
  "routing_entry w management = SliceHelper_of_string (routing_toString w
     (routing_setManagementAccountHash new_AccountRoutingStoreHelper management))"

text \<open>The recursion over the children, with the resource and the transaction looked up again for
  every account.\<close>

fun pushAccountRouting ::
  "('txn, 'db) rocks \<Rightarrow> routing_wire \<Rightarrow> PushAccount \<Rightarrow> (('txn, 'db, 'g) node, unit) prog"
and push_children ::
  "('txn, 'db) rocks \<Rightarrow> routing_wire \<Rightarrow> PushAccount list \<Rightarrow> (('txn, 'db, 'g) node, unit) prog" where
  "pushAccountRouting rk w (PushAccount v a m cs) =
     sbind (with_router_resource (sbind (RouterResource_getTransaction rk ROUTER_INDEX) (\<lambda>_.
        smodify (router_Put rk ROUTER_INDEX (SliceHelper_of_vector a) (routing_entry w m)))))
     (\<lambda>_. push_children rk w cs)"
| "push_children rk w [] = sreturn ()"
| "push_children rk w (c # cs) = sbind (pushAccountRouting rk w c) (\<lambda>_. push_children rk w cs)"

section \<open>The effect of pushing a tree\<close>

text \<open>Within a transaction in which the routing table has been opened.\<close>

definition routing_open :: "('txn, 'db, 'g) node \<Rightarrow> bool" where
  "routing_open s \<longleftrightarrow> router_opened (router_part (stores s)) ROUTER_INDEX"

lemma routing_openD:
  assumes "routing_open s"
  obtains tm db t where "routerResourcePtr (router_part (stores s)) = Some tm"
    "router_connections (router_part (stores s)) ROUTER_INDEX = Some db" "map_of tm ROUTER_INDEX = Some t"
  using assms by (auto simp: routing_open_def router_opened_def split: option.splits)

lemma getTransaction_opened:
  "routerResourcePtr p = Some tm \<Longrightarrow> map_of tm n = Some t \<Longrightarrow> RouterResource_getTransaction rk n p = (Inr (), p)"
  by (cases p) (simp add: RouterResource_getTransaction_def open_transaction_def)

lemma with_router_open:
  assumes "routing_open s"
  shows "with_router_resource (sbind (RouterResource_getTransaction rk ROUTER_INDEX) (\<lambda>_. m)) s =
    (case m (router_part (stores s)) of (r, q) \<Rightarrow> (r, s\<lparr>stores := (stores s)\<lparr>router_part := q\<rparr>\<rparr>))"
proof -
  from routing_openD [OF assms] obtain tm db t where
    "routerResourcePtr (router_part (stores s)) = Some tm" "map_of tm ROUTER_INDEX = Some t" by metis
  then show ?thesis
    by (simp add: with_router_resource_def RouterResourceManager_getResource_def prog_defs on_stores_def
        on_router_def getTransaction_opened split: prod.splits)
qed

lemma router_part_update [simp]:
  "s\<lparr>stores := (stores s)\<lparr>router_part := router_part (stores s)\<rparr>\<rparr> = s"
  by simp

definition update_router ::
  "(('txn, 'db) router_part \<Rightarrow> ('txn, 'db) router_part) \<Rightarrow> ('txn, 'db, 'g) node \<Rightarrow> ('txn, 'db, 'g) node" where
  "update_router f s = s\<lparr>stores := (stores s)\<lparr>router_part := f (router_part (stores s))\<rparr>\<rparr>"

definition routing_writes :: "routing_wire \<Rightarrow> (bytes \<times> bytes) list \<Rightarrow> (string \<times> bytes \<times> bytes) list" where
  "routing_writes w entries = map (\<lambda>(a, m). (ROUTER_INDEX, a, routing_entry w m)) entries"

lemma routing_open_puts:
  "routing_open s \<Longrightarrow> routing_open (update_router (rtr.puts rk ws) s)"
  using rtr.puts_keep [of rk ws "router_part (stores s)"] by (simp add: routing_open_def update_router_def)

lemma update_router_twice:
  "update_router (rtr.puts rk ws) (update_router (rtr.puts rk vs) s) = update_router (rtr.puts rk (vs @ ws)) s"
  by (simp add: update_router_def rtr.puts_def)

lemma push_eq:
  "routing_open s \<Longrightarrow> pushAccountRouting rk w t s =
     (Inr (), update_router (rtr.puts rk (routing_writes w (tree_accounts t))) s)"
  "routing_open s \<Longrightarrow> push_children rk w ts s =
     (Inr (), update_router (rtr.puts rk (routing_writes w (concat (map tree_accounts ts)))) s)"
proof (induction rk w t and rk w ts arbitrary: s and s rule: pushAccountRouting_push_children.induct)
  case (1 rk w v a m cs)
  let ?s = "update_router (rtr.puts rk [(ROUTER_INDEX, a, routing_entry w m)]) s"
  have "routing_open ?s" using 1(2) by (rule routing_open_puts)
  moreover have "with_router_resource (sbind (RouterResource_getTransaction rk ROUTER_INDEX) (\<lambda>_.
        smodify (router_Put rk ROUTER_INDEX (SliceHelper_of_vector a) (routing_entry w m)))) s = (Inr (), ?s)"
    by (simp add: with_router_open [OF 1(2)] smodify_def update_router_def rtr.puts_def)
  ultimately show ?case
    using 1(1) by (simp add: sbind_def update_router_twice routing_writes_def)
next
  case (2 rk w)
  then show ?case by (simp add: sreturn_def update_router_def rtr.puts_def routing_writes_def)
next
  case (3 rk w c cs)
  let ?s = "update_router (rtr.puts rk (routing_writes w (tree_accounts c))) s"
  have "routing_open ?s" using 3(3) by (rule routing_open_puts)
  with 3 show ?case by (simp add: sbind_def update_router_twice routing_writes_def)
qed

lemma getAccountRouting_open:
  assumes "routing_open s"
  shows "getAccountRouting rk w h s =
    (Inr (map_option (\<lambda>v. parse_routing w (copyVectorToString v)) (router_Get rk (router_part (stores s)) ROUTER_INDEX h)), s)"
  by (simp add: getAccountRouting_def with_router_open [OF assms] sget_def)

end
