(* ===== verification/AccountService.thy ===== *)
theory AccountService
  imports AccountDb
begin

text \<open>
  The account module's event handlers, \<open>modules/account_module/AccountService.cpp\<close>. An event's
  payload is the protobuf message it carries; the functions take and return that message.
\<close>

record check_message =
  ck_account_hash :: bytes
  ck_found :: bool

definition service_applyTransaction ::
  "('txn, 'db) rocks \<Rightarrow> 'g rdf_lib \<Rightarrow> text_codecs \<Rightarrow> 'any account_wire \<Rightarrow>
   ('any, 'tb, 'ab, 'sb) tx_wire \<Rightarrow> 'tb ptransaction \<Rightarrow> (('txn, 'db, 'g) node, 'tb ptransaction) prog" where
  "service_applyTransaction rk rdf codecs w wire transaction =
     sbind (slift (getTransactionMessageHelper wire transaction)) (\<lambda>m.
     sbind (applyTransaction rk rdf codecs w m) (\<lambda>_.
     sreturn transaction))"

definition checkAccount ::
  "('txn, 'db) rocks \<Rightarrow> 'any account_wire \<Rightarrow> check_message \<Rightarrow> (('txn, 'db, 'g) node, check_message) prog" where
  "checkAccount rk w checkForAccount =
     sbind (getAccountInfo rk w (HashHelper_of_string (copyVectorToString (ck_account_hash checkForAccount)))) (\<lambda>found.
     sreturn (checkForAccount\<lparr>ck_found := (found \<noteq> None)\<rparr>))"

definition service_getNodeAccountRouting ::
  "nat \<Rightarrow> bytes \<Rightarrow> ('txn, 'db) rocks \<Rightarrow> 'any account_wire \<Rightarrow> (('txn, 'db, 'g) node, RpcPeer option) prog" where
  "service_getNodeAccountRouting depth server_account rk w =
     getNodeAccountRouting depth rk w (copyToSecure server_account) new_RpcPeerHelper"

record sparql_message =
  sp_account_hash :: bytes
  sp_query :: string
  sp_result :: string

text \<open>An unknown account leaves the message as it came.\<close>

definition service_sparqlQuery ::
  "('txn, 'db) rocks \<Rightarrow> 'g rdf_lib \<Rightarrow> 'any account_wire \<Rightarrow> sparql_message \<Rightarrow> (('txn, 'db, 'g) node, sparql_message) prog" where
  "service_sparqlQuery rk rdf w msg =
     sbind (getAccountInfo rk w (HashHelper_of_string (copyVectorToString (sp_account_hash msg)))) (\<lambda>found.
       case found of
         None \<Rightarrow> sreturn msg
       | Some accountInfo \<Rightarrow> sbind (sparqlQuery rdf accountInfo (sp_query msg)) (\<lambda>r.
           sreturn (msg\<lparr>sp_result := r\<rparr>)))"

definition service_getContract ::
  "('txn, 'db) rocks \<Rightarrow> 'g rdf_lib \<Rightarrow> 'any account_wire \<Rightarrow> contract_message \<Rightarrow> (('txn, 'db, 'g) node, contract_message) prog" where
  "service_getContract rk rdf w msg =
     sbind (getAccountInfo rk w (HashHelper_of_string (cm_account_hash msg))) (\<lambda>found.
       case found of
         None \<Rightarrow> sreturn msg
       | Some accountInfo \<Rightarrow> getContract rdf accountInfo msg)"

end
