(* ===== verification/Router.thy ===== *)
theory Router
  imports RouterDb AccountService
begin

text \<open>
  The router module, \<open>modules/router_module\<close>: the services registered per account
  (\<open>RouterRegistry\<close>), the peers known to the node (\<open>PeerCache\<close>) and the routing of messages
  (\<open>RouterService\<close>). An event that is triggered goes to the outbox of the model; whether its handler
  throws is a parameter, as are the clock that seeds the choice of a balancer and the node's
  configuration.
\<close>

section \<open>RouterRegistry\<close>

record registry =
  accountServiceMap :: "(bytes \<times> string list) list"
  serviceAccountMap :: "(string \<times> bytes list) list"

definition new_RouterRegistry :: registry where
  "new_RouterRegistry = \<lparr>accountServiceMap = [], serviceAccountMap = []\<rparr>"

definition registerService :: "registry \<Rightarrow> bytes \<Rightarrow> string \<Rightarrow> registry" where
  "registerService this accountHash service =
     (let this1 = this\<lparr>accountServiceMap := (case map_of (accountServiceMap this) accountHash of
            None \<Rightarrow> map_set accountHash [service] (accountServiceMap this)
          | Some services \<Rightarrow> map_set accountHash (set_insert service services) (accountServiceMap this))\<rparr>
      in this1\<lparr>serviceAccountMap := (case map_of (serviceAccountMap this1) service of
            None \<Rightarrow> map_set service [accountHash] (serviceAccountMap this1)
          | Some accounts \<Rightarrow> map_set service (set_insert accountHash accounts) (serviceAccountMap this1))\<rparr>)"

text \<open>The loop of \<open>registerServices\<close> runs from \<open>begin()\<close> while the iterator is not \<open>begin()\<close>: its
  range is \<open>[0..<0]\<close>.\<close>

definition update_service_accounts ::
  "bytes \<Rightarrow> string list \<Rightarrow> nat \<Rightarrow> (string \<times> bytes list) list \<Rightarrow> (string \<times> bytes list) list" where
  "update_service_accounts accountHash serviceSet i m =
     m[i := (fst (m ! i), if fst (m ! i) \<in> set serviceSet then set_insert accountHash (snd (m ! i))
                          else set_erase accountHash (snd (m ! i)))]"

definition registerServices :: "registry \<Rightarrow> bytes \<Rightarrow> string list \<Rightarrow> registry" where
  "registerServices this accountHash services =
     (let serviceSet = set_of_list services; begin_position = 0; end_position = 0
      in this\<lparr>accountServiceMap := map_set accountHash serviceSet (accountServiceMap this),
              serviceAccountMap := fold (update_service_accounts accountHash serviceSet)
                [begin_position..<end_position] (serviceAccountMap this)\<rparr>)"

text \<open>\<open>accountServiceMap[accountHash]\<close> creates an empty entry for an unknown account.\<close>

definition getServices :: "registry \<Rightarrow> bytes \<Rightarrow> string list \<times> registry" where
  "getServices this accountHash = (case map_of (accountServiceMap this) accountHash of
       Some services \<Rightarrow> (services, this)
     | None \<Rightarrow> ([], this\<lparr>accountServiceMap := map_set accountHash [] (accountServiceMap this)\<rparr>))"

definition registry_getAccount :: "nat \<Rightarrow> registry \<Rightarrow> string \<Rightarrow> bytes result" where
  "registry_getAccount generator this service = (case map_of (serviceAccountMap this) service of
       None \<Rightarrow> Inl NoAccountsForServiceException
     | Some accounts \<Rightarrow> if length accounts = 0 then Inl NoAccountsForServiceException
         else Inr (accounts ! (generator mod length accounts)))"

definition isServiceLocal :: "bytes \<Rightarrow> registry \<Rightarrow> string \<Rightarrow> bool" where
  "isServiceLocal server_account this service = (case map_of (accountServiceMap this) server_account of
       None \<Rightarrow> False | Some services \<Rightarrow> service \<in> set services)"

definition isAccountLocal :: "bytes \<Rightarrow> bytes \<Rightarrow> bool" where
  "isAccountLocal server_account accountHash \<longleftrightarrow> server_account = accountHash"

section \<open>PeerCache\<close>

type_synonym peer_cache = "(bytes \<times> RpcPeer) list"

definition addPeer :: "peer_cache \<Rightarrow> RpcPeer \<Rightarrow> peer_cache" where
  "addPeer this rpcPeerHelper = map_set (peer_getAccountHashBytes rpcPeerHelper) rpcPeerHelper this"

definition getPeer :: "peer_cache \<Rightarrow> bytes \<Rightarrow> RpcPeer \<times> peer_cache" where
  "getPeer this accountHash = (case map_of this accountHash of
       Some peer \<Rightarrow> (peer, this)
     | None \<Rightarrow> (new_RpcPeerHelper, map_set accountHash new_RpcPeerHelper this))"

definition peer_contains :: "peer_cache \<Rightarrow> bytes \<Rightarrow> bool" where
  "peer_contains this accountHash \<longleftrightarrow> map_of this accountHash \<noteq> None"

section \<open>RouterService\<close>

datatype router_event = BALANCER_MESSAGE | RPC_SEND_MESSAGE | RPC_SERVER_TRANSACTION | RPC_CLIENT_TRANSACTION

record ('txn, 'db, 'g, 'ab) router_world =
  router_node :: "('txn, 'db, 'g) node"
  router_registry :: registry
  router_peers :: peer_cache
  outbox :: "(router_event \<times> 'ab MessageWrapper) list"

record ('txn, 'db, 'any, 'tb, 'ab, 'sb) router_env =
  env_rocks :: "('txn, 'db) rocks"
  env_routing :: routing_wire
  env_accounts :: "'any account_wire"
  env_wire :: "('any, 'tb, 'ab, 'sb) tx_wire"
  server_account :: bytes
  fee_account :: bytes
  generator :: nat
  handler_throws :: "router_event \<Rightarrow> 'ab MessageWrapper \<Rightarrow> keto_error option"

definition BALANCE :: string where "BALANCE = ''balance''"

definition on_node :: "(('txn, 'db, 'g) node, 'a) prog \<Rightarrow> (('txn, 'db, 'g, 'ab) router_world, 'a) prog" where
  "on_node m w = (case m (router_node w) of (r, n) \<Rightarrow> (r, w\<lparr>router_node := n\<rparr>))"

definition router_triggerEvent ::
  "('txn, 'db, 'any, 'tb, 'ab, 'sb) router_env \<Rightarrow> router_event \<Rightarrow> 'ab MessageWrapper \<Rightarrow>
   (('txn, 'db, 'g, 'ab) router_world, unit) prog" where
  "router_triggerEvent E event mw = (case handler_throws E event mw of
       Some e \<Rightarrow> sthrow e
     | None \<Rightarrow> smodify (\<lambda>w. w\<lparr>outbox := outbox w @ [(event, mw)]\<rparr>))"

text \<open>The block both \<open>routeLocal\<close> and \<open>routeToAccount\<close> repeat: hand the message to a balancer.\<close>

definition route_to_balancer ::
  "('txn, 'db, 'any, 'tb, 'ab, 'sb) router_env \<Rightarrow> 'ab MessageWrapper \<Rightarrow>
   (('txn, 'db, 'g, 'ab) router_world, unit) prog" where
  "route_to_balancer E messageWrapper =
     (let mw1 = wrapper_setOperation messageWrapper MESSAGE_BALANCE
      in sbind (sget (\<lambda>w. registry_getAccount (generator E) (router_registry w) BALANCE)) (\<lambda>account.
         sbind (slift account) (\<lambda>accountHashVector.
         let mw2 = mw1\<lparr>mw_account_hash := accountHashVector\<rparr> in
         if isAccountLocal (server_account E) accountHashVector
         then router_triggerEvent E BALANCER_MESSAGE mw2
         else router_triggerEvent E RPC_SEND_MESSAGE mw2)))"

definition routeLocal ::
  "('txn, 'db, 'any, 'tb, 'ab, 'sb) router_env \<Rightarrow> 'ab MessageWrapper \<Rightarrow>
   (('txn, 'db, 'g, 'ab) router_world, unit) prog" where
  "routeLocal E messageWrapper =
     (let transaction = wrapper_getTransaction (env_wire E) messageWrapper;
          operation = mw_message_operation messageWrapper
      in if pt_status transaction = DEBIT \<or> pt_status transaction = INIT
         then (if operation = MESSAGE_INIT \<or> operation = MESSAGE_ROUTE then route_to_balancer E messageWrapper
               else if operation = MESSAGE_BALANCE then router_triggerEvent E BALANCER_MESSAGE messageWrapper
               else if operation = MESSAGE_BLOCK then sreturn ()
               else if operation = MESSAGE_PROCESS then sreturn ()
               else sreturn ())
         else if pt_status transaction = CREDIT
         then (if operation = MESSAGE_INIT \<or> operation = MESSAGE_ROUTE then route_to_balancer E messageWrapper
               else if operation = MESSAGE_BALANCE then router_triggerEvent E BALANCER_MESSAGE messageWrapper
               else if operation = MESSAGE_BLOCK then sreturn ()
               else if operation = MESSAGE_PROCESS then sreturn ()
               else sreturn ())
         else sreturn ())"

definition routeToAccount ::
  "('txn, 'db, 'any, 'tb, 'ab, 'sb) router_env \<Rightarrow> 'ab MessageWrapper \<Rightarrow>
   (('txn, 'db, 'g, 'ab) router_world, unit) prog" where
  "routeToAccount E messageWrapper =
     (let transaction = wrapper_getTransaction (env_wire E) messageWrapper;
          operation = mw_message_operation messageWrapper
      in if pt_status transaction = DEBIT \<or> pt_status transaction = INIT
         then (if operation = MESSAGE_INIT \<or> operation = MESSAGE_ROUTE then route_to_balancer E messageWrapper
               else sreturn ())
         else if pt_status transaction = CREDIT
         then (if operation = MESSAGE_ROUTE then route_to_balancer E messageWrapper else sreturn ())
         else sreturn ())"

text \<open>Both swallow every exception of the handler.\<close>

definition routeToRpcPeer ::
  "('txn, 'db, 'any, 'tb, 'ab, 'sb) router_env \<Rightarrow> 'ab MessageWrapper \<Rightarrow>
   (('txn, 'db, 'g, 'ab) router_world, unit) prog" where
  "routeToRpcPeer E messageWrapper =
     scatch (router_triggerEvent E RPC_CLIENT_TRANSACTION messageWrapper) (\<lambda>e. sreturn ())"

definition routeToRpcClient ::
  "('txn, 'db, 'any, 'tb, 'ab, 'sb) router_env \<Rightarrow> 'ab MessageWrapper \<Rightarrow> RpcPeer \<Rightarrow>
   (('txn, 'db, 'g, 'ab) router_world, unit) prog" where
  "routeToRpcClient E messageWrapper rpcPeerHelper =
     (if \<not> isServer rpcPeerHelper
      then let mw1 = messageWrapper\<lparr>mw_account_hash := copyStringToVector (peer_getAccountHashString rpcPeerHelper)\<rparr>
           in scatch (router_triggerEvent E RPC_SERVER_TRANSACTION mw1) (\<lambda>e. sreturn ())
      else routeToRpcPeer E messageWrapper)"

text \<open>The \<open>while\<close> loop of \<open>routeMessage\<close>, up to and including the statements after it. Nothing in
  the body changes what the condition reads; \<open>None\<close> is a call that does not return.\<close>

partial_function (option) route_by_table ::
  "('txn, 'db, 'any, 'tb, 'ab, 'sb) router_env \<Rightarrow> HashHelper \<Rightarrow> 'ab MessageWrapper \<Rightarrow>
   ('txn, 'db, 'g, 'ab) router_world \<Rightarrow> (string result \<times> ('txn, 'db, 'g, 'ab) router_world) option" where
  "route_by_table E accountHash messageWrapper s =
     (case on_node (getAccountRouting (env_rocks E) (env_routing E) accountHash) s of
        (Inl e, s1) \<Rightarrow> Some (Inl e, s1)
      | (Inr None, s1) \<Rightarrow> Some (sbind (routeToRpcPeer E messageWrapper) (\<lambda>_. sreturn ''to peer'') s1)
      | (Inr (Some accountRouting), s1) \<Rightarrow>
          (let manager = routing_getManagementAccountHashBytes accountRouting
           in if peer_contains (router_peers s1) manager
              then (case getPeer (router_peers s1) manager of
                  (peer, peers) \<Rightarrow> Some (sbind (routeToRpcClient E messageWrapper peer) (\<lambda>_. sreturn ''routed'')
                     (s1\<lparr>router_peers := peers\<rparr>)))
              else route_by_table E accountHash messageWrapper s1))"

definition routeMessage ::
  "('txn, 'db, 'any, 'tb, 'ab, 'sb) router_env \<Rightarrow> 'ab MessageWrapper \<Rightarrow>
   ('txn, 'db, 'g, 'ab) router_world \<Rightarrow> (string result \<times> ('txn, 'db, 'g, 'ab) router_world) option" where
  "routeMessage E messageWrapper s =
     (let accountHash = HashHelper_of_string (copyVectorToString (mw_account_hash messageWrapper))
      in if copyFromSecure (HashHelper_SecureVector accountHash) = server_account E
         then Some (sbind (routeLocal E messageWrapper) (\<lambda>_. sreturn ''local'') s)
         else (case on_node (checkAccount (env_rocks E) (env_accounts E)
                   \<lparr>ck_account_hash = mw_account_hash messageWrapper, ck_found = False\<rparr>) s of
             (Inl e, s1) \<Rightarrow> Some (Inl e, s1)
           | (Inr checkForAccount, s1) \<Rightarrow>
               if ck_found checkForAccount
               then Some (sbind (routeToAccount E messageWrapper) (\<lambda>_. sreturn ''found'') s1)
               else route_by_table E accountHash messageWrapper s1))"

definition registerRpcPeer ::
  "('txn, 'db, 'any, 'tb, 'ab, 'sb) router_env \<Rightarrow> RpcPeer \<Rightarrow> (('txn, 'db, 'g, 'ab) router_world, RpcPeer) prog" where
  "registerRpcPeer E rpcPeer =
     sbind (smodify (\<lambda>w. w\<lparr>router_peers := addPeer (router_peers w) rpcPeer\<rparr>)) (\<lambda>_.
     sbind (on_node (pushAccountRouting (env_rocks E) (env_routing E) (getPushAccount rpcPeer))) (\<lambda>_.
     sreturn rpcPeer))"

definition service_registerService ::
  "bytes \<Rightarrow> string \<Rightarrow> (('txn, 'db, 'g, 'ab) router_world, unit) prog" where
  "service_registerService account service_name =
     smodify (\<lambda>w. w\<lparr>router_registry := registerService (router_registry w) account service_name\<rparr>)"

text \<open>The status update of \<open>updateStateRouteMessage\<close>: the condition of the \<open>else if\<close> increments a
  second time.\<close>

definition update_state ::
  "bytes \<Rightarrow> 'any TransactionMessage_t \<Rightarrow> 'any TransactionMessage_t" where
  "update_state fee m =
     (case incrementStatus m of (status, m1) \<Rightarrow>
        if status = Status_processing then snd (incrementStatus m1)
        else (case incrementStatus m1 of (status2, m2) \<Rightarrow>
          if status2 = Status_fee then setFeeAccount m2 (copyToSecure fee) else m2))"

definition update_wrapper ::
  "('txn, 'db, 'any, 'tb, 'ab, 'sb) router_env \<Rightarrow> 'ab MessageWrapper \<Rightarrow> 'ab MessageWrapper result" where
  "update_wrapper E messageWrapper =
     (let transactionProtoHelper = wrapper_getTransaction (env_wire E) messageWrapper
      in rbind (getTransactionMessageHelper (env_wire E) transactionProtoHelper) (\<lambda>m.
         case TransactionProtoHelper_setTransaction (env_wire E) (update_state (fee_account E) m) transactionProtoHelper of
           (Inl e, t) \<Rightarrow> Inl e
         | (Inr _, t) \<Rightarrow> (case wrapper_setTransaction (env_wire E) t messageWrapper of
             (Inl e, w) \<Rightarrow> Inl e
           | (Inr _, w) \<Rightarrow> Inr (wrapper_setOperation w MESSAGE_INIT))))"

definition updateStateRouteMessage ::
  "('txn, 'db, 'any, 'tb, 'ab, 'sb) router_env \<Rightarrow> 'ab MessageWrapper \<Rightarrow>
   ('txn, 'db, 'g, 'ab) router_world \<Rightarrow> (string result \<times> ('txn, 'db, 'g, 'ab) router_world) option" where
  "updateStateRouteMessage E messageWrapper s = (case update_wrapper E messageWrapper of
       Inl e \<Rightarrow> Some (Inl e, s)
     | Inr mw \<Rightarrow> routeMessage E mw s)"

section \<open>The registry\<close>

definition services_of :: "registry \<Rightarrow> bytes \<Rightarrow> string list" where
  "services_of r a = (case map_of (accountServiceMap r) a of None \<Rightarrow> [] | Some services \<Rightarrow> services)"

definition accounts_of :: "registry \<Rightarrow> string \<Rightarrow> bytes list" where
  "accounts_of r s = (case map_of (serviceAccountMap r) s of None \<Rightarrow> [] | Some accounts \<Rightarrow> accounts)"

definition registered :: "(bytes \<times> string) set \<Rightarrow> registry \<Rightarrow> bool" where
  "registered R r \<longleftrightarrow> (\<forall>a s. s \<in> set (services_of r a) \<longleftrightarrow> (a, s) \<in> R) \<and>
     (\<forall>a s. a \<in> set (accounts_of r s) \<longleftrightarrow> (a, s) \<in> R)"

lemma registered_new: "registered {} new_RouterRegistry"
  by (simp add: registered_def new_RouterRegistry_def services_of_def accounts_of_def)

lemma registerService_lookups:
  "set (services_of (registerService r a s) b) = (if b = a then insert s (set (services_of r a)) else set (services_of r b))"
  "set (accounts_of (registerService r a s) t) = (if t = s then insert a (set (accounts_of r s)) else set (accounts_of r t))"
  by (auto simp: registerService_def services_of_def accounts_of_def Let_def split: option.splits)

lemma registered_registerService:
  "registered R r \<Longrightarrow> registered (insert (a, s) R) (registerService r a s)"
  by (auto simp: registered_def registerService_lookups)

lemma registry_getAccount_eq:
  "registry_getAccount g r s = (if accounts_of r s = [] then Inl NoAccountsForServiceException
     else Inr (accounts_of r s ! (g mod length (accounts_of r s))))"
  by (simp add: registry_getAccount_def accounts_of_def split: option.splits)

lemma isServiceLocal_eq: "isServiceLocal a r s \<longleftrightarrow> s \<in> set (services_of r a)"
  by (simp add: isServiceLocal_def services_of_def split: option.splits)

lemma registered_fold:
  "registered (R \<union> set regs) (fold (\<lambda>(a, s) r. registerService r a s) regs r)" if "registered R r"
  using that
proof (induction regs arbitrary: R r)
  case Nil
  then show ?case by simp
next
  case (Cons x regs)
  obtain a s where x: "x = (a, s)" by (cases x)
  from Cons.IH [OF registered_registerService [OF Cons.prems, of a s]] show ?case
    by (simp add: x insert_commute Un_commute)
qed

text \<open>A service is handled by the accounts that registered for it. After any sequence of
  \<open>registerService\<close> calls, \<open>getAccount\<close> of a service returns an account that registered it,
  whatever the random number, and throws exactly when none did; \<open>isServiceLocal\<close> tells whether the
  server's own account registered it.\<close>

theorem registry_finds_registered_accounts:
  fixes regs :: "(bytes \<times> string) list"
  defines "r \<equiv> fold (\<lambda>(a, s) r. registerService r a s) regs new_RouterRegistry"
  shows "(case registry_getAccount g r service of
       Inr a \<Rightarrow> (a, service) \<in> set regs
     | Inl e \<Rightarrow> e = NoAccountsForServiceException \<and> (\<forall>a. (a, service) \<notin> set regs)) \<and>
    (isServiceLocal server r service \<longleftrightarrow> (server, service) \<in> set regs)"
proof -
  have reg: "registered (set regs) r"
    unfolding r_def using registered_fold [OF registered_new, of regs] by simp
  then have acc: "a \<in> set (accounts_of r service) \<longleftrightarrow> (a, service) \<in> set regs"
    and serv: "service \<in> set (services_of r server) \<longleftrightarrow> (server, service) \<in> set regs" for a
    by (simp_all add: registered_def)
  have "accounts_of r service \<noteq> [] \<Longrightarrow>
      accounts_of r service ! (g mod length (accounts_of r service)) \<in> set (accounts_of r service)"
    by simp
  with acc serv show ?thesis by (auto simp: registry_getAccount_eq isServiceLocal_eq simp flip: acc)
qed

text \<open>\<open>registerServices\<close> registers nothing that \<open>getAccount\<close> could find. Its loop over the
  services never runs, so the accounts of every service are what they were.\<close>

theorem registerServices_finds_nothing:
  "registry_getAccount g (registerServices r account services) service = registry_getAccount g r service \<and>
   set (fst (getServices (registerServices r account services) account)) = set services"
  by (simp add: registerServices_def registry_getAccount_def getServices_def Let_def)

section \<open>The status update\<close>

lemma update_state_status:
  "getStatus (update_state fee m) = (case getStatus m of
     Status_init \<Rightarrow> Status_credit | Status_debit \<Rightarrow> Status_credit | Status_processing \<Rightarrow> Status_fee
   | Status_credit \<Rightarrow> Status_complete | Status_fee \<Rightarrow> Status_complete | Status_complete \<Rightarrow> Status_complete
   | Status_wating \<Rightarrow> Status_wating)"
  by (cases "tm_currentStatus m")
     (simp_all add: update_state_def incrementStatus_def increment_status_def getStatus_def setFeeAccount_def)

lemma update_state_fee:
  "getStatus m \<noteq> Status_processing \<Longrightarrow> getFeeAccount (update_state fee m) = getFeeAccount m"
  by (cases "tm_currentStatus m")
     (simp_all add: update_state_def incrementStatus_def increment_status_def getStatus_def getFeeAccount_def setFeeAccount_def)

text \<open>C17: a transaction that starts in its initial state is never charged its fee. However often
  the state is updated, the message is never in the fee (or processing) state and its fee account
  is never set: every update moves it two steps, from the initial state to credit and then to
  complete.\<close>

theorem fees_are_never_charged:
  assumes "getStatus m = Status_init \<or> getStatus m = Status_debit"
  shows "getStatus ((update_state fee ^^ n) m) =
      (if n = 0 then getStatus m else if n = 1 then Status_credit else Status_complete) \<and>
    getFeeAccount ((update_state fee ^^ n) m) = getFeeAccount m"
proof (induction n)
  case 0
  then show ?case by simp
next
  case (Suc n)
  let ?m = "(update_state fee ^^ n) m"
  have "getStatus ?m \<noteq> Status_processing" using Suc assms by auto
  then have "getFeeAccount (update_state fee ?m) = getFeeAccount m" using Suc update_state_fee [of ?m] by simp
  moreover have "getStatus (update_state fee ?m) = (if n = 0 then Status_credit else Status_complete)"
    using Suc assms by (auto simp: update_state_status)
  ultimately show ?case by simp
qed

section \<open>Routing by the table\<close>

lemma getAccountRouting_found:
  assumes "routing_open (router_node s)"
    and "router_Get (env_rocks E) (router_part (stores (router_node s))) ROUTER_INDEX h = Some v"
  shows "on_node (getAccountRouting (env_rocks E) (env_routing E) h) s =
    (Inr (Some (parse_routing (env_routing E) (copyVectorToString v))), s)"
  using assms by (simp add: on_node_def getAccountRouting_open)

text \<open>The loop turns for ever: the account has an entry and the account that manages it is no
  known peer.\<close>

definition stuck ::
  "('txn, 'db, 'any, 'tb, 'ab, 'sb) router_env \<Rightarrow> HashHelper \<Rightarrow> ('txn, 'db, 'g, 'ab) router_world \<Rightarrow> bool" where
  "stuck E h s \<longleftrightarrow> routing_open (router_node s) \<and>
     (\<exists>v. router_Get (env_rocks E) (router_part (stores (router_node s))) ROUTER_INDEX h = Some v \<and>
        \<not> peer_contains (router_peers s)
            (ars_management_account_hash (parse_routing (env_routing E) (copyVectorToString v))))"

lemma stuck_found:
  assumes "stuck E h s"
  obtains r where "on_node (getAccountRouting (env_rocks E) (env_routing E) h) s = (Inr (Some r), s)"
    and "\<not> peer_contains (router_peers s) (routing_getManagementAccountHashBytes r)"
  using assms getAccountRouting_found [of s E h]
  by (auto simp: stuck_def routing_getManagementAccountHashBytes_def)

lemma route_by_table_loops:
  assumes "stuck E h s"
  shows "route_by_table E h mw s = None"
proof (rule ccontr)
  assume "route_by_table E h mw s \<noteq> None"
  then obtain y where y: "route_by_table E h mw s = Some y" by blast
  have "\<not> stuck E h s"
  proof (rule route_by_table.raw_induct [where P = "\<lambda>E h mw s y. \<not> stuck E h s", OF _ y], rule notI)
    fix route E h mw s y
    assume IH: "\<And>E h mw s y. route E h mw s = Some y \<Longrightarrow> \<not> stuck E h s" and st: "stuck E h s"
      and step: "(case on_node (getAccountRouting (env_rocks E) (env_routing E) h) s of
        (Inl e, s1) \<Rightarrow> Some (Inl e, s1)
      | (Inr None, s1) \<Rightarrow> Some (sbind (routeToRpcPeer E mw) (\<lambda>_. sreturn ''to peer'') s1)
      | (Inr (Some accountRouting), s1) \<Rightarrow>
          (let manager = routing_getManagementAccountHashBytes accountRouting
           in if peer_contains (router_peers s1) manager
              then (case getPeer (router_peers s1) manager of
                  (peer, peers) \<Rightarrow> Some (sbind (routeToRpcClient E mw peer) (\<lambda>_. sreturn ''routed'')
                     (s1\<lparr>router_peers := peers\<rparr>)))
              else route E h mw s1)) = Some y"
    from st obtain r where "on_node (getAccountRouting (env_rocks E) (env_routing E) h) s = (Inr (Some r), s)"
      and "\<not> peer_contains (router_peers s) (routing_getManagementAccountHashBytes r)"
      by (rule stuck_found)
    with step have "route E h mw s = Some y" by simp
    with IH st show False by blast
  qed
  with assms show False by blast
qed

lemma with_account_keeps_router:
  "router_part (stores (snd (with_account_resource m s))) = router_part (stores s)"
  by (auto simp: with_account_resource_def AccountResourceManager_getResource_def prog_defs on_stores_def
      on_account_def enlistResource_def split: prod.splits sum.splits option.splits)

lemma checkAccount_keeps_router:
  "router_part (stores (snd (checkAccount rk w c s))) = router_part (stores s)"
proof -
  let ?m = "sbind (AccountResource_getTransaction rk ACCOUNTS_MAPPING) (\<lambda>_. sget (\<lambda>p.
      map_option (\<lambda>v. parse_info w (copyVectorToString v)) (account_Get rk p ACCOUNTS_MAPPING (ck_account_hash c))))"
  obtain r t where "with_account_resource ?m s = (r, t)" by fastforce
  moreover from this have "router_part (stores t) = router_part (stores s)"
    using with_account_keeps_router [of ?m s] by simp
  ultimately show ?thesis
    by (cases r) (simp_all add: checkAccount_def getAccountInfo_def sbind_def sreturn_def)
qed

text \<open>The table after a peer has been registered.\<close>

lemma pushed_entry:
  assumes "rocks_ok rk" and "routing_open n" and "distinct (map fst (tree_accounts t))"
    and "(a, m) \<in> set (tree_accounts t)"
  shows "router_Get rk (router_part (stores (snd (pushAccountRouting rk w t n)))) ROUTER_INDEX a = Some (routing_entry w m)"
proof -
  let ?p = "router_part (stores n)" let ?es = "tree_accounts t"
  have "\<forall>(i, k, v) \<in> set (routing_writes w ?es). router_opened ?p i"
    using assms(2) by (auto simp: routing_writes_def routing_open_def)
  moreover have "map_of (map (\<lambda>(n, k, v). ((n, k), v)) (rev (routing_writes w ?es))) (ROUTER_INDEX, a) = Some (routing_entry w m)"
    using assms(3,4) by (intro map_of_is_SomeI)
      (force simp: routing_writes_def rev_map comp_def case_prod_unfold distinct_map inj_on_def)+
  ultimately show ?thesis
    using push_eq(1) [OF assms(2), of rk w t] rtr.get_puts [OF assms(1), of "routing_writes w ?es" ?p ROUTER_INDEX a]
    by (simp add: update_router_def case_prod_unfold)
qed

lemma push_keeps_open: "routing_open n \<Longrightarrow> routing_open (snd (pushAccountRouting rk w t n))"
  by (simp add: push_eq routing_open_puts)

lemma parse_routing_entry:
  assumes "routing_wire_ok w"
  shows "ars_management_account_hash (parse_routing w (copyVectorToString (routing_entry w m))) = m"
  using assms by (simp add: routing_wire_ok_def routing_entry_def routing_toString_def routing_setManagementAccountHash_def)

lemma routeMessage_to_table:
  assumes "mw_account_hash mw \<noteq> server_account E"
    and "on_node (checkAccount (env_rocks E) (env_accounts E) \<lparr>ck_account_hash = mw_account_hash mw, ck_found = False\<rparr>) s = (Inr c, s1)"
    and "\<not> ck_found c"
  shows "routeMessage E mw s = route_by_table E (mw_account_hash mw) mw s1"
  using assms by (simp add: routeMessage_def)

lemma registered_peer:
  fixes E :: "('txn, 'db, 'any, 'tb, 'ab, 'sb) router_env" and s :: "('txn, 'db, 'g, 'ab) router_world"
  assumes ok: "rocks_ok (env_rocks E)" "routing_wire_ok (env_routing E)" and open_s: "routing_open (router_node s)"
    and dist: "distinct (map fst (tree_accounts (getPushAccount peer)))"
    and mem: "(a, m) \<in> set (tree_accounts (getPushAccount peer))"
    and t: "registerRpcPeer E peer s = (r, t)"
    and c: "on_node (checkAccount (env_rocks E) (env_accounts E) q) t = (Inr c, u)"
  shows "router_peers u = addPeer (router_peers s) peer \<and> routing_open (router_node u) \<and> outbox u = outbox s \<and>
    router_Get (env_rocks E) (router_part (stores (router_node u))) ROUTER_INDEX a = Some (routing_entry (env_routing E) m)"
proof -
  obtain n where n: "pushAccountRouting (env_rocks E) (env_routing E) (getPushAccount peer) (router_node s) = (Inr (), n)"
    using push_eq(1) [OF open_s] by blast
  then have t: "t = s\<lparr>router_peers := addPeer (router_peers s) peer, router_node := n\<rparr>"
    using t by (simp add: registerRpcPeer_def sbind_def smodify_def on_node_def sreturn_def)
  have "router_part (stores (router_node u)) = router_part (stores n)" "router_peers u = router_peers t" "outbox u = outbox t"
    using c checkAccount_keeps_router [of "env_rocks E" "env_accounts E" q "router_node t"]
    by (auto simp: on_node_def t split: prod.splits)
  moreover have "routing_open n" using push_keeps_open [OF open_s, of "env_rocks E" "env_routing E" "getPushAccount peer"]
    by (simp add: n)
  ultimately show ?thesis
    using pushed_entry [OF ok(1) open_s dist mem, of "env_routing E"] by (simp add: routing_open_def t n)
qed



section \<open>Witnesses\<close>

text \<open>A node whose router table is open in the current transaction, with one peer that manages an
  account below its own.\<close>

definition plain_routing_wire :: routing_wire where
  "plain_routing_wire = \<lparr>
     serialize_routing = (\<lambda>r. pack_fields [show_int (sint (ars_version r)), copyVectorToString (ars_management_account_hash r)]),
     parse_routing = (\<lambda>s. case unpack_fields s of
         [v, m] \<Rightarrow> \<lparr>ars_version = word_of_int (atol v), ars_management_account_hash = copyStringToVector m\<rparr>
       | _ \<Rightarrow> \<lparr>ars_version = 0, ars_management_account_hash = []\<rparr>)\<rparr>"

lemma plain_routing_wire_ok: "routing_wire_ok plain_routing_wire"
  by (simp add: routing_wire_ok_def plain_routing_wire_def atol_show_int)

type_synonym plain_ptx = "unit TransactionMessage_t option ptransaction"

definition plain_router_env ::
  "(plain_db, plain_db, unit, unit TransactionMessage_t option, plain_ptx, plain_ptx) router_env" where
  "plain_router_env = \<lparr>env_rocks = plain_rocks, env_routing = plain_routing_wire, env_accounts = plain_account_wire,
     env_wire = plain_wire, server_account = [9], fee_account = [8], generator = 7, handler_throws = (\<lambda>_ _. None)\<rparr>"

definition plain_router_world :: "(plain_db, plain_db, nat, plain_ptx) router_world" where
  "plain_router_world = \<lparr>router_node = \<lparr>transactionWrapper = Some [AccountResources, RouterResources], stores = \<lparr>
       block_part = block_part (stores account_node), account_part = (account_part (stores account_node))
         \<lparr>accountResourcePtr := Some \<lparr>transactionMap = [(ACCOUNTS_MAPPING, [])], sessionMap = []\<rparr>\<rparr>,
       router_part = \<lparr>router_connections = (\<lambda>_. Some []), routerResourcePtr = Some [(ROUTER_INDEX, [])]\<rparr>\<rparr>\<rparr>,
     router_registry = new_RouterRegistry, router_peers = [], outbox = []\<rparr>"

definition plain_peer :: RpcPeer where
  "plain_peer = \<lparr>rpc_version = 1, rpc_account_hash = [1], rpc_server = False,
     rpc_accountInfo = Some (PushAccount 1 [1] [] [PushAccount 1 [2] [1] []])\<rparr>"

definition plain_mw :: "byte \<Rightarrow> plain_ptx MessageWrapper" where
  "plain_mw a = new_MessageWrapper\<lparr>mw_account_hash := [a]\<rparr>"

lemma plain_router_facts:
  "rocks_ok (env_rocks plain_router_env)" "routing_wire_ok (env_routing plain_router_env)"
  "routing_open (router_node plain_router_world)"
  "tree_accounts (getPushAccount plain_peer) = [([1], []), ([2], [1])]" "peer_getAccountHashBytes plain_peer = [1]"
  "\<not> peer_contains [] []" "server_account plain_router_env = [9]"
  "mw_account_hash (plain_mw a) = [a]" "\<not> isServer plain_peer" "handler_throws plain_router_env e mw = None"
  "router_peers plain_router_world = []"
  by (simp_all add: plain_router_env_def plain_rocks_ok plain_routing_wire_ok plain_router_world_def
      routing_open_def router_opened_def plain_peer_def getPushAccount_def peer_getAccountHashBytes_def
      peer_contains_def plain_mw_def isServer_def)

lemma plain_unknown:
  fixes n :: "(plain_db, plain_db, nat) node"
  assumes "accountResourcePtr (account_part (stores n)) = Some \<lparr>transactionMap = [(ACCOUNTS_MAPPING, [])], sessionMap = []\<rparr>"
    and "account_connections (account_part (stores n)) = (\<lambda>_. Some [])"
  shows "checkAccount plain_rocks (plain_account_wire :: unit account_wire) \<lparr>ck_account_hash = [a], ck_found = False\<rparr> n =
    (Inr \<lparr>ck_account_hash = [a], ck_found = False\<rparr>, n)"
proof -
  let ?m = "sbind (AccountResource_getTransaction plain_rocks ACCOUNTS_MAPPING) (\<lambda>_. sget (\<lambda>p.
      map_option (\<lambda>v. parse_info (plain_account_wire :: unit account_wire) (copyVectorToString v))
        (account_Get plain_rocks p ACCOUNTS_MAPPING [a])))"
  obtain p where p: "account_part (stores n) = p" by blast
  have "?m p = (Inr None, p)"
    using assms by (simp add: p sbind_def sget_def AccountResource_getTransaction_def open_transaction_def
        account_Get_def transaction_Get_def plain_rocks_def)
  then have "with_account_resource ?m n = (Inr None, n)"
    using assms(1) by (simp add: with_account_resource_def AccountResourceManager_getResource_def sbind_def sget_def
        sreturn_def on_stores_def on_account_def p)
  then show ?thesis by (simp add: checkAccount_def getAccountInfo_def sbind_def sreturn_def)
qed

lemma plain_check:
  obtains r t c u where "registerRpcPeer plain_router_env plain_peer plain_router_world = (r, t)"
    and "on_node (checkAccount (env_rocks plain_router_env) (env_accounts plain_router_env)
           \<lparr>ck_account_hash = [a], ck_found = False\<rparr>) t = (Inr c, u)" and "\<not> ck_found c"
proof -
  let ?w = "plain_router_world\<lparr>router_peers := addPeer [] plain_peer\<rparr>"
  obtain n where n: "pushAccountRouting plain_rocks plain_routing_wire (getPushAccount plain_peer) (router_node plain_router_world) = (Inr (), n)"
    and eq: "n = update_router (rtr.puts plain_rocks (routing_writes plain_routing_wire (tree_accounts (getPushAccount plain_peer))))
        (router_node plain_router_world)"
    using push_eq(1) [OF plain_router_facts(3)] by blast
  have "checkAccount plain_rocks (plain_account_wire :: unit account_wire) \<lparr>ck_account_hash = [a], ck_found = False\<rparr> n =
      (Inr \<lparr>ck_account_hash = [a], ck_found = False\<rparr>, n)"
    by (rule plain_unknown) (simp_all add: eq update_router_def plain_router_world_def account_node_def)
  then have "on_node (checkAccount (env_rocks plain_router_env) (env_accounts plain_router_env)
      \<lparr>ck_account_hash = [a], ck_found = False\<rparr>) (?w\<lparr>router_node := n\<rparr>) =
      (Inr \<lparr>ck_account_hash = [a], ck_found = False\<rparr>, ?w\<lparr>router_node := n, router_node := n\<rparr>)"
    by (simp add: on_node_def plain_router_env_def)
  moreover have "registerRpcPeer plain_router_env plain_peer plain_router_world = (Inr plain_peer, ?w\<lparr>router_node := n\<rparr>)"
    by (simp add: registerRpcPeer_def sbind_def smodify_def on_node_def sreturn_def n plain_router_env_def
        plain_router_facts(11))
  ultimately show ?thesis by (elim that [rotated]) simp
qed

theorem fees_are_never_charged_witness:
  "getStatus ((update_state [8] ^^ 2) sample_message) = Status_complete \<and>
   getFeeAccount ((update_state [8] ^^ 2) sample_message) = getFeeAccount sample_message"
proof -
  have "getStatus sample_message = Status_init \<or> getStatus sample_message = Status_debit"
    by (simp add: sample_message_def TransactionMessageHelper_of_signed_def getStatus_def)
  from fees_are_never_charged [OF this, where fee = "[8]" and n = 2] show ?thesis by simp
qed



end
