(* ===== verification/RDFMemory.thy ===== *)
theory RDFMemory
  imports Storage Rdf
begin

text \<open>
  The in-memory RDF store a contract reads and writes, \<open>libs/wavm_common/RDFMemorySession.cpp\<close>. The
  librdf model with its storage "memory" is the parameter \<open>rdf_memory\<close> on graphs of type \<open>'g\<close>;
  the C library's float and time conversions are the parameter \<open>c_library\<close>, on floats of type \<open>'f\<close>.
\<close>

section \<open>The libraries\<close>

record 'g rdf_memory =
  mem_new :: 'g
  mem_add :: "rdf_statement \<Rightarrow> 'g \<Rightarrow> 'g"
  mem_targets :: "'g \<Rightarrow> string \<Rightarrow> string \<Rightarrow> rdf_object list"
  mem_query :: "'g \<Rightarrow> string \<Rightarrow> (string list \<times> rdf_object list list) option option"

text \<open>\<open>strftime\<close> is called on a \<open>struct tm\<close> that was never written; \<open>stack_time\<close> is the text it
  makes of it.\<close>

record 'f c_library =
  show_float :: "'f \<Rightarrow> string"
  atof :: "string \<Rightarrow> 'f"
  stack_time :: string
  parse_time :: "string \<Rightarrow> c_long"

text \<open>The targets of a subject and a predicate: a statement added where there is none becomes the
  only one, the first one stays the first, and other subjects and predicates are not touched.\<close>

definition memory_ok :: "'g rdf_memory \<Rightarrow> bool" where
  "memory_ok M \<longleftrightarrow>
     (\<forall>g s p obj. mem_targets M g s p = [] \<longrightarrow> mem_targets M (mem_add M (s, p, obj) g) s p = [obj]) \<and>
     (\<forall>g s p obj t ts. mem_targets M g s p = t # ts \<longrightarrow> (\<exists>us. mem_targets M (mem_add M (s, p, obj) g) s p = t # us)) \<and>
     (\<forall>g s p obj s' p'. (s', p') \<noteq> (s, p) \<longrightarrow> mem_targets M (mem_add M (s, p, obj) g) s' p' = mem_targets M g s' p') \<and>
     (\<forall>s p. mem_targets M (mem_new M) s p = [])"

definition STRING_TYPE :: string where "STRING_TYPE = ''http://www.w3.org/2001/XMLSchema#string''"
definition LONG_TYPE :: string where "LONG_TYPE = ''http://www.w3.org/2001/XMLSchema#decimal''"
definition FLOAT_TYPE :: string where "FLOAT_TYPE = ''http://www.w3.org/2001/XMLSchema#float''"
definition BOOLEAN_TYPE :: string where "BOOLEAN_TYPE = ''http://www.w3.org/2001/XMLSchema#Boolean''"
definition DATE_TIME_TYPE :: string where "DATE_TIME_TYPE = ''http://www.w3.org/2001/XMLSchema#dateTime''"

section \<open>Reading\<close>

text \<open>The literal value of a node is null for a URI, and a \<open>std::string\<close> is made of it.\<close>

definition literal_value :: "rdf_object \<Rightarrow> string result" where
  "literal_value obj = (case obj of Typed_literal v dt \<Rightarrow> Inr v | Uri_node u \<Rightarrow> Inl NullPointerDereference)"

definition first_target :: "'g rdf_memory \<Rightarrow> 'g \<Rightarrow> string \<Rightarrow> string \<Rightarrow> string result" where
  "first_target M model subject predicate = (case mem_targets M model (c_str subject) (c_str predicate) of
       [] \<Rightarrow> Inl UnsupportedDataTypeTransactionException
     | target # _ \<Rightarrow> literal_value target)"

definition getStringValue :: "'g rdf_memory \<Rightarrow> 'g \<Rightarrow> string \<Rightarrow> string \<Rightarrow> string result" where
  "getStringValue M model subject predicate = first_target M model subject predicate"

text \<open>The result of \<open>atol\<close> is not defined outside the range of \<open>long\<close>.\<close>

definition getLongValue :: "'g rdf_memory \<Rightarrow> 'g \<Rightarrow> string \<Rightarrow> string \<Rightarrow> c_long result" where
  "getLongValue M model subject predicate = rbind (first_target M model subject predicate)
     (\<lambda>v. if long_range (atol v) then Inr (word_of_int (atol v)) else Inl UndefinedBehaviour)"

definition getFloatValue :: "'f c_library \<Rightarrow> 'g rdf_memory \<Rightarrow> 'g \<Rightarrow> string \<Rightarrow> string \<Rightarrow> 'f result" where
  "getFloatValue C M model subject predicate = rmap (atof C) (first_target M model subject predicate)"

definition to_lower :: "char \<Rightarrow> char" where
  "to_lower c = (if of_char c \<ge> (65 :: nat) \<and> of_char c \<le> (90 :: nat) then char_of (of_char c + (32 :: nat)) else c)"

text \<open>\<open>result.compare("true")\<close> is zero when the strings are equal.\<close>

definition getBooleanValue :: "'g rdf_memory \<Rightarrow> 'g \<Rightarrow> string \<Rightarrow> string \<Rightarrow> bool result" where
  "getBooleanValue M model subject predicate = rmap
     (\<lambda>v. let result = map to_lower v; resultBool = False in if result \<noteq> ''true'' then True else resultBool)
     (first_target M model subject predicate)"

definition getDateTimeValue :: "'f c_library \<Rightarrow> 'g rdf_memory \<Rightarrow> 'g \<Rightarrow> string \<Rightarrow> string \<Rightarrow> c_long result" where
  "getDateTimeValue C M model subject predicate = rmap (parse_time C) (first_target M model subject predicate)"

section \<open>Writing\<close>

definition add_literal :: "'g rdf_memory \<Rightarrow> string \<Rightarrow> string \<Rightarrow> string \<Rightarrow> string \<Rightarrow> 'g \<Rightarrow> 'g" where
  "add_literal M subject predicate v dataType model =
     mem_add M (c_str subject, c_str predicate, Typed_literal (c_str v) dataType) model"

definition setStringValue :: "'g rdf_memory \<Rightarrow> string \<Rightarrow> string \<Rightarrow> string \<Rightarrow> 'g \<Rightarrow> 'g" where
  "setStringValue M subject predicate v = add_literal M subject predicate v STRING_TYPE"

definition setLongValue :: "'g rdf_memory \<Rightarrow> string \<Rightarrow> string \<Rightarrow> c_long \<Rightarrow> 'g \<Rightarrow> 'g" where
  "setLongValue M subject predicate v = add_literal M subject predicate (show_int (sint v)) LONG_TYPE"

definition setFloatValue :: "'f c_library \<Rightarrow> 'g rdf_memory \<Rightarrow> string \<Rightarrow> string \<Rightarrow> 'f \<Rightarrow> 'g \<Rightarrow> 'g" where
  "setFloatValue C M subject predicate v = add_literal M subject predicate (show_float C v) FLOAT_TYPE"

definition boolean_text :: "bool \<Rightarrow> string" where
  "boolean_text v = (if v then ''true'' else ''false'')"

definition setBooleanValue :: "'g rdf_memory \<Rightarrow> string \<Rightarrow> string \<Rightarrow> bool \<Rightarrow> 'g \<Rightarrow> 'g" where
  "setBooleanValue M subject predicate v = add_literal M subject predicate (boolean_text v) BOOLEAN_TYPE"

text \<open>The buffer that \<open>strftime\<close> fills from the uninitialised \<open>tstruct\<close>; the time that
  \<open>localtime_r\<close> has put into \<open>result\<close> is not used.\<close>

definition setDateTimeValue :: "'f c_library \<Rightarrow> 'g rdf_memory \<Rightarrow> string \<Rightarrow> string \<Rightarrow> c_long \<Rightarrow> 'g \<Rightarrow> 'g" where
  "setDateTimeValue C M subject predicate v = add_literal M subject predicate (stack_time C) DATE_TIME_TYPE"

definition memory_statement :: "string \<Rightarrow> string \<Rightarrow> RDFObject \<Rightarrow> rdf_statement result" where
  "memory_statement subject predicate obj =
     (if ro_type obj = LITERAL
      then Inr (c_str subject, c_str predicate, Typed_literal (c_str (ro_value obj)) (c_str (ro_dataType obj)))
      else if ro_type obj = URI then Inr (c_str subject, c_str predicate, Uri_node (c_str (ro_value obj)))
      else Inl UnsupportedDataTypeTransactionException)"

definition memory_persist :: "'g rdf_memory \<Rightarrow> RDFSubject \<Rightarrow> ('g, unit) prog" where
  "memory_persist M subject =
     sfor (getPredicates subject) (\<lambda>predicateHelper. sfor (listObjects predicateHelper) (\<lambda>objectHelper.
       sbind (slift (memory_statement (getSubject subject) (getPredicate predicateHelper) objectHelper)) (\<lambda>st.
       smodify (mem_add M st))))"

text \<open>\<open>executeQuery\<close>: no results, results that are no bindings, or the rows of the bindings.\<close>

definition memory_executeQuery :: "'g rdf_memory \<Rightarrow> 'g \<Rightarrow> string \<Rightarrow> (string \<times> string) list list result" where
  "memory_executeQuery M model queryStr = (case mem_query M model (c_str queryStr) of
       None \<Rightarrow> Inr []
     | Some None \<Rightarrow> Inr []
     | Some (Some (names, rows)) \<Rightarrow> rfold (\<lambda>row resultVectorMap.
         rmap (\<lambda>resultMap. resultVectorMap @ [resultMap])
           (rfold (\<lambda>(n, node) resultMap. rmap (\<lambda>v. map_set n v resultMap) (literal_value node)) (zip names row) []))
         rows [])"

section \<open>What is written is read\<close>

lemma memory_okD:
  assumes "memory_ok M"
  shows "mem_targets M g s p = [] \<Longrightarrow> mem_targets M (mem_add M (s, p, obj) g) s p = [obj]"
    and "mem_targets M g s p = t # ts \<Longrightarrow> \<exists>us. mem_targets M (mem_add M (s, p, obj) g) s p = t # us"
    and "(s', p') \<noteq> (s, p) \<Longrightarrow> mem_targets M (mem_add M (s, p, obj) g) s' p' = mem_targets M g s' p'"
    and "mem_targets M (mem_new M) s p = []"
  using assms unfolding memory_ok_def by blast+

lemma first_target_add:
  assumes "memory_ok M"
  shows "first_target M (add_literal M s p v dt g) s' p' =
    (if c_str s' = c_str s \<and> c_str p' = c_str p \<and> mem_targets M g (c_str s) (c_str p) = [] then Inr (c_str v)
     else first_target M g s' p')"
proof (cases "c_str s' = c_str s \<and> c_str p' = c_str p")
  case True
  show ?thesis
  proof (cases "mem_targets M g (c_str s) (c_str p)")
    case Nil
    then show ?thesis using True memory_okD(1) [OF assms Nil]
      by (simp add: first_target_def add_literal_def literal_value_def)
  next
    case (Cons t ts)
    then show ?thesis using True memory_okD(2) [OF assms Cons, of "Typed_literal (c_str v) dt"]
      by (auto simp: first_target_def add_literal_def)
  qed
next
  case False
  then show ?thesis using memory_okD(3) [OF assms, of "c_str s'" "c_str p'" "c_str s" "c_str p"]
    by (auto simp: first_target_def add_literal_def)
qed

lemma c_str_idem [simp]: "CHR 0x00 \<notin> set s \<Longrightarrow> c_str s = s"
  by (auto simp: c_str_def takeWhile_eq_all_conv)

end
