(* ===== verification/WavmUtils.thy ===== *)
theory WavmUtils
  imports Text "HOL-Library.Signed_Division"
begin

text \<open>
  Strings at the border of the contract engine, \<open>libs/wavm_common/WavmUtils.cpp\<close> and
  \<open>RDFURLUtils.cpp\<close>. The linear memory of a contract is a function from 32 bit addresses to bytes;
  \<open>memoryRef\<close> and its bounds belong to WAVM.
\<close>

section \<open>RDFURLUtils\<close>

record RDFURL =
  modelBaseUrl :: string
  modelName :: string

text \<open>\<open>npos\<close> is stored in an \<open>int\<close>, \<open>-1\<close>: without a \<open>#\<close> both parts are the whole url.\<close>

definition RDFURLUtils :: "string \<Rightarrow> RDFURL" where
  "RDFURLUtils url = (case find_from url ''#'' 0 of
       None \<Rightarrow> \<lparr>modelBaseUrl = url, modelName = url\<rparr>
     | Some pos \<Rightarrow> \<lparr>modelBaseUrl = take pos url, modelName = drop (pos + 1) url\<rparr>)"

definition getModelName :: "RDFURL \<Rightarrow> string" where
  "getModelName this = modelName this"

definition getModelBaseUrl :: "RDFURL \<Rightarrow> string" where
  "getModelBaseUrl this = modelBaseUrl this"

definition buildSubjectUrl :: "RDFURL \<Rightarrow> string \<Rightarrow> string" where
  "buildSubjectUrl this i = modelBaseUrl this @ ''#'' @ modelName this @ ''/'' @ i"

definition buildPredicateUrl :: "RDFURL \<Rightarrow> string \<Rightarrow> string" where
  "buildPredicateUrl this predicate = modelBaseUrl this @ ''#'' @ predicate"

section \<open>Strings in the memory of a contract\<close>

type_synonym wasm_memory = "c_int \<Rightarrow> byte"

text \<open>\<open>readCString\<close> reads up to the first NUL. \<open>None\<close> is a call that does not return, when the
  memory has no NUL.\<close>

partial_function (option) read_c_chars ::
  "wasm_memory \<Rightarrow> c_int \<Rightarrow> string \<Rightarrow> c_int \<Rightarrow> string option" where
  "read_c_chars memory stringAddress returnString index =
     (let c = memory (stringAddress + index)
      in if c = 0 then Some returnString
         else read_c_chars memory stringAddress (returnString @ [byte_char c]) (index + 1))"

definition readCString :: "wasm_memory \<Rightarrow> c_int \<Rightarrow> string option" where
  "readCString memory stringAddress = read_c_chars memory stringAddress [] 0"

text \<open>A TypeScript string has its length in four base 100 digits, of which the reader looks at
  three, and two bytes for each character. A \<open>char\<close> is signed.\<close>

definition typescript_size :: "wasm_memory \<Rightarrow> c_int \<Rightarrow> int" where
  "typescript_size memory a = sint (memory a) + sint (memory (a + 1)) * 100 + sint (memory (a + 2)) * 10000"

definition readTypeScriptString :: "wasm_memory \<Rightarrow> c_int \<Rightarrow> string" where
  "readTypeScriptString memory stringAddress =
     fold (\<lambda>index returnString.
         let c = memory (stringAddress + 4 + of_nat index)
         in if c \<noteq> 0 then returnString @ [byte_char c] else returnString)
       [0..<nat (typescript_size memory stringAddress * 2)] []"

fun size_digits :: "nat \<Rightarrow> int \<Rightarrow> bytes" where
  "size_digits 0 currentValue = []"
| "size_digits (Suc count) currentValue =
     word_of_int (currentValue smod 100) # size_digits count (currentValue sdiv 100)"

definition buildTypeScriptString :: "string \<Rightarrow> bytes" where
  "buildTypeScriptString v =
     size_digits 4 (sint (of_nat (length v) :: c_int)) @ concat (map (\<lambda>c. [char_byte c, 0]) v)"

section \<open>What is written is read\<close>

definition stored_at :: "wasm_memory \<Rightarrow> c_int \<Rightarrow> bytes \<Rightarrow> bool" where
  "stored_at memory a bs \<longleftrightarrow> (\<forall>i < length bs. memory (a + of_nat i) = bs ! i)"

lemma stored_at_Nil [simp]: "stored_at m a []"
  by (simp add: stored_at_def)

lemma stored_at_Cons [simp]: "stored_at m a (b # bs) \<longleftrightarrow> m a = b \<and> stored_at m (a + 1) bs"
  by (simp add: stored_at_def All_less_Suc2 add.assoc [symmetric])

lemma stored_at_append:
  "stored_at m a (bs @ cs) \<longleftrightarrow> stored_at m a bs \<and> stored_at m (a + of_nat (length bs)) cs"
  by (induction bs arbitrary: a) (simp_all add: add.assoc)

lemma read_loop_eq:
  "fold (\<lambda>i acc. let c = m (b + of_nat i) in if c \<noteq> 0 then acc @ [byte_char c] else acc) [0..<n] acc =
    acc @ map byte_char (filter (\<lambda>c. c \<noteq> 0) (map (\<lambda>i. m (b + of_nat i)) [0..<n]))"
  by (induction n) (simp_all add: Let_def)

lemma stored_bytes:
  assumes "stored_at m b bs" and "n \<le> length bs"
  shows "map (\<lambda>i. m (b + of_nat i)) [0..<n] = take n bs"
  using assms by (auto simp: stored_at_def intro: nth_equalityI)

lemma filter_wide:
  "CHR 0x00 \<notin> set v \<Longrightarrow>
    filter (\<lambda>c. c \<noteq> 0) (take (k * 2) (concat (map (\<lambda>c. [char_byte c, 0]) v))) = map char_byte (take k v)"
proof (induction v arbitrary: k)
  case Nil
  then show ?case by simp
next
  case (Cons c v)
  have "char_byte c \<noteq> 0"
  proof
    assume "char_byte c = 0"
    then have "c = byte_char 0" by (metis byte_char_char_byte)
    then show False using Cons.prems by (simp add: byte_char_def char_of_def)
  qed
  with Cons show ?case by (cases k) simp_all
qed

lemma smod_sdiv_nonneg: "0 \<le> n \<Longrightarrow> n smod 100 = n mod 100 \<and> n sdiv 100 = (n div 100 :: int)"
  by (auto simp: signed_modulo_int_def signed_divide_int_def sgn_if)

lemma sint_digit: "0 \<le> d \<Longrightarrow> d < 100 \<Longrightarrow> sint (word_of_int d :: byte) = d"
  by (simp add: signed_of_int signed_take_bit_int_eq_self)

lemma base_100: "n mod 100 + n div 100 mod 100 * 100 + n div 100 div 100 mod 100 * 10000 = n mod (1000000 :: int)"
  by (simp add: zmod_zmult2_eq [of 10000 n 100, simplified] zmod_zmult2_eq [of 100 "n div 100" 100, simplified])

lemma stored_size:
  assumes "stored_at m a (size_digits 4 n)" and "0 \<le> n"
  shows "typescript_size m a = n mod 1000000"
proof -
  have "size_digits 4 n = [word_of_int (n mod 100), word_of_int (n div 100 mod 100),
      word_of_int (n div 100 div 100 mod 100), word_of_int (n div 100 div 100 div 100 mod 100)]"
    using assms(2) by (simp add: numeral_eq_Suc smod_sdiv_nonneg)
  with assms(1) show ?thesis
    by (simp add: typescript_size_def sint_digit add.assoc base_100 [symmetric])
qed

text \<open>C37: a string that is built for a contract and read back from its memory comes back, up to
  the length the reader can see. The builder writes four digits of the length and the reader adds
  up three: a string of a million characters or more is cut to its length modulo a million.\<close>

theorem typescript_string_roundtrip:
  assumes "stored_at memory a (buildTypeScriptString v)" and "CHR 0x00 \<notin> set v" and "length v < 2 ^ 31"
  shows "readTypeScriptString memory a = take (length v mod 1000000) v"
proof -
  let ?n = "length v" let ?k = "?n mod 1000000" let ?wide = "concat (map (\<lambda>c. [char_byte c, 0]) v)"
  have n: "sint (of_nat ?n :: c_int) = int ?n"
    using assms(3) by (simp add: signed_of_nat signed_take_bit_int_eq_self)
  have "length (size_digits 4 (int ?n)) = 4" by (simp add: numeral_eq_Suc)
  with assms(1) have size: "stored_at memory a (size_digits 4 (int ?n))" and chars: "stored_at memory (a + 4) ?wide"
    by (simp_all add: buildTypeScriptString_def stored_at_append n)
  have "typescript_size memory a = int ?k" using stored_size [OF size] by (simp add: zmod_int)
  then have "nat (typescript_size memory a * 2) = ?k * 2" by simp
  moreover have "length ?wide = ?n * 2" by (induction v) simp_all
  moreover have "?k \<le> ?n" by simp
  ultimately show ?thesis
    using assms(2) by (simp add: readTypeScriptString_def read_loop_eq stored_bytes [OF chars] filter_wide)
qed

theorem typescript_string_roundtrip_witness:
  "readTypeScriptString (\<lambda>i. buildTypeScriptString ''debit'' ! unat i) 0 = ''debit''"
proof -
  have "length (buildTypeScriptString ''debit'') = 14"
    by (simp add: buildTypeScriptString_def numeral_eq_Suc)
  then have "stored_at (\<lambda>i. buildTypeScriptString ''debit'' ! unat i) 0 (buildTypeScriptString ''debit'')"
    by (simp add: stored_at_def unat_of_nat)
  then show ?thesis using typescript_string_roundtrip [of _ 0 "''debit''"] by simp
qed

lemma read_c_chars_prefix:
  "(\<And>i. i < n \<Longrightarrow> memory (a + index + of_nat i) \<noteq> 0) \<Longrightarrow> memory (a + index + of_nat n) = 0 \<Longrightarrow>
    read_c_chars memory a acc index = Some (acc @ map (\<lambda>i. byte_char (memory (a + index + of_nat i))) [0..<n])"
proof (induction n arbitrary: acc index)
  case 0
  then show ?case by (subst read_c_chars.simps) simp
next
  case (Suc n)
  have "read_c_chars memory a (acc @ [byte_char (memory (a + index))]) (index + 1) =
      Some ((acc @ [byte_char (memory (a + index))]) @ map (\<lambda>i. byte_char (memory (a + (index + 1) + of_nat i))) [0..<n])"
    using Suc.prems(1) [of "Suc _"] Suc.prems(2) by (intro Suc.IH) (simp_all add: ac_simps)
  moreover have "memory (a + index) \<noteq> 0" using Suc.prems(1) [of 0] by simp
  moreover have "map (\<lambda>i. byte_char (memory (a + index + of_nat i))) [0..<Suc n] =
      byte_char (memory (a + index)) # map (\<lambda>i. byte_char (memory (a + (index + 1) + of_nat i))) [0..<n]"
    by (simp only: upt_conv_Cons map_Suc_upt [symmetric] zero_less_Suc) (simp add: ac_simps)
  ultimately show ?case by (subst read_c_chars.simps) simp
qed

lemma read_c_chars_loops:
  assumes "\<And>i. memory i \<noteq> 0"
  shows "read_c_chars memory a acc index = None"
proof (rule ccontr)
  assume "read_c_chars memory a acc index \<noteq> None"
  then obtain y where y: "read_c_chars memory a acc index = Some y" by blast
  have "\<not> (\<forall>i. memory i \<noteq> 0)"
  proof (rule read_c_chars.raw_induct [where P = "\<lambda>memory a acc index y. \<not> (\<forall>i. memory i \<noteq> 0)", OF _ y])
    fix read m a acc index y
    assume IH: "\<And>m a acc index y. read m a acc index = Some y \<Longrightarrow> \<not> (\<forall>i. m i \<noteq> 0)"
      and step: "(let c = m (a + index) in if c = 0 then Some acc else read m a (acc @ [byte_char c]) (index + 1)) = Some y"
    show "\<not> (\<forall>i. m i \<noteq> 0)"
    proof (cases "m (a + index) = 0")
      case False
      then have "read m a (acc @ [byte_char (m (a + index))]) (index + 1) = Some y" using step by (simp add: Let_def)
      then show ?thesis by (rule IH)
    qed blast
  qed
  with assms show False by blast
qed

text \<open>\<open>readCString\<close> returns exactly when the memory has a NUL at all, and then the characters
  before the first one at or after the address.\<close>

theorem c_string_up_to_NUL:
  "readCString memory a = (if \<exists>i. memory i = 0
     then Some (map (\<lambda>i. byte_char (memory (a + of_nat i))) [0..<LEAST n. memory (a + of_nat n) = 0]) else None)"
proof (cases "\<exists>i. memory i = 0")
  case True
  then obtain i where i: "memory i = 0" by blast
  have "a + of_nat (unat (i - a)) = i" by simp
  with i have ex: "\<exists>n. memory (a + of_nat n) = 0" by metis
  have "memory (a + of_nat (LEAST n. memory (a + of_nat n) = 0)) = 0" using ex by (rule LeastI_ex)
  moreover have "memory (a + of_nat i) \<noteq> 0" if "i < (LEAST n. memory (a + of_nat n) = 0)" for i
    using not_less_Least [OF that] by simp
  ultimately show ?thesis
    using read_c_chars_prefix [of "LEAST n. memory (a + of_nat n) = 0" memory a 0 "[]"] True by (simp add: readCString_def)
next
  case False
  then show ?thesis by (simp add: readCString_def read_c_chars_loops)
qed

end
