(* ===== verification/Crypto.thy ===== *)
theory Crypto
  imports ByteUtils
begin

text \<open>
  Keys, hashes and signatures, \<open>libs/crypto\<close> and \<open>libs/asn1/SignatureHelper.cpp\<close>. Botan is the
  parameter \<open>botan\<close>: the hash function, the loading of keys from files and from data, signing and
  checking. Its random numbers are left out. The file system is a predicate on paths, with the
  directory of the installation and boost's path concatenation.
\<close>

section \<open>The libraries\<close>

record ('priv, 'pub) botan =
  hash_process :: "bytes \<Rightarrow> bytes"
  load_private_file :: "string \<Rightarrow> 'priv result"
  load_private_data :: "bytes \<Rightarrow> 'priv result"
  load_public_file :: "string \<Rightarrow> 'pub result"
  load_public_data :: "bytes \<Rightarrow> 'pub result"
  sign_message :: "'priv \<Rightarrow> bytes \<Rightarrow> bytes"
  check_signature :: "'pub \<Rightarrow> bytes \<Rightarrow> bytes \<Rightarrow> bool"

record file_system =
  path_exists :: "string \<Rightarrow> bool"
  install_dir :: string
  path_append :: "string \<Rightarrow> string \<Rightarrow> string"

text \<open>A private and a public key belong together: what one signs the other accepts.\<close>

definition key_pair :: "('priv, 'pub) botan \<Rightarrow> 'priv \<Rightarrow> 'pub \<Rightarrow> bool" where
  "key_pair lib priv pub \<longleftrightarrow> (\<forall>m. check_signature lib pub m (sign_message lib priv m))"

section \<open>KeyLoader\<close>

record KeyLoader =
  kl_initialized :: bool
  kl_privateKeyPath :: string
  kl_publicKeyPath :: string

definition new_KeyLoader :: KeyLoader where
  "new_KeyLoader = \<lparr>kl_initialized = False, kl_privateKeyPath = [], kl_publicKeyPath = []\<rparr>"

definition KeyLoader_of_path :: "string \<Rightarrow> KeyLoader" where
  "KeyLoader_of_path publicKeyPath =
     \<lparr>kl_initialized = True, kl_privateKeyPath = [], kl_publicKeyPath = publicKeyPath\<rparr>"

definition KeyLoader_of_public :: "file_system \<Rightarrow> string \<Rightarrow> KeyLoader result" where
  "KeyLoader_of_public fs publicKeyPath =
     (let publicPath = path_append fs (install_dir fs) publicKeyPath
      in if \<not> path_exists fs publicPath then Inl InvalidKeyPathException
         else Inr \<lparr>kl_initialized = True, kl_privateKeyPath = [], kl_publicKeyPath = publicPath\<rparr>)"

definition KeyLoader_of_pair :: "file_system \<Rightarrow> string \<Rightarrow> string \<Rightarrow> KeyLoader result" where
  "KeyLoader_of_pair fs privateKeyPath publicKeyPath =
     (let publicPath = path_append fs (install_dir fs) publicKeyPath
      in if \<not> path_exists fs publicPath then Inl InvalidKeyPathException
         else let privatePath = path_append fs (install_dir fs) privateKeyPath
              in if \<not> path_exists fs privatePath then Inl InvalidKeyPathException
                 else Inr \<lparr>kl_initialized = True, kl_privateKeyPath = privatePath, kl_publicKeyPath = publicPath\<rparr>)"

definition isInitialized :: "KeyLoader \<Rightarrow> bool" where
  "isInitialized this = kl_initialized this"

definition getPrivateKey :: "('priv, 'pub) botan \<Rightarrow> KeyLoader \<Rightarrow> 'priv result" where
  "getPrivateKey lib this =
     (if \<not> isInitialized this then Inl KeyLoaderNotInitializedException
      else if kl_privateKeyPath this = [] then Inl PrivateKeyNotConfiguredException
      else load_private_file lib (kl_privateKeyPath this))"

definition getPublicKey :: "('priv, 'pub) botan \<Rightarrow> KeyLoader \<Rightarrow> 'pub result" where
  "getPublicKey lib this =
     (if \<not> isInitialized this then Inl KeyLoaderNotInitializedException
      else if kl_publicKeyPath this = [] then Inl PublicKeyNotConfiguredException
      else load_public_file lib (kl_publicKeyPath this))"

section \<open>HashGenerator, SignatureGenerator, SignatureVerification\<close>

definition generateHash_secure :: "('priv, 'pub) botan \<Rightarrow> bytes \<Rightarrow> bytes" where
  "generateHash_secure lib v = hash_process lib v"

definition generateHash_vector :: "('priv, 'pub) botan \<Rightarrow> bytes \<Rightarrow> bytes" where
  "generateHash_vector lib v = hash_process lib v"

definition generateHash_string :: "('priv, 'pub) botan \<Rightarrow> string \<Rightarrow> bytes" where
  "generateHash_string lib s = hash_process lib (map char_byte s)"

record SignatureGenerator =
  sg_key :: bytes
  sg_loader :: KeyLoader

definition SignatureGenerator_of_key :: "bytes \<Rightarrow> SignatureGenerator" where
  "SignatureGenerator_of_key key = \<lparr>sg_key = key, sg_loader = new_KeyLoader\<rparr>"

definition SignatureGenerator_of_loader :: "KeyLoader \<Rightarrow> SignatureGenerator" where
  "SignatureGenerator_of_loader loader = \<lparr>sg_key = [], sg_loader = loader\<rparr>"

definition generator_sign :: "('priv, 'pub) botan \<Rightarrow> SignatureGenerator \<Rightarrow> bytes \<Rightarrow> bytes result" where
  "generator_sign lib this v =
     rmap (\<lambda>privateKey. sign_message lib privateKey v)
       (if isInitialized (sg_loader this) then getPrivateKey lib (sg_loader this)
        else load_private_data lib (sg_key this))"

definition generator_sign_secure :: "('priv, 'pub) botan \<Rightarrow> SignatureGenerator \<Rightarrow> bytes \<Rightarrow> bytes result" where
  "generator_sign_secure lib this v =
     rmap (\<lambda>privateKey. sign_message lib privateKey v)
       (if isInitialized (sg_loader this) then getPrivateKey lib (sg_loader this)
        else load_private_data lib (sg_key this))"

record 'pub SignatureVerification =
  sv_publicKey :: "'pub option"
  sv_key :: bytes
  sv_source :: bytes

definition SignatureVerification_of_public :: "'pub \<Rightarrow> bytes \<Rightarrow> 'pub SignatureVerification" where
  "SignatureVerification_of_public publicKey source =
     \<lparr>sv_publicKey = Some publicKey, sv_key = [], sv_source = source\<rparr>"

definition SignatureVerification_of_secure :: "bytes \<Rightarrow> bytes \<Rightarrow> 'pub SignatureVerification" where
  "SignatureVerification_of_secure key source =
     \<lparr>sv_publicKey = None, sv_key = key, sv_source = fold (\<lambda>b acc. acc @ [b]) source []\<rparr>"

definition SignatureVerification_of_vector :: "bytes \<Rightarrow> bytes \<Rightarrow> 'pub SignatureVerification" where
  "SignatureVerification_of_vector key source =
     \<lparr>sv_publicKey = None, sv_key = key, sv_source = source\<rparr>"

definition verification_check ::
  "('priv, 'pub) botan \<Rightarrow> bytes \<Rightarrow> ('pub SignatureVerification, bool) prog" where
  "verification_check lib signature =
     sbind (\<lambda>this. case sv_publicKey this of
         Some k \<Rightarrow> (Inr k, this)
       | None \<Rightarrow> (case load_public_data lib (sv_key this) of
             Inl e \<Rightarrow> (Inl e, this)
           | Inr k \<Rightarrow> (Inr k, this\<lparr>sv_publicKey := Some k\<rparr>))) (\<lambda>k.
     sget (\<lambda>this. check_signature lib k (sv_source this) signature))"

section \<open>SessionHashGenerator\<close>

text \<open>The bytes of an integer in memory, lowest first. The clock and the random number are
  arguments.\<close>

definition le_bytes :: "'a::len word \<Rightarrow> bytes" where
  "le_bytes w = map (\<lambda>i. ucast (drop_bit (8 * i) w)) [0..<LENGTH('a) div 8]"

definition SessionHashGenerator ::
  "('priv, 'pub) botan \<Rightarrow> c_long \<Rightarrow> c_int \<Rightarrow> bytes \<Rightarrow> bytes \<Rightarrow> bytes" where
  "SessionHashGenerator lib microseconds randomNumber clientHash accountHash =
     copyFromSecure (generateHash_vector lib
       (clientHash @ accountHash @ le_bytes microseconds @ le_bytes randomNumber))"

section \<open>SignatureHelper\<close>

type_synonym SignatureHelper = bytes

definition copySignatureToVector :: "bytes \<Rightarrow> bytes \<Rightarrow> bytes" where
  "copySignatureToVector signature vector = fold (\<lambda>b acc. acc @ [b]) signature vector"

definition SignatureHelper_of_vector :: "bytes \<Rightarrow> SignatureHelper" where
  "SignatureHelper_of_vector signature = signature"

definition SignatureHelper_of_signature :: "bytes \<Rightarrow> SignatureHelper" where
  "SignatureHelper_of_signature signature = copySignatureToVector signature []"

text \<open>The loop of \<open>copyFromSecureVector\<close> pushes back: \<open>setSignature\<close> of a base64 string appends to
  the signature the helper holds.\<close>

definition copyFromSecureVector :: "bytes \<Rightarrow> bytes \<Rightarrow> bytes" where
  "copyFromSecureVector secureVector vector = fold (\<lambda>b acc. acc @ [b]) secureVector vector"

definition SignatureHelper_setSignature ::
  "text_codecs \<Rightarrow> SignatureHelper \<Rightarrow> string \<Rightarrow> StringEncoding \<Rightarrow> SignatureHelper result" where
  "SignatureHelper_setSignature lib this s stringEncoding =
     (if stringEncoding = HEX then hex_decode_locked lib s
      else if stringEncoding = BASE64 then rmap (\<lambda>v. copyFromSecureVector v this) (base64_decode lib s)
      else Inl UnsupportedStringFormatException)"

definition SignatureHelper_of_encoded ::
  "text_codecs \<Rightarrow> string \<Rightarrow> StringEncoding \<Rightarrow> SignatureHelper result" where
  "SignatureHelper_of_encoded lib s stringEncoding =
     (if stringEncoding = HEX then hex_decode_locked lib s
      else if stringEncoding = BASE64 then rmap (\<lambda>v. copyFromSecureVector v []) (base64_decode lib s)
      else Inl UnsupportedStringFormatException)"

definition SignatureHelper_getSignature ::
  "text_codecs \<Rightarrow> SignatureHelper \<Rightarrow> StringEncoding \<Rightarrow> string result" where
  "SignatureHelper_getSignature lib this stringEncoding =
     (if stringEncoding = HEX then Inr (hex_encode lib this)
      else if stringEncoding = BASE64 then Inr (base64_encode lib this)
      else Inl UnsupportedStringFormatException)"

definition SignatureHelper_Signature_t :: "SignatureHelper \<Rightarrow> bytes" where
  "SignatureHelper_Signature_t this = this"

definition SignatureHelper_assign_ptr :: "SignatureHelper \<Rightarrow> bytes \<Rightarrow> SignatureHelper" where
  "SignatureHelper_assign_ptr this signature = copySignatureToVector signature []"

definition SignatureHelper_assign :: "SignatureHelper \<Rightarrow> bytes \<Rightarrow> SignatureHelper" where
  "SignatureHelper_assign this signature = copySignatureToVector signature []"

definition SignatureHelper_assign_vector :: "SignatureHelper \<Rightarrow> bytes \<Rightarrow> SignatureHelper" where
  "SignatureHelper_assign_vector this signature = signature"

definition SignatureHelper_vector :: "SignatureHelper \<Rightarrow> bytes" where
  "SignatureHelper_vector this = this"

section \<open>Lemmas\<close>

lemma fold_push_back [simp]: "fold (\<lambda>b acc. acc @ [b]) xs ys = ys @ xs"
  by (induction xs arbitrary: ys) simp_all

lemma copySignature_eq [simp]: "copySignatureToVector signature v = v @ signature"
  by (simp add: copySignatureToVector_def)

lemma copyFromSecureVector_eq [simp]: "copyFromSecureVector s v = v @ s"
  by (simp add: copyFromSecureVector_def)

lemmas signature_defs = SignatureHelper_of_vector_def SignatureHelper_of_signature_def
  SignatureHelper_Signature_t_def SignatureHelper_assign_ptr_def SignatureHelper_assign_def
  SignatureHelper_assign_vector_def SignatureHelper_vector_def

lemma SignatureVerification_of_secure_eq: "SignatureVerification_of_secure = SignatureVerification_of_vector"
  by (simp add: fun_eq_iff SignatureVerification_of_secure_def SignatureVerification_of_vector_def)

text \<open>What a loaded pair signs, a verification with the pair's public key accepts.\<close>

lemma loader_signs:
  assumes "isInitialized loader" and "getPrivateKey lib loader = Inr priv" and "getPublicKey lib loader = Inr pub"
    and "key_pair lib priv pub" and "generator_sign lib (SignatureGenerator_of_loader loader) v = Inr sig"
  shows "fst (verification_check lib sig (SignatureVerification_of_public pub v)) = Inr True"
  using assms by (auto simp: generator_sign_def SignatureGenerator_of_loader_def verification_check_def prog_defs
      SignatureVerification_of_public_def key_pair_def)

section \<open>A concrete Botan for the witnesses\<close>

definition plain_botan :: "(bytes, bytes) botan" where
  "plain_botan = \<lparr>hash_process = (\<lambda>v. v), load_private_file = (\<lambda>p. Inr (copyStringToVector p)),
     load_private_data = (\<lambda>v. if v = [] then Inl LibraryError else Inr v),
     load_public_file = (\<lambda>p. Inr (copyStringToVector p)), load_public_data = Inr,
     sign_message = (\<lambda>k m. k @ m), check_signature = (\<lambda>k m s. s = k @ m)\<rparr>"

definition plain_loader :: KeyLoader where
  "plain_loader = \<lparr>kl_initialized = True, kl_privateKeyPath = ''key'', kl_publicKeyPath = ''key''\<rparr>"

end
