(* ===== verification/Builders.thy ===== *)
theory Builders
  imports Transactions Numbers Crypto
begin

text \<open>
  The helpers and builders of \<open>libs/transaction_common\<close>, \<open>libs/chain_common\<close>, \<open>libs/block_db\<close>
  and \<open>libs/asn1\<close> that read and assemble actions, transactions and change sets. A builder owns a
  pointer, \<open>None\<close> once it has been released; asn1c's encoders are the parameter \<open>asn1_lib\<close>.
\<close>

section \<open>The encoders and owned pointers\<close>

record 'any asn1_lib =
  encode_ChangeSet :: "'any ChangeSet_t \<Rightarrow> bytes result"
  encode_Transaction :: "'any Transaction_t \<Rightarrow> bytes result"
  encode_SignedTransaction :: "'any SignedTransaction_t \<Rightarrow> bytes result"

definition on_ptr :: "('a \<Rightarrow> 'a) \<Rightarrow> ('a option, unit) prog" where
  "on_ptr f p = (case p of None \<Rightarrow> (Inl NullPointerDereference, None) | Some a \<Rightarrow> (Inr (), Some (f a)))"

definition deref :: "'a option \<Rightarrow> 'a result" where
  "deref p = (case p of None \<Rightarrow> Inl NullPointerDereference | Some a \<Rightarrow> Inr a)"

lemma on_ptr_Some [simp]: "on_ptr f (Some a) = (Inr (), Some (f a))"
  by (simp add: on_ptr_def)

lemma deref_Some [simp]: "deref (Some a) = Inr a"
  by (simp add: deref_def)

section \<open>Readers\<close>

definition action_getContract :: "'any Action_t \<Rightarrow> HashHelper" where
  "action_getContract this = (case ac_contract this of Some c \<Rightarrow> HashHelper_of_hash c | None \<Rightarrow> [])"

definition action_getParent :: "'any Action_t \<Rightarrow> HashHelper" where
  "action_getParent this = HashHelper_of_hash (ac_parent this)"

definition action_getModel :: "'any Action_t \<Rightarrow> 'any" where
  "action_getModel this = ac_model this"

definition transaction_getVersion :: "'any Transaction_t \<Rightarrow> c_long" where
  "transaction_getVersion this = tr_version this"

definition transaction_getValue :: "'any Transaction_t \<Rightarrow> c_long" where
  "transaction_getValue this = tr_value this"

definition transaction_getParent :: "'any Transaction_t \<Rightarrow> HashHelper" where
  "transaction_getParent this = HashHelper_of_hash (tr_parent this)"

definition transaction_getSourceAccount :: "'any Transaction_t \<Rightarrow> HashHelper" where
  "transaction_getSourceAccount this = HashHelper_of_hash (tr_sourceAccount this)"

definition transaction_getTargetAccount :: "'any Transaction_t \<Rightarrow> HashHelper" where
  "transaction_getTargetAccount this = HashHelper_of_hash (tr_targetAccount this)"

definition transaction_getActions :: "'any Transaction_t \<Rightarrow> 'any Action_t list" where
  "transaction_getActions this = tr_actions this"

definition signed_getHash :: "'any SignedTransaction_t \<Rightarrow> HashHelper" where
  "signed_getHash this = HashHelper_of_hash (st_transactionHash this)"

definition signed_getSignature :: "'any SignedTransaction_t \<Rightarrow> SignatureHelper" where
  "signed_getSignature this = SignatureHelper_of_signature (st_signature this)"

definition signed_getTransaction :: "'any SignedTransaction_t \<Rightarrow> 'any Transaction_t" where
  "signed_getTransaction this = st_transaction this"

section \<open>ChangeSetBuilder\<close>

definition new_ChangeSetBuilder :: "'any ChangeSet_t option" where
  "new_ChangeSetBuilder = Some \<lparr>cs_version = PROTOCOL_VERSION, cs_transactionHash = [], cs_accountHash = [],
     cs_status = Status_init, cs_changes = []\<rparr>"

definition ChangeSetBuilder_of_hashes :: "HashHelper \<Rightarrow> HashHelper \<Rightarrow> 'any ChangeSet_t option" where
  "ChangeSetBuilder_of_hashes transactionHash accountHash =
     Some \<lparr>cs_version = PROTOCOL_VERSION, cs_transactionHash = HashHelper_Hash_t transactionHash,
       cs_accountHash = HashHelper_Hash_t accountHash, cs_status = Status_init, cs_changes = []\<rparr>"

definition changes_setTransaction :: "HashHelper \<Rightarrow> ('any ChangeSet_t option, unit) prog" where
  "changes_setTransaction transactionHash = on_ptr (\<lambda>cs. cs\<lparr>cs_transactionHash := HashHelper_Hash_t transactionHash\<rparr>)"

definition changes_setAccount :: "HashHelper \<Rightarrow> ('any ChangeSet_t option, unit) prog" where
  "changes_setAccount accountHash = on_ptr (\<lambda>cs. cs\<lparr>cs_accountHash := HashHelper_Hash_t accountHash\<rparr>)"

definition changes_setStatus :: "Status \<Rightarrow> ('any ChangeSet_t option, unit) prog" where
  "changes_setStatus status = on_ptr (\<lambda>cs. cs\<lparr>cs_status := status\<rparr>)"

definition changes_addChange :: "'any \<Rightarrow> ('any ChangeSet_t option, unit) prog" where
  "changes_addChange change = on_ptr (\<lambda>cs. cs\<lparr>cs_changes := cs_changes cs @ [asn1Change change]\<rparr>)"

text \<open>The conversion to a pointer gives the change set away.\<close>

definition changes_release :: "('any ChangeSet_t option, 'any ChangeSet_t option) prog" where
  "changes_release p = (Inr p, None)"

section \<open>SignedChangeSetBuilder\<close>

definition empty_SignedChangeSet :: "'any SignedChangeSet_t" where
  "empty_SignedChangeSet = \<lparr>sc_changeSet = \<lparr>cs_version = 0, cs_transactionHash = [], cs_accountHash = [],
     cs_status = Status_init, cs_changes = []\<rparr>, sc_changeSetHash = [], sc_signature = []\<rparr>"

record 'any SignedChangeSetBuilder =
  scb_signedChangedSet :: "'any SignedChangeSet_t option"
  scb_keyLoader :: KeyLoader

definition new_SignedChangeSetBuilder :: "'any SignedChangeSetBuilder" where
  "new_SignedChangeSetBuilder = \<lparr>scb_signedChangedSet = Some empty_SignedChangeSet, scb_keyLoader = new_KeyLoader\<rparr>"

definition signed_setChangeSet ::
  "('priv, 'pub) botan \<Rightarrow> 'any asn1_lib \<Rightarrow> 'any ChangeSet_t option \<Rightarrow> ('any SignedChangeSetBuilder, unit) prog" where
  "signed_setChangeSet lib asn changeSet =
     sbind (slift (deref changeSet)) (\<lambda>cs.
     sbind (slift (rmap (generateHash_vector lib) (encode_ChangeSet asn cs))) (\<lambda>hashHelper.
     sbind (sget scb_signedChangedSet) (\<lambda>p.
     sbind (slift (deref p)) (\<lambda>s.
     smodify (\<lambda>this. this\<lparr>scb_signedChangedSet :=
       Some (s\<lparr>sc_changeSet := cs, sc_changeSetHash := HashHelper_Hash_t hashHelper\<rparr>)\<rparr>)))))"

definition SignedChangeSetBuilder_of_changes ::
  "('priv, 'pub) botan \<Rightarrow> 'any asn1_lib \<Rightarrow> 'any ChangeSet_t option \<Rightarrow> 'any SignedChangeSetBuilder result" where
  "SignedChangeSetBuilder_of_changes lib asn changeSet =
     rbind (deref changeSet) (\<lambda>cs.
     rbind (rmap (generateHash_vector lib) (encode_ChangeSet asn cs)) (\<lambda>hashHelper.
     Inr \<lparr>scb_signedChangedSet = Some (empty_SignedChangeSet\<lparr>sc_changeSet := cs,
            sc_changeSetHash := HashHelper_Hash_t hashHelper\<rparr>), scb_keyLoader = new_KeyLoader\<rparr>))"

definition SignedChangeSetBuilder_of_loader ::
  "('priv, 'pub) botan \<Rightarrow> 'any asn1_lib \<Rightarrow> 'any ChangeSet_t option \<Rightarrow> KeyLoader \<Rightarrow> 'any SignedChangeSetBuilder result" where
  "SignedChangeSetBuilder_of_loader lib asn changeSet keyLoader =
     rbind (deref changeSet) (\<lambda>cs.
     rbind (rmap (generateHash_vector lib) (encode_ChangeSet asn cs)) (\<lambda>hashHelper.
     Inr \<lparr>scb_signedChangedSet = Some (empty_SignedChangeSet\<lparr>sc_changeSet := cs,
            sc_changeSetHash := HashHelper_Hash_t hashHelper\<rparr>), scb_keyLoader = keyLoader\<rparr>))"

text \<open>The parameter of \<open>setKeyLoader\<close> is called \<open>keyloader\<close>; the assignment
  \<open>this->keyLoader = keyLoader\<close> has the member on both sides.\<close>

definition signed_setKeyLoader :: "KeyLoader \<Rightarrow> ('any SignedChangeSetBuilder, unit) prog" where
  "signed_setKeyLoader keyloader = smodify (\<lambda>this. this\<lparr>scb_keyLoader := scb_keyLoader this\<rparr>)"

definition signed_sign :: "('priv, 'pub) botan \<Rightarrow> ('any SignedChangeSetBuilder, unit) prog" where
  "signed_sign lib =
     sbind (sget (\<lambda>this. SignatureGenerator_of_loader (scb_keyLoader this))) (\<lambda>gen.
     sbind (sget scb_signedChangedSet) (\<lambda>p.
     sbind (slift (deref p)) (\<lambda>s.
     sbind (slift (generator_sign_secure lib gen (HashHelper_SecureVector (HashHelper_of_hash (sc_changeSetHash s))))) (\<lambda>v.
     smodify (\<lambda>this. this\<lparr>scb_signedChangedSet :=
       Some (s\<lparr>sc_signature := SignatureHelper_Signature_t (SignatureHelper_of_vector v)\<rparr>)\<rparr>)))))"

definition signed_release :: "('any SignedChangeSetBuilder, 'any SignedChangeSet_t option) prog" where
  "signed_release this = (Inr (scb_signedChangedSet this), this\<lparr>scb_signedChangedSet := None\<rparr>)"

section \<open>The block store's change sets\<close>

text \<open>\<open>asn1/ChangeSetHelper\<close> and \<open>block_db/SignedChangeSetBuilder\<close>. The conversion of the helper adds
  to the sequence of \<open>ChangeData_t\<close> a copy of the \<open>ANY_t\<close> and not the \<open>ChangeData_t\<close> it has just
  filled in: with a change there is no change set that could be read. A \<open>PrivateKeyHelper\<close> is the
  data of its key.\<close>

record 'any ChangeSetHelper =
  ch_transactionHash :: HashHelper
  ch_accountHash :: HashHelper
  ch_status :: Status
  ch_changes :: "'any list"

definition helper_setTransactionHash :: "HashHelper \<Rightarrow> 'any ChangeSetHelper \<Rightarrow> 'any ChangeSetHelper" where
  "helper_setTransactionHash transactionHash this = this\<lparr>ch_transactionHash := transactionHash\<rparr>"

definition helper_setAccountHash :: "HashHelper \<Rightarrow> 'any ChangeSetHelper \<Rightarrow> 'any ChangeSetHelper" where
  "helper_setAccountHash accountHash this = this\<lparr>ch_accountHash := accountHash\<rparr>"

definition helper_setStatus :: "Status \<Rightarrow> 'any ChangeSetHelper \<Rightarrow> 'any ChangeSetHelper" where
  "helper_setStatus status this = this\<lparr>ch_status := status\<rparr>"

definition helper_addChange :: "'any \<Rightarrow> 'any ChangeSetHelper \<Rightarrow> 'any ChangeSetHelper" where
  "helper_addChange change this = this\<lparr>ch_changes := ch_changes this @ [change]\<rparr>"

definition ChangeSetHelper_changeSet :: "'any ChangeSetHelper \<Rightarrow> 'any ChangeSet_t result" where
  "ChangeSetHelper_changeSet this =
     (if ch_changes this = []
      then Inr \<lparr>cs_version = PROTOCOL_VERSION, cs_transactionHash = HashHelper_Hash_t (ch_transactionHash this),
        cs_accountHash = HashHelper_Hash_t (ch_accountHash this), cs_status = ch_status this, cs_changes = []\<rparr>
      else Inl UndefinedBehaviour)"

record 'any BlockSignedChangeSetBuilder =
  bsc_signedChangeSet :: "'any SignedChangeSet_t option"
  bsc_privateKey :: bytes

definition new_BlockSignedChangeSetBuilder :: "'any BlockSignedChangeSetBuilder" where
  "new_BlockSignedChangeSetBuilder = \<lparr>bsc_signedChangeSet = Some empty_SignedChangeSet, bsc_privateKey = []\<rparr>"

definition getChangeSetHash :: "('priv, 'pub) botan \<Rightarrow> 'any asn1_lib \<Rightarrow> 'any ChangeSet_t \<Rightarrow> HashHelper result" where
  "getChangeSetHash lib asn changeSet = rmap (generateHash_vector lib) (encode_ChangeSet asn changeSet)"

definition BlockSignedChangeSetBuilder_of_helper ::
  "('priv, 'pub) botan \<Rightarrow> 'any asn1_lib \<Rightarrow> bytes \<Rightarrow> 'any ChangeSetHelper \<Rightarrow> 'any BlockSignedChangeSetBuilder result" where
  "BlockSignedChangeSetBuilder_of_helper lib asn privateKey changeSetHelper =
     rbind (ChangeSetHelper_changeSet changeSetHelper) (\<lambda>cs.
     rbind (getChangeSetHash lib asn cs) (\<lambda>h.
     Inr \<lparr>bsc_signedChangeSet = Some (empty_SignedChangeSet\<lparr>sc_changeSet := cs, sc_changeSetHash := HashHelper_Hash_t h\<rparr>),
          bsc_privateKey = privateKey\<rparr>))"

definition block_setPrivateKey :: "bytes \<Rightarrow> ('any BlockSignedChangeSetBuilder, unit) prog" where
  "block_setPrivateKey privateKey = smodify (\<lambda>this. this\<lparr>bsc_privateKey := privateKey\<rparr>)"

definition block_setChangeSet ::
  "('priv, 'pub) botan \<Rightarrow> 'any asn1_lib \<Rightarrow> 'any ChangeSetHelper \<Rightarrow> ('any BlockSignedChangeSetBuilder, unit) prog" where
  "block_setChangeSet lib asn changeSetHelper =
     sbind (slift (ChangeSetHelper_changeSet changeSetHelper)) (\<lambda>cs.
     sbind (sget bsc_signedChangeSet) (\<lambda>p.
     sbind (slift (deref p)) (\<lambda>s.
     sbind (smodify (\<lambda>this. this\<lparr>bsc_signedChangeSet := Some (s\<lparr>sc_changeSet := cs\<rparr>)\<rparr>)) (\<lambda>_.
     sbind (slift (getChangeSetHash lib asn cs)) (\<lambda>h.
     smodify (\<lambda>this. this\<lparr>bsc_signedChangeSet :=
       Some (s\<lparr>sc_changeSet := cs, sc_changeSetHash := HashHelper_Hash_t h\<rparr>)\<rparr>))))))"

definition block_sign :: "('priv, 'pub) botan \<Rightarrow> ('any BlockSignedChangeSetBuilder, unit) prog" where
  "block_sign lib this = (case bsc_signedChangeSet this of
       None \<Rightarrow> (Inl SignedChangeSetReleasedException, this)
     | Some s \<Rightarrow> (case generator_sign_secure lib (SignatureGenerator_of_key (bsc_privateKey this))
             (HashHelper_SecureVector (HashHelper_of_hash (sc_changeSetHash s))) of
           Inl e \<Rightarrow> (Inl e, this)
         | Inr v \<Rightarrow> (Inr (), this\<lparr>bsc_signedChangeSet :=
             Some (s\<lparr>sc_signature := SignatureHelper_Signature_t (SignatureHelper_of_vector v)\<rparr>)\<rparr>)))"

definition block_release :: "('any BlockSignedChangeSetBuilder, 'any SignedChangeSet_t option) prog" where
  "block_release this = (Inr (bsc_signedChangeSet this), this\<lparr>bsc_signedChangeSet := None\<rparr>)"

definition block_getHash :: "'any BlockSignedChangeSetBuilder \<Rightarrow> HashHelper result" where
  "block_getHash this = (case bsc_signedChangeSet this of
       None \<Rightarrow> Inl SignedChangeSetReleasedException
     | Some s \<Rightarrow> Inr (HashHelper_of_hash (sc_changeSetHash s)))"

end
