(* ===== verification/ChainBuilders.thy ===== *)
theory ChainBuilders
  imports Builders
begin

text \<open>
  The builders of \<open>libs/chain_common\<close> with which a client assembles and signs a transaction, and
  the trace builder of \<open>libs/transaction_common\<close>. The transaction builders keep the bytes of their
  first serialisation.
\<close>

section \<open>TransactionTraceBuilder\<close>

definition createTransactionTrace ::
  "('priv, 'pub) botan \<Rightarrow> HashHelper \<Rightarrow> KeyLoader \<Rightarrow> TransactionTrace_t option result" where
  "createTransactionTrace lib accountHash keyloader =
     rmap (\<lambda>v. Some \<lparr>tt_traceHash = HashHelper_Hash_t accountHash,
         tt_signature = SignatureHelper_Signature_t (SignatureHelper_of_vector v)\<rparr>)
       (generator_sign_secure lib (SignatureGenerator_of_loader keyloader) (HashHelper_SecureVector accountHash))"

definition trace_release :: "(TransactionTrace_t option, TransactionTrace_t option) prog" where
  "trace_release p = (Inr p, None)"

section \<open>ActionBuilder\<close>

text \<open>The model of a new action is the zeroed \<open>ANY\<close>, an argument; so is the time.\<close>

definition createAction :: "'any \<Rightarrow> UTCTime_t \<Rightarrow> 'any Action_t option" where
  "createAction zero now = Some \<lparr>ac_version = PROTOCOL_VERSION, ac_date = now, ac_contract = None,
     ac_parent = [], ac_model = zero\<rparr>"

definition builder_getVersion :: "'any Action_t option \<Rightarrow> c_long result" where
  "builder_getVersion p = rmap ac_version (deref p)"

definition builder_getContract :: "'any Action_t option \<Rightarrow> HashHelper result" where
  "builder_getContract p = rmap (\<lambda>a. case ac_contract a of None \<Rightarrow> [] | Some c \<Rightarrow> HashHelper_of_hash c) (deref p)"

definition builder_setContract :: "HashHelper \<Rightarrow> ('any Action_t option, unit) prog" where
  "builder_setContract contract = on_ptr (\<lambda>a. a\<lparr>ac_contract := Some (HashHelper_Hash_t contract)\<rparr>)"

definition builder_getParent :: "'any Action_t option \<Rightarrow> HashHelper result" where
  "builder_getParent p = rmap (\<lambda>a. HashHelper_of_hash (ac_parent a)) (deref p)"

definition builder_setParent :: "HashHelper \<Rightarrow> ('any Action_t option, unit) prog" where
  "builder_setParent parent = on_ptr (\<lambda>a. a\<lparr>ac_parent := HashHelper_Hash_t parent\<rparr>)"

definition builder_getModel :: "'any Action_t option \<Rightarrow> 'any result" where
  "builder_getModel p = rmap ac_model (deref p)"

definition builder_setModel :: "'any \<Rightarrow> ('any Action_t option, unit) prog" where
  "builder_setModel model = on_ptr (\<lambda>a. a\<lparr>ac_model := model\<rparr>)"

definition action_takePtr :: "('any Action_t option, 'any Action_t option) prog" where
  "action_takePtr p = (Inr p, None)"

section \<open>TransactionBuilder\<close>

record 'any TransactionBuilder =
  tb_transaction :: "'any Transaction_t option"
  tb_serialized :: "bytes option"

definition chain_createTransaction :: "UTCTime_t \<Rightarrow> 'any TransactionBuilder" where
  "chain_createTransaction now = \<lparr>tb_transaction = Some \<lparr>tr_version = PROTOCOL_VERSION, tr_date = now, tr_value = 0,
     tr_parent = [], tr_sourceAccount = [], tr_targetAccount = [], tr_actions = []\<rparr>, tb_serialized = None\<rparr>"

definition on_transaction :: "('any Transaction_t \<Rightarrow> 'any Transaction_t) \<Rightarrow> ('any TransactionBuilder, unit) prog" where
  "on_transaction f this = (case on_ptr f (tb_transaction this) of (r, p) \<Rightarrow> (r, this\<lparr>tb_transaction := p\<rparr>))"

definition chain_getVersion :: "'any TransactionBuilder \<Rightarrow> c_long result" where
  "chain_getVersion this = rmap tr_version (deref (tb_transaction this))"

definition chain_setValue :: "c_long \<Rightarrow> ('any TransactionBuilder, unit) prog" where
  "chain_setValue numberHelper = on_transaction (\<lambda>t. t\<lparr>tr_value := numberHelper\<rparr>)"

definition chain_getValue :: "'any TransactionBuilder \<Rightarrow> c_long result" where
  "chain_getValue this = rmap tr_value (deref (tb_transaction this))"

definition chain_setParent :: "HashHelper \<Rightarrow> ('any TransactionBuilder, unit) prog" where
  "chain_setParent h = on_transaction (\<lambda>t. t\<lparr>tr_parent := HashHelper_Hash_t h\<rparr>)"

definition chain_getParent :: "'any TransactionBuilder \<Rightarrow> HashHelper result" where
  "chain_getParent this = rmap (\<lambda>t. HashHelper_of_hash (tr_parent t)) (deref (tb_transaction this))"

definition chain_setSourceAccount :: "HashHelper \<Rightarrow> ('any TransactionBuilder, unit) prog" where
  "chain_setSourceAccount h = on_transaction (\<lambda>t. t\<lparr>tr_sourceAccount := HashHelper_Hash_t h\<rparr>)"

definition chain_getSourceAccount :: "'any TransactionBuilder \<Rightarrow> HashHelper result" where
  "chain_getSourceAccount this = rmap (\<lambda>t. HashHelper_of_hash (tr_sourceAccount t)) (deref (tb_transaction this))"

definition chain_setTargetAccount :: "HashHelper \<Rightarrow> ('any TransactionBuilder, unit) prog" where
  "chain_setTargetAccount h = on_transaction (\<lambda>t. t\<lparr>tr_targetAccount := HashHelper_Hash_t h\<rparr>)"

definition chain_getTargetAccount :: "'any TransactionBuilder \<Rightarrow> HashHelper result" where
  "chain_getTargetAccount this = rmap (\<lambda>t. HashHelper_of_hash (tr_targetAccount t)) (deref (tb_transaction this))"

text \<open>The action builder gives its action away. \<open>asn_set_add\<close> refuses the null pointer of a
  builder that has already done so.\<close>

definition chain_addAction :: "('any TransactionBuilder \<times> 'any Action_t option, unit) prog" where
  "chain_addAction s = (case s of (this, action) \<Rightarrow> (case action_takePtr action of
       (r, action1) \<Rightarrow> (case tb_transaction this of
         None \<Rightarrow> (Inl NullPointerDereference, this, action1)
       | Some t \<Rightarrow> (case action of
           None \<Rightarrow> (Inl ActionSequenceAddFailedException, this, action1)
         | Some a \<Rightarrow> (Inr (), this\<lparr>tb_transaction := Some (t\<lparr>tr_actions := tr_actions t @ [a]\<rparr>)\<rparr>, action1)))))"

definition serializeTransaction :: "'any asn1_lib \<Rightarrow> ('any TransactionBuilder, unit) prog" where
  "serializeTransaction asn this = (case tb_serialized this of
       Some b \<Rightarrow> (Inr (), this)
     | None \<Rightarrow> (case rbind (deref (tb_transaction this)) (encode_Transaction asn) of
           Inl e \<Rightarrow> (Inl e, this)
         | Inr b \<Rightarrow> (Inr (), this\<lparr>tb_serialized := Some b\<rparr>)))"

text \<open>The conversions to a byte vector and to a byte pointer.\<close>

definition TransactionBuilder_bytes :: "'any asn1_lib \<Rightarrow> ('any TransactionBuilder, bytes) prog" where
  "TransactionBuilder_bytes asn =
     sbind (serializeTransaction asn) (\<lambda>_. sbind (sget tb_serialized) (\<lambda>b. slift (deref b)))"

definition TransactionBuilder_size :: "'any asn1_lib \<Rightarrow> ('any TransactionBuilder, nat) prog" where
  "TransactionBuilder_size asn =
     sbind (serializeTransaction asn) (\<lambda>_. sbind (sget tb_serialized) (\<lambda>b. slift (rmap length (deref b))))"

definition transaction_takePtr :: "('any TransactionBuilder, 'any Transaction_t option) prog" where
  "transaction_takePtr this = (Inr (tb_transaction this), this\<lparr>tb_transaction := None\<rparr>)"

section \<open>SignedTransactionBuilder\<close>

record 'any SignedTransactionBuilder =
  stb_signedTransaction :: "'any SignedTransaction_t option"
  stb_serialized :: "bytes option"
  stb_privateKey :: bytes

definition signed_createTransaction :: "bytes \<Rightarrow> 'any SignedTransactionBuilder" where
  "signed_createTransaction privateKey = \<lparr>stb_signedTransaction = Some \<lparr>st_version = PROTOCOL_VERSION,
     st_transaction = \<lparr>tr_version = 0, tr_date = [], tr_value = 0, tr_parent = [], tr_sourceAccount = [],
       tr_targetAccount = [], tr_actions = []\<rparr>, st_transactionHash = [], st_signature = []\<rparr>,
     stb_serialized = None, stb_privateKey = privateKey\<rparr>"

definition on_signed :: "('any SignedTransaction_t \<Rightarrow> 'any SignedTransaction_t) \<Rightarrow> ('any SignedTransactionBuilder, unit) prog" where
  "on_signed f this = (case on_ptr f (stb_signedTransaction this) of (r, p) \<Rightarrow> (r, this\<lparr>stb_signedTransaction := p\<rparr>))"

definition on_fst :: "('s, 'a) prog \<Rightarrow> ('s \<times> 't, 'a) prog" where
  "on_fst m s = (case m (fst s) of (r, x) \<Rightarrow> (r, x, snd s))"

definition on_snd :: "('t, 'a) prog \<Rightarrow> ('s \<times> 't, 'a) prog" where
  "on_snd m s = (case m (snd s) of (r, x) \<Rightarrow> (r, fst s, x))"

definition signed_setTransaction ::
  "('priv, 'pub) botan \<Rightarrow> 'any asn1_lib \<Rightarrow> ('any SignedTransactionBuilder \<times> 'any TransactionBuilder, unit) prog" where
  "signed_setTransaction lib asn =
     sbind (on_snd (TransactionBuilder_bytes asn)) (\<lambda>b.
     let hashHelper = generateHash_vector lib b in
     sbind (on_fst (on_signed (\<lambda>s. s\<lparr>st_transactionHash := HashHelper_Hash_t hashHelper\<rparr>))) (\<lambda>_.
     sbind (on_snd transaction_takePtr) (\<lambda>transaction.
     sbind (slift (deref transaction)) (\<lambda>t.
     on_fst (on_signed (\<lambda>s. s\<lparr>st_transaction := t\<rparr>))))))"

definition signed_getSourceAccount :: "'any SignedTransactionBuilder \<Rightarrow> HashHelper result" where
  "signed_getSourceAccount this =
     rmap (\<lambda>s. HashHelper_of_hash (tr_sourceAccount (st_transaction s))) (deref (stb_signedTransaction this))"

definition builder_getHash :: "'any SignedTransactionBuilder \<Rightarrow> HashHelper result" where
  "builder_getHash this = rmap (\<lambda>s. HashHelper_of_hash (st_transactionHash s)) (deref (stb_signedTransaction this))"

definition builder_getSignature :: "'any SignedTransactionBuilder \<Rightarrow> SignatureHelper result" where
  "builder_getSignature this = rmap (\<lambda>s. SignatureHelper_of_signature (st_signature s)) (deref (stb_signedTransaction this))"

definition builder_sign :: "('priv, 'pub) botan \<Rightarrow> ('any SignedTransactionBuilder, unit) prog" where
  "builder_sign lib =
     sbind (sget (\<lambda>this. SignatureGenerator_of_key (stb_privateKey this))) (\<lambda>gen.
     sbind (sget stb_signedTransaction) (\<lambda>p.
     sbind (slift (deref p)) (\<lambda>s.
     sbind (slift (generator_sign_secure lib gen (HashHelper_SecureVector (HashHelper_of_hash (st_transactionHash s))))) (\<lambda>v.
     on_signed (\<lambda>s. s\<lparr>st_signature := SignatureHelper_Signature_t (SignatureHelper_of_vector v)\<rparr>)))))"

definition serializeSigned :: "'any asn1_lib \<Rightarrow> ('any SignedTransactionBuilder, unit) prog" where
  "serializeSigned asn this = (case stb_serialized this of
       Some b \<Rightarrow> (Inr (), this)
     | None \<Rightarrow> (case rbind (deref (stb_signedTransaction this)) (encode_SignedTransaction asn) of
           Inl e \<Rightarrow> (Inl e, this)
         | Inr b \<Rightarrow> (Inr (), this\<lparr>stb_serialized := Some b\<rparr>)))"

definition SignedTransactionBuilder_bytes :: "'any asn1_lib \<Rightarrow> ('any SignedTransactionBuilder, bytes) prog" where
  "SignedTransactionBuilder_bytes asn =
     sbind (serializeSigned asn) (\<lambda>_. sbind (sget stb_serialized) (\<lambda>b. slift (deref b)))"

definition SignedTransactionBuilder_release ::
  "('any SignedTransactionBuilder, 'any SignedTransaction_t option) prog" where
  "SignedTransactionBuilder_release this = (Inr (stb_signedTransaction this), this\<lparr>stb_signedTransaction := None\<rparr>)"

definition SignedTransactionBuilder_size :: "'any asn1_lib \<Rightarrow> ('any SignedTransactionBuilder, nat) prog" where
  "SignedTransactionBuilder_size asn =
     sbind (serializeSigned asn) (\<lambda>_. sbind (sget stb_serialized) (\<lambda>b. slift (rmap length (deref b))))"

section \<open>Signed change sets\<close>

lemma getPrivateKey_initialized: "getPrivateKey lib loader = Inr priv \<Longrightarrow> isInitialized loader"
  by (auto simp: getPrivateKey_def split: if_splits)

definition signed_changes ::
  "('priv, 'pub) botan \<Rightarrow> 'priv \<Rightarrow> 'any ChangeSet_t \<Rightarrow> bytes \<Rightarrow> 'any SignedChangeSet_t" where
  "signed_changes lib priv cs e = \<lparr>sc_changeSet = cs, sc_changeSetHash = generateHash_vector lib e,
     sc_signature = sign_message lib priv (generateHash_vector lib e)\<rparr>"

lemma loader_builder_signs:
  assumes "getPrivateKey lib loader = Inr priv" and "encode_ChangeSet asn cs = Inr e"
  obtains b where "SignedChangeSetBuilder_of_loader lib asn (Some cs) loader = Inr b"
    and "signed_sign lib b = (Inr (), b\<lparr>scb_signedChangedSet := Some (signed_changes lib priv cs e)\<rparr>)"
proof -
  let ?h = "generateHash_vector lib e"
  let ?b = "\<lparr>scb_signedChangedSet = Some (empty_SignedChangeSet\<lparr>sc_changeSet := cs, sc_changeSetHash := ?h\<rparr>),
      scb_keyLoader = loader\<rparr>"
  have sig: "generator_sign_secure lib (SignatureGenerator_of_loader loader) ?h = Inr (sign_message lib priv ?h)"
    using assms(1) getPrivateKey_initialized [OF assms(1)]
    by (simp add: generator_sign_secure_def SignatureGenerator_of_loader_def)
  have "SignedChangeSetBuilder_of_loader lib asn (Some cs) loader = Inr ?b"
    using assms(2) by (simp add: SignedChangeSetBuilder_of_loader_def hash_defs)
  moreover have "signed_sign lib ?b = (Inr (), ?b\<lparr>scb_signedChangedSet := Some (signed_changes lib priv cs e)\<rparr>)"
    using sig by (simp add: signed_sign_def prog_defs hash_defs signature_defs signed_changes_def empty_SignedChangeSet_def)
  ultimately show ?thesis by (rule that)
qed

lemma signed_changes_verify:
  assumes "key_pair lib priv pub"
  shows "fst (verification_check lib (sc_signature (signed_changes lib priv cs e))
      (SignatureVerification_of_public pub (sc_changeSetHash (signed_changes lib priv cs e)))) = Inr True"
  using assms by (simp add: signed_changes_def verification_check_def SignatureVerification_of_public_def key_pair_def prog_defs)

text \<open>C23: a signed change set verifies. The builder that is made from a change set and a key
  loader with a matching pair of keys signs, hands out the change set it was given, with the hash
  of its encoding, and the signature is accepted for that hash by the public key of the loader.\<close>

theorem change_set_signature_verifies:
  assumes "getPrivateKey lib loader = Inr priv" and "getPublicKey lib loader = Inr pub"
    and "key_pair lib priv pub" and "encode_ChangeSet asn cs = Inr e"
  shows "\<exists>b b1 s b2. SignedChangeSetBuilder_of_loader lib asn (Some cs) loader = Inr b \<and>
    signed_sign lib b = (Inr (), b1) \<and> signed_release b1 = (Inr (Some s), b2) \<and>
    sc_changeSet s = cs \<and> sc_changeSetHash s = generateHash_vector lib e \<and>
    fst (verification_check lib (sc_signature s)
      (SignatureVerification_of_public pub (sc_changeSetHash s))) = Inr True"
proof -
  obtain b where "SignedChangeSetBuilder_of_loader lib asn (Some cs) loader = Inr b"
    "signed_sign lib b = (Inr (), b\<lparr>scb_signedChangedSet := Some (signed_changes lib priv cs e)\<rparr>)"
    using assms(1,4) by (rule loader_builder_signs)
  then show ?thesis
    using signed_changes_verify [OF assms(3), of cs e] by (simp add: signed_release_def) (simp add: signed_changes_def)
qed

text \<open>\<open>setKeyLoader\<close> sets nothing. A builder made without a key loader signs with the key
  that is loaded from no data at all, whatever loader it has been given since: signing succeeds
  exactly when the library makes a key of the empty data.\<close>

theorem setKeyLoader_is_ignored:
  assumes "encode_ChangeSet asn cs = Inr e"
  shows "fst (sbind (signed_setChangeSet lib asn (Some cs)) (\<lambda>_. sbind (signed_setKeyLoader loader) (\<lambda>_.
      signed_sign lib)) new_SignedChangeSetBuilder) = rmap (\<lambda>k. ()) (load_private_data lib [])"
  using assms
  by (cases "load_private_data lib []")
     (simp_all add: signed_setChangeSet_def signed_setKeyLoader_def signed_sign_def prog_defs hash_defs
      new_SignedChangeSetBuilder_def generator_sign_secure_def SignatureGenerator_of_loader_def isInitialized_def
      new_KeyLoader_def)

section \<open>Signed transactions\<close>

definition assemble ::
  "HashHelper \<Rightarrow> HashHelper \<Rightarrow> HashHelper \<Rightarrow> c_long \<Rightarrow> ('any TransactionBuilder, unit) prog" where
  "assemble parent source target v =
     sbind (chain_setParent parent) (\<lambda>_. sbind (chain_setSourceAccount source) (\<lambda>_.
     sbind (chain_setTargetAccount target) (\<lambda>_. chain_setValue v)))"

definition assembled ::
  "UTCTime_t \<Rightarrow> HashHelper \<Rightarrow> HashHelper \<Rightarrow> HashHelper \<Rightarrow> c_long \<Rightarrow> 'any Action_t list \<Rightarrow> 'any Transaction_t" where
  "assembled now parent source target v actions = \<lparr>tr_version = PROTOCOL_VERSION, tr_date = now, tr_value = v,
     tr_parent = parent, tr_sourceAccount = source, tr_targetAccount = target, tr_actions = actions\<rparr>"

lemma assemble_eq:
  "assemble parent source target v (chain_createTransaction now) =
    (Inr (), \<lparr>tb_transaction = Some (assembled now parent source target v []), tb_serialized = None\<rparr>)"
  by (simp add: assemble_def chain_createTransaction_def chain_setParent_def chain_setSourceAccount_def
      chain_setTargetAccount_def chain_setValue_def on_transaction_def prog_defs assembled_def hash_defs)

text \<open>The actions of a client, added one after the other.\<close>

fun add_actions :: "'any Action_t list \<Rightarrow> ('any TransactionBuilder, unit) prog" where
  "add_actions [] this = (Inr (), this)"
| "add_actions (a # as) this = (case chain_addAction (this, Some a) of
     (Inl e, this1, _) \<Rightarrow> (Inl e, this1) | (Inr _, this1, _) \<Rightarrow> add_actions as this1)"

lemma add_actions_eq:
  "tb_transaction this = Some t \<Longrightarrow> add_actions as this =
     (Inr (), this\<lparr>tb_transaction := Some (t\<lparr>tr_actions := tr_actions t @ as\<rparr>)\<rparr>)"
  by (induction as arbitrary: this t) (simp_all add: chain_addAction_def action_takePtr_def)

lemma setTransaction_eq:
  assumes "tb_transaction tb = Some t"
    and "(case tb_serialized tb of Some b \<Rightarrow> Inr b | None \<Rightarrow> encode_Transaction asn t) = Inr b"
    and "stb_signedTransaction this = Some st"
  shows "signed_setTransaction lib asn (this, tb) =
    (Inr (), this\<lparr>stb_signedTransaction := Some (st\<lparr>st_transactionHash := generateHash_vector lib b, st_transaction := t\<rparr>)\<rparr>,
     tb\<lparr>tb_transaction := None, tb_serialized := Some b\<rparr>)"
  using assms
  by (auto simp: signed_setTransaction_def TransactionBuilder_bytes_def serializeTransaction_def on_fst_def on_snd_def
      on_signed_def transaction_takePtr_def prog_defs hash_defs split: option.splits)

text \<open>C22: a transaction that a client assembles and signs carries what it was given, in the order
  it was given: the accounts, the value and every action. Its hash is the hash of its encoding, and
  the signature is accepted for the hash by the public key that belongs to the client's key.\<close>

theorem signed_transaction_verifies:
  fixes asn :: "'any asn1_lib" and now :: UTCTime_t and parent source target :: HashHelper and v :: c_long
  defines "t \<equiv> assembled now parent source target v"
  assumes "encode_Transaction asn (t actions) = Inr e" and "load_private_data lib key = Inr priv"
    and "key_pair lib priv pub"
  shows "\<exists>tb tb1 tb2 b b1 b2 st. assemble parent source target v (chain_createTransaction now) = (Inr (), tb) \<and>
    add_actions actions tb = (Inr (), tb1) \<and>
    signed_setTransaction lib asn (signed_createTransaction key, tb1) = (Inr (), b, tb2) \<and>
    builder_sign lib b = (Inr (), b1) \<and> SignedTransactionBuilder_release b1 = (Inr (Some st), b2) \<and>
    st_transaction st = t actions \<and> st_transactionHash st = generateHash_vector lib e \<and>
    fst (verification_check lib (st_signature st)
      (SignatureVerification_of_public pub (st_transactionHash st))) = Inr True"
proof -
  let ?tb = "\<lparr>tb_transaction = Some (t actions), tb_serialized = None\<rparr>"
  obtain st where new: "stb_signedTransaction (signed_createTransaction key :: 'any SignedTransactionBuilder) = Some st"
    by (simp add: signed_createTransaction_def)
  have add: "add_actions actions \<lparr>tb_transaction = Some (t []), tb_serialized = None\<rparr> = (Inr (), ?tb)"
    by (simp add: add_actions_eq [where t = "t []"]) (simp add: t_def assembled_def)
  let ?b = "(signed_createTransaction key)\<lparr>stb_signedTransaction :=
      Some (st\<lparr>st_transactionHash := generateHash_vector lib e, st_transaction := t actions\<rparr>)\<rparr>"
  have set: "signed_setTransaction lib asn (signed_createTransaction key, ?tb) =
      (Inr (), ?b, ?tb\<lparr>tb_transaction := None, tb_serialized := Some e\<rparr>)"
    by (rule setTransaction_eq) (simp_all add: assms(2) new)
  have key: "stb_privateKey (signed_createTransaction key :: 'any SignedTransactionBuilder) = key"
    by (simp add: signed_createTransaction_def)
  let ?v = "sign_message lib priv (generateHash_vector lib e)"
  have sign: "builder_sign lib ?b = (Inr (), ?b\<lparr>stb_signedTransaction :=
      Some (st\<lparr>st_transactionHash := generateHash_vector lib e, st_transaction := t actions, st_signature := ?v\<rparr>)\<rparr>)"
    by (simp add: builder_sign_def prog_defs hash_defs signature_defs generator_sign_secure_def key assms(3)
        SignatureGenerator_of_key_def isInitialized_def new_KeyLoader_def on_signed_def)
  show ?thesis
    using add set sign assms(4)
    by (simp add: assemble_eq t_def SignedTransactionBuilder_release_def verification_check_def prog_defs
        SignatureVerification_of_public_def key_pair_def)
qed

text \<open>The hash of a signed transaction covers the first serialisation of its builder. When
  the bytes of a transaction have been asked for and its value is set afterwards, the transaction
  that is signed has the new value and the hash of the old one.\<close>

theorem stale_serialisation_is_hashed:
  fixes asn :: "'any asn1_lib"
  assumes "tb_transaction tb = Some t" and "tb_serialized tb = None" and "encode_Transaction asn t = Inr e"
  shows "\<exists>tb1 tb2 tb3 b st. TransactionBuilder_bytes asn tb = (Inr e, tb1) \<and> chain_setValue v tb1 = (Inr (), tb2) \<and>
    signed_setTransaction lib asn (signed_createTransaction key, tb2) = (Inr (), b, tb3) \<and>
    stb_signedTransaction b = Some st \<and> st_transaction st = t\<lparr>tr_value := v\<rparr> \<and>
    st_transactionHash st = generateHash_vector lib e"
proof -
  let ?tb1 = "tb\<lparr>tb_serialized := Some e\<rparr>" and ?t = "t\<lparr>tr_value := v\<rparr>"
  let ?tb2 = "?tb1\<lparr>tb_transaction := Some ?t\<rparr>"
  obtain st where new: "stb_signedTransaction (signed_createTransaction key :: 'any SignedTransactionBuilder) = Some st"
    by (simp add: signed_createTransaction_def)
  have bytes: "TransactionBuilder_bytes asn tb = (Inr e, ?tb1)" and val: "chain_setValue v ?tb1 = (Inr (), ?tb2)"
    using assms by (simp_all add: TransactionBuilder_bytes_def serializeTransaction_def prog_defs chain_setValue_def
        on_transaction_def)
  have "signed_setTransaction lib asn (signed_createTransaction key, ?tb2) = (Inr (),
      (signed_createTransaction key)\<lparr>stb_signedTransaction :=
        Some (st\<lparr>st_transactionHash := generateHash_vector lib e, st_transaction := ?t\<rparr>)\<rparr>,
      ?tb2\<lparr>tb_transaction := None, tb_serialized := Some e\<rparr>)"
    by (rule setTransaction_eq) (simp_all add: new)
  with bytes val show ?thesis by simp
qed

section \<open>Witnesses\<close>

text \<open>A library whose keys are the data they are loaded from and whose signatures are the key
  followed by the message; it makes no key of empty data.\<close>

definition plain_asn1 :: "bytes asn1_lib" where
  "plain_asn1 = \<lparr>encode_ChangeSet = (\<lambda>cs. Inr (cs_transactionHash cs @ cs_accountHash cs)),
     encode_Transaction = (\<lambda>t. Inr (tr_parent t @ tr_sourceAccount t @ tr_targetAccount t @ le_bytes (tr_value t))),
     encode_SignedTransaction = (\<lambda>s. Inr (st_transactionHash s @ st_signature s))\<rparr>"

definition plain_changes :: "bytes ChangeSet_t" where
  "plain_changes = \<lparr>cs_version = 1, cs_transactionHash = [1], cs_accountHash = [2], cs_status = Status_debit,
     cs_changes = [asn1Change [5]]\<rparr>"

theorem change_set_signature_verifies_witness:
  "\<exists>b b1 s b2. SignedChangeSetBuilder_of_loader plain_botan plain_asn1 (Some plain_changes) plain_loader = Inr b \<and>
    signed_sign plain_botan b = (Inr (), b1) \<and> signed_release b1 = (Inr (Some s), b2) \<and>
    sc_changeSet s = plain_changes \<and> sc_changeSetHash s = generateHash_vector plain_botan [1, 2] \<and>
    fst (verification_check plain_botan (sc_signature s)
      (SignatureVerification_of_public (copyStringToVector ''key'') (sc_changeSetHash s))) = Inr True"
  by (rule change_set_signature_verifies [where priv = "copyStringToVector ''key''"])
     (simp_all add: key_pair_def plain_asn1_def plain_changes_def getPrivateKey_def getPublicKey_def isInitialized_def
        plain_loader_def plain_botan_def)

theorem setKeyLoader_is_ignored_witness:
  "fst (sbind (signed_setChangeSet plain_botan plain_asn1 (Some plain_changes)) (\<lambda>_. sbind (signed_setKeyLoader plain_loader)
      (\<lambda>_. signed_sign plain_botan)) new_SignedChangeSetBuilder) = Inl LibraryError"
proof -
  have "encode_ChangeSet plain_asn1 plain_changes = Inr [1, 2]" by (simp add: plain_asn1_def plain_changes_def)
  from setKeyLoader_is_ignored [OF this, of plain_botan plain_loader] show ?thesis by (simp add: plain_botan_def)
qed

theorem signed_transaction_verifies_witness:
  "\<exists>tb tb1 tb2 b b1 b2 st. assemble [1] [2] [3] 4 (chain_createTransaction ''now'') = (Inr (), tb) \<and>
    add_actions [] tb = (Inr (), tb1) \<and>
    signed_setTransaction plain_botan plain_asn1 (signed_createTransaction [7], tb1) = (Inr (), b, tb2) \<and>
    builder_sign plain_botan b = (Inr (), b1) \<and> SignedTransactionBuilder_release b1 = (Inr (Some st), b2) \<and>
    st_transaction st = assembled ''now'' [1] [2] [3] 4 [] \<and>
    st_transactionHash st = generateHash_vector plain_botan ([1, 2, 3] @ le_bytes (4 :: c_long)) \<and>
    fst (verification_check plain_botan (st_signature st)
      (SignatureVerification_of_public [7] (st_transactionHash st))) = Inr True"
  by (rule signed_transaction_verifies [where priv = "[7]"])
     (simp_all add: key_pair_def plain_asn1_def assembled_def plain_botan_def)

theorem stale_serialisation_is_hashed_witness:
  "\<exists>tb1 tb2 tb3 b st. TransactionBuilder_bytes plain_asn1 (chain_createTransaction ''now'') = (Inr (le_bytes (0 :: c_long)), tb1) \<and>
    chain_setValue 4 tb1 = (Inr (), tb2) \<and>
    signed_setTransaction plain_botan plain_asn1 (signed_createTransaction [7], tb2) = (Inr (), b, tb3) \<and>
    stb_signedTransaction b = Some st \<and> st_transaction st = assembled ''now'' [] [] [] 4 [] \<and>
    st_transactionHash st = generateHash_vector plain_botan (le_bytes (0 :: c_long))"
proof -
  have *: "assembled ''now'' [] [] [] 4 [] = (assembled ''now'' [] [] [] 0 [])\<lparr>tr_value := 4\<rparr>"
    by (simp add: assembled_def)
  show ?thesis unfolding *
    by (rule stale_serialisation_is_hashed)
       (simp_all add: chain_createTransaction_def plain_asn1_def assembled_def)
qed

end
