(* ===== verification/Wavm.thy ===== *)
theory Wavm
  imports RDFMemory WavmUtils ChainBuilders
begin

text \<open>
  The session of a contract, \<open>libs/wavm_common/WavmSession.cpp\<close>: the transaction it runs for, the
  RDF model of the changes it makes and the in-memory store it reads them back from. What a contract
  computes is the sequence of calls it makes.
\<close>

section \<open>State\<close>

record 'sb sandbox_message =
  sm_contract :: string
  sm_model :: bytes
  sm_transaction :: 'sb
  sm_changes :: bytes

record ('any, 'sb, 'g) wavm_session =
  ws_message :: "'sb sandbox_message"
  ws_transaction :: "'any TransactionMessage_t"
  ws_model :: RDFModel
  ws_rdf :: 'g
  ws_keyLoader :: KeyLoader

text \<open>The libraries a session uses, and the conversion of a model to an \<open>ANY\<close>.\<close>

record ('any, 'tb, 'ab, 'sb, 'g, 'f, 'priv, 'pub) wavm_env =
  we_memory :: "'g rdf_memory"
  we_c :: "'f c_library"
  we_codecs :: text_codecs
  we_wire :: "('any, 'tb, 'ab, 'sb) tx_wire"
  we_botan :: "('priv, 'pub) botan"
  we_asn1 :: "'any asn1_lib"
  we_any_of_model :: "RDFModel \<Rightarrow> 'any result"

definition WavmSession ::
  "('any, 'tb, 'ab, 'sb, 'g, 'f, 'priv, 'pub) wavm_env \<Rightarrow> 'sb sandbox_message \<Rightarrow> KeyLoader \<Rightarrow>
   ('any, 'sb, 'g) wavm_session result" where
  "WavmSession E sandboxCommandMessage keyLoaderPtr =
     (let transactionProtoHelper = parse_transaction (we_wire E) (sm_transaction sandboxCommandMessage)
      in rmap (\<lambda>m. \<lparr>ws_message = sandboxCommandMessage, ws_transaction = m,
           ws_model = RDFModelHelper_of_change RDFChange_persist, ws_rdf = mem_new (we_memory E),
           ws_keyLoader = keyLoaderPtr\<rparr>)
         (getTransactionMessageHelper (we_wire E) transactionProtoHelper))"

section \<open>The facade of the contract\<close>

definition getCurrentAccountHash :: "('any, 'sb, 'g) wavm_session \<Rightarrow> HashHelper result" where
  "getCurrentAccountHash this = getCurrentAccount (ws_transaction this)"

definition session_getAccount ::
  "('any, 'tb, 'ab, 'sb, 'g, 'f, 'priv, 'pub) wavm_env \<Rightarrow> ('any, 'sb, 'g) wavm_session \<Rightarrow> string result" where
  "session_getAccount E this = rbind (getCurrentAccountHash this) (\<lambda>h. HashHelper_getHash (we_codecs E) h HEX)"

definition session_getTransaction ::
  "('any, 'tb, 'ab, 'sb, 'g, 'f, 'priv, 'pub) wavm_env \<Rightarrow> ('any, 'sb, 'g) wavm_session \<Rightarrow> string result" where
  "session_getTransaction E this =
     HashHelper_getHash (we_codecs E) (signed_getHash (tm_signedTransaction (ws_transaction this))) HEX"

definition session_getStatus :: "('any, 'sb, 'g) wavm_session \<Rightarrow> Status" where
  "session_getStatus this = getStatus (ws_transaction this)"

definition getTransactionValue :: "('any, 'sb, 'g) wavm_session \<Rightarrow> NumberHelper" where
  "getTransactionValue this =
     transaction_getValue (signed_getTransaction (tm_signedTransaction (ws_transaction this)))"

definition getTransactionFee :: "('any, 'sb, 'g) wavm_session \<Rightarrow> NumberHelper" where
  "getTransactionFee this = 0"

definition TS_ID :: string where "TS_ID = ''id''"
definition TS_ACCOUNT_HASH :: string where "TS_ACCOUNT_HASH = ''accountHash''"
definition TS_TYPE :: string where "TS_TYPE = ''type''"
definition TS_DATE_TIME :: string where "TS_DATE_TIME = ''dateTime''"
definition TS_VALUE :: string where "TS_VALUE = ''value''"
definition DEBIT_ACTION :: string where "DEBIT_ACTION = ''debit''"
definition CREDIT_ACTION :: string where "CREDIT_ACTION = ''credit''"

definition getRequestModelTransactionValue ::
  "('any, 'tb, 'ab, 'sb, 'g, 'f, 'priv, 'pub) wavm_env \<Rightarrow> ('any, 'sb, 'g) wavm_session \<Rightarrow> string \<Rightarrow> string \<Rightarrow> c_long result" where
  "getRequestModelTransactionValue E this accountModel transactionValueModel =
     (let transactionUrl = RDFURLUtils transactionValueModel
      in rbind (session_getTransaction E this) (\<lambda>transactionId.
         getLongValue (we_memory E) (ws_rdf this) (buildSubjectUrl transactionUrl transactionId)
           (buildPredicateUrl transactionUrl TS_VALUE)))"

definition getRequestStringValue ::
  "('any, 'tb, 'ab, 'sb, 'g, 'f, 'priv, 'pub) wavm_env \<Rightarrow> ('any, 'sb, 'g) wavm_session \<Rightarrow> string \<Rightarrow> string \<Rightarrow> string result" where
  "getRequestStringValue E this subject predicate = getStringValue (we_memory E) (ws_rdf this) subject predicate"

definition getRequestLongValue ::
  "('any, 'tb, 'ab, 'sb, 'g, 'f, 'priv, 'pub) wavm_env \<Rightarrow> ('any, 'sb, 'g) wavm_session \<Rightarrow> string \<Rightarrow> string \<Rightarrow> c_long result" where
  "getRequestLongValue E this subject predicate = getLongValue (we_memory E) (ws_rdf this) subject predicate"

definition getRequestFloatValue ::
  "('any, 'tb, 'ab, 'sb, 'g, 'f, 'priv, 'pub) wavm_env \<Rightarrow> ('any, 'sb, 'g) wavm_session \<Rightarrow> string \<Rightarrow> string \<Rightarrow> 'f result" where
  "getRequestFloatValue E this subject predicate = getFloatValue (we_c E) (we_memory E) (ws_rdf this) subject predicate"

definition getRequestBooleanValue ::
  "('any, 'tb, 'ab, 'sb, 'g, 'f, 'priv, 'pub) wavm_env \<Rightarrow> ('any, 'sb, 'g) wavm_session \<Rightarrow> string \<Rightarrow> string \<Rightarrow> bool result" where
  "getRequestBooleanValue E this subject predicate = getBooleanValue (we_memory E) (ws_rdf this) subject predicate"

section \<open>Entries of the model\<close>

text \<open>\<open>getSubject\<close> and \<open>getPredicate\<close> hand out pointers into the model, made when they are missing.
  A change made through such a pointer is a change of the first entry of that name.\<close>

definition session_getSubject :: "string \<Rightarrow> RDFModel \<Rightarrow> RDFModel" where
  "session_getSubject subjectUrl model =
     (if \<not> model_contains model subjectUrl then addSubject model (RDFSubjectHelper_of_string subjectUrl) else model)"

definition session_getPredicate :: "string \<Rightarrow> RDFSubject \<Rightarrow> RDFSubject" where
  "session_getPredicate predicateUrl subject =
     (if \<not> containsPredicate subject predicateUrl
      then addPredicate subject (RDFPredicateHelper_of_string predicateUrl) else subject)"

fun update_first_subject :: "string \<Rightarrow> (RDFSubject \<Rightarrow> RDFSubject) \<Rightarrow> RDFDataFormat list \<Rightarrow> RDFDataFormat list" where
  "update_first_subject n f [] = []"
| "update_first_subject n f (rdfNtGroup g # ds) = rdfNtGroup g # update_first_subject n f ds"
| "update_first_subject n f (rdfSubject s # ds) =
     (if rs_subject s = n then rdfSubject (f s) # ds else rdfSubject s # update_first_subject n f ds)"

fun update_first_predicate :: "string \<Rightarrow> (RDFPredicate \<Rightarrow> RDFPredicate) \<Rightarrow> RDFPredicate list \<Rightarrow> RDFPredicate list" where
  "update_first_predicate n f [] = []"
| "update_first_predicate n f (p # ps) =
     (if rp_predicate p = n then f p # ps else p # update_first_predicate n f ps)"

definition model_entry :: "string \<Rightarrow> string \<Rightarrow> RDFObject \<Rightarrow> RDFModel \<Rightarrow> RDFModel" where
  "model_entry subjectUrl predicateUrl obj model =
     (let m = session_getSubject subjectUrl model
      in m\<lparr>rm_data := update_first_subject subjectUrl (\<lambda>subject.
           let s = session_getPredicate predicateUrl subject
           in s\<lparr>rs_predicates := update_first_predicate predicateUrl (\<lambda>p. addObject p obj) (rs_predicates s)\<rparr>) (rm_data m)\<rparr>)"

definition literal_object :: "string \<Rightarrow> string \<Rightarrow> RDFObject" where
  "literal_object v dataType = \<lparr>ro_value = v, ro_type = LITERAL, ro_lang = RDF_LANGUAGE, ro_dataType = dataType\<rparr>"

definition add_entry ::
  "string \<Rightarrow> string \<Rightarrow> string \<Rightarrow> string \<Rightarrow> ('g \<Rightarrow> 'g) \<Rightarrow> ('any, 'sb, 'g) wavm_session \<Rightarrow> ('any, 'sb, 'g) wavm_session" where
  "add_entry subjectUrl predicateUrl v dataType store this =
     this\<lparr>ws_model := model_entry subjectUrl predicateUrl (literal_object v dataType) (ws_model this),
       ws_rdf := store (ws_rdf this)\<rparr>"

definition addStringEntry ::
  "('any, 'tb, 'ab, 'sb, 'g, 'f, 'priv, 'pub) wavm_env \<Rightarrow> string \<Rightarrow> string \<Rightarrow> string \<Rightarrow>
   ('any, 'sb, 'g) wavm_session \<Rightarrow> ('any, 'sb, 'g) wavm_session" where
  "addStringEntry E subjectUrl predicateUrl v =
     add_entry subjectUrl predicateUrl v STRING_TYPE (setStringValue (we_memory E) subjectUrl predicateUrl v)"

definition addLongEntry ::
  "('any, 'tb, 'ab, 'sb, 'g, 'f, 'priv, 'pub) wavm_env \<Rightarrow> string \<Rightarrow> string \<Rightarrow> c_long \<Rightarrow>
   ('any, 'sb, 'g) wavm_session \<Rightarrow> ('any, 'sb, 'g) wavm_session" where
  "addLongEntry E subjectUrl predicateUrl v =
     add_entry subjectUrl predicateUrl (show_int (sint v)) LONG_TYPE (setLongValue (we_memory E) subjectUrl predicateUrl v)"

definition addFloatEntry ::
  "('any, 'tb, 'ab, 'sb, 'g, 'f, 'priv, 'pub) wavm_env \<Rightarrow> string \<Rightarrow> string \<Rightarrow> 'f \<Rightarrow>
   ('any, 'sb, 'g) wavm_session \<Rightarrow> ('any, 'sb, 'g) wavm_session" where
  "addFloatEntry E subjectUrl predicateUrl v =
     add_entry subjectUrl predicateUrl (show_float (we_c E) v) FLOAT_TYPE
       (setFloatValue (we_c E) (we_memory E) subjectUrl predicateUrl v)"

definition addBooleanModelEntry ::
  "('any, 'tb, 'ab, 'sb, 'g, 'f, 'priv, 'pub) wavm_env \<Rightarrow> string \<Rightarrow> string \<Rightarrow> bool \<Rightarrow>
   ('any, 'sb, 'g) wavm_session \<Rightarrow> ('any, 'sb, 'g) wavm_session" where
  "addBooleanModelEntry E subjectUrl predicateUrl v =
     add_entry subjectUrl predicateUrl (if v then ''true'' else ''false'') BOOLEAN_TYPE
       (setBooleanValue (we_memory E) subjectUrl predicateUrl v)"

definition addDateTimeModelEntry ::
  "('any, 'tb, 'ab, 'sb, 'g, 'f, 'priv, 'pub) wavm_env \<Rightarrow> string \<Rightarrow> string \<Rightarrow> c_long \<Rightarrow>
   ('any, 'sb, 'g) wavm_session \<Rightarrow> ('any, 'sb, 'g) wavm_session" where
  "addDateTimeModelEntry E subjectUrl predicateUrl v =
     add_entry subjectUrl predicateUrl (c_str (stack_time (we_c E))) DATE_TIME_TYPE
       (setDateTimeValue (we_c E) (we_memory E) subjectUrl predicateUrl v)"

definition createDebitEntry ::
  "('any, 'tb, 'ab, 'sb, 'g, 'f, 'priv, 'pub) wavm_env \<Rightarrow> c_long \<Rightarrow> string \<Rightarrow> string \<Rightarrow> NumberHelper \<Rightarrow>
   (('any, 'sb, 'g) wavm_session, unit) prog" where
  "createDebitEntry E now accountModel transactionValueModel v =
     (let transactionUrl = RDFURLUtils transactionValueModel in
      sbind (\<lambda>this. (session_getTransaction E this, this)) (\<lambda>i.
      sbind (\<lambda>this. (session_getAccount E this, this)) (\<lambda>hash.
      let subjectUrl = buildSubjectUrl transactionUrl (''debit_'' @ hash @ ''_'' @ i) in
      smodify (\<lambda>this.
        addLongEntry E subjectUrl (buildPredicateUrl transactionUrl TS_VALUE) v
        (addStringEntry E subjectUrl (buildPredicateUrl transactionUrl TS_ACCOUNT_HASH) hash
        (addStringEntry E subjectUrl (buildPredicateUrl transactionUrl TS_TYPE) DEBIT_ACTION
        (addDateTimeModelEntry E subjectUrl (buildPredicateUrl transactionUrl TS_DATE_TIME) now
        (addStringEntry E subjectUrl (buildPredicateUrl transactionUrl TS_ID) i this))))))))"

definition createCreditEntry ::
  "('any, 'tb, 'ab, 'sb, 'g, 'f, 'priv, 'pub) wavm_env \<Rightarrow> c_long \<Rightarrow> string \<Rightarrow> string \<Rightarrow> NumberHelper \<Rightarrow>
   (('any, 'sb, 'g) wavm_session, unit) prog" where
  "createCreditEntry E now accountModel transactionValueModel v =
     (let transactionUrl = RDFURLUtils transactionValueModel in
      sbind (\<lambda>this. (session_getTransaction E this, this)) (\<lambda>i.
      sbind (\<lambda>this. (session_getAccount E this, this)) (\<lambda>hash.
      let subjectUrl = buildSubjectUrl transactionUrl (''credit_'' @ hash @ ''_'' @ i) in
      smodify (\<lambda>this.
        addLongEntry E subjectUrl (buildPredicateUrl transactionUrl TS_VALUE) v
        (addStringEntry E subjectUrl (buildPredicateUrl transactionUrl TS_ACCOUNT_HASH) hash
        (addStringEntry E subjectUrl (buildPredicateUrl transactionUrl TS_TYPE) CREDIT_ACTION
        (addDateTimeModelEntry E subjectUrl (buildPredicateUrl transactionUrl TS_DATE_TIME) now
        (addStringEntry E subjectUrl (buildPredicateUrl transactionUrl TS_ID) i this))))))))"

definition setResponseStringValue ::
  "('any, 'tb, 'ab, 'sb, 'g, 'f, 'priv, 'pub) wavm_env \<Rightarrow> string \<Rightarrow> string \<Rightarrow> string \<Rightarrow>
   ('any, 'sb, 'g) wavm_session \<Rightarrow> ('any, 'sb, 'g) wavm_session" where
  "setResponseStringValue E subject predicate v = addStringEntry E subject predicate v"

definition setResponseLongValue ::
  "('any, 'tb, 'ab, 'sb, 'g, 'f, 'priv, 'pub) wavm_env \<Rightarrow> string \<Rightarrow> string \<Rightarrow> c_long \<Rightarrow>
   ('any, 'sb, 'g) wavm_session \<Rightarrow> ('any, 'sb, 'g) wavm_session" where
  "setResponseLongValue E subject predicate v = addLongEntry E subject predicate v"

definition setResponseFloatValue ::
  "('any, 'tb, 'ab, 'sb, 'g, 'f, 'priv, 'pub) wavm_env \<Rightarrow> string \<Rightarrow> string \<Rightarrow> 'f \<Rightarrow>
   ('any, 'sb, 'g) wavm_session \<Rightarrow> ('any, 'sb, 'g) wavm_session" where
  "setResponseFloatValue E subject predicate v = addFloatEntry E subject predicate v"

definition setResponseBooleanValue ::
  "('any, 'tb, 'ab, 'sb, 'g, 'f, 'priv, 'pub) wavm_env \<Rightarrow> string \<Rightarrow> string \<Rightarrow> bool \<Rightarrow>
   ('any, 'sb, 'g) wavm_session \<Rightarrow> ('any, 'sb, 'g) wavm_session" where
  "setResponseBooleanValue E subject predicate v = addBooleanModelEntry E subject predicate v"

section \<open>The result\<close>

definition getSandboxCommandMessage ::
  "('any, 'tb, 'ab, 'sb, 'g, 'f, 'priv, 'pub) wavm_env \<Rightarrow> (('any, 'sb, 'g) wavm_session, 'sb sandbox_message) prog" where
  "getSandboxCommandMessage E =
     sbind (\<lambda>this. (we_any_of_model E (ws_model this), this)) (\<lambda>anyModel.
     sbind (\<lambda>this. (getCurrentAccountHash this, this)) (\<lambda>account.
     sbind (sget ws_transaction) (\<lambda>m.
     let p0 = ChangeSetBuilder_of_hashes (signed_getHash (tm_signedTransaction m)) account;
         builder = snd (changes_setStatus (getStatus m) (snd (changes_addChange anyModel p0)))
     in sbind (sget (\<lambda>this. SignedChangeSetBuilder_of_loader (we_botan E) (we_asn1 E) builder (ws_keyLoader this))) (\<lambda>r.
     sbind (slift r) (\<lambda>signedBuilder.
     case signed_sign (we_botan E) signedBuilder of
       (Inl e, _) \<Rightarrow> sthrow e
     | (Inr _, b) \<Rightarrow>
         sbind (slift (deref (scb_signedChangedSet b))) (\<lambda>signedChangeSet.
         sbind (smodify (\<lambda>this. this\<lparr>ws_transaction := addChangeSet (ws_transaction this) signedChangeSet\<rparr>)) (\<lambda>_.
         sbind (sget (\<lambda>this. TransactionProtoHelper_of_message (we_wire E) (ws_transaction this))) (\<lambda>t.
         sbind (slift t) (\<lambda>transactionProtoHelper.
         sbind (smodify (\<lambda>this. this\<lparr>ws_message := (ws_message this)
             \<lparr>sm_transaction := serialize_transaction (we_wire E) transactionProtoHelper\<rparr>\<rparr>)) (\<lambda>_.
         sget ws_message))))))))))"

section \<open>Values a contract reads back\<close>

lemma show_nat_printable: "CHR 0x00 \<notin> set (show_nat n)"
proof (induction n rule: show_nat.induct)
  case (1 n)
  have "digit_char d \<noteq> CHR 0x00" if "d < 10" for d
    using is_digit_digit_char [OF that] by (auto simp: is_digit_def)
  moreover have "n mod 10 < 10" by simp
  ultimately show ?case using 1 by (subst show_nat.simps) (auto dest: sym)
qed

lemma c_str_show_int [simp]: "c_str (show_int i) = show_int i"
  using show_nat_printable by (intro c_str_idem) (simp add: show_int_def)

lemma first_target_keeps:
  assumes "memory_ok M" and "mem_targets M g (c_str s) (c_str p) \<noteq> []"
  shows "first_target M (add_literal M s p v dt g) s p = first_target M g s p \<and>
    mem_targets M (add_literal M s p v dt g) (c_str s) (c_str p) \<noteq> []"
proof -
  obtain t ts where t: "mem_targets M g (c_str s) (c_str p) = t # ts" using assms(2) by (auto simp: neq_Nil_conv)
  from memory_okD(2) [OF assms(1) t, of "Typed_literal (c_str v) dt"] show ?thesis
    using t first_target_add [OF assms(1), of s p v dt g s p] by (auto simp: add_literal_def)
qed

lemma first_target_new:
  assumes "memory_ok M" and "mem_targets M g (c_str s) (c_str p) = []"
  shows "first_target M (add_literal M s p v dt g) s p = Inr (c_str v) \<and>
    mem_targets M (add_literal M s p v dt g) (c_str s) (c_str p) \<noteq> []"
  using assms first_target_add [OF assms(1), of s p v dt g s p]
  by (simp add: add_literal_def memory_okD(1) [OF assms(1)])

lemma first_target_folds:
  assumes "memory_ok M" and "mem_targets M g (c_str s) (c_str p) \<noteq> []"
  shows "first_target M (fold (\<lambda>v. add_literal M s p (f v) dt) vs g) s p = first_target M g s p"
  using assms(2)
proof (induction vs arbitrary: g)
  case Nil
  then show ?case by simp
next
  case (Cons v vs)
  then show ?case using first_target_keeps [OF assms(1), of g s p "f v" dt] by simp
qed

lemma first_target_set_fold:
  assumes "memory_ok M" and "mem_targets M g (c_str s) (c_str p) = []"
  shows "first_target M (fold (\<lambda>v. add_literal M s p (f v) dt) (v # vs) g) s p = Inr (c_str (f v))"
  using first_target_new [OF assms, of "f v" dt] by (simp add: first_target_folds [OF assms(1)])

lemma rdf_of_fold:
  assumes "\<And>v this. ws_rdf (f v this) = h v (ws_rdf this)"
  shows "ws_rdf (fold f vs this) = fold h vs (ws_rdf this)"
  by (induction vs arbitrary: this) (simp_all add: assms)

lemmas response_defs = setResponseStringValue_def addStringEntry_def setStringValue_def
  setResponseLongValue_def addLongEntry_def setLongValue_def setResponseBooleanValue_def
  addBooleanModelEntry_def setBooleanValue_def add_entry_def

text \<open>The first value a contract sets for a subject and a predicate is the one it reads back,
  a string as it is and a number in full range; the values it sets later for the same subject and
  predicate are never seen.\<close>

theorem first_response_value_wins:
  assumes "memory_ok (we_memory E)" and "mem_targets (we_memory E) (ws_rdf this) (c_str s) (c_str p) = []"
    and "CHR 0x00 \<notin> set v"
  shows "getRequestStringValue E (fold (setResponseStringValue E s p) (v # vs) this) s p = Inr v \<and>
    getRequestLongValue E (fold (setResponseLongValue E s p) (n # ns) this) s p = Inr n"
proof -
  let ?M = "we_memory E"
  have "ws_rdf (fold (setResponseStringValue E s p) (v # vs) this) =
      fold (\<lambda>x. add_literal ?M s p x STRING_TYPE) (v # vs) (ws_rdf this)"
    by (rule rdf_of_fold) (simp add: response_defs)
  moreover have "ws_rdf (fold (setResponseLongValue E s p) (n # ns) this) =
      fold (\<lambda>x. add_literal ?M s p (show_int (sint x)) LONG_TYPE) (n # ns) (ws_rdf this)"
    by (rule rdf_of_fold) (simp add: response_defs)
  ultimately show ?thesis
    using first_target_set_fold [OF assms(1,2), of "\<lambda>x. x" STRING_TYPE v vs]
      first_target_set_fold [OF assms(1,2), of "\<lambda>x. show_int (sint x)" LONG_TYPE n ns] assms(3)
    by (simp add: getRequestStringValue_def getStringValue_def getRequestLongValue_def getLongValue_def atol_show_int
        del: fold_simps)
qed

text \<open>A boolean is read back inverted. A contract that stores a truth value and reads it from
  its session gets its negation.\<close>

theorem boolean_response_is_inverted:
  assumes "memory_ok (we_memory E)" and "mem_targets (we_memory E) (ws_rdf this) (c_str s) (c_str p) = []"
  shows "getRequestBooleanValue E (setResponseBooleanValue E s p b this) s p = Inr (\<not> b)"
proof -
  have "c_str (boolean_text b) = boolean_text b" by (rule c_str_idem) (simp add: boolean_text_def)
  moreover have "map to_lower (boolean_text b) = boolean_text b" by (cases b) (simp_all add: boolean_text_def to_lower_def)
  ultimately show ?thesis
    using first_target_new [OF assms, of "boolean_text b" BOOLEAN_TYPE]
    by (simp add: getRequestBooleanValue_def getBooleanValue_def response_defs Let_def)
       (simp add: boolean_text_def)
qed

section \<open>The entries of a transfer\<close>

lemma update_first_subject_append:
  "\<not> list_ex (\<lambda>s. rs_subject s = n) (subjects_of ds) \<Longrightarrow>
    update_first_subject n f (ds @ [rdfSubject s]) = ds @ update_first_subject n f [rdfSubject s]"
  by (induction n f ds rule: update_first_subject.induct) auto

lemma update_first_predicate_append:
  "\<forall>q \<in> set ps. rp_predicate q \<noteq> n \<Longrightarrow> update_first_predicate n f (ps @ [q]) = ps @ update_first_predicate n f [q]"
  by (induction ps) auto

text \<open>A new entry for the subject added last, and the first entry of a new subject.\<close>

lemma model_entry_last:
  assumes "\<not> list_ex (\<lambda>s. rs_subject s = url) (subjects_of ds)" and "\<forall>q \<in> set ps. rp_predicate q \<noteq> pred"
  shows "model_entry url pred obj \<lparr>rm_action = act, rm_data = ds @ [rdfSubject \<lparr>rs_subject = url, rs_predicates = ps\<rparr>]\<rparr> =
    \<lparr>rm_action = act, rm_data = ds @ [rdfSubject \<lparr>rs_subject = url,
       rs_predicates = ps @ [\<lparr>rp_predicate = pred, rp_objects = [RDFObjectHelper_object obj]\<rparr>]\<rparr>]\<rparr>"
  using assms
  by (simp add: model_entry_def session_getSubject_def model_contains_def Let_def update_first_subject_append
      session_getPredicate_def containsPredicate_def list_ex_iff addPredicate_def RDFPredicateHelper_of_string_def
      update_first_predicate_append addObject_def)

lemma model_entry_new:
  assumes "\<not> list_ex (\<lambda>s. rs_subject s = url) (subjects_of ds)"
  shows "model_entry url pred obj \<lparr>rm_action = act, rm_data = ds\<rparr> =
    \<lparr>rm_action = act, rm_data = ds @ [rdfSubject \<lparr>rs_subject = url,
       rs_predicates = [\<lparr>rp_predicate = pred, rp_objects = [RDFObjectHelper_object obj]\<rparr>]\<rparr>]\<rparr>"
  using assms
  by (simp add: model_entry_def session_getSubject_def model_contains_def Let_def update_first_subject_append
      session_getPredicate_def containsPredicate_def list_ex_iff addPredicate_def RDFPredicateHelper_of_string_def
      addObject_def addSubject_def RDFSubjectHelper_of_string_def)

definition ledger_predicates ::
  "('any, 'tb, 'ab, 'sb, 'g, 'f, 'priv, 'pub) wavm_env \<Rightarrow> RDFURL \<Rightarrow> string \<Rightarrow> string \<Rightarrow> string \<Rightarrow> c_long \<Rightarrow> (string \<times> RDFObject) list" where
  "ledger_predicates E url i hash kind v =
     [(buildPredicateUrl url TS_ID, literal_object i STRING_TYPE),
      (buildPredicateUrl url TS_DATE_TIME, literal_object (c_str (stack_time (we_c E))) DATE_TIME_TYPE),
      (buildPredicateUrl url TS_TYPE, literal_object kind STRING_TYPE),
      (buildPredicateUrl url TS_ACCOUNT_HASH, literal_object hash STRING_TYPE),
      (buildPredicateUrl url TS_VALUE, literal_object (show_int (sint v)) LONG_TYPE)]"

definition ledger_entry ::
  "('any, 'tb, 'ab, 'sb, 'g, 'f, 'priv, 'pub) wavm_env \<Rightarrow> RDFURL \<Rightarrow> string \<Rightarrow> string \<Rightarrow> string \<Rightarrow> c_long \<Rightarrow> RDFDataFormat" where
  "ledger_entry E url i hash kind v = rdfSubject
     \<lparr>rs_subject = buildSubjectUrl url (kind @ ''_'' @ hash @ ''_'' @ i),
      rs_predicates = map (\<lambda>(p, obj). \<lparr>rp_predicate = p, rp_objects = [obj]\<rparr>) (ledger_predicates E url i hash kind v)\<rparr>"

lemma object_literal [simp]: "RDFObjectHelper_object (literal_object v dt) = literal_object v dt"
  by (simp add: RDFObjectHelper_object_def literal_object_def)

lemma ledger_model:
  assumes "\<not> list_ex (\<lambda>s. rs_subject s = url) (subjects_of ds)" and "distinct (map fst ps)" and "ps \<noteq> []"
  shows "fold (\<lambda>(p, obj). model_entry url p obj) ps \<lparr>rm_action = act, rm_data = ds\<rparr> =
    \<lparr>rm_action = act, rm_data = ds @ [rdfSubject \<lparr>rs_subject = url,
      rs_predicates = map (\<lambda>(p, obj). \<lparr>rp_predicate = p, rp_objects = [RDFObjectHelper_object obj]\<rparr>) ps\<rparr>]\<rparr>"
  using assms(2,3)
proof (induction ps rule: rev_induct)
  case Nil
  then show ?case by simp
next
  case (snoc x ps)
  obtain p obj where x: "x = (p, obj)" by (cases x)
  show ?case
  proof (cases "ps = []")
    case True
    then show ?thesis by (simp add: x model_entry_new [OF assms(1)])
  next
    case False
    have "\<forall>q \<in> set (map (\<lambda>(p, obj). \<lparr>rp_predicate = p, rp_objects = [RDFObjectHelper_object obj]\<rparr>) ps). rp_predicate q \<noteq> p"
      using snoc.prems(1) by (force simp: x)
    with False snoc show ?thesis by (simp add: x model_entry_last [OF assms(1)])
  qed
qed

lemma ledger_distinct: "distinct (map fst (ledger_predicates E url i hash kind v))"
  by (simp add: ledger_predicates_def buildPredicateUrl_def TS_ID_def TS_DATE_TIME_def TS_TYPE_def TS_ACCOUNT_HASH_def TS_VALUE_def)

lemma ledger_entry_model:
  assumes "\<not> list_ex (\<lambda>s. rs_subject s = buildSubjectUrl url (kind @ ''_'' @ hash @ ''_'' @ i)) (subjects_of (rm_data m))"
  shows "fold (\<lambda>(p, obj). model_entry (buildSubjectUrl url (kind @ ''_'' @ hash @ ''_'' @ i)) p obj)
      (ledger_predicates E url i hash kind v) m =
    m\<lparr>rm_data := rm_data m @ [ledger_entry E url i hash kind v]\<rparr>"
proof -
  let ?ps = "ledger_predicates E url i hash kind v" and ?url = "buildSubjectUrl url (kind @ ''_'' @ hash @ ''_'' @ i)"
  have eq: "map (\<lambda>(p, obj). \<lparr>rp_predicate = p, rp_objects = [RDFObjectHelper_object obj]\<rparr>) ?ps =
      map (\<lambda>(p, obj). \<lparr>rp_predicate = p, rp_objects = [obj]\<rparr>) ?ps" and ne: "?ps \<noteq> []"
    by (simp_all add: ledger_predicates_def)
  have "m = \<lparr>rm_action = rm_action m, rm_data = rm_data m\<rparr>" by simp
  then have "fold (\<lambda>(p, obj). model_entry ?url p obj) ?ps m =
      \<lparr>rm_action = rm_action m, rm_data = rm_data m @ [ledger_entry E url i hash kind v]\<rparr>"
    unfolding ledger_entry_def eq [symmetric] using ledger_model [OF assms ledger_distinct ne, of "rm_action m"] by metis
  then show ?thesis by simp
qed

lemma session_reads_transaction:
  "session_getTransaction E (s\<lparr>ws_model := m, ws_rdf := g\<rparr>) = session_getTransaction E s"
  "session_getAccount E (s\<lparr>ws_model := m, ws_rdf := g\<rparr>) = session_getAccount E s"
  by (simp_all add: session_getTransaction_def session_getAccount_def getCurrentAccountHash_def)

lemmas entry_defs = addStringEntry_def addLongEntry_def addDateTimeModelEntry_def add_entry_def prog_defs
  ledger_predicates_def Let_def

lemma createDebitEntry_eq:
  assumes "session_getTransaction E s = Inr i" and "session_getAccount E s = Inr hash"
  obtains g where "createDebitEntry E now am url v s = (Inr (), s\<lparr>
    ws_model := fold (\<lambda>(p, obj). model_entry (buildSubjectUrl (RDFURLUtils url) (''debit'' @ ''_'' @ hash @ ''_'' @ i)) p obj)
      (ledger_predicates E (RDFURLUtils url) i hash ''debit'' v) (ws_model s), ws_rdf := g\<rparr>)"
  using assms by (simp add: createDebitEntry_def entry_defs DEBIT_ACTION_def)

lemma createCreditEntry_eq:
  assumes "session_getTransaction E s = Inr i" and "session_getAccount E s = Inr hash"
  obtains g where "createCreditEntry E now am url v s = (Inr (), s\<lparr>
    ws_model := fold (\<lambda>(p, obj). model_entry (buildSubjectUrl (RDFURLUtils url) (''credit'' @ ''_'' @ hash @ ''_'' @ i)) p obj)
      (ledger_predicates E (RDFURLUtils url) i hash ''credit'' v) (ws_model s), ws_rdf := g\<rparr>)"
  using assms by (simp add: createCreditEntry_def entry_defs CREDIT_ACTION_def)


section \<open>WavmSessionManager, WavmSessionScope and SandboxService\<close>

text \<open>The thread's session is an option. The engine that runs the code of a contract is a parameter
  on the session; loading the code may throw, and so may running it. The handlers of
  \<open>executeActionMessage\<close> log and throw again.\<close>

definition initWavmSession ::
  "('any, 'tb, 'ab, 'sb, 'g, 'f, 'priv, 'pub) wavm_env \<Rightarrow> KeyLoader \<Rightarrow> 'sb sandbox_message \<Rightarrow>
   (('any, 'sb, 'g) wavm_session option, unit) prog" where
  "initWavmSession E keyLoaderPtr sandboxCommandMessage =
     sbind (slift (WavmSession E sandboxCommandMessage keyLoaderPtr)) (\<lambda>session. smodify (\<lambda>_. Some session))"

definition finWavmSession :: "('any, 'sb, 'g) wavm_session option \<Rightarrow> ('any, 'sb, 'g) wavm_session option" where
  "finWavmSession p = None"

definition on_session :: "('s, 'a) prog \<Rightarrow> ('s option, 'a) prog" where
  "on_session m p = (case p of None \<Rightarrow> (Inl NullPointerDereference, None)
     | Some s \<Rightarrow> (case m s of (r, t) \<Rightarrow> (r, Some t)))"

definition with_session_scope ::
  "('any, 'tb, 'ab, 'sb, 'g, 'f, 'priv, 'pub) wavm_env \<Rightarrow> KeyLoader \<Rightarrow> 'sb sandbox_message \<Rightarrow>
   (('any, 'sb, 'g) wavm_session option, 'a) prog \<Rightarrow> (('any, 'sb, 'g) wavm_session option, 'a) prog" where
  "with_session_scope E keyLoaderPtr msg body p = (case initWavmSession E keyLoaderPtr msg p of
       (Inl e, p1) \<Rightarrow> (Inl e, p1)
     | (Inr _, p1) \<Rightarrow> (case body p1 of (r, p2) \<Rightarrow> (r, finWavmSession p2)))"

definition executeActionMessage ::
  "('any, 'tb, 'ab, 'sb, 'g, 'f, 'priv, 'pub) wavm_env \<Rightarrow> KeyLoader \<Rightarrow>
   (string \<Rightarrow> (('any, 'sb, 'g) wavm_session, unit) prog) \<Rightarrow> 'sb sandbox_message \<Rightarrow>
   (('any, 'sb, 'g) wavm_session option, 'sb sandbox_message) prog" where
  "executeActionMessage E keyLoaderPtr engine msg = with_session_scope E keyLoaderPtr msg
     (sbind (slift (hex_decode_locked (we_codecs E) (sm_contract msg))) (\<lambda>b.
      let code = copyVectorToString b in
      sbind (on_session (engine code)) (\<lambda>_. on_session (getSandboxCommandMessage E))))"

lemma executeActionMessage_ends_session:
  "snd (executeActionMessage E k engine msg p) = (if is_ok (WavmSession E msg k) then None else p)"
  by (cases "WavmSession E msg k")
     (auto simp: executeActionMessage_def with_session_scope_def initWavmSession_def finWavmSession_def prog_defs
      split: prod.splits sum.splits)

text \<open>The change set a session writes.\<close>

definition session_changes :: "'any TransactionMessage_t \<Rightarrow> HashHelper \<Rightarrow> 'any \<Rightarrow> 'any ChangeSet_t" where
  "session_changes m account change = \<lparr>cs_version = PROTOCOL_VERSION,
     cs_transactionHash = st_transactionHash (tm_signedTransaction m), cs_accountHash = account,
     cs_status = getStatus m, cs_changes = [asn1Change change]\<rparr>"

lemma addChangeSet_account [simp]: "getCurrentAccount (addChangeSet m scs) = getCurrentAccount m"
  by (simp add: addChangeSet_def getCurrentAccount_def getStatus_def getSourceAccount_def getTargetAccount_def
      getFeeAccount_def)

lemma sandbox_message_eq:
  assumes "wire_ok (we_wire E)" and account: "getCurrentAccount (ws_transaction s) = Inr a"
    and "we_any_of_model E (ws_model s) = Inr change"
    and "getPrivateKey (we_botan E) (ws_keyLoader s) = Inr priv"
    and "encode_ChangeSet (we_asn1 E) (session_changes (ws_transaction s) a change) = Inr e"
  shows "\<exists>t. TransactionProtoHelper_of_message (we_wire E)
      (addChangeSet (ws_transaction s) (signed_changes (we_botan E) priv (session_changes (ws_transaction s) a change) e)) = Inr t \<and>
    fst (getSandboxCommandMessage E s) = Inr ((ws_message s)\<lparr>sm_transaction := serialize_transaction (we_wire E) t\<rparr>)"
proof -
  let ?m = "ws_transaction s" let ?cs = "session_changes ?m a change"
  let ?m1 = "addChangeSet ?m (signed_changes (we_botan E) priv ?cs e)"
  obtain b where b: "SignedChangeSetBuilder_of_loader (we_botan E) (we_asn1 E) (Some ?cs) (ws_keyLoader s) = Inr b"
    "signed_sign (we_botan E) b = (Inr (), b\<lparr>scb_signedChangedSet := Some (signed_changes (we_botan E) priv ?cs e)\<rparr>)"
    using assms(4,5) by (rule loader_builder_signs)
  have cs: "snd (changes_setStatus (getStatus ?m) (snd (changes_addChange change
      (ChangeSetBuilder_of_hashes (signed_getHash (tm_signedTransaction ?m)) a)))) = Some ?cs"
    by (simp add: changes_setStatus_def changes_addChange_def ChangeSetBuilder_of_hashes_def session_changes_def
        signed_getHash_def hash_defs)
  obtain t where t: "TransactionProtoHelper_of_message (we_wire E) ?m1 = Inr t"
    using account by (simp add: TransactionProtoHelper_of_message_def)
  then have "fst (getSandboxCommandMessage E s) = Inr ((ws_message s)\<lparr>sm_transaction := serialize_transaction (we_wire E) t\<rparr>)"
    using assms(2,3) b cs
    by (simp add: getSandboxCommandMessage_def getCurrentAccountHash_def sbind_def sget_def slift_def smodify_def Let_def)
  with t show ?thesis by blast
qed

lemma executed_message:
  assumes "wire_ok (we_wire E)" and "getPrivateKey (we_botan E) k = Inr priv"
    and "getTransactionMessageHelper (we_wire E) (parse_transaction (we_wire E) (sm_transaction msg)) = Inr m"
    and "getCurrentAccount m = Inr a" and "hex_decode_locked (we_codecs E) (sm_contract msg) = Inr code"
    and "WavmSession E msg k = Inr s"
    and "engine (copyVectorToString code) s = (Inr (), s\<lparr>ws_model := model, ws_rdf := g\<rparr>)"
    and "we_any_of_model E model = Inr change"
    and "encode_ChangeSet (we_asn1 E) (session_changes m a change) = Inr e"
  obtains t where "executeActionMessage E k engine msg p = (Inr (msg\<lparr>sm_transaction := serialize_transaction (we_wire E) t\<rparr>), None)"
    and "parse_transaction (we_wire E) (serialize_transaction (we_wire E) t) = t"
    and "getTransactionMessageHelper (we_wire E) t =
      Inr (addChangeSet m (signed_changes (we_botan E) priv (session_changes m a change) e))"
proof -
  have s: "ws_transaction s = m" "ws_message s = msg" "ws_keyLoader s = k"
    using assms(3,6) by (auto simp: WavmSession_def Let_def)
  let ?s1 = "s\<lparr>ws_model := model, ws_rdf := g\<rparr>" let ?cs = "session_changes m a change"
  let ?m1 = "addChangeSet m (signed_changes (we_botan E) priv ?cs e)"
  obtain t where t: "TransactionProtoHelper_of_message (we_wire E) ?m1 = Inr t"
    and msg: "fst (getSandboxCommandMessage E ?s1) = Inr (msg\<lparr>sm_transaction := serialize_transaction (we_wire E) t\<rparr>)"
    using sandbox_message_eq [of E ?s1 a change priv e] assms s by auto
  have "executeActionMessage E k engine msg p = (Inr (msg\<lparr>sm_transaction := serialize_transaction (we_wire E) t\<rparr>), None)"
  proof (rule prod_eqI)
    obtain r s2 where gs: "getSandboxCommandMessage E ?s1 = (r, s2)" by fastforce
    with msg assms(5,6,7) show "fst (executeActionMessage E k engine msg p) =
        fst (Inr (msg\<lparr>sm_transaction := serialize_transaction (we_wire E) t\<rparr>), None)"
      by (simp add: executeActionMessage_def with_session_scope_def initWavmSession_def on_session_def sbind_def
          slift_def smodify_def)
  qed (simp add: executeActionMessage_ends_session assms(6))
  then show ?thesis using that protohelper_roundtrip [OF assms(1) t] wire_okD(3) [OF assms(1)] by blast
qed

text \<open>C4: the result of a contract is the transaction with one more change set. When the contract
  returns, the message it is answered with has the same contract and a transaction that decodes to
  the one that came in with one signed change set added: for the current account and status of the
  transaction, with the model the contract built as its only change, and with a signature the
  public key of the sandbox accepts. No session is left on the thread.\<close>

theorem contract_result_is_signed:
  assumes "wire_ok (we_wire E)" and "key_pair (we_botan E) priv pub"
    and "getPrivateKey (we_botan E) k = Inr priv" and "getPublicKey (we_botan E) k = Inr pub"
    and "getTransactionMessageHelper (we_wire E) (parse_transaction (we_wire E) (sm_transaction msg)) = Inr m"
    and "getCurrentAccount m = Inr a"
    and "hex_decode_locked (we_codecs E) (sm_contract msg) = Inr code"
    and "WavmSession E msg k = Inr s"
    and "engine (copyVectorToString code) s = (Inr (), s\<lparr>ws_model := model, ws_rdf := g\<rparr>)"
    and "we_any_of_model E model = Inr change"
    and "encode_ChangeSet (we_asn1 E) (session_changes m a change) = Inr e"
  shows "\<exists>msg' m' scs. executeActionMessage E k engine msg p = (Inr msg', None) \<and>
    sm_contract msg' = sm_contract msg \<and>
    getTransactionMessageHelper (we_wire E) (parse_transaction (we_wire E) (sm_transaction msg')) = Inr m' \<and>
    m' = m\<lparr>tm_changeSet := tm_changeSet m @ [scs]\<rparr> \<and> sc_changeSet scs = session_changes m a change \<and>
    fst (verification_check (we_botan E) (sc_signature scs)
      (SignatureVerification_of_public pub (sc_changeSetHash scs))) = Inr True"
proof -
  let ?cs = "session_changes m a change"
  obtain t where "executeActionMessage E k engine msg p = (Inr (msg\<lparr>sm_transaction := serialize_transaction (we_wire E) t\<rparr>), None)"
    "parse_transaction (we_wire E) (serialize_transaction (we_wire E) t) = t"
    "getTransactionMessageHelper (we_wire E) t = Inr (addChangeSet m (signed_changes (we_botan E) priv ?cs e))"
    by (rule executed_message [where E = E and engine = engine and s = s and model = model and g = g, OF assms(1,3,5-11)])
  moreover have "sc_changeSet (signed_changes (we_botan E) priv ?cs e) = ?cs" by (simp add: signed_changes_def)
  ultimately show ?thesis
    using signed_changes_verify [OF assms(2), of ?cs e] by (auto simp: addChangeSet_def)
qed

section \<open>Witnesses\<close>

text \<open>A store that is the list of its statements, and a library without floats.\<close>

definition plain_memory :: "rdf_statement list rdf_memory" where
  "plain_memory = \<lparr>mem_new = [], mem_add = (\<lambda>st g. g @ [st]),
     mem_targets = (\<lambda>g s p. map (snd \<circ> snd) (filter (\<lambda>st. fst st = s \<and> fst (snd st) = p) g)),
     mem_query = (\<lambda>g q. None)\<rparr>"

lemma plain_memory_ok: "memory_ok plain_memory"
  by (auto simp: memory_ok_def plain_memory_def)

type_synonym plain_message = "bytes TransactionMessage_t option"

definition plain_wavm_env ::
  "(bytes, plain_message, plain_message ptransaction, plain_message ptransaction, rdf_statement list, unit, bytes, bytes) wavm_env" where
  "plain_wavm_env = \<lparr>we_memory = plain_memory,
     we_c = \<lparr>show_float = (\<lambda>_. ''0''), atof = (\<lambda>_. ()), stack_time = ''1970'', parse_time = (\<lambda>_. 0)\<rparr>,
     we_codecs = plain_codecs, we_wire = plain_wire, we_botan = plain_botan, we_asn1 = plain_asn1,
     we_any_of_model = (\<lambda>m. Inr [of_nat (length (rm_data m))])\<rparr>"

definition plain_sandbox_message :: "plain_message ptransaction sandbox_message" where
  "plain_sandbox_message = \<lparr>sm_contract = ''code'', sm_model = [], sm_transaction = \<lparr>pt_transaction_hash = [3],
     pt_transaction_signature = [4], pt_active_account = [1], pt_status = INIT,
     pt_asn1_transaction_message = Some sample_message\<rparr>, sm_changes = []\<rparr>"

definition plain_session :: "(bytes, plain_message ptransaction, rdf_statement list) wavm_session" where
  "plain_session = \<lparr>ws_message = plain_sandbox_message, ws_transaction = sample_message,
     ws_model = \<lparr>rm_action = RDFChange_persist, rm_data = []\<rparr>, ws_rdf = [], ws_keyLoader = plain_loader\<rparr>"

lemma plain_env_parts [simp]:
  "we_memory plain_wavm_env = plain_memory" "we_wire plain_wavm_env = plain_wire" "we_botan plain_wavm_env = plain_botan"
  "we_asn1 plain_wavm_env = plain_asn1" "we_codecs plain_wavm_env = plain_codecs"
  "we_any_of_model plain_wavm_env m = Inr [of_nat (length (rm_data m))]"
  by (simp_all add: plain_wavm_env_def)

lemma plain_session_facts:
  "memory_ok (we_memory plain_wavm_env)" "mem_targets (we_memory plain_wavm_env) (ws_rdf plain_session) s p = []"
  "WavmSession plain_wavm_env plain_sandbox_message plain_loader = Inr plain_session"
  "getCurrentAccount sample_message = Inr [1]"
  using plain_memory_ok
  by (simp_all add: plain_session_def WavmSession_def plain_wire_def) (simp_all add: plain_memory_def plain_sandbox_message_def getTransactionMessageHelper_def Let_def RDFModelHelper_of_change_def
      sample_message_def TransactionMessageHelper_of_signed_def getCurrentAccount_def getStatus_def getSourceAccount_def
      hash_defs)

theorem first_response_value_wins_witness:
  "getRequestStringValue plain_wavm_env (fold (setResponseStringValue plain_wavm_env ''s'' ''p'') [''v'', ''w''] plain_session) ''s'' ''p'' = Inr ''v'' \<and>
   getRequestLongValue plain_wavm_env (fold (setResponseLongValue plain_wavm_env ''s'' ''p'') [- 5, 6] plain_session) ''s'' ''p'' = Inr (- 5)"
  by (rule first_response_value_wins [OF plain_session_facts(1,2)]) simp

theorem boolean_response_is_inverted_witness:
  "getRequestBooleanValue plain_wavm_env (setResponseBooleanValue plain_wavm_env ''s'' ''p'' True plain_session) ''s'' ''p'' = Inr False"
  using boolean_response_is_inverted [OF plain_session_facts(1,2), of "''s''" "''p''" True] by simp


theorem contract_result_is_signed_witness:
  "\<exists>msg' m' scs. executeActionMessage plain_wavm_env plain_loader
      (\<lambda>code s. (Inr (), s\<lparr>ws_model := \<lparr>rm_action = RDFChange_persist, rm_data = []\<rparr>, ws_rdf := []\<rparr>)) plain_sandbox_message None =
      (Inr msg', None) \<and> sm_contract msg' = ''code'' \<and>
    getTransactionMessageHelper plain_wire (parse_transaction plain_wire (sm_transaction msg')) = Inr m' \<and>
    m' = sample_message\<lparr>tm_changeSet := [scs]\<rparr> \<and> cs_changes (sc_changeSet scs) = [asn1Change [0]]"
proof -
  let ?engine = "\<lambda>code s. (Inr (), s\<lparr>ws_model := \<lparr>rm_action = RDFChange_persist, rm_data = []\<rparr>, ws_rdf := []\<rparr>)"
  let ?key = "copyStringToVector ''key''"
  have keys: "key_pair (we_botan plain_wavm_env) ?key ?key" "getPrivateKey (we_botan plain_wavm_env) plain_loader = Inr ?key"
    "getPublicKey (we_botan plain_wavm_env) plain_loader = Inr ?key"
    by (simp_all add: key_pair_def plain_botan_def getPrivateKey_def getPublicKey_def isInitialized_def plain_loader_def)
  have msg: "getTransactionMessageHelper (we_wire plain_wavm_env) (parse_transaction (we_wire plain_wavm_env)
      (sm_transaction plain_sandbox_message)) = Inr sample_message"
    by (simp add: plain_wire_def plain_sandbox_message_def getTransactionMessageHelper_def)
  have code: "hex_decode_locked (we_codecs plain_wavm_env) (sm_contract plain_sandbox_message) = Inr (map char_byte ''code'')"
    by (simp add: plain_codecs_def plain_sandbox_message_def)
  have wire: "wire_ok (we_wire plain_wavm_env)" by (simp add: plain_wire_ok)
  have change: "we_any_of_model plain_wavm_env \<lparr>rm_action = RDFChange_persist, rm_data = []\<rparr> = Inr [0]" by simp
  obtain e where enc: "encode_ChangeSet (we_asn1 plain_wavm_env) (session_changes sample_message [1] [0]) = Inr e"
    by (simp add: plain_asn1_def)
  note hyps = wire keys msg plain_session_facts(4) code plain_session_facts(3)
  obtain msg' m' scs where "executeActionMessage plain_wavm_env plain_loader ?engine plain_sandbox_message None = (Inr msg', None)"
    "sm_contract msg' = sm_contract plain_sandbox_message"
    "getTransactionMessageHelper (we_wire plain_wavm_env) (parse_transaction (we_wire plain_wavm_env) (sm_transaction msg')) = Inr m'"
    "m' = sample_message\<lparr>tm_changeSet := tm_changeSet sample_message @ [scs]\<rparr>"
    "sc_changeSet scs = session_changes sample_message [1] [0]"
    using contract_result_is_signed [OF hyps, where engine = ?engine and p = None, OF refl change enc] by blast
  moreover have "tm_changeSet sample_message = []" by (simp add: sample_message_def TransactionMessageHelper_of_signed_def)
  ultimately show ?thesis
    by (intro exI [of _ msg'] exI [of _ m'] exI [of _ scs]) (simp add: session_changes_def, simp add: plain_sandbox_message_def)
qed

end
