(* ===== verification/BlockModule.thy ===== *)
theory BlockModule
  imports BlockChain AccountService Wavm
begin

text \<open>
  The block module, \<open>modules/block_module\<close>: the transaction processor, which runs the contract of
  an account in the sandbox, the block service with its genesis loader, and the block producer with
  its queue and its thread. The handlers of other modules that these call directly are the models of
  those modules; \<open>EXECUTE_ACTION_MESSAGE\<close> is the parameter \<open>be_execute\<close>, instantiated with the
  sandbox below. The time of day is an argument.
\<close>

section \<open>Environment and state\<close>

record ('txn, 'db, 'g, 'any, 'tb, 'ab, 'sb, 'priv, 'pub) block_env =
  be_rocks :: "('txn, 'db) rocks"
  be_rdf :: "'g rdf_lib"
  be_codecs :: text_codecs
  be_accounts :: "'any account_wire"
  be_wire :: "('any, 'tb, 'ab, 'sb) tx_wire"
  be_botan :: "('priv, 'pub) botan"
  be_asn1 :: "'any asn1_lib"
  be_encode_Block :: "'any Block_t \<Rightarrow> bytes result"
  be_encode_SignedBlock :: "'any SignedBlock_t \<Rightarrow> bytes result"
  be_execute :: "'sb sandbox_message \<Rightarrow> 'sb sandbox_message result"
  be_any_of_model :: "RDFModel \<Rightarrow> 'any result"
  be_zero_any :: 'any

datatype producer_state = inited | producing | terminated

record 'tb block_producer =
  bp_enabled :: bool
  bp_currentState :: producer_state
  bp_transactions :: "'tb ptransaction list"
  bp_keyLoader :: KeyLoader

text \<open>What the handlers of the module act on: the stores, the producer, the account locks that were
  created, and the messages handed back to the router.\<close>

record ('txn, 'db, 'g, 'tb, 'ab) block_world =
  bw_node :: "('txn, 'db, 'g) node"
  bw_producer :: "'tb block_producer"
  bw_accountLocks :: "bytes list"
  bw_routed :: "'ab MessageWrapper list"

definition at_node ::
  "(('txn, 'db, 'g) node, 'a) prog \<Rightarrow> (('txn, 'db, 'g, 'tb, 'ab) block_world, 'a) prog" where
  "at_node m w = (case m (bw_node w) of (r, n) \<Rightarrow> (r, w\<lparr>bw_node := n\<rparr>))"

definition at_producer ::
  "('tb block_producer, 'a) prog \<Rightarrow> (('txn, 'db, 'g, 'tb, 'ab) block_world, 'a) prog" where
  "at_producer m w = (case m (bw_producer w) of (r, p) \<Rightarrow> (r, w\<lparr>bw_producer := p\<rparr>))"

section \<open>TransactionProcessor\<close>

definition BASE_ACCOUNT_CONTRACT :: string where
  "BASE_ACCOUNT_CONTRACT = ''base_account_transaction''"

text \<open>The loop that logs the contracts of the actions reads the transaction as it came.\<close>

definition processTransaction ::
  "('txn, 'db, 'g, 'any, 'tb, 'ab, 'sb, 'priv, 'pub) block_env \<Rightarrow> 'tb ptransaction \<Rightarrow>
   (('txn, 'db, 'g) node, 'tb ptransaction) prog" where
  "processTransaction E transaction =
     sbind (service_getContract (be_rocks E) (be_rdf E) (be_accounts E)
       \<lparr>cm_account_hash = copyVectorToString (pt_active_account transaction),
        cm_contract_name = BASE_ACCOUNT_CONTRACT, cm_contract = []\<rparr>) (\<lambda>contractMessage.
     sbind (slift (be_execute E \<lparr>sm_contract = cm_contract contractMessage, sm_model = [],
         sm_transaction = serialize_transaction (be_wire E) transaction, sm_changes = []\<rparr>)) (\<lambda>sandboxCommandMessage.
     sbind (slift (getTransactionMessageHelper (be_wire E) transaction)) (\<lambda>_.
     sreturn (parse_transaction (be_wire E) (sm_transaction sandboxCommandMessage)))))"

section \<open>BlockProducer\<close>

definition PRIVATE_KEY :: string where "PRIVATE_KEY = ''server-private-key''"
definition PUBLIC_KEY :: string where "PUBLIC_KEY = ''server-public-key''"
definition BLOCK_PRODUCER_ENABLED :: string where "BLOCK_PRODUCER_ENABLED = ''block_producer_enabled''"
definition BLOCK_PRODUCER_ENABLED_TRUE :: string where "BLOCK_PRODUCER_ENABLED_TRUE = ''true''"
definition GENESIS_CONFIG :: string where "GENESIS_CONFIG = ''genesis_config''"

definition configured_keys :: "file_system \<Rightarrow> (string \<Rightarrow> string option) \<Rightarrow> KeyLoader result" where
  "configured_keys fs config = (case config PRIVATE_KEY of
       None \<Rightarrow> Inl PrivateKeyNotConfiguredException
     | Some privateKeyPath \<Rightarrow> (case config PUBLIC_KEY of
           None \<Rightarrow> Inl PrivateKeyNotConfiguredException
         | Some publicKeyPath \<Rightarrow> KeyLoader_of_pair fs privateKeyPath publicKeyPath))"

definition BlockProducer :: "file_system \<Rightarrow> (string \<Rightarrow> string option) \<Rightarrow> 'tb block_producer result" where
  "BlockProducer fs config = rmap (\<lambda>keyLoaderPtr.
     \<lparr>bp_enabled = (case config BLOCK_PRODUCER_ENABLED of None \<Rightarrow> False | Some v \<Rightarrow> v = BLOCK_PRODUCER_ENABLED_TRUE),
      bp_currentState = inited, bp_transactions = [], bp_keyLoader = keyLoaderPtr\<rparr>) (configured_keys fs config)"

definition producer_terminate :: "'tb block_producer \<Rightarrow> 'tb block_producer" where
  "producer_terminate this = this\<lparr>bp_currentState := terminated\<rparr>"

definition producer_addTransaction :: "'tb ptransaction \<Rightarrow> ('tb block_producer, unit) prog" where
  "producer_addTransaction transaction this =
     (if bp_currentState this = terminated then (Inl BlockProducerTerminatedException, this)
      else (Inr (), this\<lparr>bp_transactions := bp_transactions this @ [transaction]\<rparr>))"

definition producer_isEnabled :: "'tb block_producer \<Rightarrow> bool" where
  "producer_isEnabled this = bp_enabled this"

definition producer_checkState :: "'tb block_producer \<Rightarrow> producer_state" where
  "producer_checkState this = bp_currentState this"

definition producer_getTransactions :: "'tb block_producer \<Rightarrow> 'tb ptransaction list \<times> 'tb block_producer" where
  "producer_getTransactions this = (bp_transactions this, this\<lparr>bp_transactions := []\<rparr>)"

text \<open>The producer's instance of the block library signs with its key loader.\<close>

definition producer_block_lib ::
  "('txn, 'db, 'g, 'any, 'tb, 'ab, 'sb, 'priv, 'pub) block_env \<Rightarrow> KeyLoader \<Rightarrow> 'any block_lib" where
  "producer_block_lib E keyLoader = \<lparr>encode_Block = be_encode_Block E, encode_SignedBlock = be_encode_SignedBlock E,
     generateHash = generateHash_vector (be_botan E),
     sign_bytes = generator_sign_secure (be_botan E) (SignatureGenerator_of_loader keyLoader)\<rparr>"

fun add_transactions ::
  "('txn, 'db, 'g, 'any, 'tb, 'ab, 'sb, 'priv, 'pub) block_env \<Rightarrow> 'tb ptransaction list \<Rightarrow> 'any Block_t \<Rightarrow>
   (('txn, 'db, 'g) node, 'any Block_t) prog" where
  "add_transactions E [] block = sreturn block"
| "add_transactions E (transaction # transactions) block =
     sbind (service_applyTransaction (be_rocks E) (be_rdf E) (be_codecs E) (be_accounts E) (be_wire E) transaction) (\<lambda>t.
     sbind (slift (getTransactionMessageHelper (be_wire E) t)) (\<lambda>m.
     add_transactions E transactions (addTransactionMessage block m)))"

text \<open>The finished and signed block. The Merkle root is computed for every block, so the first branch
  is never taken.\<close>

definition signed_block ::
  "('txn, 'db, 'g, 'any, 'tb, 'ab, 'sb, 'priv, 'pub) block_env \<Rightarrow> KeyLoader \<Rightarrow> bytes \<Rightarrow> 'any Block_t \<Rightarrow>
   'any SignedBlock_t result" where
  "signed_block E keyLoader date builder = (case BlockBuilder_block (generateHash_secure (be_botan E)) builder of
       None \<Rightarrow> Inl UndefinedBehaviour
     | Some finished \<Rightarrow> rbind finished (\<lambda>block.
         rbind (SignedBlockBuilder_of_block (producer_block_lib E keyLoader) date block) (\<lambda>b.
         rbind (SignedBlockBuilder_sign (producer_block_lib E keyLoader) b) deref)))"

text \<open>\<open>generateBlock\<close> inside its transaction, with the times of the block and of the signed block.\<close>

definition generate_block_body ::
  "('txn, 'db, 'g, 'any, 'tb, 'ab, 'sb, 'priv, 'pub) block_env \<Rightarrow> KeyLoader \<Rightarrow> bytes \<Rightarrow> bytes \<Rightarrow>
   'tb ptransaction list \<Rightarrow> (('txn, 'db, 'g) node, unit) prog" where
  "generate_block_body E keyLoader now1 now2 transactions =
     sbind (getParentHash (be_rocks E)) (\<lambda>parentHash.
     sbind (add_transactions E transactions (BlockBuilder_of_parent now1 parentHash)) (\<lambda>builder.
     sbind (slift (signed_block E keyLoader now2 builder)) (\<lambda>signedBlock.
     sbind (writeBlock (be_rocks E) (producer_block_lib E keyLoader) signedBlock) (\<lambda>_.
     sbind (getBlockCount (be_rocks E)) (\<lambda>_.
     sbind (getParentHash (be_rocks E)) (\<lambda>h.
     sbind (slift (HashHelper_getHash (be_codecs E) h HEX)) (\<lambda>_. sreturn ())))))))"

definition generateBlock ::
  "('txn, 'db, 'g, 'any, 'tb, 'ab, 'sb, 'priv, 'pub) block_env \<Rightarrow> KeyLoader \<Rightarrow> bytes \<Rightarrow> bytes \<Rightarrow>
   'tb ptransaction list \<Rightarrow> (('txn, 'db, 'g) node, unit) prog" where
  "generateBlock E keyLoader now1 now2 transactions =
     in_transaction (node_resources (be_rocks E) (be_rdf E)) (generate_block_body E keyLoader now1 now2 transactions)"

section \<open>BlockService\<close>

definition getAccountLock :: "bytes \<Rightarrow> ('txn, 'db, 'g, 'tb, 'ab) block_world \<Rightarrow> ('txn, 'db, 'g, 'tb, 'ab) block_world" where
  "getAccountLock accountHash w =
     (if accountHash \<in> set (bw_accountLocks w) then w
      else w\<lparr>bw_accountLocks := bw_accountLocks w @ [accountHash]\<rparr>)"

text \<open>The message that is handed to the router is the conversion of the helper before its
  \<open>setTransaction\<close>.\<close>

definition blockMessage ::
  "('txn, 'db, 'g, 'any, 'tb, 'ab, 'sb, 'priv, 'pub) block_env \<Rightarrow> 'ab MessageWrapper \<Rightarrow>
   (('txn, 'db, 'g, 'tb, 'ab) block_world, bool \<times> string) prog" where
  "blockMessage E messageWrapper =
     (let transaction = wrapper_getTransaction (be_wire E) messageWrapper in
      sbind (smodify (getAccountLock (pt_active_account transaction))) (\<lambda>_.
      sbind (at_node (processTransaction E transaction)) (\<lambda>processed.
      sbind (at_producer (producer_addTransaction processed)) (\<lambda>_.
      let messageWrapper1 = messageWrapper in
      sbind (slift (fst (wrapper_setTransaction (be_wire E) processed messageWrapper))) (\<lambda>_.
      sbind (smodify (\<lambda>w. w\<lparr>bw_routed := bw_routed w @ [messageWrapper1]\<rparr>)) (\<lambda>_.
      sreturn (True, ''balanced'')))))))"

section \<open>GenesisLoader\<close>

text \<open>The values of \<open>nlohmann::json\<close> the loader reads; an object is the list of its members in the
  order of their names. Numbers, booleans and null carry no contents the loader could use.\<close>

datatype json = JNull | JScalar | JString string | JArray "json list" | JObject "(string \<times> json) list"

definition json_member :: "json \<Rightarrow> string \<Rightarrow> json result" where
  "json_member j key = (case j of
       JObject ms \<Rightarrow> Inr (case map_of ms key of None \<Rightarrow> JNull | Some v \<Rightarrow> v)
     | JNull \<Rightarrow> Inr JNull
     | _ \<Rightarrow> Inl LibraryError)"

definition json_get_string :: "json \<Rightarrow> string result" where
  "json_get_string j = (case j of JString s \<Rightarrow> Inr s | _ \<Rightarrow> Inl LibraryError)"

definition json_string_member :: "json \<Rightarrow> string \<Rightarrow> string result" where
  "json_string_member j key = rbind (json_member j key) json_get_string"

definition json_elements :: "json \<Rightarrow> json list" where
  "json_elements j = (case j of JNull \<Rightarrow> [] | JArray js \<Rightarrow> js | JObject ms \<Rightarrow> map snd ms | _ \<Rightarrow> [j])"

text \<open>A walk with iterators whose \<open>key()\<close> is read: only an object has keys.\<close>

definition json_members :: "json \<Rightarrow> (string \<times> json) list result" where
  "json_members j = (case j of JObject ms \<Rightarrow> Inr ms | JNull \<Rightarrow> Inr [] | JArray [] \<Rightarrow> Inr [] | _ \<Rightarrow> Inl LibraryError)"

text \<open>\<open>begin().value()\<close>: an empty array or object has no first value.\<close>

definition json_first :: "json \<Rightarrow> json result" where
  "json_first j = (case j of
       JNull \<Rightarrow> Inl LibraryError
     | JArray js \<Rightarrow> (case js of [] \<Rightarrow> Inl UndefinedBehaviour | v # _ \<Rightarrow> Inr v)
     | JObject ms \<Rightarrow> (case ms of [] \<Rightarrow> Inl UndefinedBehaviour | m # _ \<Rightarrow> Inr (snd m))
     | _ \<Rightarrow> Inr j)"

definition genesis_predicate :: "string \<times> json \<Rightarrow> RDFSubject \<Rightarrow> RDFSubject result" where
  "genesis_predicate entry subjectHelper = (case entry of (name, contentWrapper) \<Rightarrow>
     rbind (json_first contentWrapper) (\<lambda>jsonObj.
     rbind (json_string_member jsonObj ''datatype'') (\<lambda>dt.
     rbind (json_string_member jsonObj ''type'') (\<lambda>ty.
     rbind (json_string_member jsonObj ''value'') (\<lambda>v.
     Inr (addPredicate subjectHelper (addObject (RDFPredicateHelper_of_string name)
       (object_setValue (object_setType (object_setDataType new_RDFObjectHelper dt) ty) v))))))))"

definition genesis_subject :: "string \<times> json \<Rightarrow> RDFModel \<Rightarrow> RDFModel result" where
  "genesis_subject entry modelHelper = (case entry of (name, predicate) \<Rightarrow>
     rbind (json_members predicate) (\<lambda>ps.
     rbind (rfold genesis_predicate ps (RDFSubjectHelper_of_string name)) (\<lambda>subjectHelper.
     Inr (addSubject modelHelper subjectHelper))))"

definition genesis_model :: "json \<Rightarrow> RDFModel result" where
  "genesis_model element =
     rbind (json_member element ''model'') (\<lambda>model.
     rbind (json_member model ''rdf'') (\<lambda>rdf.
     rfold (\<lambda>element2 modelHelper. rbind (json_members element2) (\<lambda>ss. rfold genesis_subject ss modelHelper))
       (json_elements rdf) new_RDFModelHelper))"

text \<open>What the loader reads from an element of the list of transactions: the account, the value,
  the model and the private key.\<close>

definition genesis_signed_transaction ::
  "('txn, 'db, 'g, 'any, 'tb, 'ab, 'sb, 'priv, 'pub) block_env \<Rightarrow> UTCTime_t \<Rightarrow> UTCTime_t \<Rightarrow> HashHelper \<Rightarrow> HashHelper \<Rightarrow>
   c_long \<Rightarrow> 'any \<Rightarrow> bytes \<Rightarrow> 'any SignedTransaction_t result" where
  "genesis_signed_transaction E now1 now2 parentHash sourceAccount v anyModel privateKey =
     fst (sbind (on_snd (on_fst (assemble parentHash sourceAccount sourceAccount v))) (\<lambda>_.
          sbind (on_snd (on_snd (builder_setModel anyModel))) (\<lambda>_.
          sbind (on_snd chain_addAction) (\<lambda>_.
          sbind (\<lambda>s. case signed_setTransaction (be_botan E) (be_asn1 E) (fst s, fst (snd s)) of
              (r, b, tb) \<Rightarrow> (r, b, tb, snd (snd s))) (\<lambda>_.
          sbind (on_fst (builder_sign (be_botan E))) (\<lambda>_.
          sbind (on_fst SignedTransactionBuilder_release) (\<lambda>st. slift (deref st)))))))
       (signed_createTransaction privateKey, chain_createTransaction now1, createAction (be_zero_any E) now2))"

definition genesis_message ::
  "('txn, 'db, 'g, 'any, 'tb, 'ab, 'sb, 'priv, 'pub) block_env \<Rightarrow> KeyLoader \<Rightarrow> HashHelper \<Rightarrow> 'any \<Rightarrow>
   'any SignedTransaction_t \<Rightarrow> 'any TransactionMessage_t result" where
  "genesis_message E keyLoader sourceAccount anyModel st =
     (let m0 = TransactionMessageHelper_of_signed st;
          m = setTargetAccount (setSourceAccount (setStatus m0 Status_complete) sourceAccount) sourceAccount;
          changeSetBuilder = snd (changes_setStatus Status_complete (snd (changes_addChange anyModel
            (ChangeSetBuilder_of_hashes (getHash m) sourceAccount))))
      in rbind (SignedChangeSetBuilder_of_loader (be_botan E) (be_asn1 E) changeSetBuilder keyLoader) (\<lambda>b.
         case signed_sign (be_botan E) b of
           (Inl e, _) \<Rightarrow> Inl e
         | (Inr _, b1) \<Rightarrow> rmap (addChangeSet m) (deref (scb_signedChangedSet b1))))"

definition genesis_element ::
  "('txn, 'db, 'g, 'any, 'tb, 'ab, 'sb, 'priv, 'pub) block_env \<Rightarrow> KeyLoader \<Rightarrow> UTCTime_t \<Rightarrow> UTCTime_t \<Rightarrow> HashHelper \<Rightarrow>
   json \<Rightarrow> 'any TransactionMessage_t result" where
  "genesis_element E keyLoader now1 now2 parentHash element =
     rbind (json_string_member element ''account_hash'') (\<lambda>account.
     rbind (HashHelper_of_encoded (be_codecs E) (c_str account) HEX) (\<lambda>sourceAccount.
     rbind (json_string_member element ''value'') (\<lambda>v.
     rbind (genesis_model element) (\<lambda>modelHelper.
     rbind (be_any_of_model E modelHelper) (\<lambda>anyModel.
     rbind (json_string_member element ''private_key'') (\<lambda>key.
     rbind (hex_decode_locked (be_codecs E) key) (\<lambda>privateKey.
     rbind (genesis_signed_transaction E now1 now2 parentHash sourceAccount (word_of_int (atol v)) anyModel privateKey)
       (genesis_message E keyLoader sourceAccount anyModel))))))))"

fun genesis_elements ::
  "('txn, 'db, 'g, 'any, 'tb, 'ab, 'sb, 'priv, 'pub) block_env \<Rightarrow> KeyLoader \<Rightarrow> UTCTime_t \<Rightarrow> UTCTime_t \<Rightarrow> HashHelper \<Rightarrow>
   json list \<Rightarrow> 'any Block_t \<Rightarrow> (('txn, 'db, 'g) node, 'any Block_t) prog" where
  "genesis_elements E keyLoader now1 now2 parentHash [] block = sreturn block"
| "genesis_elements E keyLoader now1 now2 parentHash (element # elements) block =
     sbind (slift (genesis_element E keyLoader now1 now2 parentHash element)) (\<lambda>message.
     sbind (slift (TransactionProtoHelper_of_message (be_wire E) message)) (\<lambda>t.
     sbind (service_applyTransaction (be_rocks E) (be_rdf E) (be_codecs E) (be_accounts E) (be_wire E) t) (\<lambda>t1.
     sbind (slift (getTransactionMessageHelper (be_wire E) t1)) (\<lambda>m.
     genesis_elements E keyLoader now1 now2 parentHash elements (addTransactionMessage block m)))))"

definition GenesisLoader_load ::
  "('txn, 'db, 'g, 'any, 'tb, 'ab, 'sb, 'priv, 'pub) block_env \<Rightarrow> KeyLoader \<Rightarrow> UTCTime_t \<Rightarrow> UTCTime_t \<Rightarrow> bytes \<Rightarrow> bytes \<Rightarrow>
   json \<Rightarrow> (('txn, 'db, 'g) node, unit) prog" where
  "GenesisLoader_load E keyLoader now1 now2 now3 now4 jsonData =
     sbind (slift (rbind (json_string_member jsonData ''parent'') (\<lambda>p. HashHelper_of_encoded (be_codecs E) p HEX))) (\<lambda>parentHash.
     sbind (slift (json_member jsonData ''transactions'')) (\<lambda>transactions.
     sbind (genesis_elements E keyLoader now1 now2 parentHash (json_elements transactions)
       (BlockBuilder_of_parent now3 parentHash)) (\<lambda>builder.
     sbind (slift (signed_block E keyLoader now4 builder)) (\<lambda>signedBlock.
     writeBlock (be_rocks E) (producer_block_lib E keyLoader) signedBlock))))"

text \<open>The service loads the genesis file only into an empty store. \<open>read_json\<close> is the reader on the
  file of that path.\<close>

definition block_genesis ::
  "('txn, 'db, 'g, 'any, 'tb, 'ab, 'sb, 'priv, 'pub) block_env \<Rightarrow> file_system \<Rightarrow> (string \<Rightarrow> string option) \<Rightarrow>
   (string \<Rightarrow> json result) \<Rightarrow> UTCTime_t \<Rightarrow> UTCTime_t \<Rightarrow> bytes \<Rightarrow> bytes \<Rightarrow> (('txn, 'db, 'g) node, unit) prog" where
  "block_genesis E fs config read_json now1 now2 now3 now4 =
     sbind (requireGenesis (be_rocks E) (be_codecs E)) (\<lambda>required.
     if \<not> required then sreturn ()
     else (case config GENESIS_CONFIG of
         None \<Rightarrow> sreturn ()
       | Some name \<Rightarrow>
           let genesisConfig = path_append fs (install_dir fs) name in
           if \<not> path_exists fs genesisConfig then sreturn ()
           else sbind (slift (read_json genesisConfig)) (\<lambda>reader.
                sbind (slift (configured_keys fs config)) (\<lambda>keyLoader.
                GenesisLoader_load E keyLoader now1 now2 now3 now4 reader))))"

text \<open>\<open>postStart\<close>: the genesis in a transaction of its own.\<close>

definition block_postStart ::
  "('txn, 'db, 'g, 'any, 'tb, 'ab, 'sb, 'priv, 'pub) block_env \<Rightarrow> file_system \<Rightarrow> (string \<Rightarrow> string option) \<Rightarrow>
   (string \<Rightarrow> json result) \<Rightarrow> UTCTime_t \<Rightarrow> UTCTime_t \<Rightarrow> bytes \<Rightarrow> bytes \<Rightarrow> (('txn, 'db, 'g) node, unit) prog" where
  "block_postStart E fs config read_json now1 now2 now3 now4 =
     in_transaction (node_resources (be_rocks E) (be_rdf E)) (block_genesis E fs config read_json now1 now2 now3 now4)"

section \<open>What a generated block contains\<close>

abbreviation node_parent :: "('txn, 'db, 'g) node \<Rightarrow> HashHelper" where
  "node_parent n \<equiv> parentBlock (block_part (stores n))"

abbreviation node_count :: "('txn, 'db, 'g) node \<Rightarrow> c_long" where
  "node_count n \<equiv> blockCount (block_part (stores n))"

lemma sbind_InrE:
  assumes "sbind m f s = (Inr b, t)"
  obtains a u where "m s = (Inr a, u)" and "f a u = (Inr b, t)"
  using assms by (auto simp: sbind_def split: prod.splits sum.splits)

lemma slift_Inr_iff: "slift r s = (Inr a, t) \<longleftrightarrow> r = Inr a \<and> t = s"
  by (auto simp: slift_def)

text \<open>Committing leaves the cached block hash and count as they are.\<close>

definition block_cache :: "('txn, 'db, 'g) node \<Rightarrow> HashHelper \<times> c_long" where
  "block_cache n = (parentBlock (block_part (stores n)), blockCount (block_part (stores n)))"

lemma commit_keeps_cache: "block_cache (snd (TransactionWrapper_commit (node_resources rk rdf) rs n)) = block_cache n"
proof -
  have "block_cache (snd (sfor rs (\<lambda>r. on_stores (res_commit (node_resources rk rdf) r)) n)) = block_cache n"
    by (rule sfor_invariant [where P = "\<lambda>m. block_cache m = block_cache n"])
      (auto simp: block_cache_def on_stores_def node_resources_def on_block_def on_account_def on_router_def smodify_def
        split: prod.splits resource_id.splits)
  then show ?thesis
    by (auto simp: block_cache_def TransactionWrapper_commit_def sbind_def smodify_def split: prod.splits sum.splits)
qed

lemma service_commit_keeps_cache: "block_cache (snd (service_commit (node_resources rk rdf) n)) = block_cache n"
proof (cases "transactionWrapper n")
  case None
  then show ?thesis by (simp add: service_commit_def)
next
  case (Some rs)
  then show ?thesis
    using commit_keeps_cache [of rk rdf rs n]
    by (auto simp: block_cache_def service_commit_def sbind_def smodify_def split: prod.splits sum.splits)
qed

lemma in_transaction_InrE:
  assumes "in_transaction (node_resources rk rdf) body s = (Inr a, t)"
  obtains u where "body (s\<lparr>transactionWrapper := Some []\<rparr>) = (Inr a, u)" and "block_cache t = block_cache u"
proof -
  obtain r u where body: "body (s\<lparr>transactionWrapper := Some []\<rparr>) = (r, u)" by fastforce
  have new: "createTransaction s = (Inr (), s\<lparr>transactionWrapper := Some []\<rparr>)"
    using assms by (cases "transactionWrapper s") (simp_all add: in_transaction_def createTransaction_def)
  show ?thesis
  proof (cases r)
    case (Inl e)
    with assms new body show ?thesis
      by (simp add: in_transaction_def TransactionImpl_destroy_def split: prod.splits sum.splits)
  next
    case (Inr x)
    obtain c v where commit: "service_commit (node_resources rk rdf) u = (c, v)" by fastforce
    from assms new body Inr commit have "x = a" "v = t"
      by (cases c; simp add: in_transaction_def TransactionImpl_commit_def TransactionImpl_destroy_def)+
    with that [of u] body Inr service_commit_keeps_cache [of rk rdf u] commit show ?thesis by simp
  qed
qed

lemma in_transaction_cong:
  assumes "body (s\<lparr>transactionWrapper := Some []\<rparr>) = body' (s\<lparr>transactionWrapper := Some []\<rparr>)"
  shows "in_transaction R body s = in_transaction R body' s"
  using assms by (simp add: in_transaction_def createTransaction_def)

lemma add_transactions_block:
  assumes "add_transactions E ts block s = (Inr block', t)"
  shows "\<exists>ms. map (getTransactionMessageHelper (be_wire E)) ts = map Inr ms \<and>
    block' = block\<lparr>bk_transactions := bk_transactions block @ ms\<rparr>"
  using assms
proof (induction ts arbitrary: block s)
  case Nil
  then show ?case by (simp add: sreturn_def)
next
  case (Cons x ts)
  from Cons.prems obtain m u where "getTransactionMessageHelper (be_wire E) x = Inr m"
    and rest: "add_transactions E ts (addTransactionMessage block m) u = (Inr block', t)"
    by (auto simp: service_applyTransaction_def slift_Inr_iff sreturn_def elim!: sbind_InrE)
  moreover from Cons.IH [OF rest] obtain ms where "map (getTransactionMessageHelper (be_wire E)) ts = map Inr ms"
    "block' = block\<lparr>bk_transactions := bk_transactions block @ m # ms\<rparr>" by (auto simp: addTransactionMessage_def)
  ultimately show ?case by (intro exI [of _ "m # ms"]) simp
qed

lemma BlockBuilder_block_returns: "BlockBuilder_block H b \<noteq> None"
proof -
  let ?root = "\<lambda>hs. ((\<lambda>h. H (h @ h)) ^^ tree_height (length hs)) (hs ! 0)"
  have "hs \<noteq> [] \<Longrightarrow> merkle_compute H hs = Some (?root hs)" for hs
    by (rule mk.reduce_first_leaf [OF merkle_pair_left])
  then show ?thesis by (auto simp: BlockBuilder_block_def MerkleUtils_of_block_def Let_def)
qed

lemma signed_blockE:
  assumes "signed_block E keyLoader date builder = Inr sb" and "getPrivateKey (be_botan E) keyLoader = Inr priv"
  obtains root e where "sb_block sb = builder\<lparr>bk_merkelRoot := root\<rparr>" and "sb_parent sb = bk_parent builder"
    and "be_encode_Block E (sb_block sb) = Inr e" and "sb_hash sb = generateHash_vector (be_botan E) e"
    and "sb_signature sb = sign_message (be_botan E) priv (sb_hash sb)"
  using assms getPrivateKey_initialized [OF assms(2)]
  by (auto simp: signed_block_def BlockBuilder_block_def SignedBlockBuilder_of_block_def SignedBlockBuilder_sign_def
      producer_block_lib_def getBlockHash_def generator_sign_secure_def SignatureGenerator_of_loader_def hash_defs
      result_simps deref_def split: option.splits sum.splits)

lemma getParentHash_cached: "\<not> HashHelper_empty (node_parent s) \<Longrightarrow> getParentHash rk s = (Inr (node_parent s), s)"
  by (simp add: getParentHash_def prog_defs)

lemma writeBlock_parent:
  assumes "writeBlock rk lib sb s = (Inr (), t)"
  shows "node_parent t = sb_hash sb"
  using assms
  by (auto simp: writeBlock_def with_block_resource_def writeBlock_on_resource_def write_block_body_eq on_stores_def
      on_block_def slift_Inr_iff elim!: sbind_InrE split: prod.splits)

section \<open>A generated block on disk\<close>

text \<open>Applying a transaction to the accounts leaves the block store alone and at most enlists further
  resources.\<close>

definition account_prog :: "(('txn, 'db, 'g) node, 'a) prog \<Rightarrow> bool" where
  "account_prog m \<longleftrightarrow> (\<forall>s. block_part (stores (snd (m s))) = block_part (stores s) \<and>
     (\<forall>rs. transactionWrapper s = Some rs \<longrightarrow> (\<exists>xs. transactionWrapper (snd (m s)) = Some (rs @ xs))))"

named_theorems account_progs \<open>programs that act on the accounts only\<close>

lemma account_progD:
  assumes "account_prog m" and "m s = (r, t)"
  shows "block_part (stores t) = block_part (stores s)"
    and "transactionWrapper s = Some rs \<Longrightarrow> \<exists>xs. transactionWrapper t = Some (rs @ xs)"
  using assms unfolding account_prog_def by (metis snd_conv)+

lemma account_prog_sbind [account_progs]:
  assumes "account_prog m" and "\<And>a. account_prog (f a)"
  shows "account_prog (sbind m f)"
  unfolding account_prog_def
proof
  fix s
  obtain r t where m: "m s = (r, t)" by fastforce
  show "block_part (stores (snd (sbind m f s))) = block_part (stores s) \<and> (\<forall>rs. transactionWrapper s = Some rs \<longrightarrow>
      (\<exists>xs. transactionWrapper (snd (sbind m f s)) = Some (rs @ xs)))"
  proof (cases r)
    case (Inl e)
    with account_progD [OF assms(1) m] m show ?thesis by (simp add: sbind_def)
  next
    case (Inr a)
    obtain r' u where f: "f a t = (r', u)" by fastforce
    have "\<exists>xs. transactionWrapper u = Some (rs @ xs)" if tw: "transactionWrapper s = Some rs" for rs
    proof -
      obtain xs where "transactionWrapper t = Some (rs @ xs)"
        using account_progD(2) [OF assms(1) m tw] by blast
      then show ?thesis using account_progD(2) [OF assms(2) f] by (metis append_assoc)
    qed
    with account_progD(1) [OF assms(1) m] account_progD(1) [OF assms(2) f] m f Inr show ?thesis by (simp add: sbind_def)
  qed
qed

lemma account_prog_basic [account_progs]:
  "account_prog (sreturn a)" "account_prog (sthrow e)" "account_prog (slift r)" "account_prog (sget g)"
  "account_prog (on_stores (on_account m))"
  by (auto simp: account_prog_def prog_defs on_stores_def on_account_def split: prod.splits)

lemma account_prog_sfor [account_progs]: "(\<And>x. account_prog (f x)) \<Longrightarrow> account_prog (sfor xs f)"
proof (induction xs)
  case Nil
  then show ?case by (simp add: account_prog_def)
next
  case (Cons x xs)
  have "sfor (x # xs) f = sbind (f x) (\<lambda>_. sfor xs f)" by (rule ext) (simp add: sbind_def)
  with Cons show ?case by (auto intro: account_progs)
qed

lemma account_prog_getResource [account_progs]: "account_prog AccountResourceManager_getResource"
proof -
  have "account_prog (enlistResource AccountResources)"
    by (auto simp: account_prog_def enlistResource_def TransactionWrapper_enlist_def split: option.splits)
  then show ?thesis
    by (auto simp: AccountResourceManager_getResource_def intro!: account_progs)
qed

lemma account_prog_stores [account_progs]:
  "account_prog (with_account_resource m)" "account_prog (getAccountInfo rk w h)" "account_prog (setAccountInfo rk w h i)"
  unfolding with_account_resource_def getAccountInfo_def setAccountInfo_def by (intro account_progs)+

lemma account_prog_createAccount [account_progs]: "account_prog (createAccount rk rdf codecs w h b)"
  unfolding createAccount_def Let_def by (auto intro!: account_progs split: option.splits)

lemma account_prog_apply [account_progs]:
  "account_prog (service_applyTransaction rk rdf codecs w wire t)"
  unfolding service_applyTransaction_def applyTransaction_def Let_def
  by (auto intro!: account_progs split: option.splits)

lemma account_prog_add_transactions: "account_prog (add_transactions E ts block)"
  by (induction ts arbitrary: block) (auto intro!: account_progs)

text \<open>A successful commit commits the block store when it is enlisted.\<close>

lemma block_commit_idem: "BlockResourceManager_commit rk (BlockResourceManager_commit rk p) = BlockResourceManager_commit rk p"
  by (auto simp: BlockResourceManager_commit_def split: option.splits)

lemma commit_resources_block:
  assumes "sfor rs (\<lambda>r. on_stores (res_commit (node_resources rk rdf) r)) s = (Inr (), t)"
  shows "block_part (stores t) = (if BlockResources \<in> set rs then BlockResourceManager_commit rk (block_part (stores s))
    else block_part (stores s))"
  using assms
proof (induction rs arbitrary: s)
  case Nil
  then show ?case by simp
next
  case (Cons r rs)
  then obtain u where u: "on_stores (res_commit (node_resources rk rdf) r) s = (Inr (), u)"
    and rest: "sfor rs (\<lambda>r. on_stores (res_commit (node_resources rk rdf) r)) u = (Inr (), t)"
    by (auto split: prod.splits sum.splits)
  from u have "block_part (stores u) = (if r = BlockResources then BlockResourceManager_commit rk (block_part (stores s))
      else block_part (stores s))"
    by (cases r) (auto simp: node_resources_def on_stores_def on_block_def on_account_def on_router_def smodify_def
        split: prod.splits)
  with Cons.IH [OF rest] show ?case by (auto simp: block_commit_idem)
qed

lemma in_transaction_commits_block:
  assumes "in_transaction (node_resources rk rdf) body s = (Inr a, t)"
    and "body (s\<lparr>transactionWrapper := Some []\<rparr>) = (Inr a, u)"
    and "transactionWrapper u = Some rs" and "BlockResources \<in> set rs"
  shows "block_part (stores t) = BlockResourceManager_commit rk (block_part (stores u))"
proof -
  have new: "createTransaction s = (Inr (), s\<lparr>transactionWrapper := Some []\<rparr>)"
    using assms(1) by (cases "transactionWrapper s") (simp_all add: in_transaction_def createTransaction_def)
  obtain c v where commit: "service_commit (node_resources rk rdf) u = (c, v)" by fastforce
  from assms(1,2) new commit have c: "c = Inr ()" and v: "v = t"
    by (cases c; simp add: in_transaction_def TransactionImpl_commit_def TransactionImpl_destroy_def)+
  obtain x w where w: "sfor rs (\<lambda>r. on_stores (res_commit (node_resources rk rdf) r)) u = (x, w)" by fastforce
  with commit assms(3) c v have "x = Inr ()" and "stores t = stores w"
    by (cases x; auto simp: service_commit_def TransactionWrapper_commit_def sbind_def smodify_def)+
  with commit_resources_block [of rs rk rdf u w] w assms(4) show ?thesis by simp
qed

lemma writeBlock_encodes:
  assumes "writeBlock rk lib sb s = (Inr (), t)"
  shows "\<exists>v. encode_SignedBlock lib sb = Inr v"
  using assms
  by (auto simp: writeBlock_def with_block_resource_def writeBlock_on_resource_def on_stores_def
      on_block_def slift_Inr_iff elim!: sbind_InrE split: prod.splits)

text \<open>The steps of a generated block up to the commit.\<close>

lemma generate_block_steps:
  fixes s :: "('txn, 'db, 'g) node" and E :: "('txn, 'db, 'g, 'any, 'tb, 'ab, 'sb, 'priv, 'pub) block_env"
  assumes "generate_block_body E k now1 now2 ts s = (Inr (), u)" and "rocks_ok (be_rocks E)"
    and "transactionWrapper s = Some []" and "blockResourcePtr (block_part (stores s)) = None"
    and con: "\<forall>n \<in> {BLOCKS_INDEX, CHILD_INDEX, TRANSACTIONS_INDEX}. block_connections (block_part (stores s)) n \<noteq> None"
    and "node_parent s \<noteq> []" and "increment_count (node_count s) \<noteq> - 1" and "\<forall>v. hash_process (be_botan E) v \<noteq> []"
    and "getPrivateKey (be_botan E) k = Inr priv"
  obtains builder sb v where "map (getTransactionMessageHelper (be_wire E)) ts = map Inr (bk_transactions builder)"
    and "bk_parent builder = node_parent s" and "signed_block E k now2 builder = Inr sb"
    and "be_encode_SignedBlock E sb = Inr v" and "\<exists>rs. transactionWrapper u = Some rs \<and> BlockResources \<in> set rs"
    and "\<forall>n k. block_stored (be_rocks E) (BlockResourceManager_commit (be_rocks E) (block_part (stores u))) n k =
      (case last_write (block_writes (increment_count (node_count s)) v sb) n k of
        Some x \<Rightarrow> Some x | None \<Rightarrow> block_stored (be_rocks E) (block_part (stores s)) n k)"
proof -
  let ?rk = "be_rocks E" let ?lib = "producer_block_lib E k"
  have "getParentHash ?rk s = (Inr (node_parent s), s)"
    by (rule getParentHash_cached) (simp add: HashHelper_empty_def assms(6))
  with assms(1) obtain builder s2 sb s3 c s4 h where
    add: "add_transactions E ts (BlockBuilder_of_parent now1 (node_parent s)) s = (Inr builder, s2)"
    and sb: "signed_block E k now2 builder = Inr sb"
    and wr: "writeBlock ?rk ?lib sb s2 = (Inr (), s3)" and count: "getBlockCount ?rk s3 = (Inr c, s4)"
    and parent: "getParentHash ?rk s4 = (Inr h, u)"
    by (auto simp: generate_block_body_def slift_Inr_iff sreturn_def elim!: sbind_InrE)
  obtain ms where ms: "map (getTransactionMessageHelper (be_wire E)) ts = map Inr ms" "bk_transactions builder = ms"
    "bk_parent builder = node_parent s"
    using add_transactions_block [OF add] by (auto simp: BlockBuilder_of_parent_def hash_defs)
  have part: "block_part (stores s2) = block_part (stores s)"
    using account_progD(1) [OF account_prog_add_transactions add] .
  obtain rs where rs: "transactionWrapper s2 = Some rs"
    using account_progD(2) [OF account_prog_add_transactions add assms(3)] by auto
  obtain v where v: "encode_SignedBlock ?lib sb = Inr v" using writeBlock_encodes [OF wr] by blast
  obtain q where q: "writeBlock_on_resource ?rk ?lib sb ((block_part (stores s))\<lparr>blockResourcePtr := Some []\<rparr>) = (Inr (), q)"
    "parentBlock q = sb_hash sb" "blockCount q = increment_count (node_count s)"
    "\<forall>n k. block_stored ?rk (BlockResourceManager_commit ?rk q) n k =
      (case last_write (block_writes (increment_count (node_count s)) v sb) n k of
        Some x \<Rightarrow> Some x | None \<Rightarrow> block_stored ?rk (block_part (stores s)) n k)"
    using writeBlock_commit [OF assms(2) con v] by blast
  have s3: "s3 = s2\<lparr>transactionWrapper := Some (rs @ [BlockResources]), stores := (stores s2)\<lparr>block_part := q\<rparr>\<rparr>"
    using wr rs part assms(4) q(1) by (simp add: writeBlock_def with_block_resource_enlists)
  obtain e where "sb_hash sb = generateHash_vector (be_botan E) e" using signed_blockE [OF sb assms(9)] by metis
  then have hash: "sb_hash sb \<noteq> []" using assms(8) by (simp add: generateHash_vector_def)
  have "s4 = s3" using count q(3) assms(7) by (simp add: s3 getBlockCount_def prog_defs)
  with parent q(2) hash have "u = s3" by (simp add: s3 getParentHash_def prog_defs HashHelper_empty_def)
  with q s3 ms sb v show ?thesis by (intro that [of builder sb v]) (auto simp: producer_block_lib_def)
qed

section \<open>The producer's thread\<close>

text \<open>\<open>run\<close> and the calls of other threads, interleaved at the locks: the thread waits, is woken by the
  timeout or by \<open>terminate\<close> and reads the state, takes the queue, generates a block. An exception
  leaves the thread's function and ends the process. \<open>pr_batches\<close> records the batches whose block was
  generated.\<close>

datatype 'tb thread_state = Waiting | Woken | Taken "'tb ptransaction list" | Stopped
  | Crashed keto_error "'tb ptransaction list"

record ('txn, 'db, 'g, 'tb) producer_run =
  pr_node :: "('txn, 'db, 'g) node"
  pr_producer :: "'tb block_producer"
  pr_thread :: "'tb thread_state"
  pr_batches :: "'tb ptransaction list list"

datatype 'tb producer_event = Add "'tb ptransaction" | Terminate | Check | Take | Generate bytes bytes

fun crashed :: "'tb thread_state \<Rightarrow> bool" where
  "crashed (Crashed e ts) = True"
| "crashed _ = False"

definition producer_step ::
  "('txn, 'db, 'g, 'any, 'tb, 'ab, 'sb, 'priv, 'pub) block_env \<Rightarrow> 'tb producer_event \<Rightarrow>
   ('txn, 'db, 'g, 'tb) producer_run \<Rightarrow> ('txn, 'db, 'g, 'tb) producer_run option" where
  "producer_step E event s = (if crashed (pr_thread s) then None else (case event of
       Add t \<Rightarrow> (case producer_addTransaction t (pr_producer s) of
           (Inl e, _) \<Rightarrow> None | (Inr _, p) \<Rightarrow> Some (s\<lparr>pr_producer := p\<rparr>))
     | Terminate \<Rightarrow> Some (s\<lparr>pr_producer := producer_terminate (pr_producer s)\<rparr>)
     | Check \<Rightarrow> if pr_thread s = Waiting
         then Some (s\<lparr>pr_thread := (if producer_checkState (pr_producer s) \<noteq> terminated then Woken else Stopped)\<rparr>)
         else None
     | Take \<Rightarrow> if pr_thread s = Woken
         then (case producer_getTransactions (pr_producer s) of (ts, p) \<Rightarrow> Some (s\<lparr>pr_producer := p, pr_thread := Taken ts\<rparr>))
         else None
     | Generate now1 now2 \<Rightarrow> (case pr_thread s of
           Taken ts \<Rightarrow> (case generateBlock E (bp_keyLoader (pr_producer s)) now1 now2 ts (pr_node s) of
               (Inl e, n) \<Rightarrow> Some (s\<lparr>pr_node := n, pr_thread := Crashed e ts\<rparr>)
             | (Inr _, n) \<Rightarrow> Some (s\<lparr>pr_node := n, pr_thread := Waiting, pr_batches := pr_batches s @ [ts]\<rparr>))
         | _ \<Rightarrow> None)))"

inductive producer_trace ::
  "('txn, 'db, 'g, 'any, 'tb, 'ab, 'sb, 'priv, 'pub) block_env \<Rightarrow> ('txn, 'db, 'g, 'tb) producer_run \<Rightarrow>
   'tb producer_event list \<Rightarrow> ('txn, 'db, 'g, 'tb) producer_run \<Rightarrow> bool" for E and s where
  start: "producer_trace E s [] s"
| step: "producer_trace E s tr t \<Longrightarrow> producer_step E event t = Some u \<Longrightarrow> producer_trace E s (tr @ [event]) u"

inductive_cases producer_trace_NilE: "producer_trace E s [] t"
inductive_cases producer_trace_snocE: "producer_trace E s (tr @ [event]) t"

text \<open>The abstract queue: what was put in, in order, and what a thread has in its hands.\<close>

fun accepted :: "'tb producer_event list \<Rightarrow> 'tb ptransaction list" where
  "accepted [] = []"
| "accepted (Add t # tr) = t # accepted tr"
| "accepted (_ # tr) = accepted tr"

fun in_flight :: "'tb thread_state \<Rightarrow> 'tb ptransaction list" where
  "in_flight (Taken ts) = ts"
| "in_flight (Crashed e ts) = ts"
| "in_flight _ = []"

definition delivered :: "('txn, 'db, 'g, 'tb) producer_run \<Rightarrow> 'tb ptransaction list" where
  "delivered s = concat (pr_batches s) @ in_flight (pr_thread s) @ bp_transactions (pr_producer s)"

lemma accepted_append [simp]: "accepted (tr @ tr') = accepted tr @ accepted tr'"
  by (induction tr rule: accepted.induct) auto

lemmas producer_defs = producer_step_def producer_addTransaction_def producer_terminate_def producer_checkState_def
  producer_getTransactions_def

lemma producer_step_delivered:
  assumes "producer_step E event s = Some t"
  shows "delivered t = delivered s @ accepted [event]"
proof (cases event)
  case (Add x)
  with assms show ?thesis by (simp add: producer_defs delivered_def split: if_splits) auto
next
  case Terminate
  with assms show ?thesis by (simp add: producer_defs delivered_def split: if_splits) auto
next
  case Check
  with assms show ?thesis by (simp add: producer_defs delivered_def split: if_splits) auto
next
  case Take
  with assms show ?thesis by (simp add: producer_defs delivered_def split: if_splits) auto
next
  case (Generate a b)
  with assms show ?thesis
    by (auto simp: producer_step_def delivered_def split: if_splits thread_state.splits prod.splits sum.splits)
qed

lemma producer_trace_delivered: "producer_trace E s tr t \<Longrightarrow> delivered t = delivered s @ accepted tr"
  by (induction rule: producer_trace.induct) (simp_all add: producer_step_delivered)

lemma stopped_step:
  assumes "producer_step E event s = Some t" and "pr_thread s = Stopped" and "bp_currentState (pr_producer s) = terminated"
  shows "pr_thread t = Stopped \<and> bp_currentState (pr_producer t) = terminated \<and> pr_batches t = pr_batches s \<and>
    bp_transactions (pr_producer t) = bp_transactions (pr_producer s) \<and> pr_node t = pr_node s"
  using assms by (cases event) (auto simp: producer_defs)

lemma stopped_trace:
  assumes "producer_trace E s tr t" and "pr_thread s = Stopped" and "bp_currentState (pr_producer s) = terminated"
  shows "pr_thread t = Stopped \<and> bp_currentState (pr_producer t) = terminated \<and> pr_batches t = pr_batches s \<and>
    bp_transactions (pr_producer t) = bp_transactions (pr_producer s) \<and> pr_node t = pr_node s"
  using assms by (induction rule: producer_trace.induct) (auto dest: stopped_step)

lemma add_transactions_throws:
  assumes "t \<in> set ts"
    and "\<And>n. \<exists>e n'. service_applyTransaction (be_rocks E) (be_rdf E) (be_codecs E) (be_accounts E) (be_wire E) t n = (Inl e, n')"
  shows "\<exists>e n'. add_transactions E ts block n = (Inl e, n')"
  using assms
proof (induction ts arbitrary: block n)
  case Nil
  then show ?case by simp
next
  case (Cons x ts)
  show ?case
  proof (cases "x = t")
    case True
    with Cons.prems(2) [of n] show ?thesis by (auto simp: sbind_def)
  next
    case False
    then have "\<exists>e n'. add_transactions E ts b m = (Inl e, n')" for b m
      using Cons.prems(1) by (intro Cons.IH Cons.prems(2)) simp
    then show ?thesis by (auto simp: sbind_def slift_def split: prod.splits sum.splits)
  qed
qed

lemma in_transaction_throws:
  assumes "\<And>n. \<exists>e n'. body n = (Inl e, n')"
  shows "\<exists>e n'. in_transaction R body s = (Inl e, n')"
proof -
  obtain e n' where "body (s\<lparr>transactionWrapper := Some []\<rparr>) = (Inl e, n')" using assms by blast
  then show ?thesis
    by (auto simp: in_transaction_def createTransaction_def split: if_splits prod.splits sum.splits)
qed

lemma generateBlock_throws:
  assumes "t \<in> set ts"
    and "\<And>n. \<exists>e n'. service_applyTransaction (be_rocks E) (be_rdf E) (be_codecs E) (be_accounts E) (be_wire E) t n = (Inl e, n')"
  shows "\<exists>e n'. generateBlock E keyLoader now1 now2 ts s = (Inl e, n')"
  unfolding generateBlock_def
proof (rule in_transaction_throws, goal_cases)
  case (1 n)
  obtain r u where r: "getParentHash (be_rocks E) n = (r, u)" by fastforce
  show ?case
  proof (cases r)
    case (Inl e)
    with r show ?thesis by (simp add: generate_block_body_def sbind_def)
  next
    case (Inr h)
    obtain e n' where "add_transactions E ts (BlockBuilder_of_parent now1 h) u = (Inl e, n')"
      using add_transactions_throws [OF assms] by blast
    with r Inr show ?thesis by (simp add: generate_block_body_def sbind_def)
  qed
qed

section \<open>Idle rounds\<close>

text \<open>What a round relies on of the libraries: encoders that do not fail, a private key, and hashes
  that are neither empty nor one of the reserved keys of the block index.\<close>

definition producer_ready ::
  "('txn, 'db, 'g, 'any, 'tb, 'ab, 'sb, 'priv, 'pub) block_env \<Rightarrow> KeyLoader \<Rightarrow> bool" where
  "producer_ready E keyLoader \<longleftrightarrow> rocks_ok (be_rocks E) \<and> is_ok (getPrivateKey (be_botan E) keyLoader) \<and>
     (\<forall>b. is_ok (be_encode_Block E b)) \<and> (\<forall>b. is_ok (be_encode_SignedBlock E b)) \<and>
     (\<forall>v. hash_process (be_botan E) v \<noteq> [] \<and> valid_block_hash (hash_process (be_botan E) v))"

lemma signed_block_returns:
  assumes "producer_ready E keyLoader"
  shows "\<exists>sb. signed_block E keyLoader date builder = Inr sb \<and> sb_hash sb \<noteq> [] \<and> valid_block_hash (sb_hash sb)"
proof -
  obtain priv where priv: "getPrivateKey (be_botan E) keyLoader = Inr priv"
    using assms by (auto simp: producer_ready_def is_ok_iff)
  obtain b where b: "BlockBuilder_block (generateHash_secure (be_botan E)) builder = Some (Inr b)"
    using BlockBuilder_block_returns [of "generateHash_secure (be_botan E)" builder]
    by (auto simp: BlockBuilder_block_def MerkleUtils_of_block_def Let_def)
  obtain e where "be_encode_Block E b = Inr e" using assms unfolding producer_ready_def is_ok_iff by blast
  then show ?thesis
    using b assms priv getPrivateKey_initialized [OF priv]
    by (simp add: signed_block_def SignedBlockBuilder_of_block_def SignedBlockBuilder_sign_def producer_block_lib_def
        getBlockHash_def generator_sign_secure_def SignatureGenerator_of_loader_def hash_defs generateHash_vector_def
        producer_ready_def)
qed

lemma write_blocks_one:
  assumes "write_blocks rk rdf lib [sb] s = (Inr (), t)"
  shows "in_transaction (node_resources rk rdf) (writeBlock rk lib sb) s = (Inr (), t)"
proof -
  obtain r u where "in_transaction (node_resources rk rdf) (writeBlock rk lib sb) s = (r, u)" by fastforce
  with assms show ?thesis by (cases r) (simp_all add: write_blocks_def)
qed

lemma idle_generate:
  fixes s :: "('txn, 'db, 'g) node" and E :: "('txn, 'db, 'g, 'any, 'tb, 'ab, 'sb, 'priv, 'pub) block_env"
  assumes "producer_ready E keyLoader" and "block_store_ready s" and "node_parent s \<noteq> []"
    and "increment_count (node_count s) \<noteq> - 1"
  shows "\<exists>t. generateBlock E keyLoader now1 now2 [] s = (Inr (), t) \<and> block_store_ready t \<and> node_parent t \<noteq> [] \<and>
    node_count t = increment_count (node_count s)"
proof -
  let ?lib = "producer_block_lib E keyLoader" let ?s1 = "s\<lparr>transactionWrapper := Some []\<rparr>"
  obtain sb where sb: "signed_block E keyLoader now2 (BlockBuilder_of_parent now1 (node_parent s)) = Inr sb"
    "sb_hash sb \<noteq> []" "valid_block_hash (sb_hash sb)"
    using signed_block_returns [OF assms(1)] by blast
  have "rocks_ok (be_rocks E)" "\<forall>b \<in> set [sb]. is_ok (encode_SignedBlock ?lib b)"
    using assms(1) by (simp_all add: producer_ready_def producer_block_lib_def)
  from write_blocks_store [OF this(1) assms(2) this(2), of "be_rdf E"] sb(3)
  obtain q where "write_blocks (be_rocks E) (be_rdf E) ?lib [sb] s = (Inr (), s\<lparr>stores := (stores s)\<lparr>block_part := q\<rparr>\<rparr>)"
    and ready: "block_store_ready (s\<lparr>stores := (stores s)\<lparr>block_part := q\<rparr>\<rparr>)"
    "blockCount q = increment_count (node_count s)" "parentBlock q = sb_hash sb" by auto
  from write_blocks_one [OF this(1)] ready
  have q: "in_transaction (node_resources (be_rocks E) (be_rdf E)) (writeBlock (be_rocks E) ?lib sb) s =
      (Inr (), s\<lparr>stores := (stores s)\<lparr>block_part := q\<rparr>\<rparr>)"
    "block_store_ready (s\<lparr>stores := (stores s)\<lparr>block_part := q\<rparr>\<rparr>)"
    "blockCount q = increment_count (node_count s)" "parentBlock q = sb_hash sb" by blast+
  obtain u where wr: "writeBlock (be_rocks E) ?lib sb ?s1 = (Inr (), u)"
    and cache: "block_cache (s\<lparr>stores := (stores s)\<lparr>block_part := q\<rparr>\<rparr>) = block_cache u"
    by (rule in_transaction_InrE [OF q(1)])
  with q(3,4) have u: "writeBlock (be_rocks E) ?lib sb ?s1 = (Inr (), u)"
    "node_parent u = sb_hash sb" "node_count u = increment_count (node_count s)"
    by (simp_all add: block_cache_def)
  have parent: "getParentHash (be_rocks E) ?s1 = (Inr (node_parent s), ?s1)" "getParentHash (be_rocks E) u = (Inr (sb_hash sb), u)"
    using assms(3) u(2) sb(2) getParentHash_cached [of ?s1] getParentHash_cached [of u] by (simp_all add: HashHelper_empty_def)
  have "getBlockCount (be_rocks E) u = (Inr (increment_count (node_count s)), u)"
    using u(3) assms(4) by (simp add: getBlockCount_def prog_defs)
  with parent u(1) sb(1) have "generate_block_body E keyLoader now1 now2 [] ?s1 = writeBlock (be_rocks E) ?lib sb ?s1"
    by (simp add: generate_block_body_def prog_defs HashHelper_getHash_def)
  then have "generateBlock E keyLoader now1 now2 [] s = (Inr (), s\<lparr>stores := (stores s)\<lparr>block_part := q\<rparr>\<rparr>)"
    unfolding generateBlock_def using q(1) in_transaction_cong by metis
  with q sb(2) show ?thesis by simp
qed

lemma count_not_minus_one: "k < 2 ^ 63 \<Longrightarrow> (of_nat k :: c_long) \<noteq> - 1"
proof
  assume k: "k < 2 ^ 63" and "(of_nat k :: c_long) = - 1"
  then have "unat (of_nat k :: c_long) = unat (- 1 :: c_long)" by (intro arg_cong [where f = unat])
  then have "k mod 2 ^ 64 = 2 ^ 64 - 1"
    unfolding unat_of_nat by (simp add: unsigned_minus_1_eq_mask mask_eq_exp_minus_1)
  with k show False by simp
qed

lemma producer_trace_append:
  assumes "producer_trace E t tr' u" and "producer_trace E s tr t"
  shows "producer_trace E s (tr @ tr') u"
  using assms
proof (induction rule: producer_trace.induct)
  case start
  then show ?case by simp
next
  case (step tr' t u event)
  then show ?case by (metis append_assoc producer_trace.step)
qed

definition idle_round :: "bytes \<times> bytes \<Rightarrow> 'tb producer_event list" where
  "idle_round now = [Check, Take, Generate (fst now) (snd now)]"

definition idle :: "('txn, 'db, 'g, 'tb) producer_run \<Rightarrow> bool" where
  "idle s \<longleftrightarrow> pr_thread s = Waiting \<and> bp_currentState (pr_producer s) \<noteq> terminated \<and> bp_transactions (pr_producer s) = [] \<and>
     block_store_ready (pr_node s) \<and> node_parent (pr_node s) \<noteq> []"

lemma idle_round_trace:
  assumes "producer_ready E (bp_keyLoader (pr_producer s))" and "idle s"
    and "increment_count (node_count (pr_node s)) \<noteq> - 1"
  shows "\<exists>t. producer_trace E s (idle_round now) t \<and> idle t \<and> pr_producer t = pr_producer s \<and>
    node_count (pr_node t) = increment_count (node_count (pr_node s)) \<and> pr_batches t = pr_batches s @ [[]]"
proof -
  obtain n where n: "generateBlock E (bp_keyLoader (pr_producer s)) (fst now) (snd now) [] (pr_node s) = (Inr (), n)"
    "block_store_ready n" "node_parent n \<noteq> []" "node_count n = increment_count (node_count (pr_node s))"
    using idle_generate [OF assms(1) _ _ assms(3)] assms(2) by (auto simp: idle_def)
  have empty: "(pr_producer s)\<lparr>bp_transactions := []\<rparr> = pr_producer s"
    using assms(2) by (simp add: idle_def)
  let ?t1 = "s\<lparr>pr_thread := Woken\<rparr>" let ?t2 = "s\<lparr>pr_thread := Taken []\<rparr>"
  let ?t3 = "s\<lparr>pr_node := n, pr_thread := Waiting, pr_batches := pr_batches s @ [[]]\<rparr>"
  have "producer_step E Check s = Some ?t1" "producer_step E Take ?t1 = Some ?t2"
    "producer_step E (Generate (fst now) (snd now)) ?t2 = Some ?t3"
    using assms(2) n(1) empty by (simp_all add: producer_defs idle_def)
  with producer_trace.start [of E s] have "producer_trace E s ((([] @ [Check]) @ [Take]) @ [Generate (fst now) (snd now)]) ?t3"
    by (metis producer_trace.step)
  then show ?thesis
    using n assms(2) by (intro exI [of _ ?t3]) (simp add: idle_round_def idle_def)
qed

lemma idle_rounds_trace:
  assumes "producer_ready E (bp_keyLoader (pr_producer s))" and "idle s"
    and "node_count (pr_node s) = of_nat k" and "k + length nows < 2 ^ 63"
  shows "\<exists>t. producer_trace E s (concat (map idle_round nows)) t \<and> idle t \<and>
    node_count (pr_node t) = of_nat (k + length nows) \<and> pr_batches t = pr_batches s @ replicate (length nows) []"
  using assms
proof (induction nows arbitrary: s k)
  case Nil
  then show ?case by (intro exI [of _ s]) (simp add: producer_trace.start)
next
  case (Cons now nows)
  have count: "increment_count (of_nat k) = (of_nat (Suc k) :: c_long)"
    using count_not_minus_one [of k] Cons.prems(4) by (simp add: increment_count_def)
  with Cons.prems(3,4) have "increment_count (node_count (pr_node s)) \<noteq> - 1"
    using count_not_minus_one [of "Suc k"] by (simp del: of_nat_Suc)
  from idle_round_trace [OF Cons.prems(1,2) this, of now] obtain t where t: "producer_trace E s (idle_round now) t" "idle t"
    "pr_producer t = pr_producer s" "node_count (pr_node t) = of_nat (Suc k)" "pr_batches t = pr_batches s @ [[]]"
    using count Cons.prems(3) by (auto simp del: of_nat_Suc)
  from Cons.IH [of t "Suc k"] t Cons.prems(1,4) obtain u where u: "producer_trace E t (concat (map idle_round nows)) u"
    "idle u" "node_count (pr_node u) = of_nat (Suc k + length nows)" "pr_batches u = pr_batches t @ replicate (length nows) []"
    by (auto simp del: of_nat_Suc)
  then show ?case
    using producer_trace_append [OF u(1) t(1)] t(5) by (intro exI [of _ u]) simp
qed

section \<open>Properties\<close>

text \<open>C1: a generated block is on disk with its batch. When \<open>generateBlock\<close> returns, a signed block
  can be read under its hash that contains exactly the messages of the batch, in the order in which
  they were queued; its parent is the block that was last before, and the child index leads from that
  parent to it; its hash is the hash of its encoding and the public key of the producer accepts its
  signature; every transaction of the batch is indexed under it, and it is the parent of the next
  block.\<close>

theorem generated_block_is_stored:
  fixes s :: "('txn, 'db, 'g) node" and E :: "('txn, 'db, 'g, 'any, 'tb, 'ab, 'sb, 'priv, 'pub) block_env"
  assumes "generateBlock E k now1 now2 ts s = (Inr (), t)" and "rocks_ok (be_rocks E)" and "block_store_ready s"
    and "node_parent s \<noteq> []" and "increment_count (node_count s) \<noteq> - 1"
    and "\<forall>v. hash_process (be_botan E) v \<noteq> [] \<and> valid_block_hash (hash_process (be_botan E) v)"
    and "getPrivateKey (be_botan E) k = Inr priv" and "key_pair (be_botan E) priv pub"
  shows "\<exists>sb e v. map (getTransactionMessageHelper (be_wire E)) ts = map Inr (bk_transactions (sb_block sb)) \<and>
    bk_parent (sb_block sb) = node_parent s \<and> be_encode_Block E (sb_block sb) = Inr e \<and>
    sb_hash sb = generateHash_vector (be_botan E) e \<and>
    fst (verification_check (be_botan E) (sb_signature sb) (SignatureVerification_of_public pub (sb_hash sb))) = Inr True \<and>
    be_encode_SignedBlock E sb = Inr v \<and> block_stored (be_rocks E) (block_part (stores t)) BLOCKS_INDEX (sb_hash sb) = Some v \<and>
    block_stored (be_rocks E) (block_part (stores t)) CHILD_INDEX (node_parent s) = Some (sb_hash sb) \<and>
    (\<forall>m \<in> set (bk_transactions (sb_block sb)).
       block_stored (be_rocks E) (block_part (stores t)) TRANSACTIONS_INDEX (tm_transactionHash m) = Some (sb_hash sb)) \<and>
    block_stored (be_rocks E) (block_part (stores t)) BLOCKS_INDEX (SliceHelper_of_string PARENT_KEY) = Some (sb_hash sb)"
proof -
  let ?s1 = "s\<lparr>transactionWrapper := Some []\<rparr>"
  obtain u where u: "generate_block_body E k now1 now2 ts ?s1 = (Inr (), u)"
    using assms(1) unfolding generateBlock_def by (rule in_transaction_InrE)
  have ready: "transactionWrapper ?s1 = Some []" "blockResourcePtr (block_part (stores ?s1)) = None"
    "\<forall>n \<in> {BLOCKS_INDEX, CHILD_INDEX, TRANSACTIONS_INDEX}. block_connections (block_part (stores ?s1)) n \<noteq> None"
    "node_parent ?s1 \<noteq> []" "increment_count (node_count ?s1) \<noteq> - 1" "\<forall>v. hash_process (be_botan E) v \<noteq> []"
    using assms(3-6) by (simp_all add: block_store_ready_def)
  obtain builder sb v where b: "map (getTransactionMessageHelper (be_wire E)) ts = map Inr (bk_transactions builder)"
    "bk_parent builder = node_parent ?s1" "signed_block E k now2 builder = Inr sb" "be_encode_SignedBlock E sb = Inr v"
    and rs: "\<exists>rs. transactionWrapper u = Some rs \<and> BlockResources \<in> set rs"
    and stored: "\<forall>n k. block_stored (be_rocks E) (BlockResourceManager_commit (be_rocks E) (block_part (stores u))) n k =
      (case last_write (block_writes (increment_count (node_count ?s1)) v sb) n k of
        Some x \<Rightarrow> Some x | None \<Rightarrow> block_stored (be_rocks E) (block_part (stores ?s1)) n k)"
    by (rule generate_block_steps [OF u assms(2) ready assms(7)])
  obtain root e where sb: "sb_block sb = builder\<lparr>bk_merkelRoot := root\<rparr>" "sb_parent sb = bk_parent builder"
    "be_encode_Block E (sb_block sb) = Inr e" "sb_hash sb = generateHash_vector (be_botan E) e"
    "sb_signature sb = sign_message (be_botan E) priv (sb_hash sb)"
    by (rule signed_blockE [OF b(3) assms(7)])
  have "valid_block_hash (sb_hash sb)" using assms(6) sb(4) by (simp add: generateHash_vector_def)
  then have names: "sb_hash sb \<noteq> copyStringToVector PARENT_KEY" "sb_hash sb \<noteq> copyStringToVector BLOCK_COUNT"
    by (simp_all add: valid_block_hash_def)
  have part: "block_part (stores t) = BlockResourceManager_commit (be_rocks E) (block_part (stores u))"
    using rs in_transaction_commits_block [OF assms(1) [unfolded generateBlock_def] u] by blast
  have "fst (verification_check (be_botan E) (sb_signature sb) (SignatureVerification_of_public pub (sb_hash sb))) = Inr True"
    using assms(8) sb(5) by (simp add: verification_check_def SignatureVerification_of_public_def key_pair_def prog_defs)
  moreover have "map char_byte PARENT_KEY \<noteq> map char_byte BLOCK_COUNT" by (simp add: PARENT_KEY_def BLOCK_COUNT_def)
  ultimately show ?thesis
    using b sb stored names
    by - (rule exI [of _ sb], rule exI [of _ e], rule exI [of _ v],
      simp add: part last_write_block SliceHelper_of_string_def copyStringToVector_def)
qed

text \<open>C3: the producer is a queue. However the additions of other threads interleave with the
  producer's checks, takes and blocks: the batches whose blocks were generated, followed by the batch
  in the producer's hands and by what is still queued, are the accepted transactions, in the order in
  which they were accepted. None is lost, doubled or overtaken while the thread runs.\<close>

theorem producer_is_a_queue:
  assumes "producer_trace E s tr t"
    and "pr_batches s = []" and "pr_thread s = Waiting" and "bp_transactions (pr_producer s) = []"
  shows "concat (pr_batches t) @ in_flight (pr_thread t) @ bp_transactions (pr_producer t) = accepted tr"
  using producer_trace_delivered [OF assms(1)] assms(2-4) by (simp add: delivered_def)

text \<open>C25: termination loses what is queued. When \<open>terminate\<close> comes after a transaction was accepted and
  before the thread's next check, the thread stops; in every continuation the transaction stays in
  the queue, no further block is generated and nothing more is stored.\<close>

theorem terminate_loses_queue:
  assumes "pr_thread s = Waiting" and "bp_currentState (pr_producer s) \<noteq> terminated"
  shows "\<exists>t. producer_trace E s [Add x, Terminate, Check] t \<and> pr_thread t = Stopped \<and> x \<in> set (bp_transactions (pr_producer t)) \<and>
    (\<forall>tr u. producer_trace E t tr u \<longrightarrow> accepted tr = [] \<and> pr_batches u = pr_batches s \<and> pr_node u = pr_node s \<and>
       x \<in> set (bp_transactions (pr_producer u)))"
proof -
  let ?p = "(pr_producer s)\<lparr>bp_transactions := bp_transactions (pr_producer s) @ [x]\<rparr>"
  let ?t1 = "s\<lparr>pr_producer := ?p\<rparr>" let ?t2 = "s\<lparr>pr_producer := ?p\<lparr>bp_currentState := terminated\<rparr>\<rparr>"
  let ?t3 = "s\<lparr>pr_producer := ?p\<lparr>bp_currentState := terminated\<rparr>, pr_thread := Stopped\<rparr>"
  have "producer_step E (Add x) s = Some ?t1" "producer_step E Terminate ?t1 = Some ?t2" "producer_step E Check ?t2 = Some ?t3"
    using assms by (simp_all add: producer_defs)
  with producer_trace.start [of E s] have "producer_trace E s ((([] @ [Add x]) @ [Terminate]) @ [Check]) ?t3"
    by (metis producer_trace.step)
  moreover have "accepted tr = [] \<and> pr_batches u = pr_batches s \<and> pr_node u = pr_node s \<and> x \<in> set (bp_transactions (pr_producer u))"
    if "producer_trace E ?t3 tr u" for tr u
    using stopped_trace [OF that] producer_trace_delivered [OF that] by (simp add: delivered_def)
  ultimately show ?thesis by (intro exI [of _ ?t3]) simp
qed



text \<open>C12: the block service queues the processed transaction and routes the unprocessed one. For a
  message whose transaction's account has the base contract, the contract runs in the sandbox; what
  is queued for the next block is the transaction with the contract's signed change set added, while
  the message handed back to the router is the one that came in, without it.\<close>

theorem block_message_routes_unprocessed:
  fixes E :: "('txn, 'db, 'g, 'any, 'tb, 'ab, 'sb, 'priv, 'pub) block_env"
    and W :: "('any, 'tb, 'ab, 'sb, 'h, 'f, 'priv, 'pub) wavm_env" and w :: "('txn, 'db, 'g, 'tb, 'ab) block_world"
  defines "tx mw \<equiv> wrapper_getTransaction (be_wire E) mw"
  defines "command mw contract \<equiv> \<lparr>sm_contract = cm_contract contract, sm_model = [],
    sm_transaction = serialize_transaction (be_wire E) (tx mw), sm_changes = []\<rparr>"
  assumes "wire_ok (be_wire E)" and "we_wire W = be_wire E"
    and "be_execute E = (\<lambda>msg. fst (executeActionMessage W k engine msg None))"
    and "service_getContract (be_rocks E) (be_rdf E) (be_accounts E)
      \<lparr>cm_account_hash = copyVectorToString (pt_active_account (tx mw)), cm_contract_name = BASE_ACCOUNT_CONTRACT,
       cm_contract = []\<rparr> (bw_node w) = (Inr contract, n)"
    and "getTransactionMessageHelper (be_wire E) (tx mw) = Inr m" and "getCurrentAccount m = Inr a"
    and "hex_decode_locked (we_codecs W) (cm_contract contract) = Inr code"
    and "WavmSession W (command mw contract) k = Inr s"
    and "engine (copyVectorToString code) s = (Inr (), s\<lparr>ws_model := model, ws_rdf := g\<rparr>)"
    and "we_any_of_model W model = Inr change" and "getPrivateKey (we_botan W) k = Inr priv"
    and "encode_ChangeSet (we_asn1 W) (session_changes m a change) = Inr e"
    and "bp_currentState (bw_producer w) \<noteq> terminated"
  shows "\<exists>w' t scs. blockMessage E mw w = (Inr (True, ''balanced''), w') \<and>
    bp_transactions (bw_producer w') = bp_transactions (bw_producer w) @ [t] \<and>
    getTransactionMessageHelper (be_wire E) t = Inr (m\<lparr>tm_changeSet := tm_changeSet m @ [scs]\<rparr>) \<and>
    sc_changeSet scs = session_changes m a change \<and> bw_routed w' = bw_routed w @ [mw]"
proof -
  let ?scs = "signed_changes (we_botan W) priv (session_changes m a change) e"
  have msg: "getTransactionMessageHelper (we_wire W) (parse_transaction (we_wire W) (sm_transaction (command mw contract))) = Inr m"
    "hex_decode_locked (we_codecs W) (sm_contract (command mw contract)) = Inr code" "wire_ok (we_wire W)"
    using assms(3,4,7,9) wire_okD(3) [OF assms(3)] by (simp_all add: command_def)
  obtain t where t: "executeActionMessage W k engine (command mw contract) None =
      (Inr ((command mw contract)\<lparr>sm_transaction := serialize_transaction (we_wire W) t\<rparr>), None)"
    "parse_transaction (we_wire W) (serialize_transaction (we_wire W) t) = t"
    "getTransactionMessageHelper (we_wire W) t = Inr (addChangeSet m ?scs)"
    by (rule executed_message [where E = W and engine = engine and s = s and model = model and g = g,
        OF msg(3) assms(13) msg(1) assms(8) msg(2) assms(10-12,14)])
  let ?w1 = "(getAccountLock (pt_active_account (tx mw)) w)\<lparr>bw_node := n\<rparr>"
  have w1: "bw_producer ?w1 = bw_producer w" "bw_routed ?w1 = bw_routed w"
    "bw_node (getAccountLock (pt_active_account (tx mw)) w) = bw_node w"
    by (simp_all add: getAccountLock_def)
  have process: "processTransaction E (tx mw) (bw_node w) = (Inr t, n)"
    using assms(4-7) t(1,2) by (simp add: processTransaction_def sbind_def slift_def sreturn_def command_def)
  let ?q = "bp_transactions (bw_producer w) @ [t]"
  have add: "producer_addTransaction t (bw_producer w) = (Inr (), (bw_producer w)\<lparr>bp_transactions := ?q\<rparr>)"
    using assms(15) by (simp add: producer_addTransaction_def)
  obtain x where "wrapper_setTransaction (be_wire E) t mw = (Inr (), x)"
    using t(3) assms(4,8) by (simp add: wrapper_setTransaction_def prog_defs)
  then have "blockMessage E mw w = (Inr (True, ''balanced''),
      ?w1\<lparr>bw_producer := (bw_producer w)\<lparr>bp_transactions := ?q\<rparr>, bw_routed := bw_routed w @ [mw]\<rparr>)"
    using process add w1
    by (simp add: blockMessage_def Let_def sbind_def smodify_def slift_def sreturn_def at_node_def at_producer_def tx_def)
  moreover have "sc_changeSet ?scs = session_changes m a change" by (simp add: signed_changes_def)
  ultimately show ?thesis
    using t(3) assms(4) by (intro exI [of _ t] exI [of _ ?scs] exI) (auto simp: addChangeSet_def)
qed

text \<open>What a message of the genesis block says.\<close>

definition genesis_message_ok ::
  "('priv, 'pub) botan \<Rightarrow> 'pub \<Rightarrow> 'any TransactionMessage_t \<Rightarrow> bool" where
  "genesis_message_ok lib pub m \<longleftrightarrow> tm_currentStatus m = Status_complete \<and> tm_targetAccount m = tm_sourceAccount m \<and>
     (\<exists>scs. tm_changeSet m = [scs] \<and> cs_accountHash (sc_changeSet scs) = tm_sourceAccount m \<and>
        cs_status (sc_changeSet scs) = Status_complete \<and>
        fst (verification_check lib (sc_signature scs) (SignatureVerification_of_public pub (sc_changeSetHash scs))) = Inr True)"

definition genesis_changes :: "HashHelper \<Rightarrow> 'any \<Rightarrow> 'any SignedTransaction_t \<Rightarrow> 'any ChangeSet_t" where
  "genesis_changes account anyModel st = \<lparr>cs_version = PROTOCOL_VERSION, cs_transactionHash = st_transactionHash st,
     cs_accountHash = account, cs_status = Status_complete, cs_changes = [asn1Change anyModel]\<rparr>"

definition complete_message :: "HashHelper \<Rightarrow> 'any SignedTransaction_t \<Rightarrow> 'any TransactionMessage_t" where
  "complete_message account st = (TransactionMessageHelper_of_signed st)
     \<lparr>tm_sourceAccount := account, tm_targetAccount := account, tm_currentStatus := Status_complete\<rparr>"

lemma genesis_message_eq:
  assumes "getPrivateKey (be_botan E) k = Inr priv"
  shows "genesis_message E k account anyModel st = (case encode_ChangeSet (be_asn1 E) (genesis_changes account anyModel st) of
     Inl e \<Rightarrow> Inl e
   | Inr e \<Rightarrow> Inr (addChangeSet (complete_message account st)
       (signed_changes (be_botan E) priv (genesis_changes account anyModel st) e)))"
proof -
  let ?m = "setTargetAccount (setSourceAccount (setStatus (TransactionMessageHelper_of_signed st) Status_complete) account) account"
  let ?cs = "genesis_changes account anyModel st"
  have m: "?m = complete_message account st"
    by (simp add: complete_message_def message_defs TransactionMessageHelper_of_signed_def hash_defs)
  have changes: "snd (changes_setStatus Status_complete (snd (changes_addChange anyModel
      (ChangeSetBuilder_of_hashes (getHash ?m) account)))) = Some ?cs"
    by (simp add: changes_setStatus_def changes_addChange_def ChangeSetBuilder_of_hashes_def genesis_changes_def
        message_defs TransactionMessageHelper_of_signed_def hash_defs)
  show ?thesis
  proof (cases "encode_ChangeSet (be_asn1 E) ?cs")
    case (Inl e)
    then show ?thesis
      unfolding genesis_message_def Let_def changes by (simp add: SignedChangeSetBuilder_of_loader_def)
  next
    case (Inr e)
    from assms Inr obtain b where "SignedChangeSetBuilder_of_loader (be_botan E) (be_asn1 E) (Some ?cs) k = Inr b"
      "signed_sign (be_botan E) b = (Inr (), b\<lparr>scb_signedChangedSet := Some (signed_changes (be_botan E) priv ?cs e)\<rparr>)"
      by (rule loader_builder_signs)
    with Inr show ?thesis unfolding genesis_message_def Let_def m changes [unfolded m] by simp
  qed
qed

lemma genesis_message_signed:
  assumes "genesis_message E k account anyModel st = Inr m" and "getPrivateKey (be_botan E) k = Inr priv"
    and "key_pair (be_botan E) priv pub"
  shows "genesis_message_ok (be_botan E) pub m"
proof -
  let ?cs = "genesis_changes account anyModel st"
  obtain e where "m = addChangeSet (complete_message account st) (signed_changes (be_botan E) priv ?cs e)"
    using assms(1) by (auto simp: genesis_message_eq [OF assms(2)] split: sum.splits)
  moreover have "sc_changeSet (signed_changes (be_botan E) priv ?cs e) = ?cs" for e by (simp add: signed_changes_def)
  ultimately show ?thesis
    using signed_changes_verify [OF assms(3), of ?cs]
    by (simp add: genesis_message_ok_def addChangeSet_def TransactionMessageHelper_of_signed_def complete_message_def
        genesis_changes_def)
qed

text \<open>The transaction of an element.\<close>

definition genesis_transaction ::
  "UTCTime_t \<Rightarrow> UTCTime_t \<Rightarrow> HashHelper \<Rightarrow> HashHelper \<Rightarrow> c_long \<Rightarrow> 'any \<Rightarrow> 'any Transaction_t" where
  "genesis_transaction now now' parent account v model = assembled now parent account account v
     [\<lparr>ac_version = PROTOCOL_VERSION, ac_date = now', ac_contract = None, ac_parent = [], ac_model = model\<rparr>]"

lemma genesis_signed_transaction_eq:
  assumes "encode_Transaction (be_asn1 E) (genesis_transaction now now' parent account v model) = Inr e" and "load_private_data (be_botan E) key = Inr priv"
  shows "genesis_signed_transaction E now now' parent account v model key =
    Inr \<lparr>st_version = PROTOCOL_VERSION, st_transaction = genesis_transaction now now' parent account v model, st_transactionHash = generateHash_vector (be_botan E) e,
         st_signature = sign_message (be_botan E) priv (generateHash_vector (be_botan E) e)\<rparr>"
  using assms
  by (simp add: genesis_transaction_def genesis_signed_transaction_def prog_defs on_snd_def on_fst_def assemble_eq builder_setModel_def
      createAction_def chain_addAction_def action_takePtr_def assembled_def signed_setTransaction_def TransactionBuilder_bytes_def
      serializeTransaction_def on_signed_def transaction_takePtr_def hash_defs builder_sign_def signature_defs
      generator_sign_secure_def SignatureGenerator_of_key_def isInitialized_def new_KeyLoader_def signed_createTransaction_def
      SignedTransactionBuilder_release_def)

lemma genesis_elements_block:
  assumes "wire_ok (be_wire E)" and "getPrivateKey (be_botan E) k = Inr priv" and "key_pair (be_botan E) priv pub"
    and "genesis_elements E k now1 now2 parent elements block s = (Inr block', t)"
  shows "\<exists>ms. block' = block\<lparr>bk_transactions := bk_transactions block @ ms\<rparr> \<and> length ms = length elements \<and>
    (\<forall>m \<in> set ms. genesis_message_ok (be_botan E) pub m)"
  using assms(4)
proof (induction elements arbitrary: block s)
  case Nil
  then show ?case by (simp add: sreturn_def)
next
  case (Cons element elements)
  from Cons.prems obtain m x m' u where m: "genesis_element E k now1 now2 parent element = Inr m"
    "TransactionProtoHelper_of_message (be_wire E) m = Inr x" "getTransactionMessageHelper (be_wire E) x = Inr m'"
    and rest: "genesis_elements E k now1 now2 parent elements (addTransactionMessage block m') u = (Inr block', t)"
    by (auto simp: service_applyTransaction_def slift_Inr_iff sreturn_def elim!: sbind_InrE)
  have "m' = m" using protohelper_roundtrip [OF assms(1) m(2)] m(3) by simp
  moreover have "genesis_message_ok (be_botan E) pub m"
    using m(1) genesis_message_signed [OF _ assms(2,3)] by (auto simp: genesis_element_def result_simps)
  moreover from Cons.IH [OF rest] obtain ms where "block' = block\<lparr>bk_transactions := bk_transactions block @ m' # ms\<rparr>"
    "length ms = length elements" "\<forall>m \<in> set ms. genesis_message_ok (be_botan E) pub m"
    by (auto simp: addTransactionMessage_def)
  ultimately show ?case by (intro exI [of _ "m # ms"]) simp
qed


section \<open>Witnesses\<close>

text \<open>A library whose hashes begin with a one, and a graph in which every contract has the code
  \<open>code\<close>.\<close>

definition block_botan :: "(bytes, bytes) botan" where
  "block_botan = plain_botan\<lparr>hash_process := (\<lambda>v. 1 # v)\<rparr>"

definition code_rdf :: "nat rdf_lib" where
  "code_rdf = counting_rdf\<lparr>query_bindings := (\<lambda>g q. Some [[(''code'', ''code'')]])\<rparr>"

definition block_account_wire :: "bytes account_wire" where
  "block_account_wire = plain_account_wire\<lparr>parse_info := (\<lambda>s. \<lparr>ai_version = 1, ai_account_hash = [1],
     ai_parent_account_hash = [], ai_account_type = s, ai_graph_name = ''abc''\<rparr>), extract_RDFModel := (\<lambda>a. Inr new_RDFModelHelper)\<rparr>"

definition plain_block_env ::
  "(plain_db, plain_db, nat, bytes, plain_message, plain_message ptransaction, plain_message ptransaction, bytes, bytes) block_env" where
  "plain_block_env = \<lparr>be_rocks = plain_rocks, be_rdf = code_rdf, be_codecs = plain_codecs, be_accounts = block_account_wire,
     be_wire = plain_wire, be_botan = block_botan, be_asn1 = plain_asn1, be_encode_Block = (\<lambda>b. Inr (bk_parent b)),
     be_encode_SignedBlock = (\<lambda>b. Inr (sb_parent b @ sb_hash b)),
     be_execute = (\<lambda>msg. fst (executeActionMessage plain_wavm_env plain_loader
        (\<lambda>code s. (Inr (), s\<lparr>ws_model := \<lparr>rm_action = RDFChange_persist, rm_data = []\<rparr>, ws_rdf := []\<rparr>)) msg None)),
     be_any_of_model = (\<lambda>m. Inr []), be_zero_any = []\<rparr>"

definition plain_producer :: "plain_message block_producer" where
  "plain_producer = \<lparr>bp_enabled = True, bp_currentState = inited, bp_transactions = [], bp_keyLoader = plain_loader\<rparr>"

definition producer_node :: "(plain_db, plain_db, nat) node" where
  "producer_node = account_node\<lparr>stores := (stores account_node)\<lparr>block_part := (block_part (stores account_node))
     \<lparr>parentBlock := [7], blockCount := 1\<rparr>\<rparr>\<rparr>"

definition plain_run :: "(plain_db, plain_db, nat, plain_message) producer_run" where
  "plain_run = \<lparr>pr_node = producer_node, pr_producer = plain_producer, pr_thread = Waiting, pr_batches = []\<rparr>"

definition plain_ptransaction :: "plain_message ptransaction" where
  "plain_ptransaction = sm_transaction plain_sandbox_message"

definition garbage_ptransaction :: "plain_message ptransaction" where
  "garbage_ptransaction = plain_ptransaction\<lparr>pt_asn1_transaction_message := None\<rparr>"

lemma plain_block_env_ready: "producer_ready plain_block_env (bp_keyLoader plain_producer)"
proof -
  have "valid_block_hash (1 # v)" for v :: bytes
    by (simp add: valid_block_hash_def copyStringToVector_def PARENT_KEY_def BLOCK_COUNT_def char_byte_def)
  then show ?thesis
    by (simp add: producer_ready_def plain_block_env_def plain_rocks_ok block_botan_def plain_botan_def getPrivateKey_def
        plain_producer_def plain_loader_def isInitialized_def)
qed

lemma plain_run_idle: "idle plain_run"
  by (simp add: idle_def plain_run_def plain_producer_def producer_node_def account_node_def block_store_ready_def)

definition batch_node :: "(plain_db, plain_db, nat) node" where
  "batch_node = producer_node\<lparr>stores := (stores producer_node)\<lparr>account_part := (account_part (stores producer_node))
     \<lparr>account_connections := (\<lambda>_. Some [([1], [])])\<rparr>\<rparr>\<rparr>"
definition applied_account_part :: "(plain_db, plain_db, nat) account_part" where
  "applied_account_part = (account_part (stores batch_node))\<lparr>accountResourcePtr :=
     Some \<lparr>transactionMap = [(ACCOUNTS_MAPPING, [])], sessionMap = [(''abc'', \<lparr>session_store = ''abc'', activeTransaction = False\<rparr>)]\<rparr>,
     graphs := [BASE_GRAPH \<mapsto> ''abc'']\<rparr>"
lemmas apply_defs = service_applyTransaction_def applyTransaction_def prog_defs getTransactionMessageHelper_def
  AccountResourceManager_getResource_def on_stores_def on_account_def enlistResource_def TransactionWrapper_enlist_def
  getAccountInfo_def with_account_resource_def AccountResource_getTransaction_def Let_def account_of_status_def
  open_transaction_def new_AccountRDFStatementBuilder_def AccountResource_getGraphSession_def manager_lookup_def
  new_AccountGraphSession_def update_resource_def resource_sessions_def account_Get_def store_checkForDb_def new_AccountGraphStore_def
  cache_graph_def graph_call_def update_graph_def
lemma batch_applied:
  "service_applyTransaction plain_rocks code_rdf plain_codecs block_account_wire plain_wire plain_ptransaction (batch_node\<lparr>transactionWrapper := Some []\<rparr>) =
   (Inr plain_ptransaction, batch_node\<lparr>transactionWrapper := Some [AccountResources], stores := (stores batch_node)\<lparr>account_part := applied_account_part\<rparr>\<rparr>)"
  by (simp add: apply_defs applied_account_part_def batch_node_def producer_node_def account_node_def plain_ptransaction_def plain_sandbox_message_def plain_wire_def)
    (simp add: apply_defs sample_message_def TransactionMessageHelper_of_signed_def hash_defs code_rdf_def counting_rdf_def plain_rocks_def block_account_wire_def getSourceAccount_def
    transaction_Get_def connection_Get_def getConnection_def getStatus_def resource_transactions_def map_set_def db_Get_def fun_upd_def,
     simp add: fun_eq_iff)

lemma batch_written:
  obtains sb q where "signed_block plain_block_env plain_loader date builder = Inr sb" and "sb_hash sb \<noteq> []"
    and "writeBlock plain_rocks (producer_block_lib plain_block_env plain_loader) sb
      (batch_node\<lparr>transactionWrapper := Some [AccountResources], stores := (stores batch_node)\<lparr>account_part := applied_account_part\<rparr>\<rparr>) =
      (Inr (), batch_node\<lparr>transactionWrapper := Some [AccountResources, BlockResources],
        stores := (stores batch_node)\<lparr>block_part := q, account_part := applied_account_part\<rparr>\<rparr>)"
    and "parentBlock q = sb_hash sb" and "blockCount q = 2"
proof -
  let ?lib = "producer_block_lib plain_block_env plain_loader" let ?p = "block_part (stores batch_node)"
  obtain sb where sb: "signed_block plain_block_env plain_loader date builder = Inr sb" "sb_hash sb \<noteq> []"
    using signed_block_returns [of plain_block_env plain_loader date builder] plain_block_env_ready by (auto simp: plain_producer_def)
  have con: "\<forall>n \<in> {BLOCKS_INDEX, CHILD_INDEX, TRANSACTIONS_INDEX}. block_connections ?p n \<noteq> None"
    and ptr: "blockResourcePtr ?p = None"
    by (simp_all add: batch_node_def producer_node_def account_node_def)
  obtain v where "encode_SignedBlock ?lib sb = Inr v" by (simp add: producer_block_lib_def plain_block_env_def)
  from writeBlock_commit [OF plain_rocks_ok con this]
  obtain q where q: "writeBlock_on_resource plain_rocks ?lib sb (?p\<lparr>blockResourcePtr := Some []\<rparr>) = (Inr (), q)"
    "parentBlock q = sb_hash sb" "blockCount q = 2"
    by (auto simp: batch_node_def producer_node_def account_node_def increment_count_def)
  with sb ptr show ?thesis by (intro that [of sb q]) (simp_all add: writeBlock_def with_block_resource_enlists)
qed

lemma batch_generated: "\<exists>t. generateBlock plain_block_env plain_loader [5] [6] [plain_ptransaction] batch_node = (Inr (), t)"
proof -
  let ?E = plain_block_env let ?lib = "producer_block_lib ?E plain_loader"
  let ?s1 = "batch_node\<lparr>transactionWrapper := Some []\<rparr>"
  let ?s2 = "batch_node\<lparr>transactionWrapper := Some [AccountResources], stores := (stores batch_node)\<lparr>account_part := applied_account_part\<rparr>\<rparr>"
  let ?b = "addTransactionMessage (BlockBuilder_of_parent [5] [7]) sample_message"
  have parent: "getParentHash plain_rocks ?s1 = (Inr [7], ?s1)"
    by (simp add: getParentHash_def prog_defs HashHelper_empty_def batch_node_def producer_node_def account_node_def)
  have add: "add_transactions ?E [plain_ptransaction] (BlockBuilder_of_parent [5] [7]) ?s1 = (Inr ?b, ?s2)"
    using batch_applied by (simp add: plain_block_env_def sbind_def slift_def sreturn_def getTransactionMessageHelper_def
        plain_ptransaction_def plain_sandbox_message_def plain_wire_def)
  have env: "be_rocks ?E = plain_rocks" "be_codecs ?E = plain_codecs" "be_rdf ?E = code_rdf" by (simp_all add: plain_block_env_def)
  obtain sb q where sb: "signed_block ?E plain_loader [6] ?b = Inr sb" "sb_hash sb \<noteq> []"
    and wr: "writeBlock plain_rocks ?lib sb ?s2 = (Inr (), batch_node\<lparr>transactionWrapper := Some [AccountResources, BlockResources],
        stores := (stores batch_node)\<lparr>block_part := q, account_part := applied_account_part\<rparr>\<rparr>)"
    and q: "parentBlock q = sb_hash sb" "blockCount q = 2"
    by (rule batch_written)
  have body: "generate_block_body ?E plain_loader [5] [6] [plain_ptransaction] ?s1 =
      (Inr (), batch_node\<lparr>transactionWrapper := Some [AccountResources, BlockResources],
        stores := (stores batch_node)\<lparr>block_part := q, account_part := applied_account_part\<rparr>\<rparr>)"
    using parent add sb wr q
    by (simp add: generate_block_body_def sbind_def slift_def sreturn_def getBlockCount_def getParentHash_def sget_def
        HashHelper_empty_def HashHelper_getHash_def env del: add_transactions.simps)
  obtain x where x: "AccountResourceManager_commit plain_rocks code_rdf applied_account_part = (Inr (), x)"
    by (simp add: AccountResourceManager_commit_def prog_defs applied_account_part_def AccountResource_commit_def
        end_sessions_def AccountGraphSession_commit_def batch_node_def producer_node_def account_node_def
        resource_transactions_def commit_each_def resource_sessions_def update_resource_def)
  have "createTransaction batch_node = (Inr (), ?s1)"
    by (simp add: createTransaction_def batch_node_def producer_node_def account_node_def)
  then show ?thesis
    using body x unfolding generateBlock_def env
    by (simp add: in_transaction_def TransactionImpl_commit_def TransactionImpl_destroy_def service_commit_def
      TransactionWrapper_commit_def prog_defs on_stores_def on_block_def on_account_def node_resources_def)
qed

theorem generated_block_is_stored_witness:
  "\<exists>t (sb :: bytes SignedBlock_t). generateBlock plain_block_env plain_loader [5] [6] [plain_ptransaction] batch_node = (Inr (), t) \<and>
    bk_transactions (sb_block sb) = [sample_message] \<and>
    block_stored plain_rocks (block_part (stores t)) CHILD_INDEX [7] = Some (sb_hash sb) \<and>
    block_stored plain_rocks (block_part (stores t)) TRANSACTIONS_INDEX [3] = Some (sb_hash sb)"
proof -
  let ?k = "copyStringToVector ''key''"
  obtain t where t: "generateBlock plain_block_env plain_loader [5] [6] [plain_ptransaction] batch_node = (Inr (), t)"
    using batch_generated by blast
  have rk: "be_rocks plain_block_env = plain_rocks" and botan: "be_botan plain_block_env = block_botan"
    by (simp_all add: plain_block_env_def)
  have "rocks_ok (be_rocks plain_block_env)" "block_store_ready batch_node" "node_parent batch_node \<noteq> []"
    "increment_count (node_count batch_node) \<noteq> - 1"
    by (simp_all add: rk plain_rocks_ok batch_node_def producer_node_def account_node_def block_store_ready_def increment_count_def)
  note node = this
  have hash: "\<forall>v. hash_process (be_botan plain_block_env) v \<noteq> [] \<and> valid_block_hash (hash_process (be_botan plain_block_env) v)"
    using plain_block_env_ready by (simp add: producer_ready_def)
  have keys: "getPrivateKey (be_botan plain_block_env) plain_loader = Inr ?k" "key_pair (be_botan plain_block_env) ?k ?k"
    by (simp_all add: botan block_botan_def key_pair_def plain_botan_def getPrivateKey_def isInitialized_def plain_loader_def)
  have decode: "map (getTransactionMessageHelper (be_wire plain_block_env)) [plain_ptransaction] = [Inr sample_message]"
    by (simp add: plain_block_env_def getTransactionMessageHelper_def plain_ptransaction_def plain_sandbox_message_def plain_wire_def)
  have names: "tm_transactionHash sample_message = [3]" "node_parent batch_node = [7]"
    by (simp_all add: sample_message_def TransactionMessageHelper_of_signed_def hash_defs batch_node_def producer_node_def account_node_def)
  obtain sb :: "bytes SignedBlock_t" where "([Inr sample_message] :: bytes TransactionMessage_t result list) = map Inr (bk_transactions (sb_block sb))"
    "block_stored plain_rocks (block_part (stores t)) CHILD_INDEX [7] = Some (sb_hash sb)"
    "\<forall>m \<in> set (bk_transactions (sb_block sb)).
       block_stored plain_rocks (block_part (stores t)) TRANSACTIONS_INDEX (tm_transactionHash m) = Some (sb_hash sb)"
    using generated_block_is_stored [OF t node hash keys] unfolding rk names decode
    by (elim exE conjE) (rule that)
  moreover from this(1) have "bk_transactions (sb_block sb) = [sample_message]" by auto
  ultimately show ?thesis using t names(1) by auto
qed

theorem producer_is_a_queue_witness:
  "\<exists>t. producer_trace plain_block_env plain_run [Add plain_ptransaction, Check, Take, Add garbage_ptransaction] t \<and>
    in_flight (pr_thread t) = [plain_ptransaction] \<and>
    concat (pr_batches t) @ in_flight (pr_thread t) @ bp_transactions (pr_producer t) = [plain_ptransaction, garbage_ptransaction]"
proof -
  let ?t = "plain_run\<lparr>pr_producer := plain_producer\<lparr>bp_transactions := [garbage_ptransaction]\<rparr>, pr_thread := Taken [plain_ptransaction]\<rparr>"
  have steps: "producer_step plain_block_env (Add plain_ptransaction) plain_run =
      Some (plain_run\<lparr>pr_producer := plain_producer\<lparr>bp_transactions := [plain_ptransaction]\<rparr>\<rparr>)"
    "producer_step plain_block_env Check (plain_run\<lparr>pr_producer := plain_producer\<lparr>bp_transactions := [plain_ptransaction]\<rparr>\<rparr>) =
      Some (plain_run\<lparr>pr_producer := plain_producer\<lparr>bp_transactions := [plain_ptransaction]\<rparr>, pr_thread := Woken\<rparr>)"
    "producer_step plain_block_env Take (plain_run\<lparr>pr_producer := plain_producer\<lparr>bp_transactions := [plain_ptransaction]\<rparr>, pr_thread := Woken\<rparr>) =
      Some (plain_run\<lparr>pr_producer := plain_producer\<lparr>bp_transactions := []\<rparr>, pr_thread := Taken [plain_ptransaction]\<rparr>)"
    "producer_step plain_block_env (Add garbage_ptransaction) (plain_run\<lparr>pr_producer := plain_producer\<lparr>bp_transactions := []\<rparr>,
       pr_thread := Taken [plain_ptransaction]\<rparr>) = Some ?t"
    by (simp_all add: producer_defs plain_run_def plain_producer_def)
  note trace = producer_trace.step [OF producer_trace.step [OF producer_trace.step [OF producer_trace.step
    [OF producer_trace.start steps(1)] steps(2)] steps(3)] steps(4)]
  have "pr_batches plain_run = []" "pr_thread plain_run = Waiting" "bp_transactions (pr_producer plain_run) = []"
    by (simp_all add: plain_run_def plain_producer_def)
  from producer_is_a_queue [OF trace this] trace show ?thesis by (intro exI [of _ ?t]) simp
qed

theorem terminate_loses_queue_witness:
  "\<exists>t. producer_trace plain_block_env plain_run [Add plain_ptransaction, Terminate, Check] t \<and> pr_thread t = Stopped \<and>
    plain_ptransaction \<in> set (bp_transactions (pr_producer t))"
  using terminate_loses_queue [of plain_run plain_block_env plain_ptransaction]
  by (auto simp: plain_run_def plain_producer_def)



definition plain_contract :: contract_message where
  "plain_contract = \<lparr>cm_account_hash = copyVectorToString [1], cm_contract_name = BASE_ACCOUNT_CONTRACT, cm_contract = ''code''\<rparr>"

lemma batch_contract:
  "\<exists>n. service_getContract plain_rocks code_rdf block_account_wire (plain_contract\<lparr>cm_contract := []\<rparr>)
     (batch_node\<lparr>transactionWrapper := Some []\<rparr>) = (Inr plain_contract, n)"
  by (simp add: service_getContract_def plain_contract_def apply_defs batch_node_def producer_node_def account_node_def
      transaction_Get_def connection_Get_def getConnection_def resource_transactions_def map_set_def db_Get_def
      block_account_wire_def plain_rocks_def hash_defs copyVectorToString_def copyStringToVector_def getContract_def AccountGraphSession_executeQuery_def
      code_rdf_def counting_rdf_def BASE_ACCOUNT_CONTRACT_def)

theorem block_message_routes_unprocessed_witness:
  "\<exists>w' t scs. blockMessage plain_block_env (new_MessageWrapper\<lparr>mw_msg := Some plain_ptransaction\<rparr>)
      \<lparr>bw_node = batch_node\<lparr>transactionWrapper := Some []\<rparr>, bw_producer = plain_producer, bw_accountLocks = [], bw_routed = []\<rparr> =
      (Inr (True, ''balanced''), w') \<and>
    bp_transactions (bw_producer w') = [t] \<and>
    getTransactionMessageHelper plain_wire t = Inr (sample_message\<lparr>tm_changeSet := [scs]\<rparr>) \<and>
    bw_routed w' = [new_MessageWrapper\<lparr>mw_msg := Some plain_ptransaction\<rparr>]"
proof -
  let ?mw = "new_MessageWrapper\<lparr>mw_msg := Some plain_ptransaction\<rparr> :: plain_message ptransaction MessageWrapper"
  let ?w = "\<lparr>bw_node = batch_node\<lparr>transactionWrapper := Some []\<rparr>, bw_producer = plain_producer, bw_accountLocks = [], bw_routed = []\<rparr>"
  let ?engine = "\<lambda>code s. (Inr (), s\<lparr>ws_model := \<lparr>rm_action = RDFChange_persist, rm_data = []\<rparr>, ws_rdf := []\<rparr>)"
  have env: "be_wire plain_block_env = plain_wire" "be_rocks plain_block_env = plain_rocks" "be_rdf plain_block_env = code_rdf"
    "be_accounts plain_block_env = block_account_wire"
    "be_execute plain_block_env = (\<lambda>msg. fst (executeActionMessage plain_wavm_env plain_loader ?engine msg None))"
    by (simp_all add: plain_block_env_def)
  have tx: "wrapper_getTransaction plain_wire ?mw = plain_ptransaction"
    by (simp add: wrapper_getTransaction_def plain_wire_def)
  have msg: "\<lparr>sm_contract = ''code'', sm_model = [], sm_transaction = serialize_transaction plain_wire plain_ptransaction, sm_changes = []\<rparr> =
      plain_sandbox_message"
    by (simp add: plain_wire_def plain_ptransaction_def plain_sandbox_message_def)
  obtain n where contract: "service_getContract plain_rocks code_rdf block_account_wire
      \<lparr>cm_account_hash = copyVectorToString (pt_active_account plain_ptransaction), cm_contract_name = BASE_ACCOUNT_CONTRACT,
       cm_contract = []\<rparr> (batch_node\<lparr>transactionWrapper := Some []\<rparr>) = (Inr plain_contract, n)"
    using batch_contract by (auto simp: plain_contract_def plain_ptransaction_def plain_sandbox_message_def)
  have decode: "getTransactionMessageHelper plain_wire plain_ptransaction = Inr sample_message"
    by (simp add: getTransactionMessageHelper_def plain_ptransaction_def plain_sandbox_message_def plain_wire_def)
  have code: "hex_decode_locked (we_codecs plain_wavm_env) (cm_contract plain_contract) = Inr (map char_byte ''code'')"
    by (simp add: plain_codecs_def plain_contract_def)
  have session: "WavmSession plain_wavm_env \<lparr>sm_contract = cm_contract plain_contract, sm_model = [],
      sm_transaction = serialize_transaction plain_wire plain_ptransaction, sm_changes = []\<rparr> plain_loader = Inr plain_session"
    using plain_session_facts(3) msg by (simp add: plain_contract_def)
  have key: "getPrivateKey (we_botan plain_wavm_env) plain_loader = Inr (copyStringToVector ''key'')"
    by (simp add: plain_botan_def getPrivateKey_def isInitialized_def plain_loader_def)
  obtain e where enc: "encode_ChangeSet (we_asn1 plain_wavm_env) (session_changes sample_message [1] [0]) = Inr e"
    by (simp add: plain_asn1_def)
  have change: "we_any_of_model plain_wavm_env \<lparr>rm_action = RDFChange_persist, rm_data = []\<rparr> = Inr [0]" by simp
  have state: "bp_currentState (bw_producer ?w) \<noteq> terminated" by (simp add: plain_producer_def)
  have "tm_changeSet sample_message = []" "bp_transactions plain_producer = []"
    by (simp_all add: sample_message_def TransactionMessageHelper_of_signed_def plain_producer_def)
  then show ?thesis
    using block_message_routes_unprocessed [where E = plain_block_env and W = plain_wavm_env and k = plain_loader and
      engine = ?engine and mw = ?mw and w = ?w, unfolded env tx block_world.simps, OF plain_wire_ok plain_env_parts(2) refl
      contract decode plain_session_facts(4) code session refl change key enc, unfolded block_world.simps, OF state [unfolded block_world.simps]]
    by fastforce
qed

definition plain_genesis :: json where
  "plain_genesis = JObject [(''parent'', JString ''p''), (''transactions'', JArray [JObject
     [(''account_hash'', JString [byte_char 1]), (''model'', JObject [(''rdf'', JArray [])]),
      (''private_key'', JString ''k''), (''value'', JString ''5'')]])]"

lemma batch_applies:
  assumes "getTransactionMessageHelper plain_wire x = Inr m" and "account_of_status m = [1]"
    and "tm_changeSet m = [scs]" and "cs_changes (sc_changeSet scs) = [asn1Change a]"
  shows "service_applyTransaction plain_rocks code_rdf plain_codecs block_account_wire plain_wire x
     (batch_node\<lparr>transactionWrapper := Some []\<rparr>) = (Inr x, batch_node\<lparr>transactionWrapper := Some [AccountResources],
       stores := (stores batch_node)\<lparr>account_part := applied_account_part\<rparr>\<rparr>)"
proof -
  have "new_AccountRDFStatementBuilder plain_codecs block_account_wire m True = Inr \<lparr>builder_action = [],
      builder_accountInfo = empty_AccountInfo\<lparr>ai_version := PROTOCOL_VERSION\<rparr>, builder_statements = [new_RDFModelHelper]\<rparr>"
    using assms(3,4) by (simp add: new_AccountRDFStatementBuilder_def read_change_def AccountRDFStatement_of_change_def
        block_account_wire_def subjects_def new_RDFModelHelper_def)
  moreover have "apply_statement code_rdf session new_RDFModelHelper p = (Inr (), p)" for session and p :: "(plain_db, plain_db, nat) account_part"
    by (simp add: apply_statement_def new_RDFModelHelper_def getSubjects_def prog_defs)
  ultimately show ?thesis
    using assms(1,2)
    by (simp add: service_applyTransaction_def applyTransaction_def prog_defs AccountResourceManager_getResource_def on_stores_def
      on_account_def enlistResource_def TransactionWrapper_enlist_def getAccountInfo_def with_account_resource_def
      AccountResource_getTransaction_def Let_def open_transaction_def AccountResource_getGraphSession_def manager_lookup_def
      applied_account_part_def batch_node_def producer_node_def account_node_def,
     simp add: prog_defs on_stores_def on_account_def manager_lookup_def
      new_AccountGraphSession_def update_resource_def resource_sessions_def account_Get_def store_checkForDb_def new_AccountGraphStore_def
      cache_graph_def graph_call_def update_graph_def hash_defs code_rdf_def counting_rdf_def plain_rocks_def block_account_wire_def
      transaction_Get_def connection_Get_def getConnection_def resource_transactions_def map_set_def db_Get_def fun_upd_def,
     simp add: fun_eq_iff)
qed

lemma plain_genesis_loads:
  "\<exists>t. GenesisLoader_load plain_block_env plain_loader [] [] [5] [6] plain_genesis (batch_node\<lparr>transactionWrapper := Some []\<rparr>) = (Inr (), t)"
proof -
  let ?E = plain_block_env let ?s1 = "batch_node\<lparr>transactionWrapper := Some []\<rparr>"
  let ?s2 = "batch_node\<lparr>transactionWrapper := Some [AccountResources], stores := (stores batch_node)\<lparr>account_part := applied_account_part\<rparr>\<rparr>"
  let ?p = "[char_byte CHR ''p'']" let ?k = "copyStringToVector ''key''"
  have botan: "be_botan ?E = block_botan" by (simp add: plain_block_env_def)
  have key: "getPrivateKey (be_botan ?E) plain_loader = Inr ?k"
    by (simp add: botan block_botan_def plain_botan_def getPrivateKey_def isInitialized_def plain_loader_def)
  obtain element where json: "json_string_member plain_genesis ''parent'' = Inr ''p''"
    "json_member plain_genesis ''transactions'' = Inr (JArray [element])"
    and element: "json_string_member element ''account_hash'' = Inr [byte_char 1]" "json_string_member element ''value'' = Inr ''5''"
    "genesis_model element = Inr new_RDFModelHelper" "json_string_member element ''private_key'' = Inr ''k''"
    by (simp add: plain_genesis_def json_string_member_def json_member_def json_get_string_def genesis_model_def json_elements_def)
  let ?t = "genesis_transaction [] [] ?p [1] (word_of_int (atol ''5'')) []"
  obtain e where "encode_Transaction (be_asn1 ?E) ?t = Inr e" by (simp add: plain_block_env_def plain_asn1_def)
  moreover have "load_private_data (be_botan ?E) [char_byte CHR ''k''] = Inr [char_byte CHR ''k'']"
    by (simp add: botan block_botan_def plain_botan_def)
  ultimately obtain st where st: "genesis_signed_transaction ?E [] [] ?p [1] (word_of_int (atol ''5'')) [] [char_byte CHR ''k''] = Inr st"
    by (simp add: genesis_signed_transaction_eq)
  obtain e' where "encode_ChangeSet (be_asn1 ?E) (genesis_changes [1] [] st) = Inr e'"
    by (simp add: plain_block_env_def plain_asn1_def)
  then obtain scs m where m: "genesis_message ?E plain_loader [1] [] st = Inr m" "m = addChangeSet (complete_message [1] st) scs"
    "sc_changeSet scs = genesis_changes [1] [] st"
    by (simp add: genesis_message_eq [OF key] signed_changes_def)
  have wire: "be_wire ?E = plain_wire" by (simp add: plain_block_env_def)
  have nul: "c_str [byte_char 1] = [byte_char 1]" by (simp add: c_str_def byte_char_def char_of_def bit_0)
  have "genesis_element ?E plain_loader [] [] ?p element = Inr m"
    using element st m(1)
    by (simp add: genesis_element_def HashHelper_of_encoded_def plain_block_env_def plain_codecs_def nul)
  moreover have facts: "getCurrentAccount m = Inr [1]" "account_of_status m = [1]" "tm_changeSet m = [scs]"
    by (simp_all add: m(2) addChangeSet_def complete_message_def TransactionMessageHelper_of_signed_def getCurrentAccount_def
        account_of_status_def message_defs hash_defs)
  moreover obtain x where x: "TransactionProtoHelper_of_message plain_wire m = Inr x"
    using facts(1) by (simp add: TransactionProtoHelper_of_message_def)
  moreover have "getTransactionMessageHelper plain_wire x = Inr m"
    using protohelper_roundtrip [OF plain_wire_ok x] .
  moreover from this facts(2,3) have "service_applyTransaction plain_rocks code_rdf plain_codecs block_account_wire plain_wire x ?s1 = (Inr x, ?s2)"
    by (rule batch_applies) (simp add: m(3) genesis_changes_def)
  ultimately have elements: "genesis_elements ?E plain_loader [] [] ?p [element] (BlockBuilder_of_parent [5] ?p) ?s1 =
      (Inr (addTransactionMessage (BlockBuilder_of_parent [5] ?p) m), ?s2)"
    by (simp add: prog_defs wire) (simp add: plain_block_env_def prog_defs)
  obtain sb q where "signed_block ?E plain_loader [6] (addTransactionMessage (BlockBuilder_of_parent [5] ?p) m) = Inr sb"
    "writeBlock plain_rocks (producer_block_lib ?E plain_loader) sb ?s2 = (Inr (), batch_node\<lparr>transactionWrapper :=
        Some [AccountResources, BlockResources], stores := (stores batch_node)\<lparr>block_part := q, account_part := applied_account_part\<rparr>\<rparr>)"
    by (rule batch_written)
  moreover have "HashHelper_of_encoded (be_codecs ?E) ''p'' HEX = Inr ?p" "be_rocks ?E = plain_rocks"
    by (simp_all add: HashHelper_of_encoded_def plain_block_env_def plain_codecs_def)
  ultimately show ?thesis
    using json elements by (simp add: GenesisLoader_load_def sbind_def slift_def json_elements_def)
qed


end
