(* ===== verification/ConsensusHash.thy ===== *)
theory ConsensusHash
  imports Crypto
begin

text \<open>
  The hash generator of the software consensus: \<open>libs/key_tools\<close>, and \<open>ConsensusHashScriptInfo\<close> and
  \<open>ConsensusHashGenerator\<close> of \<open>libs/software_consensus\<close>. Every module carries encrypted scripts; a
  session key unlocks one of them, and running it on a seed gives the module's hash. The decryption
  of Botan is the parameter \<open>pk_lib\<close>, the script engine ChaiScript the parameter \<open>chai\<close>: a function of
  the functions registered with it and of the code.
\<close>

section \<open>ContentDecryptor, ContentEncryptor, ContentSigner\<close>

record 'priv pk_lib =
  pk_encrypt :: "'priv \<Rightarrow> bytes \<Rightarrow> bytes result"
  pk_decrypt :: "'priv \<Rightarrow> bytes \<Rightarrow> bytes result"

text \<open>The loop indexes \<open>secret\<close> with every index of \<open>encodedKey\<close>; \<open>operator[]\<close> past its end is
  undefined.\<close>

definition xor_key :: "bytes \<Rightarrow> bytes \<Rightarrow> bytes" where
  "xor_key encodedKey secret = map (\<lambda>i. xor (encodedKey ! i) (secret ! i)) [0..<length encodedKey]"

definition getDerivedKey :: "bytes \<Rightarrow> bytes \<Rightarrow> bytes result" where
  "getDerivedKey secret encodedKey =
     (if length secret < length encodedKey then Inl UndefinedBehaviour else Inr (xor_key encodedKey secret))"

definition ContentDecryptor ::
  "('priv, 'pub) botan \<Rightarrow> 'priv pk_lib \<Rightarrow> bytes \<Rightarrow> bytes \<Rightarrow> bytes \<Rightarrow> bytes result" where
  "ContentDecryptor lib pk secret encodedKey encyptedContent =
     rbind (getDerivedKey secret encodedKey) (\<lambda>encryptionKeyBits.
     rbind (load_private_data lib encryptionKeyBits) (\<lambda>privateKey.
     pk_decrypt pk privateKey encyptedContent))"

definition ContentDecryptor_secure ::
  "('priv, 'pub) botan \<Rightarrow> 'priv pk_lib \<Rightarrow> bytes \<Rightarrow> bytes \<Rightarrow> bytes \<Rightarrow> bytes result" where
  "ContentDecryptor_secure lib pk secret encodedKey encyptedContent =
     rbind (getDerivedKey secret encodedKey) (\<lambda>encryptionKeyBits.
     rbind (load_private_data lib encryptionKeyBits) (\<lambda>privateKey.
     pk_decrypt pk privateKey encyptedContent))"

definition ContentEncryptor ::
  "('priv, 'pub) botan \<Rightarrow> 'priv pk_lib \<Rightarrow> bytes \<Rightarrow> bytes \<Rightarrow> bytes \<Rightarrow> bytes result" where
  "ContentEncryptor lib pk secret encodedKey content =
     rbind (if length secret < length encodedKey then Inl UndefinedBehaviour
            else Inr (xor_key encodedKey secret)) (\<lambda>encryptionKeyBits.
     rbind (load_private_data lib encryptionKeyBits) (\<lambda>privateKey.
     pk_encrypt pk privateKey content))"

definition ContentSigner :: "('priv, 'pub) botan \<Rightarrow> bytes \<Rightarrow> bytes \<Rightarrow> bytes \<Rightarrow> bytes result" where
  "ContentSigner lib secret encodedKey content =
     rbind (if length secret < length encodedKey then Inl UndefinedBehaviour
            else Inr (xor_key encodedKey secret)) (\<lambda>encryptionKeyBits.
     rmap copyToSecure (generator_sign_secure lib (SignatureGenerator_of_key encryptionKeyBits) content))"

text \<open>\<open>KeyPairCreator\<close> for a given secret: the fresh key is an argument.\<close>

definition KeyPairCreator_of_secret :: "bytes \<Rightarrow> bytes \<Rightarrow> bytes result" where
  "KeyPairCreator_of_secret secret encryptionKeyBits =
     (if length secret < length encryptionKeyBits then Inl UndefinedBehaviour
      else Inr (xor_key encryptionKeyBits secret))"

lemma xor_key_twice: "xor_key (xor_key k s) s = k"
proof (rule nth_equalityI)
  show "length (xor_key (xor_key k s) s) = length k" by (simp add: xor_key_def)
next
  fix i
  assume "i < length (xor_key (xor_key k s) s)"
  then have "i < length k" by (simp add: xor_key_def)
  then show "xor_key (xor_key k s) s ! i = k ! i" by (auto simp: xor_key_def bit_eq_iff bit_xor_iff)
qed

lemma derived_key_of_creator:
  "KeyPairCreator_of_secret secret k = Inr encodedKey \<Longrightarrow> getDerivedKey secret encodedKey = Inr k"
  by (auto simp: KeyPairCreator_of_secret_def getDerivedKey_def xor_key_twice split: if_splits)
     (simp add: xor_key_def)

section \<open>ConsensusHashScriptInfo\<close>

text \<open>The three function pointers return constants compiled into the module.\<close>

record ConsensusHashScriptInfo =
  si_hash :: bytes
  si_encodedKey :: bytes
  si_code :: bytes

definition script_getHash :: "ConsensusHashScriptInfo \<Rightarrow> bytes" where
  "script_getHash this = si_hash this"

definition script_getEncodedKey :: "ConsensusHashScriptInfo \<Rightarrow> bytes" where
  "script_getEncodedKey this = si_encodedKey this"

definition script_getCode :: "ConsensusHashScriptInfo \<Rightarrow> bytes" where
  "script_getCode this = si_code this"

section \<open>The session of a script\<close>

record ChaiScriptSession =
  cs_moduleSignature :: bytes
  cs_moduleKey :: bytes
  cs_sourceVersionMap :: "(string \<times> string) list"
  cs_sessionKey :: bytes
  cs_encodedKey :: bytes
  cs_seed :: bytes
  cs_previousHash :: HashHelper

definition ChaiScriptSession_of_previous ::
  "bytes \<Rightarrow> bytes \<Rightarrow> (string \<times> string) list \<Rightarrow> bytes \<Rightarrow> bytes \<Rightarrow> HashHelper \<Rightarrow> ChaiScriptSession" where
  "ChaiScriptSession_of_previous moduleSignature moduleKey versions sessionKey encodedKey previousHash =
     \<lparr>cs_moduleSignature = moduleSignature, cs_moduleKey = moduleKey, cs_sourceVersionMap = versions,
      cs_sessionKey = sessionKey, cs_encodedKey = encodedKey, cs_seed = [], cs_previousHash = previousHash\<rparr>"

definition ChaiScriptSession_of_seed ::
  "bytes \<Rightarrow> bytes \<Rightarrow> (string \<times> string) list \<Rightarrow> bytes \<Rightarrow> bytes \<Rightarrow> bytes \<Rightarrow> ChaiScriptSession" where
  "ChaiScriptSession_of_seed moduleSignature moduleKey versions sessionKey encodedKey seed =
     \<lparr>cs_moduleSignature = moduleSignature, cs_moduleKey = moduleKey, cs_sourceVersionMap = versions,
      cs_sessionKey = sessionKey, cs_encodedKey = encodedKey, cs_seed = seed, cs_previousHash = []\<rparr>"

text \<open>A version that is not in the map is a null function pointer, which is called.\<close>

definition chai_getSourceVersion :: "ChaiScriptSession \<Rightarrow> string \<Rightarrow> bytes result" where
  "chai_getSourceVersion session name = (case map_of (cs_sourceVersionMap session) name of
       None \<Rightarrow> Inl NullPointerDereference
     | Some version \<Rightarrow> Inr (copyStringToSecure version))"

definition chai_generateHash :: "('priv, 'pub) botan \<Rightarrow> bytes \<Rightarrow> bytes" where
  "chai_generateHash lib value = generateHash_secure lib value"

definition chai_signBytes :: "('priv, 'pub) botan \<Rightarrow> ChaiScriptSession \<Rightarrow> bytes \<Rightarrow> bytes result" where
  "chai_signBytes lib session value = ContentSigner lib (cs_sessionKey session) (cs_encodedKey session) value"

definition chai_encryptBytes ::
  "('priv, 'pub) botan \<Rightarrow> 'priv pk_lib \<Rightarrow> ChaiScriptSession \<Rightarrow> bytes \<Rightarrow> bytes result" where
  "chai_encryptBytes lib pk session value =
     rmap copyToSecure (ContentEncryptor lib pk (cs_sessionKey session) (cs_encodedKey session) value)"

definition chai_decryptBytes ::
  "('priv, 'pub) botan \<Rightarrow> 'priv pk_lib \<Rightarrow> ChaiScriptSession \<Rightarrow> bytes \<Rightarrow> bytes result" where
  "chai_decryptBytes lib pk session value =
     ContentDecryptor_secure lib pk (cs_sessionKey session) (cs_encodedKey session) value"

definition chai_getSeed :: "ChaiScriptSession \<Rightarrow> bytes" where
  "chai_getSeed session = cs_seed session"

definition chai_getPreviousHash :: "ChaiScriptSession \<Rightarrow> bytes" where
  "chai_getPreviousHash session = HashHelper_SecureVector (cs_previousHash session)"

text \<open>What a script can call. The seed script sees the previous hash and not the seed, the hash
  script the seed and not the previous hash.\<close>

record chai_functions =
  cf_getModuleSignature :: bytes
  cf_getModuleKeyRef :: bytes
  cf_getSourceVersion :: "string \<Rightarrow> bytes result"
  cf_generateHash :: "bytes \<Rightarrow> bytes"
  cf_signBytes :: "bytes \<Rightarrow> bytes result"
  cf_encryptBytes :: "bytes \<Rightarrow> bytes result"
  cf_decryptBytes :: "bytes \<Rightarrow> bytes result"
  cf_getSeed :: "bytes option"
  cf_getPreviousHash :: "bytes option"

definition initChaiScript_previous ::
  "('priv, 'pub) botan \<Rightarrow> 'priv pk_lib \<Rightarrow> ChaiScriptSession \<Rightarrow> chai_functions" where
  "initChaiScript_previous lib pk session =
     \<lparr>cf_getModuleSignature = cs_moduleSignature session, cf_getModuleKeyRef = cs_moduleKey session,
      cf_getSourceVersion = chai_getSourceVersion session, cf_generateHash = chai_generateHash lib,
      cf_signBytes = chai_signBytes lib session, cf_encryptBytes = chai_encryptBytes lib pk session,
      cf_decryptBytes = chai_decryptBytes lib pk session, cf_getSeed = None,
      cf_getPreviousHash = Some (chai_getPreviousHash session)\<rparr>"

definition initChaiScript_seed ::
  "('priv, 'pub) botan \<Rightarrow> 'priv pk_lib \<Rightarrow> ChaiScriptSession \<Rightarrow> chai_functions" where
  "initChaiScript_seed lib pk session =
     \<lparr>cf_getModuleSignature = cs_moduleSignature session, cf_getModuleKeyRef = cs_moduleKey session,
      cf_getSourceVersion = chai_getSourceVersion session, cf_generateHash = chai_generateHash lib,
      cf_signBytes = chai_signBytes lib session, cf_encryptBytes = chai_encryptBytes lib pk session,
      cf_decryptBytes = chai_decryptBytes lib pk session, cf_getSeed = Some (chai_getSeed session),
      cf_getPreviousHash = None\<rparr>"

section \<open>ConsensusHashGenerator\<close>

record ConsensusHashGenerator =
  cg_consensusVector :: "ConsensusHashScriptInfo list"
  cg_moduleSignature :: bytes
  cg_moduleKey :: bytes
  cg_sourceVersionMap :: "(string \<times> string) list"
  cg_sessionKey :: bytes
  cg_sessionScript :: bytes
  cg_encodedKey :: bytes

definition new_ConsensusHashGenerator ::
  "ConsensusHashScriptInfo list \<Rightarrow> bytes \<Rightarrow> bytes \<Rightarrow> (string \<times> string) list \<Rightarrow> ConsensusHashGenerator" where
  "new_ConsensusHashGenerator consensusVector moduleSignature moduleKey versions =
     \<lparr>cg_consensusVector = consensusVector, cg_moduleSignature = moduleSignature, cg_moduleKey = moduleKey,
      cg_sourceVersionMap = versions, cg_sessionKey = [], cg_sessionScript = [], cg_encodedKey = []\<rparr>"

record ('priv, 'pub) consensus_env =
  ce_botan :: "('priv, 'pub) botan"
  ce_pk :: "'priv pk_lib"
  ce_chai :: "chai_functions \<Rightarrow> string \<Rightarrow> bytes result"

text \<open>The body of the loop of \<open>setSession\<close> says whether it breaks.\<close>

definition try_script ::
  "('priv, 'pub) consensus_env \<Rightarrow> bytes \<Rightarrow> ConsensusHashScriptInfo \<Rightarrow> (ConsensusHashGenerator, bool) prog" where
  "try_script E sessionKey consensusScript = stry
     (sbind (slift (ContentDecryptor (ce_botan E) (ce_pk E) sessionKey
         (script_getEncodedKey consensusScript) (script_getCode consensusScript))) (\<lambda>content.
      if generateHash_secure (ce_botan E) content = script_getHash consensusScript
      then sbind (smodify (\<lambda>g. g\<lparr>cg_sessionScript := content\<rparr>)) (\<lambda>_.
           sbind (smodify (\<lambda>g. g\<lparr>cg_encodedKey := script_getEncodedKey consensusScript\<rparr>)) (\<lambda>_.
           sreturn True))
      else sreturn False))
     (\<lambda>e. sreturn False)"

fun try_scripts ::
  "('priv, 'pub) consensus_env \<Rightarrow> bytes \<Rightarrow> ConsensusHashScriptInfo list \<Rightarrow> (ConsensusHashGenerator, unit) prog" where
  "try_scripts E sessionKey [] = sreturn ()"
| "try_scripts E sessionKey (s # ss) = sbind (try_script E sessionKey s) (\<lambda>found.
     if found then sreturn () else try_scripts E sessionKey ss)"

definition setSession ::
  "('priv, 'pub) consensus_env \<Rightarrow> bytes \<Rightarrow> (ConsensusHashGenerator, unit) prog" where
  "setSession E sessionKey =
     sbind (smodify (\<lambda>g. g\<lparr>cg_sessionKey := sessionKey\<rparr>)) (\<lambda>_.
     sbind (sget cg_consensusVector) (\<lambda>consensusVector. try_scripts E sessionKey consensusVector))"

definition generateSeed ::
  "('priv, 'pub) consensus_env \<Rightarrow> ConsensusHashGenerator \<Rightarrow> HashHelper \<Rightarrow> bytes result" where
  "generateSeed E g previousHash =
     (let scope = initChaiScript_previous (ce_botan E) (ce_pk E)
            (ChaiScriptSession_of_previous (cg_moduleSignature g) (cg_moduleKey g) (cg_sourceVersionMap g)
               (cg_sessionKey g) (cg_encodedKey g) previousHash);
          code = map byte_char (cg_sessionScript g)
      in ce_chai E scope code)"

definition generateHash ::
  "('priv, 'pub) consensus_env \<Rightarrow> ConsensusHashGenerator \<Rightarrow> bytes \<Rightarrow> bytes result" where
  "generateHash E g seed =
     (let scope = initChaiScript_seed (ce_botan E) (ce_pk E)
            (ChaiScriptSession_of_seed (cg_moduleSignature g) (cg_moduleKey g) (cg_sourceVersionMap g)
               (cg_sessionKey g) (cg_encodedKey g) seed);
          code = map byte_char (cg_sessionScript g)
      in ce_chai E scope code)"

section \<open>HashBuilder\<close>

text \<open>The member \<open>secureVector\<close>; a float is written by a parameter.\<close>

definition builder_string :: "bytes \<Rightarrow> string \<Rightarrow> bytes" where
  "builder_string this value = this @ map char_byte value"

definition builder_secure :: "bytes \<Rightarrow> bytes \<Rightarrow> bytes" where
  "builder_secure this value = this @ map (\<lambda>b. b) value"

definition builder_char :: "bytes \<Rightarrow> char \<Rightarrow> bytes" where
  "builder_char this value = this @ [char_byte value]"

definition builder_generateHash :: "('priv, 'pub) botan \<Rightarrow> bytes \<Rightarrow> bytes" where
  "builder_generateHash lib this = generateHash_secure lib this"

section \<open>Which script a session key unlocks\<close>

definition decrypted_script ::
  "('priv, 'pub) consensus_env \<Rightarrow> bytes \<Rightarrow> ConsensusHashScriptInfo \<Rightarrow> bytes result" where
  "decrypted_script E key s = ContentDecryptor (ce_botan E) (ce_pk E) key (si_encodedKey s) (si_code s)"

fun unlocked_script ::
  "('priv, 'pub) consensus_env \<Rightarrow> bytes \<Rightarrow> ConsensusHashScriptInfo list \<Rightarrow> (ConsensusHashScriptInfo \<times> bytes) option" where
  "unlocked_script E key [] = None"
| "unlocked_script E key (s # ss) = (case decrypted_script E key s of
      Inr c \<Rightarrow> if hash_process (ce_botan E) c = si_hash s then Some (s, c) else unlocked_script E key ss
    | Inl e \<Rightarrow> unlocked_script E key ss)"

lemma try_script_eq:
  assumes "case decrypted_script E key s of Inl e \<Rightarrow> is_exception e | Inr c \<Rightarrow> True"
  shows "try_script E key s g = (case decrypted_script E key s of
      Inr c \<Rightarrow> if hash_process (ce_botan E) c = si_hash s
        then (Inr True, g\<lparr>cg_sessionScript := c, cg_encodedKey := si_encodedKey s\<rparr>) else (Inr False, g)
    | Inl e \<Rightarrow> (Inr False, g))"
  using assms by (cases "decrypted_script E key s")
    (simp_all add: decrypted_script_def try_script_def stry_def prog_defs script_getEncodedKey_def
       script_getCode_def script_getHash_def generateHash_secure_def)

lemma try_scripts_eq:
  assumes "\<forall>s \<in> set ss. case decrypted_script E key s of Inl e \<Rightarrow> is_exception e | Inr c \<Rightarrow> True"
  shows "try_scripts E key ss g = (Inr (), case unlocked_script E key ss of None \<Rightarrow> g
    | Some (s, c) \<Rightarrow> g\<lparr>cg_sessionScript := c, cg_encodedKey := si_encodedKey s\<rparr>)"
  using assms
proof (induction ss)
  case Nil
  then show ?case by (simp add: sreturn_def)
next
  case (Cons s ss)
  then show ?case
    by (cases "decrypted_script E key s") (simp_all add: try_script_eq sbind_def sreturn_def)
qed

lemma setSession_eq:
  assumes "\<forall>s \<in> set (cg_consensusVector g).
    case decrypted_script E key s of Inl e \<Rightarrow> is_exception e | Inr c \<Rightarrow> True"
  shows "setSession E key g = (Inr (), case unlocked_script E key (cg_consensusVector g) of
      None \<Rightarrow> g\<lparr>cg_sessionKey := key\<rparr>
    | Some (s, c) \<Rightarrow> g\<lparr>cg_sessionKey := key, cg_sessionScript := c, cg_encodedKey := si_encodedKey s\<rparr>)"
  using assms by (simp add: setSession_def sbind_def smodify_def sget_def try_scripts_eq split: option.splits prod.splits)

end
