(* ===== verification/Consensus.thy ===== *)
theory Consensus
  imports ConsensusHash Merkle Text Transactions "HOL-Library.Multiset" "HOL-Library.AList"
begin

text \<open>
  The software consensus: the messages of \<open>libs/software_consensus\<close> and their helpers, the builder
  that asks every module for its hash and the validation that asks again, the distribution of
  session keys, and the handlers of \<open>modules/consensus_module\<close> and of the \<open>ConsensusService\<close> each
  module has. A protobuf \<open>bytes\<close> field is a \<open>string\<close>. BER is the parameter \<open>consensus_wire\<close>.
\<close>

section \<open>Messages\<close>

record ModuleHashMessage =
  mh_version :: c_long
  mh_hash :: string

record ModuleConsensusMessage =
  mc_version :: c_long
  mc_seed_hash :: string
  mc_module_hash :: string

record ModuleSessionMessage =
  ms_version :: c_long
  ms_secret :: string

record ModuleConsensusValidationMessage =
  mv_version :: c_long
  mv_valid :: bool

record ConsensusMessage =
  cn_version :: c_long
  cn_account_hash :: string
  cn_msg :: string

record SoftwareConsensus_t =
  sc_version :: c_long
  sc_date :: bytes
  sc_previousHash :: bytes
  sc_account :: bytes
  sc_seed :: bytes
  sc_systemHashs :: "bytes list"
  sc_merkelRoot :: bytes
  sc_signature :: bytes

record consensus_wire =
  encode_software :: "SoftwareConsensus_t \<Rightarrow> bytes result"
  decode_software :: "string \<Rightarrow> SoftwareConsensus_t result"

section \<open>ModuleConsensusHelper\<close>

definition new_ModuleConsensusHelper :: ModuleConsensusMessage where
  "new_ModuleConsensusHelper = \<lparr>mc_version = PROTOCOL_VERSION, mc_seed_hash = [], mc_module_hash = []\<rparr>"

definition setSeedHash_vector :: "ModuleConsensusMessage \<Rightarrow> bytes \<Rightarrow> ModuleConsensusMessage" where
  "setSeedHash_vector this seedHash = this\<lparr>mc_seed_hash := copyVectorToString seedHash\<rparr>"

definition setSeedHash :: "ModuleConsensusMessage \<Rightarrow> HashHelper \<Rightarrow> ModuleConsensusMessage" where
  "setSeedHash this hashHelper = this\<lparr>mc_seed_hash := copySecureToString (HashHelper_SecureVector hashHelper)\<rparr>"

definition getSeedHash :: "ModuleConsensusMessage \<Rightarrow> HashHelper" where
  "getSeedHash this = copyStringToSecure (mc_seed_hash this)"

definition setModuleHash_vector :: "ModuleConsensusMessage \<Rightarrow> bytes \<Rightarrow> ModuleConsensusMessage" where
  "setModuleHash_vector this moduleHash = this\<lparr>mc_module_hash := copyVectorToString moduleHash\<rparr>"

definition setModuleHash_secure :: "ModuleConsensusMessage \<Rightarrow> bytes \<Rightarrow> ModuleConsensusMessage" where
  "setModuleHash_secure this moduleHash = this\<lparr>mc_module_hash := copySecureToString moduleHash\<rparr>"

definition setModuleHash :: "ModuleConsensusMessage \<Rightarrow> HashHelper \<Rightarrow> ModuleConsensusMessage" where
  "setModuleHash this hashHelper = this\<lparr>mc_module_hash := copySecureToString (HashHelper_SecureVector hashHelper)\<rparr>"

definition getModuleHash :: "ModuleConsensusMessage \<Rightarrow> HashHelper" where
  "getModuleHash this = copyStringToSecure (mc_module_hash this)"

definition getModuleHash_lock :: "ModuleConsensusMessage \<Rightarrow> bytes" where
  "getModuleHash_lock this = copyStringToSecure (mc_module_hash this)"

section \<open>ModuleHashMessageHelper, ModuleSessionMessageHelper, ModuleConsensusValidationMessageHelper\<close>

definition new_ModuleHashMessageHelper :: ModuleHashMessage where
  "new_ModuleHashMessageHelper = \<lparr>mh_version = PROTOCOL_VERSION, mh_hash = []\<rparr>"

definition moduleHash_setHash :: "ModuleHashMessage \<Rightarrow> bytes \<Rightarrow> ModuleHashMessage" where
  "moduleHash_setHash this h = this\<lparr>mh_hash := copySecureToString h\<rparr>"

definition moduleHash_getHash :: "ModuleHashMessage \<Rightarrow> HashHelper" where
  "moduleHash_getHash this = copyStringToSecure (mh_hash this)"

definition moduleHash_getHash_lock :: "ModuleHashMessage \<Rightarrow> bytes" where
  "moduleHash_getHash_lock this = copyStringToSecure (mh_hash this)"

definition new_ModuleSessionMessageHelper :: ModuleSessionMessage where
  "new_ModuleSessionMessageHelper = \<lparr>ms_version = PROTOCOL_VERSION, ms_secret = []\<rparr>"

definition session_setSecret :: "ModuleSessionMessage \<Rightarrow> bytes \<Rightarrow> ModuleSessionMessage" where
  "session_setSecret this secret = this\<lparr>ms_secret := copySecureToString secret\<rparr>"

definition session_getSecret :: "ModuleSessionMessage \<Rightarrow> bytes" where
  "session_getSecret this = copyStringToSecure (ms_secret this)"

definition new_ModuleConsensusValidationMessageHelper :: ModuleConsensusValidationMessage where
  "new_ModuleConsensusValidationMessageHelper = \<lparr>mv_version = PROTOCOL_VERSION, mv_valid = False\<rparr>"

definition setValid :: "ModuleConsensusValidationMessage \<Rightarrow> bool \<Rightarrow> ModuleConsensusValidationMessage" where
  "setValid this valid = this\<lparr>mv_valid := valid\<rparr>"

definition validation_isValid :: "ModuleConsensusValidationMessage \<Rightarrow> bool" where
  "validation_isValid this = mv_valid this"

section \<open>SoftwareConsensusHelper\<close>

definition new_SoftwareConsensusHelper :: "bytes \<Rightarrow> SoftwareConsensus_t" where
  "new_SoftwareConsensusHelper date = \<lparr>sc_version = PROTOCOL_VERSION, sc_date = date, sc_previousHash = [],
     sc_account = [], sc_seed = [], sc_systemHashs = [], sc_merkelRoot = [], sc_signature = []\<rparr>"

definition SoftwareConsensusHelper_of_string :: "consensus_wire \<Rightarrow> string \<Rightarrow> SoftwareConsensus_t result" where
  "SoftwareConsensusHelper_of_string w orig = decode_software w orig"

definition software_setDate :: "SoftwareConsensus_t \<Rightarrow> bytes \<Rightarrow> SoftwareConsensus_t" where
  "software_setDate this date = this\<lparr>sc_date := date\<rparr>"

definition software_setPreviousHash :: "SoftwareConsensus_t \<Rightarrow> HashHelper \<Rightarrow> SoftwareConsensus_t" where
  "software_setPreviousHash this hashHelper = this\<lparr>sc_previousHash := HashHelper_Hash_t hashHelper\<rparr>"

definition software_setAccount :: "SoftwareConsensus_t \<Rightarrow> HashHelper \<Rightarrow> SoftwareConsensus_t" where
  "software_setAccount this hashHelper = this\<lparr>sc_account := HashHelper_Hash_t hashHelper\<rparr>"

definition software_getAccount :: "SoftwareConsensus_t \<Rightarrow> HashHelper" where
  "software_getAccount this = HashHelper_of_hash (sc_account this)"

definition software_setSeed :: "SoftwareConsensus_t \<Rightarrow> HashHelper \<Rightarrow> SoftwareConsensus_t" where
  "software_setSeed this hashHelper = this\<lparr>sc_seed := HashHelper_Hash_t hashHelper\<rparr>"

definition software_getSeed :: "SoftwareConsensus_t \<Rightarrow> HashHelper" where
  "software_getSeed this = HashHelper_of_hash (sc_seed this)"

definition addSystemHash :: "SoftwareConsensus_t \<Rightarrow> HashHelper \<Rightarrow> SoftwareConsensus_t" where
  "addSystemHash this hashHelper = this\<lparr>sc_systemHashs := sc_systemHashs this @ [HashHelper_Hash_t hashHelper]\<rparr>"

definition getSystemHashes :: "SoftwareConsensus_t \<Rightarrow> HashHelper list" where
  "getSystemHashes this = map HashHelper_of_hash (sc_systemHashs this)"

definition generateMerkelRoot ::
  "('priv, 'pub) botan \<Rightarrow> SoftwareConsensus_t \<Rightarrow> SoftwareConsensus_t result option" where
  "generateMerkelRoot lib this =
     (let u0 = []; u1 = software_addHash u0 (HashHelper_of_hash (sc_previousHash this));
          u2 = software_addHash u1 (HashHelper_of_hash (sc_account this));
          u3 = software_addHash u2 (HashHelper_of_hash (sc_seed this));
          u4 = foldl software_addHash u3 (map HashHelper_of_hash (sc_systemHashs this))
      in map_option (rmap (\<lambda>root. this\<lparr>sc_merkelRoot := HashHelper_Hash_t root\<rparr>))
           (software_computation (generateHash_secure lib) u4))"

definition software_sign ::
  "('priv, 'pub) botan \<Rightarrow> KeyLoader \<Rightarrow> SoftwareConsensus_t \<Rightarrow> SoftwareConsensus_t result" where
  "software_sign lib keyLoader this =
     (let generator = SignatureGenerator_of_loader keyLoader;
          hashHelper = HashHelper_of_hash (sc_merkelRoot this)
      in rmap (\<lambda>s. this\<lparr>sc_signature := SignatureHelper_Signature_t (SignatureHelper_of_vector s)\<rparr>)
           (generator_sign_secure lib generator (HashHelper_SecureVector hashHelper)))"

section \<open>ConsensusMessageHelper\<close>

definition new_ConsensusMessageHelper :: ConsensusMessage where
  "new_ConsensusMessageHelper = \<lparr>cn_version = 1, cn_account_hash = [], cn_msg = []\<rparr>"

definition consensus_setAccountHash_vector :: "ConsensusMessage \<Rightarrow> bytes \<Rightarrow> ConsensusMessage" where
  "consensus_setAccountHash_vector this accountHash = this\<lparr>cn_account_hash := map byte_char accountHash\<rparr>"

definition consensus_setAccountHash :: "ConsensusMessage \<Rightarrow> HashHelper \<Rightarrow> ConsensusMessage" where
  "consensus_setAccountHash this hashHelper =
     this\<lparr>cn_account_hash := map byte_char (HashHelper_SecureVector hashHelper)\<rparr>"

definition consensus_setMsg ::
  "consensus_wire \<Rightarrow> SoftwareConsensus_t \<Rightarrow> ConsensusMessage \<Rightarrow> ConsensusMessage result" where
  "consensus_setMsg w softwareConsensusHelper this =
     (let hashHelper = software_getAccount softwareConsensusHelper;
          this1 = this\<lparr>cn_account_hash := map byte_char (HashHelper_SecureVector hashHelper)\<rparr>
      in rmap (\<lambda>b. this1\<lparr>cn_msg := map byte_char b\<rparr>) (encode_software w softwareConsensusHelper))"

definition consensus_getMsg :: "consensus_wire \<Rightarrow> ConsensusMessage \<Rightarrow> SoftwareConsensus_t result" where
  "consensus_getMsg w this = SoftwareConsensusHelper_of_string w (cn_msg this)"

section \<open>The modules of a node\<close>

text \<open>The members of the namespaces \<open>Events::CONSENSUS\<close> and \<open>Events::CONSENSUS_SESSION\<close>. A module that is
  loaded has registered its two handlers, which act on the hash generator of its \<open>ConsensusService\<close>;
  the event of a module that is not loaded is unknown. \<open>CONSENSUS_QUERY\<close> is the consensus module, which
  has a second generator for seeds; the RPC server also keeps the secret of the session.\<close>

datatype consensus_module = TEST | TRANSACTION | ROUTER | HTTPD | EVENT | BLOCK | SANDBOX | VERSION
  | KEYSTORE | BALANCER | ACCOUNT | RPC_CLIENT | RPC_SERVER | CONSENSUS_QUERY

definition EVENT_ORDER :: "consensus_module list" where
  "EVENT_ORDER = [TEST, TRANSACTION, ROUTER, HTTPD, EVENT, BLOCK, SANDBOX, VERSION, KEYSTORE, BALANCER,
     ACCOUNT, RPC_CLIENT, RPC_SERVER, CONSENSUS_QUERY]"

definition CONSENSUS_SESSION_ORDER :: "consensus_module list" where
  "CONSENSUS_SESSION_ORDER = [TEST, TRANSACTION, ROUTER, HTTPD, EVENT, BLOCK, SANDBOX, VERSION, KEYSTORE,
     BALANCER, ACCOUNT, RPC_CLIENT, RPC_SERVER, CONSENSUS_QUERY]"

record consensus_world =
  cw_modules :: "(consensus_module \<times> ConsensusHashGenerator) list"
  cw_seedHashGenerator :: ConsensusHashGenerator
  cw_rpc_secret :: bytes

definition generateSoftwareHash ::
  "('priv, 'pub) consensus_env \<Rightarrow> ConsensusHashGenerator \<Rightarrow> ModuleConsensusMessage \<Rightarrow>
   ModuleConsensusMessage result" where
  "generateSoftwareHash E consensusHashGenerator moduleConsensusHelper =
     rmap (\<lambda>h. setModuleHash_secure moduleConsensusHelper h)
       (generateHash E consensusHashGenerator (HashHelper_SecureVector (getSeedHash moduleConsensusHelper)))"

definition consensus_generateSoftwareHash ::
  "('priv, 'pub) consensus_env \<Rightarrow> ConsensusHashGenerator \<Rightarrow> ModuleConsensusMessage \<Rightarrow>
   ModuleConsensusMessage result" where
  "consensus_generateSoftwareHash E moduleHashGenerator moduleConsensusHelper =
     rmap (\<lambda>h. setModuleHash_secure moduleConsensusHelper h)
       (generateHash E moduleHashGenerator (HashHelper_SecureVector (getSeedHash moduleConsensusHelper)))"

text \<open>\<open>processEvent\<close> of the event \<open>CONSENSUS_m\<close>.\<close>

definition process_module_hash ::
  "('priv, 'pub) consensus_env \<Rightarrow> consensus_world \<Rightarrow> consensus_module \<Rightarrow> ModuleConsensusMessage \<Rightarrow>
   ModuleConsensusMessage result" where
  "process_module_hash E w m msg = (case map_of (cw_modules w) m of
       None \<Rightarrow> Inl UnknownEventHandlerException
     | Some g \<Rightarrow> if m = CONSENSUS_QUERY then consensus_generateSoftwareHash E g msg
                 else generateSoftwareHash E g msg)"

definition on_module ::
  "consensus_module \<Rightarrow> (ConsensusHashGenerator, 'a) prog \<Rightarrow> (consensus_world, 'a) prog" where
  "on_module m f w = (case map_of (cw_modules w) m of
       None \<Rightarrow> (Inl UnknownEventHandlerException, w)
     | Some g \<Rightarrow> (case f g of (r, g1) \<Rightarrow> (r, w\<lparr>cw_modules := AList.update m g1 (cw_modules w)\<rparr>)))"

text \<open>The handlers of \<open>CONSENSUS_SESSION_m\<close> return the event they were given.\<close>

definition setModuleSession ::
  "('priv, 'pub) consensus_env \<Rightarrow> ModuleSessionMessage \<Rightarrow> (ConsensusHashGenerator, ModuleSessionMessage) prog" where
  "setModuleSession E event = sbind (setSession E (session_getSecret event)) (\<lambda>_. sreturn event)"

definition rpc_setModuleSession ::
  "('priv, 'pub) consensus_env \<Rightarrow> ModuleSessionMessage \<Rightarrow> (consensus_world, ModuleSessionMessage) prog" where
  "rpc_setModuleSession E event =
     sbind (on_module RPC_SERVER (setSession E (session_getSecret event))) (\<lambda>_.
     sbind (smodify (\<lambda>w. w\<lparr>cw_rpc_secret := session_getSecret event\<rparr>)) (\<lambda>_. sreturn event))"

definition on_seed_generator :: "(ConsensusHashGenerator, 'a) prog \<Rightarrow> (consensus_world, 'a) prog" where
  "on_seed_generator f w = (case f (cw_seedHashGenerator w) of (r, g) \<Rightarrow> (r, w\<lparr>cw_seedHashGenerator := g\<rparr>))"

definition consensus_setModuleSession ::
  "('priv, 'pub) consensus_env \<Rightarrow> ModuleSessionMessage \<Rightarrow> (consensus_world, ModuleSessionMessage) prog" where
  "consensus_setModuleSession E event =
     sbind (on_module CONSENSUS_QUERY (setSession E (session_getSecret event))) (\<lambda>_.
     sbind (on_seed_generator (setSession E (session_getSecret event))) (\<lambda>_. sreturn event))"

definition trigger_module_session ::
  "('priv, 'pub) consensus_env \<Rightarrow> consensus_module \<Rightarrow> ModuleSessionMessage \<Rightarrow>
   (consensus_world, ModuleSessionMessage) prog" where
  "trigger_module_session E m event =
     (if m = RPC_SERVER then rpc_setModuleSession E event
      else if m = CONSENSUS_QUERY then consensus_setModuleSession E event
      else on_module m (setModuleSession E event))"

section \<open>ConsensusSessionManager\<close>

definition updateSessionKey ::
  "('priv, 'pub) consensus_env \<Rightarrow> bytes \<Rightarrow> (consensus_world, unit) prog" where
  "updateSessionKey E sessionKey = sfor CONSENSUS_SESSION_ORDER (\<lambda>event.
     stry (let moduleSessionMessage = session_setSecret new_ModuleSessionMessageHelper sessionKey
           in sbind (trigger_module_session E event moduleSessionMessage) (\<lambda>_. sreturn ()))
       (\<lambda>e. sreturn ()))"

section \<open>ConsensusBuilder\<close>

definition ConsensusBuilder_of_loader :: "bytes \<Rightarrow> ConsensusMessage" where
  "ConsensusBuilder_of_loader server_account =
     consensus_setAccountHash_vector new_ConsensusMessageHelper server_account"

text \<open>One turn of the loop of \<open>buildConsensus\<close>: a module that fails is left out.\<close>

definition ask_module ::
  "('priv, 'pub) consensus_env \<Rightarrow> consensus_world \<Rightarrow> HashHelper \<Rightarrow> consensus_module \<Rightarrow>
   (SoftwareConsensus_t, unit) prog" where
  "ask_module E w seedHash event = stry
     (let moduleConsensusMessage = setSeedHash new_ModuleConsensusHelper seedHash
      in sbind (slift (process_module_hash E w event moduleConsensusMessage)) (\<lambda>moduleConsensusResult.
         smodify (\<lambda>sc. addSystemHash sc (getModuleHash moduleConsensusResult))))
     (\<lambda>e. sreturn ())"

text \<open>The clock is read twice: by the constructor of the helper and by \<open>setDate\<close>. \<open>None\<close> is a Merkle
  computation that does not return.\<close>

definition buildConsensus ::
  "('priv, 'pub) consensus_env \<Rightarrow> consensus_wire \<Rightarrow> KeyLoader \<Rightarrow> bytes \<Rightarrow> bytes \<Rightarrow> bytes \<Rightarrow> consensus_world \<Rightarrow>
   HashHelper \<Rightarrow> ConsensusMessage \<Rightarrow> ConsensusMessage result option" where
  "buildConsensus E wire keyLoader server_account now1 now2 w previousHash this =
     (let s0 = software_setPreviousHash (new_SoftwareConsensusHelper now1) previousHash
      in case generateSeed E (cw_seedHashGenerator w) previousHash of
           Inl e \<Rightarrow> Some (Inl e)
         | Inr seedHash \<Rightarrow>
             (let s1 = software_setDate (software_setAccount (software_setSeed s0 seedHash)
                         (copyToSecure server_account)) now2
              in case sfor EVENT_ORDER (ask_module E w seedHash) s1 of
                   (Inl e, _) \<Rightarrow> Some (Inl e)
                 | (Inr _, s2) \<Rightarrow> map_option (\<lambda>r. rbind r (\<lambda>s3.
                       rbind (software_sign (ce_botan E) keyLoader s3) (\<lambda>s4. consensus_setMsg wire s4 this)))
                     (generateMerkelRoot (ce_botan E) s2)))"

text \<open>The inner loop of \<open>validateConsensus\<close>: the first equal hash is erased and the loop left.\<close>

fun erase_first :: "HashHelper \<Rightarrow> HashHelper list \<Rightarrow> HashHelper list option" where
  "erase_first h [] = None"
| "erase_first h (x # xs) = (if HashHelper_SecureVector x = HashHelper_SecureVector h then Some xs
     else map_option ((#) x) (erase_first h xs))"

definition compare_module ::
  "('priv, 'pub) consensus_env \<Rightarrow> consensus_world \<Rightarrow> HashHelper \<Rightarrow> consensus_module \<Rightarrow>
   (HashHelper list \<times> HashHelper list, unit) prog" where
  "compare_module E w seed event = stry
     (let moduleConsensusMessage = setSeedHash new_ModuleConsensusHelper seed
      in sbind (slift (process_module_hash E w event moduleConsensusMessage)) (\<lambda>moduleConsensusResult.
         smodify (\<lambda>(systemHashes, comparedHashes).
           case erase_first (getModuleHash moduleConsensusResult) systemHashes of
             None \<Rightarrow> (systemHashes, comparedHashes)
           | Some hs \<Rightarrow> (hs, comparedHashes @ [getModuleHash moduleConsensusResult]))))
     (\<lambda>e. sreturn ())"

definition validateConsensus ::
  "('priv, 'pub) consensus_env \<Rightarrow> consensus_wire \<Rightarrow> consensus_world \<Rightarrow> ConsensusMessage \<Rightarrow> bool result" where
  "validateConsensus E wire w this =
     rbind (consensus_getMsg wire this) (\<lambda>softwareConsensusHelper.
     case sfor EVENT_ORDER (compare_module E w (software_getSeed softwareConsensusHelper))
            (getSystemHashes softwareConsensusHelper, []) of
       (Inl e, _) \<Rightarrow> Inl e
     | (Inr _, (systemHashes, _)) \<Rightarrow> Inr (systemHashes = []))"

section \<open>ConsensusServices\<close>

definition generateSoftwareConsensus ::
  "('priv, 'pub) consensus_env \<Rightarrow> consensus_wire \<Rightarrow> KeyLoader \<Rightarrow> bytes \<Rightarrow> bytes \<Rightarrow> bytes \<Rightarrow> consensus_world \<Rightarrow>
   ModuleHashMessage \<Rightarrow> ConsensusMessage result option" where
  "generateSoftwareConsensus E wire keyLoader server_account now1 now2 w event =
     buildConsensus E wire keyLoader server_account now1 now2 w (moduleHash_getHash event)
       (ConsensusBuilder_of_loader server_account)"

definition validateSoftwareConsensus ::
  "('priv, 'pub) consensus_env \<Rightarrow> consensus_wire \<Rightarrow> consensus_world \<Rightarrow> ConsensusMessage \<Rightarrow>
   ModuleConsensusValidationMessage result" where
  "validateSoftwareConsensus E wire w consensusMessage =
     rmap (setValid new_ModuleConsensusValidationMessageHelper) (validateConsensus E wire w consensusMessage)"

section \<open>ConsensusServer\<close>

text \<open>The timer of the node that distributes the session keys: it takes the next key at its first run
  and when more than two whole hours have passed since the last. Times are in nanoseconds.\<close>

record consensus_server =
  sv_sessionKeys :: "string list"
  sv_currentPos :: int
  sv_time_point :: int

definition new_ConsensusServer :: "string option \<Rightarrow> int \<Rightarrow> consensus_server option" where
  "new_ConsensusServer consensus_key now =
     map_option (\<lambda>keys. \<lparr>sv_sessionKeys = keys, sv_currentPos = - 1, sv_time_point = now\<rparr>)
       (case consensus_key of None \<Rightarrow> Some [] | Some v \<Rightarrow> tokenize v '','')"

definition server_require :: "consensus_server \<Rightarrow> bool" where
  "server_require this = (sv_sessionKeys this \<noteq> [])"

definition server_process ::
  "('priv, 'pub) consensus_env \<Rightarrow> text_codecs \<Rightarrow> int \<Rightarrow> (consensus_server \<times> consensus_world, unit) prog" where
  "server_process E codecs currentTime s =
     (let this = fst s; w = snd s; diff = (currentTime - sv_time_point this) div (3600 * 10 ^ 9)
      in if sv_currentPos this = - 1 \<or> diff > 2
         then (let p = sv_currentPos this + 1;
                   pos = (if p \<ge> int (length (sv_sessionKeys this)) then 0 else p);
                   this1 = this\<lparr>sv_currentPos := pos\<rparr>
               in if sv_sessionKeys this = [] then (Inl UndefinedBehaviour, (this1, w))
                  else (case hex_decode_locked codecs (sv_sessionKeys this ! nat pos) of
                      Inl e \<Rightarrow> (Inl e, (this1, w))
                    | Inr initVector \<Rightarrow> (case updateSessionKey E initVector w of
                        (Inl e, w1) \<Rightarrow> (Inl e, (this1, w1))
                      | (Inr _, w1) \<Rightarrow> (Inr (), (this1\<lparr>sv_time_point := currentTime\<rparr>, w1)))))
         else (Inr (), s))"

section \<open>Lemmas\<close>

text \<open>The hash a node's module gives for a seed, and the hashes of all modules that give one.\<close>

definition module_hash ::
  "('priv, 'pub) consensus_env \<Rightarrow> consensus_world \<Rightarrow> HashHelper \<Rightarrow> consensus_module \<Rightarrow> HashHelper result" where
  "module_hash E w seed m = (case map_of (cw_modules w) m of
       None \<Rightarrow> Inl UnknownEventHandlerException
     | Some g \<Rightarrow> generateHash E g seed)"

definition module_hashes ::
  "('priv, 'pub) consensus_env \<Rightarrow> consensus_world \<Rightarrow> HashHelper \<Rightarrow> HashHelper list" where
  "module_hashes E w seed =
     concat (map (\<lambda>m. case module_hash E w seed m of Inl e \<Rightarrow> [] | Inr h \<Rightarrow> [h]) EVENT_ORDER)"

text \<open>No module's script does anything undefined.\<close>

definition hashes_safe :: "('priv, 'pub) consensus_env \<Rightarrow> consensus_world \<Rightarrow> HashHelper \<Rightarrow> bool" where
  "hashes_safe E w seed \<longleftrightarrow>
     (\<forall>m \<in> set EVENT_ORDER. case module_hash E w seed m of Inl e \<Rightarrow> is_exception e | Inr h \<Rightarrow> True)"

lemma process_module_hash_eq:
  "rmap getModuleHash (process_module_hash E w m (setSeedHash new_ModuleConsensusHelper seed)) =
   module_hash E w seed m"
proof (cases "map_of (cw_modules w) m")
  case None
  then show ?thesis by (simp add: process_module_hash_def module_hash_def)
next
  case (Some g)
  then show ?thesis
    by (cases "generateHash E g seed")
       (simp_all add: process_module_hash_def module_hash_def generateSoftwareHash_def
          consensus_generateSoftwareHash_def setSeedHash_def getSeedHash_def getModuleHash_def
          setModuleHash_secure_def)
qed

lemma process_module_hash_cases:
  "process_module_hash E w m (setSeedHash new_ModuleConsensusHelper seed) = r \<Longrightarrow>
   (case r of Inl e \<Rightarrow> module_hash E w seed m = Inl e | Inr c \<Rightarrow> module_hash E w seed m = Inr (getModuleHash c))"
  using process_module_hash_eq [of E w m seed] by (auto split: sum.splits)

lemma ask_module_eq:
  "case module_hash E w seed m of Inl e \<Rightarrow> is_exception e | Inr h \<Rightarrow> True \<Longrightarrow>
   ask_module E w seed m sc = (Inr (),
     sc\<lparr>sc_systemHashs := sc_systemHashs sc @ (case module_hash E w seed m of Inl e \<Rightarrow> [] | Inr h \<Rightarrow> [h])\<rparr>)"
  by (cases "process_module_hash E w m (setSeedHash new_ModuleConsensusHelper seed)")
     (use process_module_hash_cases [of E w m seed] in
       \<open>force simp: ask_module_def stry_def prog_defs addSystemHash_def Let_def\<close>)+

lemma erase_first_eq: "erase_first h xs = (if h \<in> set xs then Some (remove1 h xs) else None)"
  by (induction xs) auto

lemma compare_module_eq:
  "case module_hash E w seed m of Inl e \<Rightarrow> is_exception e | Inr h \<Rightarrow> True \<Longrightarrow>
   \<exists>cs. compare_module E w seed m (hs, cs0) = (Inr (), (case module_hash E w seed m of Inl e \<Rightarrow> hs
        | Inr h \<Rightarrow> remove1 h hs, cs))"
  by (cases "process_module_hash E w m (setSeedHash new_ModuleConsensusHelper seed)")
     (use process_module_hash_cases [of E w m seed] in
       \<open>force simp: compare_module_def stry_def prog_defs erase_first_eq remove1_idem Let_def\<close>)+

lemma ask_modules_eq:
  assumes "\<forall>m \<in> set ms. case module_hash E w seed m of Inl e \<Rightarrow> is_exception e | Inr h \<Rightarrow> True"
  shows "sfor ms (ask_module E w seed) sc = (Inr (), sc\<lparr>sc_systemHashs := sc_systemHashs sc @
     concat (map (\<lambda>m. case module_hash E w seed m of Inl e \<Rightarrow> [] | Inr h \<Rightarrow> [h]) ms)\<rparr>)"
  using assms by (induction ms arbitrary: sc) (simp_all add: ask_module_eq)

lemma compare_modules_eq:
  assumes "\<forall>m \<in> set ms. case module_hash E w seed m of Inl e \<Rightarrow> is_exception e | Inr h \<Rightarrow> True"
  shows "\<exists>hs' cs. sfor ms (compare_module E w seed) (hs, cs0) = (Inr (), (hs', cs)) \<and>
     mset hs' = mset hs - mset (concat (map (\<lambda>m. case module_hash E w seed m of Inl e \<Rightarrow> [] | Inr h \<Rightarrow> [h]) ms))"
  using assms
proof (induction ms arbitrary: hs cs0)
  case Nil
  then show ?case by simp
next
  case (Cons m ms)
  let ?hs = "case module_hash E w seed m of Inl e \<Rightarrow> hs | Inr h \<Rightarrow> remove1 h hs"
  obtain cs where c: "compare_module E w seed m (hs, cs0) = (Inr (), (?hs, cs))"
    using compare_module_eq [of E w seed m hs cs0] Cons.prems by auto
  obtain hs' cs' where "sfor ms (compare_module E w seed) (?hs, cs) = (Inr (), (hs', cs'))"
    "mset hs' = mset ?hs - mset (concat (map (\<lambda>m. case module_hash E w seed m of Inl e \<Rightarrow> [] | Inr h \<Rightarrow> [h]) ms))"
    using Cons.IH [of ?hs cs] Cons.prems by auto
  with c show ?case by (cases "module_hash E w seed m") (auto simp: diff_diff_add_mset)
qed

lemma validateConsensus_eq:
  assumes "decode_software wire (cn_msg msg) = Inr sc" and "hashes_safe E w (sc_seed sc)"
  shows "validateConsensus E wire w msg =
    Inr (mset (sc_systemHashs sc) \<subseteq># mset (module_hashes E w (sc_seed sc)))"
proof -
  have g: "getSystemHashes sc = sc_systemHashs sc" by (simp add: getSystemHashes_def map_idI)
  obtain hs cs where s: "sfor EVENT_ORDER (compare_module E w (sc_seed sc)) (sc_systemHashs sc, []) = (Inr (), (hs, cs))"
    and m: "mset hs = mset (sc_systemHashs sc) - mset (module_hashes E w (sc_seed sc))"
    using compare_modules_eq [of EVENT_ORDER E w "sc_seed sc" "sc_systemHashs sc" "[]"] assms(2)
    by (auto simp: hashes_safe_def module_hashes_def)
  have "hs = [] \<longleftrightarrow> mset (sc_systemHashs sc) \<subseteq># mset (module_hashes E w (sc_seed sc))"
    by (metis m mset_zero_iff Diff_eq_empty_iff_mset)
  with s assms(1) g show ?thesis
    by (simp add: validateConsensus_def consensus_getMsg_def SoftwareConsensusHelper_of_string_def software_getSeed_def)
qed

lemma foldl_software_addHash: "foldl software_addHash u hs = u @ hs"
  by (induction hs arbitrary: u) (simp_all add: software_addHash_def)

lemma generateMerkelRoot_returns:
  "\<exists>root. generateMerkelRoot lib sc = Some (Inr (sc\<lparr>sc_merkelRoot := root\<rparr>))"
proof -
  have "\<exists>h. software_compute (generateHash_secure lib)
      (sc_previousHash sc # sc_account sc # sc_seed sc # sc_systemHashs sc) = Some (Inr h)"
    by (rule sw.reduce_returns) simp
  then show ?thesis
    by (auto simp: generateMerkelRoot_def foldl_software_addHash software_addHash_def software_computation_def
        software_sort_def Let_def map_idI)
qed

text \<open>What the builder encodes.\<close>

lemma buildConsensus_eq:
  assumes "generateSeed E (cw_seedHashGenerator w) previousHash = Inr seed"
    and "hashes_safe E w seed" and "\<And>v. \<exists>s. generator_sign_secure (ce_botan E) (SignatureGenerator_of_loader keyLoader) v = Inr s"
    and "\<And>sc. \<exists>b. encode_software wire sc = Inr b"
  shows "\<exists>root signature b sc. sc = \<lparr>sc_version = PROTOCOL_VERSION, sc_date = now', sc_previousHash = previousHash,
      sc_account = server_account, sc_seed = seed, sc_systemHashs = module_hashes E w seed,
      sc_merkelRoot = root, sc_signature = signature\<rparr> \<and> encode_software wire sc = Inr b \<and>
    buildConsensus E wire keyLoader server_account now0 now' w previousHash this =
      Some (Inr (this\<lparr>cn_account_hash := map byte_char server_account, cn_msg := map byte_char b\<rparr>))"
proof -
  let ?s1 = "\<lparr>sc_version = PROTOCOL_VERSION, sc_date = now', sc_previousHash = previousHash,
      sc_account = server_account, sc_seed = seed, sc_systemHashs = [], sc_merkelRoot = [], sc_signature = []\<rparr>"
  let ?s2 = "?s1\<lparr>sc_systemHashs := module_hashes E w seed\<rparr>"
  have a: "sfor EVENT_ORDER (ask_module E w seed) ?s1 = (Inr (), ?s2)"
    using assms(2) by (simp add: ask_modules_eq hashes_safe_def module_hashes_def)
  obtain root where r: "generateMerkelRoot (ce_botan E) ?s2 = Some (Inr (?s2\<lparr>sc_merkelRoot := root\<rparr>))"
    using generateMerkelRoot_returns by blast
  obtain s where s: "generator_sign_secure (ce_botan E) (SignatureGenerator_of_loader keyLoader) root = Inr s"
    using assms(3) by blast
  let ?s4 = "?s2\<lparr>sc_merkelRoot := root, sc_signature := s\<rparr>"
  obtain b where b: "encode_software wire ?s4 = Inr b" using assms(4) by blast
  have sg: "SignatureHelper_Signature_t (SignatureHelper_of_vector s) = s"
    by (simp add: SignatureHelper_Signature_t_def SignatureHelper_of_vector_def)
  have "buildConsensus E wire keyLoader server_account now0 now' w previousHash this =
      Some (Inr (this\<lparr>cn_account_hash := map byte_char server_account, cn_msg := map byte_char b\<rparr>))"
    using assms(1) a r s b sg
    by (simp add: buildConsensus_def software_setPreviousHash_def new_SoftwareConsensusHelper_def
        software_setDate_def software_setAccount_def software_setSeed_def software_sign_def consensus_setMsg_def
        software_getAccount_def Let_def)
  with b show ?thesis by (intro exI [of _ root] exI [of _ s] exI [of _ b]) simp
qed

section \<open>Properties\<close>

text \<open>C39: the validation of a consensus message accepts exactly the messages whose system hashes are,
  counted with multiplicity, among the hashes the modules of the validating node give for the seed of the
  message. Nothing else of the message is looked at: not its signature, its Merkle root, its account or its
  previous hash, and a message without system hashes is valid.\<close>

theorem consensus_is_valid_iff_hashes_known:
  assumes "decode_software wire (cn_msg msg) = Inr sc" and "hashes_safe E w (sc_seed sc)"
  shows "validateSoftwareConsensus E wire w msg = Inr \<lparr>mv_version = PROTOCOL_VERSION,
    mv_valid = (mset (sc_systemHashs sc) \<subseteq># mset (module_hashes E w (sc_seed sc)))\<rparr>"
  using validateConsensus_eq [OF assms]
  by (simp add: validateSoftwareConsensus_def setValid_def new_ModuleConsensusValidationMessageHelper_def)

text \<open>C40: a node that can sign builds a consensus message for every previous hash it has a seed for, and
  another node finds it valid exactly when its own modules give, for that seed, every hash the modules of the
  first gave. In particular nodes that run the same modules accept each other.\<close>

theorem built_consensus_validates:
  assumes "generateSeed E (cw_seedHashGenerator w) (moduleHash_getHash event) = Inr seed"
    and "hashes_safe E w seed" and "hashes_safe E' w' seed"
    and "\<And>v. \<exists>s. generator_sign_secure (ce_botan E) (SignatureGenerator_of_loader keyLoader) v = Inr s"
    and "\<And>sc. \<exists>b. encode_software wire sc = Inr b \<and> decode_software wire (map byte_char b) = Inr sc"
  shows "\<exists>msg. generateSoftwareConsensus E wire keyLoader server_account now0 now' w event = Some (Inr msg) \<and>
    cn_account_hash msg = map byte_char server_account \<and>
    validateSoftwareConsensus E' wire w' msg = Inr \<lparr>mv_version = PROTOCOL_VERSION,
      mv_valid = (mset (module_hashes E w seed) \<subseteq># mset (module_hashes E' w' seed))\<rparr>"
proof -
  have enc: "\<And>sc. \<exists>b. encode_software wire sc = Inr b" using assms(5) by blast
  obtain root signature b sc where sc: "sc = \<lparr>sc_version = PROTOCOL_VERSION, sc_date = now',
      sc_previousHash = moduleHash_getHash event, sc_account = server_account, sc_seed = seed,
      sc_systemHashs = module_hashes E w seed, sc_merkelRoot = root, sc_signature = signature\<rparr>"
    and b: "encode_software wire sc = Inr b"
    and g: "generateSoftwareConsensus E wire keyLoader server_account now0 now' w event = Some (Inr
      ((ConsensusBuilder_of_loader server_account)\<lparr>cn_account_hash := map byte_char server_account,
        cn_msg := map byte_char b\<rparr>))" (is "_ = Some (Inr ?msg)")
    using buildConsensus_eq [OF assms(1,2,4) enc, of now' server_account now0 "ConsensusBuilder_of_loader server_account"]
    by (auto simp: generateSoftwareConsensus_def)
  have d: "decode_software wire (cn_msg ?msg) = Inr sc" using assms(5) [of sc] b by auto
  have "hashes_safe E' w' (sc_seed sc)" using assms(3) sc by simp
  from validateConsensus_eq [OF d this]
  have "validateSoftwareConsensus E' wire w' ?msg = Inr \<lparr>mv_version = PROTOCOL_VERSION,
      mv_valid = (mset (module_hashes E w seed) \<subseteq># mset (module_hashes E' w' seed))\<rparr>"
    using sc by (simp add: validateSoftwareConsensus_def setValid_def new_ModuleConsensusValidationMessageHelper_def)
  with g show ?thesis by (intro exI [of _ ?msg]) simp
qed

section \<open>Witnesses\<close>

text \<open>A script engine that returns the seed or the previous hash followed by the code, and a format of
  consensus messages by fields.\<close>

definition plain_consensus_env :: "(bytes, bytes) consensus_env" where
  "plain_consensus_env = \<lparr>ce_botan = plain_botan, ce_pk = \<lparr>pk_encrypt = (\<lambda>k v. Inr v), pk_decrypt = (\<lambda>k v. Inr v)\<rparr>,
     ce_chai = (\<lambda>fs code. case cf_getSeed fs of Some seed \<Rightarrow> Inr (seed @ copyStringToVector code)
       | None \<Rightarrow> (case cf_getPreviousHash fs of Some h \<Rightarrow> Inr h | None \<Rightarrow> Inl LibraryError))\<rparr>"

definition plain_consensus_wire :: consensus_wire where
  "plain_consensus_wire = \<lparr>encode_software = (\<lambda>sc. Inr (copyStringToVector (pack_fields
       (replicate (unat (sc_version sc)) (CHR ''v'') # copyVectorToString (sc_date sc) #
        copyVectorToString (sc_previousHash sc) # copyVectorToString (sc_account sc) # copyVectorToString (sc_seed sc) #
        copyVectorToString (sc_merkelRoot sc) # copyVectorToString (sc_signature sc) #
        map copyVectorToString (sc_systemHashs sc))))),
     decode_software = (\<lambda>s. case unpack_fields s of
         v # d # p # a # sd # r # g # hs \<Rightarrow> Inr \<lparr>sc_version = word_of_nat (length v), sc_date = copyStringToVector d,
            sc_previousHash = copyStringToVector p, sc_account = copyStringToVector a, sc_seed = copyStringToVector sd,
            sc_systemHashs = map copyStringToVector hs, sc_merkelRoot = copyStringToVector r,
            sc_signature = copyStringToVector g\<rparr>
       | _ \<Rightarrow> Inl Asn1DecodeError)\<rparr>"

definition plain_generator :: "bytes \<Rightarrow> ConsensusHashGenerator" where
  "plain_generator script = (new_ConsensusHashGenerator [] [] [] [])\<lparr>cg_sessionScript := script\<rparr>"

definition plain_consensus_world :: "bytes \<Rightarrow> bytes \<Rightarrow> consensus_world" where
  "plain_consensus_world r b = \<lparr>cw_modules = [(ROUTER, plain_generator r), (BLOCK, plain_generator b)],
     cw_seedHashGenerator = plain_generator [], cw_rpc_secret = []\<rparr>"

lemma plain_consensus_wire_ok:
  "\<exists>b. encode_software plain_consensus_wire sc = Inr b \<and> decode_software plain_consensus_wire (map byte_char b) = Inr sc"
proof -
  have "map byte_char (copyStringToVector s) = s" for s
    by (simp add: copyStringToVector_def)
  moreover have "map (copyStringToVector \<circ> copyVectorToString) hs = hs" for hs
    by (simp add: map_idI)
  ultimately show ?thesis by (simp add: plain_consensus_wire_def)
qed

lemma plain_module_hash:
  "module_hash plain_consensus_env (plain_consensus_world r b) seed m =
   (if m = ROUTER then Inr (seed @ r) else if m = BLOCK then Inr (seed @ b) else Inl UnknownEventHandlerException)"
  by (simp add: module_hash_def plain_consensus_world_def generateHash_def plain_consensus_env_def
      initChaiScript_seed_def ChaiScriptSession_of_seed_def chai_getSeed_def plain_generator_def
      new_ConsensusHashGenerator_def Let_def copy_simps flip: copyVectorToString_def)

lemma plain_hashes:
  "module_hashes plain_consensus_env (plain_consensus_world r b) seed = [seed @ r, seed @ b]"
  "hashes_safe plain_consensus_env (plain_consensus_world r b) seed"
  by (simp_all add: module_hashes_def hashes_safe_def EVENT_ORDER_def plain_module_hash)

theorem consensus_is_valid_iff_hashes_known_witness:
  "validateSoftwareConsensus plain_consensus_env plain_consensus_wire (plain_consensus_world [1] [2])
     \<lparr>cn_version = 1, cn_account_hash = [], cn_msg = pack_fields [[], [], [], [], [], [], []]\<rparr> =
   Inr \<lparr>mv_version = PROTOCOL_VERSION, mv_valid = True\<rparr>"
proof -
  let ?msg = "\<lparr>cn_version = 1, cn_account_hash = [], cn_msg = pack_fields [[], [], [], [], [], [], []]\<rparr>"
  let ?sc = "\<lparr>sc_version = 0, sc_date = [], sc_previousHash = [], sc_account = [], sc_seed = [], sc_systemHashs = [],
    sc_merkelRoot = [], sc_signature = []\<rparr>"
  have "decode_software plain_consensus_wire (cn_msg ?msg) = Inr ?sc"
    by (simp add: plain_consensus_wire_def copyStringToVector_def)
  from consensus_is_valid_iff_hashes_known [OF this, of plain_consensus_env "plain_consensus_world [1] [2]"]
  show ?thesis by (simp add: plain_hashes)
qed

theorem built_consensus_validates_witness:
  "\<exists>msg. generateSoftwareConsensus plain_consensus_env plain_consensus_wire plain_loader [7] [5] [6]
      (plain_consensus_world [1] [2]) \<lparr>mh_version = 1, mh_hash = ''a''\<rparr> = Some (Inr msg) \<and>
    cn_account_hash msg = map byte_char [7] \<and>
    validateSoftwareConsensus plain_consensus_env plain_consensus_wire (plain_consensus_world [1] [3]) msg =
      Inr \<lparr>mv_version = PROTOCOL_VERSION, mv_valid = False\<rparr>"
proof -
  let ?seed = "copyStringToSecure ''a''"
  have seed: "generateSeed plain_consensus_env (cw_seedHashGenerator (plain_consensus_world [1] [2]))
      (moduleHash_getHash \<lparr>mh_version = 1, mh_hash = ''a''\<rparr>) = Inr ?seed"
    by (simp add: generateSeed_def plain_consensus_env_def initChaiScript_previous_def moduleHash_getHash_def
        ChaiScriptSession_of_previous_def chai_getPreviousHash_def plain_consensus_world_def Let_def)
  have sign: "\<exists>s. generator_sign_secure (ce_botan plain_consensus_env) (SignatureGenerator_of_loader plain_loader) v = Inr s" for v
    by (simp add: plain_consensus_env_def generator_sign_secure_def SignatureGenerator_of_loader_def plain_loader_def
        plain_botan_def isInitialized_def getPrivateKey_def)
  have "\<not> mset (module_hashes plain_consensus_env (plain_consensus_world [1] [2]) ?seed) \<subseteq>#
      mset (module_hashes plain_consensus_env (plain_consensus_world [1] [3]) ?seed)"
    by (simp add: plain_hashes)
  then show ?thesis
    using built_consensus_validates [OF seed plain_hashes(2) plain_hashes(2) sign plain_consensus_wire_ok,
        where server_account = "[7]" and ?now0.0 = "[5]" and now' = "[6]", of "[1]" "[3]"]
    by simp
qed

end
