(* ===== verification/RpcProtocol.thy ===== *)
theory RpcProtocol
  imports Router Consensus
begin

text \<open>
  What the RPC server and the RPC client share: the handshake messages of \<open>libs/rpc_protocol\<close>, the
  commands of \<open>server_common/Constants.cpp\<close>, the pending operations of a websocket, and the part of the
  node their handlers act on. Protobuf is the parameter \<open>rpc_wire\<close>; the return value of \<open>ParseFromString\<close>
  is ignored by the code, so parsing is total.
\<close>

section \<open>Messages\<close>

record ServerHelo =
  sh_version :: c_long
  sh_account_hash :: string
  sh_signature :: string

record PeerRequest =
  prq_version :: c_long
  prq_account_hash :: "string list"

record PeerResponse =
  prs_version :: c_long
  prs_peers :: "string list"

record MessageWrapperResponse =
  mr_success :: bool
  mr_result :: string

record 'ab rpc_wire =
  serialize_helo :: "ServerHelo \<Rightarrow> string"
  parse_helo :: "string \<Rightarrow> ServerHelo"
  serialize_peers :: "PeerResponse \<Rightarrow> string"
  parse_peers :: "string \<Rightarrow> PeerResponse"
  serialize_consensus :: "ConsensusMessage \<Rightarrow> string"
  parse_consensus :: "string \<Rightarrow> ConsensusMessage"
  serialize_rpc_peer :: "RpcPeer \<Rightarrow> string"
  parse_rpc_peer :: "string \<Rightarrow> RpcPeer"
  serialize_wrapper :: "'ab MessageWrapper \<Rightarrow> string"
  parse_wrapper :: "string \<Rightarrow> 'ab MessageWrapper"
  serialize_response :: "MessageWrapperResponse \<Rightarrow> string"
  parse_response :: "string \<Rightarrow> MessageWrapperResponse"

definition rpc_wire_ok :: "'ab rpc_wire \<Rightarrow> bool" where
  "rpc_wire_ok w \<longleftrightarrow> (\<forall>m. parse_helo w (serialize_helo w m) = m) \<and> (\<forall>m. parse_peers w (serialize_peers w m) = m) \<and>
     (\<forall>m. parse_consensus w (serialize_consensus w m) = m) \<and> (\<forall>m. parse_rpc_peer w (serialize_rpc_peer w m) = m) \<and>
     (\<forall>m. parse_wrapper w (serialize_wrapper w m) = m) \<and> (\<forall>m. parse_response w (serialize_response w m) = m)"

section \<open>ServerHelloProtoHelper\<close>

definition new_ServerHelloProtoHelper :: ServerHelo where
  "new_ServerHelloProtoHelper = \<lparr>sh_version = 1, sh_account_hash = [], sh_signature = []\<rparr>"

definition ServerHelloProtoHelper_of_string :: "'ab rpc_wire \<Rightarrow> string \<Rightarrow> ServerHelo" where
  "ServerHelloProtoHelper_of_string w value = parse_helo w value"

definition helo_setAccountHash :: "ServerHelo \<Rightarrow> bytes \<Rightarrow> ServerHelo" where
  "helo_setAccountHash this accountHash = this\<lparr>sh_account_hash := map byte_char accountHash\<rparr>"

definition helo_getAccountHash :: "ServerHelo \<Rightarrow> bytes" where
  "helo_getAccountHash this = map char_byte (sh_account_hash this)"

definition helo_getAccountHashStr :: "text_codecs \<Rightarrow> ServerHelo \<Rightarrow> string" where
  "helo_getAccountHashStr codecs this = hex_encode codecs (map char_byte (sh_account_hash this))"

definition helo_sign :: "('priv, 'pub) botan \<Rightarrow> KeyLoader \<Rightarrow> ServerHelo \<Rightarrow> ServerHelo result" where
  "helo_sign lib keyLoader this =
     (let accountHash = map char_byte (sh_account_hash this)
      in rmap (\<lambda>signature. this\<lparr>sh_signature := map byte_char signature\<rparr>)
           (generator_sign lib (SignatureGenerator_of_loader keyLoader) accountHash))"

definition helo_string :: "'ab rpc_wire \<Rightarrow> ServerHelo \<Rightarrow> string" where
  "helo_string w this = serialize_helo w this"

section \<open>PeerRequestHelper, PeerResponseHelper\<close>

definition new_PeerRequestHelper :: PeerRequest where
  "new_PeerRequestHelper = \<lparr>prq_version = PROTOCOL_VERSION, prq_account_hash = []\<rparr>"

definition request_addAccountHash :: "PeerRequest \<Rightarrow> bytes \<Rightarrow> PeerRequest" where
  "request_addAccountHash this accountHash =
     this\<lparr>prq_account_hash := prq_account_hash this @ [copyVectorToString accountHash]\<rparr>"

definition request_getAccountHashes :: "PeerRequest \<Rightarrow> bytes list" where
  "request_getAccountHashes this = map copyStringToVector (prq_account_hash this)"

definition new_PeerResponseHelper :: PeerResponse where
  "new_PeerResponseHelper = \<lparr>prs_version = PROTOCOL_VERSION, prs_peers = []\<rparr>"

definition PeerResponseHelper_of_string :: "'ab rpc_wire \<Rightarrow> string \<Rightarrow> PeerResponse" where
  "PeerResponseHelper_of_string w response = parse_peers w response"

definition response_addPeer :: "PeerResponse \<Rightarrow> string \<Rightarrow> PeerResponse" where
  "response_addPeer this url = this\<lparr>prs_peers := prs_peers this @ [url]\<rparr>"

definition response_addPeers :: "PeerResponse \<Rightarrow> string list \<Rightarrow> PeerResponse" where
  "response_addPeers this urls = fold (\<lambda>url r. response_addPeer r url) urls this"

definition response_getPeers :: "PeerResponse \<Rightarrow> string list" where
  "response_getPeers this = map (\<lambda>p. p) (prs_peers this)"

section \<open>Commands\<close>

definition HELLO :: string where "HELLO = ''HELLO''"
definition HELLO_CONSENSUS :: string where "HELLO_CONSENSUS = ''HELLO_CONSENSUS''"
definition PEERS :: string where "PEERS = ''PEERS''"
definition REGISTER :: string where "REGISTER = ''REGISTER''"
definition TRANSACTION_COMMAND :: string where "TRANSACTION_COMMAND = ''TRANSACTION''"
definition TRANSACTION_PROCESSED :: string where "TRANSACTION_PROCESSED = ''TRANSACTION_PROCESSED''"
definition CONSENSUS_SESSION :: string where "CONSENSUS_SESSION = ''CONSENSUS_SESSION''"
definition CONSENSUS :: string where "CONSENSUS = ''CONSENSUS''"
definition ROUTE :: string where "ROUTE = ''ROUTE''"
definition ROUTE_UPDATE :: string where "ROUTE_UPDATE = ''ROUTE_UPDATE''"
definition SERVICES :: string where "SERVICES = ''SERVICES''"
definition CLOSE :: string where "CLOSE = ''CLOSE''"
definition GO_AWAY :: string where "GO_AWAY = ''GO_AWAY''"
definition ACCEPTED :: string where "ACCEPTED = ''ACCEPTED''"

lemmas command_defs = HELLO_def HELLO_CONSENSUS_def PEERS_def REGISTER_def TRANSACTION_COMMAND_def
  TRANSACTION_PROCESSED_def CONSENSUS_SESSION_def CONSENSUS_def ROUTE_def ROUTE_UPDATE_def SERVICES_def
  CLOSE_def GO_AWAY_def ACCEPTED_def

text \<open>Two words with a space between them.\<close>

definition buildMessage :: "string \<Rightarrow> string \<Rightarrow> string" where
  "buildMessage command message = command @ '' '' @ message"

definition buildMessage_vector :: "text_codecs \<Rightarrow> string \<Rightarrow> bytes \<Rightarrow> string" where
  "buildMessage_vector codecs command message = command @ '' '' @ hex_encode codecs message"

section \<open>Operations of a websocket\<close>

text \<open>The operations a session has started and that have not completed, oldest first. An operation
  that writes has read its buffer when it was started.\<close>

datatype io_operation = AsyncConnect | AsyncRead | AsyncWrite string | AsyncOutBound string | AsyncClose

section \<open>The node the handlers act on\<close>

record ('txn, 'db, 'g, 'ab) rpc_node =
  rn_router :: "('txn, 'db, 'g, 'ab) router_world"
  rn_consensus :: consensus_world

record ('txn, 'db, 'g, 'any, 'tb, 'ab, 'sb, 'priv, 'pub) rpc_env =
  re_router :: "('txn, 'db, 'any, 'tb, 'ab, 'sb) router_env"
  re_rdf :: "'g rdf_lib"
  re_consensus :: "('priv, 'pub) consensus_env"
  re_consensus_wire :: consensus_wire
  re_codecs :: text_codecs
  re_wire :: "'ab rpc_wire"
  re_keyLoader :: KeyLoader
  re_depth :: nat
  re_clock :: "bytes \<times> bytes"

text \<open>Programs that may not return.\<close>

type_synonym ('s, 'a) oprog = "'s \<Rightarrow> ('a result \<times> 's) option"

definition obind :: "('s, 'a) oprog \<Rightarrow> ('a \<Rightarrow> ('s, 'b) oprog) \<Rightarrow> ('s, 'b) oprog" where
  "obind m f s = (case m s of None \<Rightarrow> None | Some (Inl e, t) \<Rightarrow> Some (Inl e, t) | Some (Inr a, t) \<Rightarrow> f a t)"

definition returning :: "('s, 'a) prog \<Rightarrow> ('s, 'a) oprog" where
  "returning m s = Some (m s)"

lemma obind_returning [simp]: "obind (returning m) (\<lambda>a. returning (f a)) = returning (sbind m f)"
  by (simp add: fun_eq_iff obind_def returning_def sbind_def split: prod.splits sum.splits)

definition at_router ::
  "(('txn, 'db, 'g, 'ab) router_world, 'a) prog \<Rightarrow> (('txn, 'db, 'g, 'ab, 'z) rpc_node_scheme, 'a) prog" where
  "at_router m w = (case m (rn_router w) of (r, x) \<Rightarrow> (r, w\<lparr>rn_router := x\<rparr>))"

definition at_consensus :: "(consensus_world, 'a) prog \<Rightarrow> (('txn, 'db, 'g, 'ab, 'z) rpc_node_scheme, 'a) prog" where
  "at_consensus m w = (case m (rn_consensus w) of (r, x) \<Rightarrow> (r, w\<lparr>rn_consensus := x\<rparr>))"

definition at_store :: "(('txn, 'db, 'g) node, 'a) prog \<Rightarrow> (('txn, 'db, 'g, 'ab, 'z) rpc_node_scheme, 'a) prog" where
  "at_store m = at_router (on_node m)"

text \<open>The pattern \<open>try { TransactionPtr t = createTransaction(); body; t->commit(); } catch (...) {}\<close> of both
  \<open>on_read\<close>. A body ends by falling through to the commit, by committing and returning, or by returning
  without a commit. The destructor rolls a transaction back that was not committed; an exception out
  of it ends the process. \<open>try_scope\<close> says whether the statements after the \<open>try\<close> block run.\<close>

datatype leaving = FallThrough | CommitAndReturn | ReturnUncommitted

definition store_methods ::
  "('txn, 'db, 'g, 'any, 'tb, 'ab, 'sb, 'priv, 'pub) rpc_env \<Rightarrow> (resource_id, ('txn, 'db, 'g) node_stores) resource_methods" where
  "store_methods E = node_resources (env_rocks (re_router E)) (re_rdf E)"

definition scope_commit ::
  "('txn, 'db, 'g, 'any, 'tb, 'ab, 'sb, 'priv, 'pub) rpc_env \<Rightarrow> (('txn, 'db, 'g, 'ab, 'z) rpc_node_scheme, unit) prog" where
  "scope_commit E = at_store (\<lambda>n. snd (TransactionImpl_commit (store_methods E) False n))"

definition scope_destroy ::
  "('txn, 'db, 'g, 'any, 'tb, 'ab, 'sb, 'priv, 'pub) rpc_env \<Rightarrow> (('txn, 'db, 'g, 'ab, 'z) rpc_node_scheme, unit) prog" where
  "scope_destroy E = scatch (at_store (\<lambda>n. snd (TransactionImpl_destroy (store_methods E) False n)))
     (\<lambda>e. sthrow StdTerminate)"

definition in_scope ::
  "('txn, 'db, 'g, 'any, 'tb, 'ab, 'sb, 'priv, 'pub) rpc_env \<Rightarrow> (('txn, 'db, 'g, 'ab, 'z) rpc_node_scheme, leaving) oprog \<Rightarrow>
   (('txn, 'db, 'g, 'ab, 'z) rpc_node_scheme, bool) oprog" where
  "in_scope E body = obind (returning (at_store createTransaction)) (\<lambda>_ w. case body w of
       None \<Rightarrow> None
     | Some (Inl e, w1) \<Rightarrow> Some (if is_exception e then sbind (scope_destroy E) (\<lambda>_. sthrow e) w1 else (Inl e, w1))
     | Some (Inr FallThrough, w1) \<Rightarrow> Some (sbind (scope_commit E) (\<lambda>_. sreturn True) w1)
     | Some (Inr CommitAndReturn, w1) \<Rightarrow> Some (sbind (scope_commit E) (\<lambda>_. sreturn False) w1)
     | Some (Inr ReturnUncommitted, w1) \<Rightarrow> Some (sbind (scope_destroy E) (\<lambda>_. sreturn False) w1))"

definition try_scope ::
  "('txn, 'db, 'g, 'any, 'tb, 'ab, 'sb, 'priv, 'pub) rpc_env \<Rightarrow> (('txn, 'db, 'g, 'ab, 'z) rpc_node_scheme, leaving) oprog \<Rightarrow>
   (('txn, 'db, 'g, 'ab, 'z) rpc_node_scheme, bool) oprog" where
  "try_scope E body w = map_option (\<lambda>(r, w1). case r of
       Inl e \<Rightarrow> (if is_exception e then Inr True else Inl e, w1) | Inr b \<Rightarrow> (Inr b, w1)) (in_scope E body w)"

text \<open>\<open>processEvent(ROUTE_MESSAGE)\<close>; the router always reports success.\<close>

definition route_message ::
  "('txn, 'db, 'g, 'any, 'tb, 'ab, 'sb, 'priv, 'pub) rpc_env \<Rightarrow> 'ab MessageWrapper \<Rightarrow>
   (('txn, 'db, 'g, 'ab, 'z) rpc_node_scheme, MessageWrapperResponse) oprog" where
  "route_message E mw w = map_option (\<lambda>(r, x). (rmap (\<lambda>s. \<lparr>mr_success = True, mr_result = s\<rparr>) r, w\<lparr>rn_router := x\<rparr>))
     (routeMessage (re_router E) mw (rn_router w))"

lemmas rpc_defs = at_router_def at_consensus_def at_store_def

end
