(* ===== verification/RpcServer.thy ===== *)
theory RpcServer
  imports RpcProtocol Builders
begin

text \<open>
  The RPC server, \<open>modules/rpc_server\<close>: its sessions with peers (class \<open>session\<close> in \<open>RpcServer.cpp\<close>), the
  cache of the sessions by account, the addresses of the peers (\<open>RpcServerSession\<close>) and the routing of a
  message to a session. A session is an identifier. Its asynchronous operations are kept in a list; the
  completion handlers \<open>on_read\<close>, \<open>on_write\<close> and \<open>on_outBoundWrite\<close> are called when one completes.
\<close>

section \<open>State\<close>

text \<open>\<open>ss_sent\<close> lists the frames given to the network.\<close>

record server_session =
  ss_buffer :: string
  ss_hello :: "ServerHelo option"
  ss_local_address :: string
  ss_remote_address :: string
  ss_pending :: "io_operation list"
  ss_sent :: "string list"

record ('txn, 'db, 'g, 'ab) rpc_server = "('txn, 'db, 'g, 'ab) rpc_node" +
  rs_accountSessionMap :: "(string \<times> nat) list"
  rs_accountPeerCache :: "(bytes \<times> string) list"
  rs_externalIp :: "string option"
  rs_serverPort :: nat
  rs_sessions :: "nat \<Rightarrow> server_session option"

definition DEFAULT_PORT_NUMBER :: nat where "DEFAULT_PORT_NUMBER = 28003"

definition on_session :: "nat \<Rightarrow> (server_session, 'a) prog \<Rightarrow> (('txn, 'db, 'g, 'ab) rpc_server, 'a) prog" where
  "on_session sid m w = (case rs_sessions w sid of
       None \<Rightarrow> (Inl NullPointerDereference, w)
     | Some ss \<Rightarrow> (case m ss of (r, ss1) \<Rightarrow> (r, w\<lparr>rs_sessions := (rs_sessions w)(sid \<mapsto> ss1)\<rparr>)))"

section \<open>AccountSessionCache\<close>

definition addAccount :: "string \<Rightarrow> nat \<Rightarrow> (('txn, 'db, 'g, 'ab) rpc_server, unit) prog" where
  "addAccount account sessionRef = smodify (\<lambda>w. w\<lparr>rs_accountSessionMap := map_set account sessionRef (rs_accountSessionMap w)\<rparr>)"

definition removeAccount :: "string \<Rightarrow> (('txn, 'db, 'g, 'ab) rpc_server, unit) prog" where
  "removeAccount account = smodify (\<lambda>w. w\<lparr>rs_accountSessionMap := map_erase account (rs_accountSessionMap w)\<rparr>)"

definition hasSession :: "string \<Rightarrow> ('txn, 'db, 'g, 'ab) rpc_server \<Rightarrow> bool" where
  "hasSession account w \<longleftrightarrow> map_of (rs_accountSessionMap w) account \<noteq> None"

section \<open>RpcServerSession\<close>

definition peers_addPeer :: "bytes \<Rightarrow> string \<Rightarrow> (('txn, 'db, 'g, 'ab) rpc_server, unit) prog" where
  "peers_addPeer account host = smodify (\<lambda>w. w\<lparr>rs_accountPeerCache := map_set account host (rs_accountPeerCache w)\<rparr>)"

definition peers_getPeers :: "bytes \<Rightarrow> ('txn, 'db, 'g, 'ab) rpc_server \<Rightarrow> string list" where
  "peers_getPeers account w = map snd (filter (\<lambda>entry. fst entry \<noteq> account) (rs_accountPeerCache w))"

definition peers_getPeers_of :: "bytes list \<Rightarrow> ('txn, 'db, 'g, 'ab) rpc_server \<Rightarrow> string list" where
  "peers_getPeers_of accounts w = concat (map (\<lambda>entry. case map_of (rs_accountPeerCache w) entry of
     None \<Rightarrow> [] | Some host \<Rightarrow> [host]) accounts)"

definition setExternalIp ::
  "('txn, 'db, 'g, 'any, 'tb, 'ab, 'sb, 'priv, 'pub) rpc_env \<Rightarrow> string \<Rightarrow> (('txn, 'db, 'g, 'ab) rpc_server, unit) prog" where
  "setExternalIp E ipAddress w = (if rs_externalIp w = None
     then sbind (smodify (\<lambda>w. w\<lparr>rs_externalIp := Some ipAddress\<rparr>)) (\<lambda>_.
          peers_addPeer (server_account (re_router E)) (ipAddress @ '':'' @ show_nat (rs_serverPort w))) w
     else (Inr (), w))"

section \<open>The sessions' operations\<close>

definition accepted_session :: "string \<Rightarrow> string \<Rightarrow> server_session" where
  "accepted_session local_address remote_address = \<lparr>ss_buffer = [], ss_hello = None, ss_local_address = local_address,
     ss_remote_address = remote_address, ss_pending = [], ss_sent = []\<rparr>"

definition do_read :: "(server_session, unit) prog" where
  "do_read = smodify (\<lambda>ss. ss\<lparr>ss_pending := ss_pending ss @ [AsyncRead]\<rparr>)"

text \<open>A new session, up to the first \<open>do_read\<close> of its \<open>on_accept\<close>; a failed handshake starts nothing.\<close>

definition listener_on_accept :: "nat \<Rightarrow> string \<Rightarrow> string \<Rightarrow> (('txn, 'db, 'g, 'ab) rpc_server, unit) prog" where
  "listener_on_accept sid local_address remote_address =
     smodify (\<lambda>w. w\<lparr>rs_sessions := (rs_sessions w)(sid \<mapsto> accepted_session local_address remote_address)\<rparr>)"

definition session_on_accept :: "nat \<Rightarrow> bool \<Rightarrow> (('txn, 'db, 'g, 'ab) rpc_server, unit) prog" where
  "session_on_accept sid failed = (if failed then sreturn () else on_session sid do_read)"

definition start_write :: "(server_session, unit) prog" where
  "start_write = smodify (\<lambda>ss. ss\<lparr>ss_pending := ss_pending ss @ [AsyncWrite (ss_buffer ss)],
     ss_sent := ss_sent ss @ [ss_buffer ss]\<rparr>)"

definition session_on_write :: "nat \<Rightarrow> bool \<Rightarrow> (('txn, 'db, 'g, 'ab) rpc_server, unit) prog" where
  "session_on_write sid failed = (if failed then sreturn ()
     else on_session sid (sbind (smodify (\<lambda>ss. ss\<lparr>ss_buffer := []\<rparr>)) (\<lambda>_. do_read)))"

text \<open>The stream operator of a \<open>multi_buffer\<close>.\<close>

definition put_buffer :: "nat \<Rightarrow> string \<Rightarrow> (('txn, 'db, 'g, 'ab) rpc_server, unit) prog" where
  "put_buffer sid text = on_session sid (smodify (\<lambda>ss. ss\<lparr>ss_buffer := ss_buffer ss @ text\<rparr>))"

definition session_hello :: "nat \<Rightarrow> (('txn, 'db, 'g, 'ab) rpc_server, ServerHelo) prog" where
  "session_hello sid = on_session sid (\<lambda>ss. (deref (ss_hello ss), ss))"

text \<open>The account of the session in a log line.\<close>

definition log_account :: "nat \<Rightarrow> (('txn, 'db, 'g, 'ab) rpc_server, unit) prog" where
  "log_account sid = sbind (session_hello sid) (\<lambda>_. sreturn ())"

definition hello_account :: "nat \<Rightarrow> (('txn, 'db, 'g, 'ab) rpc_server, string) prog" where
  "hello_account sid = sbind (session_hello sid) (\<lambda>h. sreturn (copyVectorToString (helo_getAccountHash h)))"

section \<open>Command handlers\<close>

definition handleHello ::
  "('txn, 'db, 'g, 'any, 'tb, 'ab, 'sb, 'priv, 'pub) rpc_env \<Rightarrow> nat \<Rightarrow> string \<Rightarrow>
   (('txn, 'db, 'g, 'ab) rpc_server, unit) prog" where
  "handleHello E sid payload =
     sbind (slift (rmap copyVectorToString (hex_decode_locked (re_codecs E) payload))) (\<lambda>b.
     sbind (on_session sid (smodify (\<lambda>ss. ss\<lparr>ss_hello := Some (ServerHelloProtoHelper_of_string (re_wire E) b)\<rparr>))) (\<lambda>_.
     sbind (sget (\<lambda>w. cw_rpc_secret (rn_consensus w))) (\<lambda>secret.
     put_buffer sid (HELLO_CONSENSUS @ '' '' @ hex_encode (re_codecs E) secret
       @ '' '' @ hex_encode (re_codecs E) (server_account (re_router E))))))"

definition handleHelloConsensus ::
  "('txn, 'db, 'g, 'any, 'tb, 'ab, 'sb, 'priv, 'pub) rpc_env \<Rightarrow> nat \<Rightarrow> string \<Rightarrow>
   (('txn, 'db, 'g, 'ab) rpc_server, unit) prog" where
  "handleHelloConsensus E sid payload =
     sbind (slift (rmap copyVectorToString (hex_decode_locked (re_codecs E) payload))) (\<lambda>binString.
     let consensusMessage = parse_consensus (re_wire E) binString in
     sbind (sget (\<lambda>w. validateSoftwareConsensus (re_consensus E) (re_consensus_wire E) (rn_consensus w) consensusMessage)) (\<lambda>r.
     sbind (slift r) (\<lambda>validation.
     if validation_isValid validation
     then sbind (put_buffer sid (ACCEPTED @ '' '' @ ACCEPTED)) (\<lambda>_. log_account sid)
     else sbind (put_buffer sid (GO_AWAY @ '' '' @ GO_AWAY)) (\<lambda>_. log_account sid))))"

definition handlePeer ::
  "('txn, 'db, 'g, 'any, 'tb, 'ab, 'sb, 'priv, 'pub) rpc_env \<Rightarrow> nat \<Rightarrow> string \<Rightarrow>
   (('txn, 'db, 'g, 'ab) rpc_server, unit) prog" where
  "handlePeer E sid payload =
     sbind (on_session sid (sget ss_local_address)) (\<lambda>local_address.
     sbind (setExternalIp E local_address) (\<lambda>_.
     sbind (if payload = PEERS
       then sbind (on_session sid (sget ss_remote_address)) (\<lambda>remote_address.
            let str = remote_address @ '':'' @ show_nat DEFAULT_PORT_NUMBER in
            sbind (session_hello sid) (\<lambda>h.
            sbind (peers_addPeer (helo_getAccountHash h) str) (\<lambda>_.
            sbind (sget (peers_getPeers (helo_getAccountHash h))) (\<lambda>peers.
            sreturn (response_addPeers new_PeerResponseHelper peers)))))
       else sreturn new_PeerResponseHelper) (\<lambda>peerResponseHelper.
     put_buffer sid (PEERS @ '' '' @ hex_encode (re_codecs E)
       (copyStringToVector (serialize_peers (re_wire E) peerResponseHelper))))))"

definition handleRegister ::
  "('txn, 'db, 'g, 'any, 'tb, 'ab, 'sb, 'priv, 'pub) rpc_env \<Rightarrow> nat \<Rightarrow> string \<Rightarrow>
   (('txn, 'db, 'g, 'ab) rpc_server, unit) prog" where
  "handleRegister E sid payload =
     sbind (hello_account sid) (\<lambda>account.
     sbind (addAccount account sid) (\<lambda>_.
     sbind (slift (rmap copyVectorToString (hex_decode_locked (re_codecs E) payload))) (\<lambda>rpcVector.
     let rpcPeer = parse_rpc_peer (re_wire E) rpcVector in
     sbind (at_router (registerRpcPeer (re_router E) rpcPeer)) (\<lambda>_.
     put_buffer sid (REGISTER @ '' '' @ hex_encode (re_codecs E) (server_account (re_router E)))))))"

definition handleTransaction ::
  "('txn, 'db, 'g, 'any, 'tb, 'ab, 'sb, 'priv, 'pub) rpc_env \<Rightarrow> nat \<Rightarrow> string \<Rightarrow>
   (('txn, 'db, 'g, 'ab) rpc_server, unit) oprog" where
  "handleTransaction E sid payload =
     obind (returning (sbind (slift (rmap copyVectorToString (hex_decode_locked (re_codecs E) payload))) (\<lambda>b.
       sbind (hello_account sid) (\<lambda>account.
       sreturn (wrapper_setSessionHash (parse_wrapper (re_wire E) b) (copyStringToVector account)))))) (\<lambda>messageWrapper.
     obind (route_message E messageWrapper) (\<lambda>messageWrapperResponse.
     returning (put_buffer sid (TRANSACTION_PROCESSED @ '' '' @ hex_encode (re_codecs E)
       (copyStringToVector (serialize_response (re_wire E) messageWrapperResponse))))))"

definition handleTransactionProcessed ::
  "('txn, 'db, 'g, 'any, 'tb, 'ab, 'sb, 'priv, 'pub) rpc_env \<Rightarrow> nat \<Rightarrow> string \<Rightarrow>
   (('txn, 'db, 'g, 'ab) rpc_server, unit) prog" where
  "handleTransactionProcessed E sid payload =
     sbind (slift (rmap copyVectorToString (hex_decode_locked (re_codecs E) payload))) (\<lambda>_. log_account sid)"

text \<open>The chain of comparisons in \<open>on_read\<close>. An unknown command and the empty branches do nothing.\<close>

definition server_command ::
  "('txn, 'db, 'g, 'any, 'tb, 'ab, 'sb, 'priv, 'pub) rpc_env \<Rightarrow> nat \<Rightarrow> string \<Rightarrow> string \<Rightarrow>
   (('txn, 'db, 'g, 'ab) rpc_server, leaving) oprog" where
  "server_command E sid command payload =
     (if command = HELLO
      then returning (sbind (handleHello E sid payload) (\<lambda>_. sbind (log_account sid) (\<lambda>_. sreturn FallThrough)))
      else if command = HELLO_CONSENSUS
      then returning (sbind (handleHelloConsensus E sid payload) (\<lambda>_. sreturn FallThrough))
      else if command = PEERS
      then returning (sbind (log_account sid) (\<lambda>_. sbind (handlePeer E sid payload) (\<lambda>_. sreturn FallThrough)))
      else if command = REGISTER
      then returning (sbind (log_account sid) (\<lambda>_. sbind (handleRegister E sid payload) (\<lambda>_. sreturn FallThrough)))
      else if command = TRANSACTION_COMMAND
      then obind (handleTransaction E sid payload) (\<lambda>_. returning (sreturn FallThrough))
      else if command = TRANSACTION_PROCESSED
      then returning (sbind (handleTransactionProcessed E sid payload) (\<lambda>_. sreturn FallThrough))
      else if command = CONSENSUS \<or> command = ROUTE \<or> command = ROUTE_UPDATE \<or> command = SERVICES
      then returning (sreturn FallThrough)
      else if command = CLOSE
      then returning (sbind (hello_account sid) (\<lambda>account. sbind (removeAccount account) (\<lambda>_. sreturn ReturnUncommitted)))
      else returning (sreturn FallThrough))"

section \<open>The handler of a read\<close>

datatype read_error = ReadOk | ReadClosed | ReadFailed

text \<open>The session is closed: its account leaves the cache.\<close>

definition session_closed :: "nat \<Rightarrow> (('txn, 'db, 'g, 'ab) rpc_server, unit) prog" where
  "session_closed sid = sbind (on_session sid (sget ss_hello)) (\<lambda>hello. case hello of
       None \<Rightarrow> sreturn ()
     | Some h \<Rightarrow> let accountHash = copyVectorToString (helo_getAccountHash h) in
         (\<lambda>w. if hasSession accountHash w then removeAccount accountHash w else (Inr (), w)))"

definition take_buffer :: "(server_session, string) prog" where
  "take_buffer ss = (Inr (ss_buffer ss), ss\<lparr>ss_buffer := []\<rparr>)"

text \<open>After an error other than the closing of the session the handler goes on with what is in the
  buffer.\<close>

definition session_on_read ::
  "('txn, 'db, 'g, 'any, 'tb, 'ab, 'sb, 'priv, 'pub) rpc_env \<Rightarrow> nat \<Rightarrow> read_error \<Rightarrow>
   (('txn, 'db, 'g, 'ab) rpc_server, unit) oprog" where
  "session_on_read E sid ec =
     (if ec = ReadClosed then returning (session_closed sid)
      else obind (returning (on_session sid take_buffer)) (\<lambda>data.
        case tokenize data '' '' of
          None \<Rightarrow> (\<lambda>w. None)
        | Some stringVector \<Rightarrow>
            (let command = stringVector ! 0;
                 payload = (if length stringVector = 2 then stringVector ! 1 else [])
             in obind (try_scope E (server_command E sid command payload)) (\<lambda>go_on.
                returning (if go_on then on_session sid start_write else sreturn ())))))"

section \<open>routeTransaction\<close>

text \<open>The session puts the message into a buffer of its own and writes the buffer of the session.\<close>

definition session_routeTransaction ::
  "('txn, 'db, 'g, 'any, 'tb, 'ab, 'sb, 'priv, 'pub) rpc_env \<Rightarrow> 'ab MessageWrapper \<Rightarrow> (server_session, unit) prog" where
  "session_routeTransaction E messageWrapper =
     (let messageWrapperStr = serialize_wrapper (re_wire E) messageWrapper;
          multiBuffer = TRANSACTION_COMMAND @ '' '' @ hex_encode (re_codecs E) (copyStringToVector messageWrapperStr)
      in smodify (\<lambda>ss. ss\<lparr>ss_pending := ss_pending ss @ [AsyncOutBound (ss_buffer ss)],
           ss_sent := ss_sent ss @ [ss_buffer ss]\<rparr>))"

definition session_on_outBoundWrite :: "nat \<Rightarrow> bool \<Rightarrow> (('txn, 'db, 'g, 'ab) rpc_server, unit) prog" where
  "session_on_outBoundWrite sid failed = (if failed then session_closed sid else sreturn ())"

definition RpcServer_routeTransaction ::
  "('txn, 'db, 'g, 'any, 'tb, 'ab, 'sb, 'priv, 'pub) rpc_env \<Rightarrow> 'ab MessageWrapper \<Rightarrow>
   (('txn, 'db, 'g, 'ab) rpc_server, MessageWrapperResponse) prog" where
  "RpcServer_routeTransaction E messageWrapper w =
     (let account = copyVectorToString (mw_account_hash messageWrapper)
      in case map_of (rs_accountSessionMap w) account of
           None \<Rightarrow> (Inl ClientNotAvailableException, w)
         | Some sid \<Rightarrow> sbind (on_session sid (session_routeTransaction E messageWrapper)) (\<lambda>_.
             sbind (slift (HashHelper_getHash (re_codecs E) (wrapper_getAccountHash messageWrapper) HEX)) (\<lambda>h.
             sreturn \<lparr>mr_success = True, mr_result = ''Routed to the peer ['' @ h @ '']''\<rparr>)) w)"

end
