(* ===== verification/RpcSafety.thy ===== *)
theory RpcSafety
  imports RpcServer
begin

text \<open>
  The RPC server as a step relation over its asynchronous events, and what every reachable server
  keeps: a session never has two reads or replies of its own under way, it reads into an empty buffer,
  and the cache of sessions by account names sessions that have said hello.
\<close>

section \<open>Programs that keep a predicate\<close>

definition keeps :: "('s \<Rightarrow> bool) \<Rightarrow> ('s, 'a) prog \<Rightarrow> bool" where
  "keeps P m \<longleftrightarrow> (\<forall>s. P s \<longrightarrow> P (snd (m s)))"

definition okeeps :: "('s \<Rightarrow> bool) \<Rightarrow> ('s, 'a) oprog \<Rightarrow> bool" where
  "okeeps P m \<longleftrightarrow> (\<forall>s r t. P s \<longrightarrow> m s = Some (r, t) \<longrightarrow> P t)"

named_theorems keep_rules \<open>programs that keep a predicate\<close>

lemma keeps_basic [keep_rules]:
  "keeps P (sreturn a)" "keeps P (sthrow e)" "keeps P (slift r)" "keeps P (sget g)"
  by (simp_all add: keeps_def prog_defs)

lemma keeps_smodify: "(\<And>s. P s \<Longrightarrow> P (f s)) \<Longrightarrow> keeps P (smodify f)"
  by (simp add: keeps_def smodify_def)

lemma keeps_sbind [keep_rules]: "keeps P m \<Longrightarrow> (\<And>a. keeps P (f a)) \<Longrightarrow> keeps P (sbind m f)"
  by (fastforce simp: keeps_def sbind_def split: prod.splits sum.splits)

lemma keeps_scatch [keep_rules]: "keeps P m \<Longrightarrow> (\<And>e. keeps P (h e)) \<Longrightarrow> keeps P (scatch m h)"
  by (fastforce simp: keeps_def scatch_def split: prod.splits sum.splits)

lemma keeps_if [keep_rules]: "keeps P m \<Longrightarrow> keeps P n \<Longrightarrow> keeps P (if b then m else n)"
  by simp

lemma keepsD: "keeps P m \<Longrightarrow> m s = (r, t) \<Longrightarrow> P s \<Longrightarrow> P t"
  unfolding keeps_def by (metis snd_conv)

lemma okeepsD: "okeeps P m \<Longrightarrow> m s = Some (r, t) \<Longrightarrow> P s \<Longrightarrow> P t"
  unfolding okeeps_def by blast

lemma okeeps_returning [keep_rules]: "keeps P m \<Longrightarrow> okeeps P (returning m)"
  by (auto simp: okeeps_def returning_def dest: keepsD)

lemma okeeps_obind [keep_rules]:
  assumes "okeeps P m" and "\<And>a. okeeps P (f a)"
  shows "okeeps P (obind m f)"
  unfolding okeeps_def
proof (intro allI impI)
  fix s r t assume s: "P s" and b: "obind m f s = Some (r, t)"
  from b obtain q u where m: "m s = Some (q, u)" by (auto simp: obind_def split: option.splits)
  then have "P u" using okeepsD [OF assms(1)] s by blast
  with b m assms(2) show "P t" by (cases q) (auto simp: obind_def dest: okeepsD)
qed

lemma okeeps_if [keep_rules]: "okeeps P m \<Longrightarrow> okeeps P n \<Longrightarrow> okeeps P (if b then m else n)"
  by simp

lemma obind_Inl: "m s = Some (Inl e, t) \<Longrightarrow> obind m f s = Some (Inl e, t)"
  by (simp add: obind_def)

lemma obind_Inr: "m s = Some (Inr a, t) \<Longrightarrow> obind m f s = f a t"
  by (simp add: obind_def)

text \<open>A predicate the state of the stores has no part in.\<close>

definition store_free :: "(('txn, 'db, 'g, 'ab, 'z) rpc_node_scheme \<Rightarrow> bool) \<Rightarrow> bool" where
  "store_free P \<longleftrightarrow> (\<forall>w x. P (w\<lparr>rn_router := x\<rparr>) = P w)"

lemma keeps_at_router [keep_rules]: "store_free P \<Longrightarrow> keeps P (at_router m)"
  by (auto simp: keeps_def at_router_def store_free_def split: prod.splits)

lemma keeps_at_store [keep_rules]: "store_free P \<Longrightarrow> keeps P (at_store m)"
  by (simp add: at_store_def keeps_at_router)

lemma okeeps_route_message [keep_rules]: "store_free P \<Longrightarrow> okeeps P (route_message E mw)"
  by (auto simp: okeeps_def route_message_def store_free_def)

lemma okeeps_try_scope [keep_rules]:
  assumes P: "store_free P" and body: "okeeps P body"
  shows "okeeps P (try_scope E body)"
proof -
  have c: "keeps P (scope_commit E)" "keeps P (scope_destroy E)"
    unfolding scope_commit_def scope_destroy_def by (intro keep_rules P)+
  have "okeeps P (in_scope E body)"
    unfolding in_scope_def
  proof (rule okeeps_obind)
    show "okeeps P (returning (at_store createTransaction))" by (intro keep_rules P)
    have fin: "P s \<Longrightarrow> keeps P m \<Longrightarrow> m s = (r, t) \<Longrightarrow> P t" for s r t and m :: "(('a, 'b, 'c, 'd, 'e) rpc_node_scheme, bool) prog"
      by (blast dest: keepsD)
    have k: "keeps P (sbind (scope_destroy E) (\<lambda>_. sthrow e))" "keeps P (sbind (scope_commit E) (\<lambda>_. sreturn b))"
      "keeps P (sbind (scope_destroy E) (\<lambda>_. sreturn b))" for e b
      by (intro keep_rules c)+
    show "okeeps P (\<lambda>w. case body w of None \<Rightarrow> None
     | Some (Inl e, w1) \<Rightarrow> Some (if is_exception e then sbind (scope_destroy E) (\<lambda>_. sthrow e) w1 else (Inl e, w1))
     | Some (Inr FallThrough, w1) \<Rightarrow> Some (sbind (scope_commit E) (\<lambda>_. sreturn True) w1)
     | Some (Inr CommitAndReturn, w1) \<Rightarrow> Some (sbind (scope_commit E) (\<lambda>_. sreturn False) w1)
     | Some (Inr ReturnUncommitted, w1) \<Rightarrow> Some (sbind (scope_destroy E) (\<lambda>_. sreturn False) w1))"
      unfolding okeeps_def
      by (auto split: option.splits sum.splits leaving.splits if_splits prod.splits dest: okeepsD [OF body] fin [OF _ k(1)] fin [OF _ k(2)] fin [OF _ k(3)])
  qed
  then show ?thesis by (auto simp: okeeps_def try_scope_def split: sum.split_asm if_split_asm)
qed

section \<open>The events of the server\<close>

fun is_own :: "io_operation \<Rightarrow> bool" where
  "is_own (AsyncOutBound frame) = False"
| "is_own oper = True"

definition own_operations :: "server_session \<Rightarrow> io_operation list" where
  "own_operations ss = filter is_own (ss_pending ss)"

definition completed :: "nat \<Rightarrow> io_operation \<Rightarrow> ('txn, 'db, 'g, 'ab) rpc_server \<Rightarrow> ('txn, 'db, 'g, 'ab) rpc_server" where
  "completed sid oper w = w\<lparr>rs_sessions := (rs_sessions w)(sid := map_option
     (\<lambda>ss. ss\<lparr>ss_pending := remove1 oper (ss_pending ss)\<rparr>) (rs_sessions w sid))\<rparr>"

definition arrived :: "nat \<Rightarrow> string \<Rightarrow> ('txn, 'db, 'g, 'ab) rpc_server \<Rightarrow> ('txn, 'db, 'g, 'ab) rpc_server" where
  "arrived sid data w = snd (put_buffer sid data (completed sid AsyncRead w))"

definition is_pending :: "nat \<Rightarrow> io_operation \<Rightarrow> ('txn, 'db, 'g, 'ab) rpc_server \<Rightarrow> bool" where
  "is_pending sid oper w \<longleftrightarrow> (\<exists>ss. rs_sessions w sid = Some ss \<and> oper \<in> set (ss_pending ss))"

inductive server_step ::
  "('txn, 'db, 'g, 'any, 'tb, 'ab, 'sb, 'priv, 'pub) rpc_env \<Rightarrow> ('txn, 'db, 'g, 'ab) rpc_server \<Rightarrow>
   ('txn, 'db, 'g, 'ab) rpc_server \<Rightarrow> bool" for E where
  accept: "rs_sessions w sid = None \<Longrightarrow>
     sbind (listener_on_accept sid l r) (\<lambda>_. session_on_accept sid failed) w = (res, w') \<Longrightarrow> server_step E w w'"
| read: "is_pending sid AsyncRead w \<Longrightarrow> session_on_read E sid ec (arrived sid data w) = Some (res, w') \<Longrightarrow>
     server_step E w w'"
| written: "is_pending sid (AsyncWrite frame) w \<Longrightarrow>
     session_on_write sid failed (completed sid (AsyncWrite frame) w) = (res, w') \<Longrightarrow> server_step E w w'"
| sent: "is_pending sid (AsyncOutBound frame) w \<Longrightarrow>
     session_on_outBoundWrite sid failed (completed sid (AsyncOutBound frame) w) = (res, w') \<Longrightarrow> server_step E w w'"
| route: "RpcServer_routeTransaction E mw w = (res, w') \<Longrightarrow> server_step E w w'"

section \<open>What the handlers keep\<close>

definition session_ok :: "server_session \<Rightarrow> bool" where
  "session_ok ss \<longleftrightarrow> own_operations ss = [] \<or> own_operations ss = [AsyncRead] \<and> ss_buffer ss = [] \<or>
     own_operations ss = [AsyncWrite (ss_buffer ss)]"

definition greeted :: "('txn, 'db, 'g, 'ab) rpc_server \<Rightarrow> nat \<Rightarrow> bool" where
  "greeted w sid \<longleftrightarrow> (\<exists>ss. rs_sessions w sid = Some ss \<and> ss_hello ss \<noteq> None)"

definition cache_ok :: "('txn, 'db, 'g, 'ab) rpc_server \<Rightarrow> bool" where
  "cache_ok w \<longleftrightarrow> distinct (map fst (rs_accountSessionMap w)) \<and> (\<forall>account sid.
     map_of (rs_accountSessionMap w) account = Some sid \<longrightarrow> greeted w sid)"

definition server_ok :: "('txn, 'db, 'g, 'ab) rpc_server \<Rightarrow> bool" where
  "server_ok w \<longleftrightarrow> cache_ok w \<and> (\<forall>sid ss. rs_sessions w sid = Some ss \<longrightarrow> session_ok ss)"

text \<open>The same while the handler of a session runs, which has no operation of its own under way.\<close>

definition busy :: "nat \<Rightarrow> ('txn, 'db, 'g, 'ab) rpc_server \<Rightarrow> bool" where
  "busy sid w \<longleftrightarrow> server_ok w \<and> (\<forall>ss. rs_sessions w sid = Some ss \<longrightarrow> own_operations ss = [])"

lemmas ok_defs = server_ok_def busy_def cache_ok_def greeted_def session_ok_def own_operations_def

lemma on_session_Some:
  "rs_sessions w sid = Some ss \<Longrightarrow> on_session sid m w = (fst (m ss), w\<lparr>rs_sessions := (rs_sessions w)(sid \<mapsto> snd (m ss))\<rparr>)"
  by (simp add: on_session_def split: prod.splits)

lemma on_session_None: "rs_sessions w sid = None \<Longrightarrow> on_session sid m w = (Inl NullPointerDereference, w)"
  by (simp add: on_session_def)

text \<open>A change to one session.\<close>

lemma server_ok_session:
  assumes "server_ok w" and "session_ok ss'"
    and "\<And>ss. rs_sessions w sid = Some ss \<Longrightarrow> ss_hello ss \<noteq> None \<Longrightarrow> ss_hello ss' \<noteq> None"
  shows "server_ok (w\<lparr>rs_sessions := (rs_sessions w)(sid \<mapsto> ss')\<rparr>)"
proof -
  have "greeted (w\<lparr>rs_sessions := (rs_sessions w)(sid \<mapsto> ss')\<rparr>) i" if "greeted w i" for i
    using that assms(3) by (cases "i = sid") (auto simp: greeted_def)
  then show ?thesis using assms(1,2) by (simp add: server_ok_def cache_ok_def)
qed

lemma busy_session:
  assumes "server_ok w" and "own_operations ss' = []"
    and "\<And>ss. rs_sessions w sid = Some ss \<Longrightarrow> ss_hello ss \<noteq> None \<Longrightarrow> ss_hello ss' \<noteq> None"
  shows "busy sid (w\<lparr>rs_sessions := (rs_sessions w)(sid \<mapsto> ss')\<rparr>)"
  using server_ok_session [OF assms(1) _ assms(3)] assms(2) by (simp add: busy_def session_ok_def)

lemma busy_ok: "busy sid w \<Longrightarrow> server_ok w"
  by (simp add: busy_def)

lemma busy_store_free [keep_rules]: "store_free (busy sid)" "store_free server_ok"
  by (simp_all add: store_free_def ok_defs)

lemma busy_on_session [keep_rules]:
  assumes "\<And>ss. own_operations ss = [] \<Longrightarrow> own_operations (snd (m ss)) = []"
    and "\<And>ss. ss_hello ss \<noteq> None \<Longrightarrow> ss_hello (snd (m ss)) \<noteq> None"
  shows "keeps (busy sid) (on_session sid m)"
  unfolding keeps_def
proof (intro allI impI)
  fix w :: "('b, 'c, 'd, 'e) rpc_server" assume b: "busy sid w"
  show "busy sid (snd (on_session sid m w))"
  proof (cases "rs_sessions w sid")
    case None
    with b show ?thesis by (simp add: on_session_None)
  next
    case (Some ss)
    with b have "server_ok w" "own_operations ss = []" by (simp_all add: busy_def)
    with busy_session [of w "snd (m ss)" sid] assms Some show ?thesis by (simp add: on_session_Some)
  qed
qed

lemma busy_session_programs [keep_rules]:
  "keeps (busy sid) (put_buffer sid text)" "keeps (busy sid) (session_hello sid)" "keeps (busy sid) (log_account sid)"
  "keeps (busy sid) (hello_account sid)" "keeps (busy sid) (on_session sid (sget g))" "keeps (busy sid) (on_session sid take_buffer)"
  unfolding put_buffer_def session_hello_def log_account_def hello_account_def
  by (intro keep_rules; simp add: smodify_def sget_def take_buffer_def own_operations_def)+

lemma busy_removeAccount [keep_rules]: "keeps (busy sid) (removeAccount account)"
  unfolding removeAccount_def by (rule keeps_smodify) (simp add: ok_defs)

lemma busy_peers [keep_rules]: "keeps (busy sid) (peers_addPeer a h)" "keeps (busy sid) (setExternalIp E ip)"
proof -
  show p: "keeps (busy sid) (peers_addPeer a h)" for a h
    unfolding peers_addPeer_def by (rule keeps_smodify) (simp add: ok_defs)
  have "keeps (busy sid) (smodify (\<lambda>w. w\<lparr>rs_externalIp := Some ip\<rparr>))"
    by (rule keeps_smodify) (simp add: ok_defs)
  then have "keeps (busy sid) (sbind (smodify (\<lambda>w. w\<lparr>rs_externalIp := Some ip\<rparr>)) (\<lambda>_. peers_addPeer x y))" for x y
    by (intro keep_rules p)
  then show "keeps (busy sid) (setExternalIp E ip)" by (auto simp: keeps_def setExternalIp_def)
qed

text \<open>A session is put into the cache only after it has said hello.\<close>

lemma busy_register_account:
  assumes "\<And>x. keeps (busy sid) (k x)"
  shows "keeps (busy sid) (sbind (hello_account sid) (\<lambda>account. sbind (addAccount account sid) k))"
  unfolding keeps_def
proof (intro allI impI)
  fix w :: "('a, 'b, 'c, 'd) rpc_server" assume b: "busy sid w"
  show "busy sid (snd (sbind (hello_account sid) (\<lambda>account. sbind (addAccount account sid) k) w))"
  proof (cases "fst (hello_account sid w)")
    case (Inl e)
    moreover have "busy sid (snd (hello_account sid w))" using b keepsD [OF busy_session_programs(4) prod.collapse [symmetric]] by blast
    ultimately show ?thesis by (cases "hello_account sid w") (simp add: sbind_def)
  next
    case (Inr account)
    then obtain ss h where ss: "rs_sessions w sid = Some ss" "ss_hello ss = Some h"
      by (auto simp: hello_account_def session_hello_def on_session_def sbind_def sreturn_def deref_def
          split: option.splits prod.splits sum.splits)
    then have "snd (hello_account sid w) = w"
      by (cases w) (simp add: hello_account_def session_hello_def on_session_def sbind_def sreturn_def fun_upd_idem deref_def)
    moreover have "busy sid (snd (addAccount account sid w))"
      using b ss by (auto simp: addAccount_def smodify_def ok_defs)
    ultimately show ?thesis using Inr assms [of "()"]
      by (cases "hello_account sid w") (simp add: sbind_def addAccount_def smodify_def keeps_def)
  qed
qed

lemma busy_handlers [keep_rules]:
  "keeps (busy sid) (handleHello E sid p)" "keeps (busy sid) (handleHelloConsensus E sid p)"
  "keeps (busy sid) (handlePeer E sid p)" "keeps (busy sid) (handleRegister E sid p)"
  "keeps (busy sid) (handleTransactionProcessed E sid p)"
  "okeeps (busy sid) (handleTransaction E sid p)"
proof -
  have hello: "keeps (busy sid) (on_session sid (smodify (\<lambda>ss. ss\<lparr>ss_hello := Some h\<rparr>)))" for h
    by (intro keep_rules) (simp_all add: smodify_def own_operations_def)
  show "keeps (busy sid) (handleHello E sid p)" "keeps (busy sid) (handleHelloConsensus E sid p)"
    "keeps (busy sid) (handlePeer E sid p)" "keeps (busy sid) (handleTransactionProcessed E sid p)"
    "okeeps (busy sid) (handleTransaction E sid p)"
    unfolding handleHello_def handleHelloConsensus_def handlePeer_def handleTransactionProcessed_def handleTransaction_def Let_def
    by (intro keep_rules hello)+
  show "keeps (busy sid) (handleRegister E sid p)"
    unfolding handleRegister_def Let_def by (intro busy_register_account keep_rules)
qed

lemma busy_server_command [keep_rules]: "okeeps (busy sid) (server_command E sid command payload)"
  unfolding server_command_def by (intro keep_rules)

lemma busy_session_closed [keep_rules]: "keeps (busy sid) (session_closed sid)"
proof -
  have "keeps (busy sid) (\<lambda>w. if hasSession a w then removeAccount a w else (Inr (), w))" for a
    by (auto simp: keeps_def intro: keepsD [OF busy_removeAccount prod.collapse [symmetric]])
  then have "keeps (busy sid) (case hello of None \<Rightarrow> sreturn ()
     | Some h \<Rightarrow> let accountHash = copyVectorToString (helo_getAccountHash h) in
         (\<lambda>w. if hasSession accountHash w then removeAccount accountHash w else (Inr (), w)))" for hello
    by (cases hello) (simp_all add: keep_rules Let_def)
  then show ?thesis unfolding session_closed_def by (intro keeps_sbind busy_session_programs)
qed

section \<open>What every reachable server keeps\<close>

text \<open>The last step of a handler starts the session's next operation.\<close>

lemma busy_start:
  assumes "busy sid w" and "\<And>ss. own_operations ss = [] \<Longrightarrow> session_ok (snd (m ss)) \<and> ss_hello (snd (m ss)) = ss_hello ss"
  shows "server_ok (snd (on_session sid m w))"
proof (cases "rs_sessions w sid")
  case None
  with assms(1) show ?thesis by (simp add: on_session_None busy_ok)
next
  case (Some ss)
  then have "session_ok (snd (m ss))" "ss_hello (snd (m ss)) = ss_hello ss" using assms by (auto simp: busy_def)
  with server_ok_session [OF busy_ok [OF assms(1)], of "snd (m ss)" sid] Some show ?thesis
    by (simp add: on_session_Some)
qed

lemma start_write_ok:
  "own_operations ss = [] \<Longrightarrow> session_ok (snd (start_write ss)) \<and> ss_hello (snd (start_write ss)) = ss_hello ss"
  by (simp add: start_write_def smodify_def session_ok_def own_operations_def)

lemma next_read_ok:
  "own_operations ss = [] \<Longrightarrow> ss' = snd (sbind (smodify (\<lambda>ss. ss\<lparr>ss_buffer := []\<rparr>)) (\<lambda>_. do_read) ss) \<Longrightarrow>
   session_ok ss' \<and> ss_hello ss' = ss_hello ss"
  by (simp add: do_read_def smodify_def sbind_def session_ok_def own_operations_def)

lemma session_on_read_ok:
  assumes "busy sid w" and "session_on_read E sid ec w = Some (r, w')"
  shows "server_ok w'"
proof (cases "ec = ReadClosed")
  case True
  then have "session_closed sid w = (r, w')" using assms(2) by (simp add: session_on_read_def returning_def)
  from keepsD [OF busy_session_closed this assms(1)] show ?thesis by (rule busy_ok)
next
  case False
  obtain d w1 where d: "on_session sid take_buffer w = (d, w1)" by fastforce
  then have b1: "busy sid w1" using assms(1) busy_session_programs(6) keepsD by metis
  show ?thesis
  proof (cases d)
    case (Inl e)
    with assms(2) False d b1 show ?thesis by (simp add: session_on_read_def obind_def returning_def busy_ok)
  next
    case (Inr data)
    with assms(2) False d obtain ws where ws: "tokenize data '' '' = Some ws"
      by (cases "tokenize data '' ''") (simp_all add: session_on_read_def obind_def returning_def)
    define body where "body = server_command E sid (ws ! 0) (if length ws = 2 then ws ! 1 else [])"
    from assms(2) False d Inr ws have run: "obind (try_scope E body) (\<lambda>go_on.
        returning (if go_on then on_session sid start_write else sreturn ())) w1 = Some (r, w')"
      by (simp add: session_on_read_def obind_def returning_def body_def Let_def)
    then obtain q w2 where q: "try_scope E body w1 = Some (q, w2)" by (auto simp: obind_def split: option.splits)
    have "okeeps (busy sid) (try_scope E body)" unfolding body_def by (intro keep_rules)
    from okeepsD [OF this q b1] have b2: "busy sid w2" .
    have w2: "server_ok (snd (on_session sid start_write w2))" by (rule busy_start [OF b2 start_write_ok])
    show ?thesis
    proof (cases q)
      case (Inl e)
      with run q have "w' = w2" by (simp add: obind_Inl)
      with busy_ok [OF b2] show ?thesis by simp
    next
      case (Inr go_on)
      with run q have fin: "(if go_on then on_session sid start_write else sreturn ()) w2 = (r, w')"
        by (simp add: obind_Inr returning_def)
      show ?thesis
      proof (cases go_on)
        case True
        with fin have "on_session sid start_write w2 = (r, w')" by simp
        with w2 show ?thesis by simp
      next
        case False
        with fin have "w' = w2" by (simp add: sreturn_def)
        with busy_ok [OF b2] show ?thesis by simp
      qed
    qed
  qed
qed

lemma completed_busy:
  assumes "server_ok w" and "is_pending sid oper w" and "is_own oper"
  shows "busy sid (completed sid oper w)"
proof -
  obtain ss where ss: "rs_sessions w sid = Some ss" "oper \<in> set (ss_pending ss)"
    using assms(2) by (auto simp: is_pending_def)
  have "oper \<in> set (own_operations ss)" using ss(2) assms(3) by (simp add: own_operations_def)
  moreover have "session_ok ss" using assms(1) ss by (simp add: server_ok_def)
  ultimately have "own_operations ss = [oper]" by (auto simp: session_ok_def)
  moreover have "filter P (remove1 oper xs) = remove1 oper (filter P xs)" if "P oper" for P and xs :: "io_operation list"
    using that by (induction xs) auto
  ultimately have "own_operations (ss\<lparr>ss_pending := remove1 oper (ss_pending ss)\<rparr>) = []"
    using assms(3) by (simp add: own_operations_def)
  from busy_session [OF assms(1) this, of sid] ss(1) show ?thesis by (simp add: completed_def)
qed

lemma completed_outbound_ok:
  assumes "server_ok w"
  shows "server_ok (completed sid (AsyncOutBound frame) w)"
proof (cases "rs_sessions w sid")
  case None
  with assms show ?thesis by (simp add: completed_def fun_upd_idem)
next
  case (Some ss)
  have "filter is_own (remove1 (AsyncOutBound frame) xs) = filter is_own xs" for xs
    by (induction xs) auto
  then have "session_ok (ss\<lparr>ss_pending := remove1 (AsyncOutBound frame) (ss_pending ss)\<rparr>) = session_ok ss"
    by (simp add: session_ok_def own_operations_def)
  moreover have "session_ok ss" using Some assms by (simp add: server_ok_def)
  ultimately show ?thesis
    using server_ok_session [OF assms, of "ss\<lparr>ss_pending := remove1 (AsyncOutBound frame) (ss_pending ss)\<rparr>" sid] Some
    by (simp add: completed_def)
qed

lemma session_closed_ok:
  assumes "server_ok w" and "session_closed sid w = (r, w')"
  shows "server_ok w'"
proof -
  have rem: "server_ok (snd (removeAccount a w))" for a
    using assms(1) by (simp add: removeAccount_def smodify_def server_ok_def cache_ok_def greeted_def)
  have id: "w\<lparr>rs_sessions := (rs_sessions w)(sid \<mapsto> ss)\<rparr> = w" if "rs_sessions w sid = Some ss" for ss
    using that by (simp add: fun_upd_idem)
  show ?thesis
    using assms rem id
    by (auto simp: session_closed_def on_session_def sget_def sbind_def sreturn_def Let_def split: option.splits if_splits)
       (metis snd_conv)+
qed

lemma server_step_ok:
  assumes "server_step E w w'" and "server_ok w"
  shows "server_ok w'"
  using assms
proof (cases rule: server_step.cases)
  case (accept sid l r failed res)
  let ?w1 = "w\<lparr>rs_sessions := (rs_sessions w)(sid \<mapsto> accepted_session l r)\<rparr>"
  have b: "busy sid ?w1"
    by (rule busy_session [OF assms(2)]) (simp_all add: accept(1) accepted_session_def own_operations_def)
  moreover have "server_ok (snd (on_session sid do_read ?w1))"
    using server_ok_session [OF busy_ok [OF b], of "snd (do_read (accepted_session l r))" sid]
    by (simp add: on_session_Some do_read_def smodify_def session_ok_def own_operations_def accepted_session_def)
  ultimately show ?thesis using accept(2)
    by (cases failed) (simp_all add: sbind_def listener_on_accept_def smodify_def session_on_accept_def sreturn_def busy_ok)
next
  case (read sid ec data res)
  have "busy sid (completed sid AsyncRead w)" using completed_busy [OF assms(2) read(1)] by simp
  from keepsD [OF busy_session_programs(1) prod.collapse [symmetric] this] have "busy sid (arrived sid data w)"
    by (simp add: arrived_def)
  from session_on_read_ok [OF this read(2)] show ?thesis .
next
  case (written sid frame failed res)
  have b: "busy sid (completed sid (AsyncWrite frame) w)" using completed_busy [OF assms(2) written(1)] by simp
  have "server_ok (snd (on_session sid (sbind (smodify (\<lambda>ss. ss\<lparr>ss_buffer := []\<rparr>)) (\<lambda>_. do_read)) (completed sid (AsyncWrite frame) w)))"
    by (rule busy_start [OF b]) (blast dest: next_read_ok [OF _ refl])
  then show ?thesis using written(2) b
    by (auto simp: session_on_write_def sreturn_def busy_ok split: if_splits)
next
  case (sent sid frame failed res)
  have "server_ok (completed sid (AsyncOutBound frame) w)" using assms(2) by (rule completed_outbound_ok)
  with sent(2) session_closed_ok show ?thesis
    by (auto simp: session_on_outBoundWrite_def sreturn_def split: if_splits)
next
  case (route mw res)
  have snd: "session_ok ss' = session_ok ss" "ss_hello ss' = ss_hello ss" if "ss' = snd (session_routeTransaction E mw ss)" for ss ss'
    using that by (simp_all add: session_routeTransaction_def smodify_def session_ok_def own_operations_def)
  have ok: "server_ok (snd (on_session sid (session_routeTransaction E mw) w))" for sid
  proof (cases "rs_sessions w sid")
    case None
    with assms(2) show ?thesis by (simp add: on_session_None)
  next
    case (Some ss)
    then have "session_ok ss" using assms(2) by (simp add: server_ok_def)
    with server_ok_session [OF assms(2), of "snd (session_routeTransaction E mw ss)" sid] Some snd [OF refl, of ss]
    show ?thesis by (simp add: on_session_Some)
  qed
  have "snd (RpcServer_routeTransaction E mw w) = w \<or>
      (\<exists>sid. snd (RpcServer_routeTransaction E mw w) = snd (on_session sid (session_routeTransaction E mw) w))"
    by (auto simp: RpcServer_routeTransaction_def sbind_def slift_def sreturn_def split: option.splits prod.splits sum.splits)
       (metis snd_conv)+
  with ok assms(2) route show ?thesis by auto
qed

text \<open>C6: whatever the peers send, a session of the RPC server never has more than one read or reply
  of its own under way. In every state the server reaches from its start by accepting connections,
  by completing reads, replies and forwarded messages in any order and with any outcome, and by
  routing messages, a session that waits for a message has an empty buffer, and the buffer of a
  reply that is being written is not changed before the write has completed. The cache of the
  sessions by account has each account once and names only sessions that have said hello.\<close>

theorem server_sessions_have_one_operation:
  fixes E :: "('txn, 'db, 'g, 'any, 'tb, 'ab, 'sb, 'priv, 'pub) rpc_env"
  assumes "(server_step E)\<^sup>*\<^sup>* w0 w" and "rs_sessions w0 = (\<lambda>_. None)" and "rs_accountSessionMap w0 = []"
  shows "(\<forall>sid ss. rs_sessions w sid = Some ss \<longrightarrow>
       own_operations ss \<in> {[], [AsyncRead], [AsyncWrite (ss_buffer ss)]} \<and>
       (AsyncRead \<in> set (ss_pending ss) \<longrightarrow> ss_buffer ss = [])) \<and>
     distinct (map fst (rs_accountSessionMap w)) \<and>
     (\<forall>account sid. map_of (rs_accountSessionMap w) account = Some sid \<longrightarrow>
        (\<exists>ss. rs_sessions w sid = Some ss \<and> ss_hello ss \<noteq> None))"
proof -
  have "server_ok w0" by (simp add: ok_defs assms(2,3))
  with assms(1) have ok: "server_ok w" by (induction rule: rtranclp_induct) (auto dest: server_step_ok)
  have own: "AsyncRead \<in> set (ss_pending ss) \<Longrightarrow> AsyncRead \<in> set (own_operations ss)" for ss
    by (simp add: own_operations_def)
  show ?thesis using ok own by (fastforce simp: server_ok_def cache_ok_def greeted_def session_ok_def)
qed

end
