(* ===== verification/RpcClient.thy ===== *)
theory RpcClient
  imports RpcProtocol Builders AccountService
begin

text \<open>
  The RPC client, \<open>modules/rpc_client\<close>: the sessions with servers (\<open>RpcSession\<close>) and their manager
  (\<open>RpcSessionManager\<close>). As in the RPC server a session is an identifier with a list of pending
  operations. A vector indexed past its end is undefined behaviour.
\<close>

section \<open>State\<close>

record client_session =
  cs_buffer :: string
  cs_peered :: bool
  cs_host :: string
  cs_port :: string
  cs_keyLoader :: KeyLoader
  cs_accountHash :: string
  cs_pending :: "io_operation list"
  cs_sent :: "string list"

record client_config =
  cfg_files :: file_system
  cfg_private_key :: "string option"
  cfg_public_key :: "string option"
  cfg_peers :: "string option"

record ('txn, 'db, 'g, 'ab) rpc_client = "('txn, 'db, 'g, 'ab) rpc_node" +
  rc_config :: client_config
  rc_sessionMap :: "(string \<times> nat) list"
  rc_accountSessionMap :: "(string \<times> nat) list"
  rc_peered :: bool
  rc_sessions :: "nat \<Rightarrow> client_session option"
  rc_next :: nat

definition CLIENT_DEFAULT_PORT_NUMBER :: string where "CLIENT_DEFAULT_PORT_NUMBER = ''28003''"

definition on_client :: "nat \<Rightarrow> (client_session, 'a) prog \<Rightarrow> (('txn, 'db, 'g, 'ab) rpc_client, 'a) prog" where
  "on_client cid m w = (case rc_sessions w cid of
       None \<Rightarrow> (Inl NullPointerDereference, w)
     | Some cs \<Rightarrow> (case m cs of (r, cs1) \<Rightarrow> (r, w\<lparr>rc_sessions := (rc_sessions w)(cid \<mapsto> cs1)\<rparr>)))"

text \<open>\<open>operator[]\<close> of a vector.\<close>

definition vector_at :: "'a list \<Rightarrow> nat \<Rightarrow> 'a result" where
  "vector_at xs i = (if i < length xs then Inr (xs ! i) else Inl UndefinedBehaviour)"

section \<open>Construction of a session\<close>

text \<open>\<open>boost::split\<close> at every colon.\<close>

fun split_colon :: "string \<Rightarrow> string list" where
  "split_colon [] = [[]]"
| "split_colon (c # cs) = (if c = CHR '':'' then [] # split_colon cs
     else (case split_colon cs of [] \<Rightarrow> [[c]] | w # ws \<Rightarrow> (c # w) # ws))"

definition RpcSession :: "client_config \<Rightarrow> bool \<Rightarrow> string \<Rightarrow> client_session result" where
  "RpcSession config peered host =
     (let (h, p) = (if CHR '':'' \<in> set host then (let results = split_colon host in (results ! 0, results ! 1))
                    else (host, CLIENT_DEFAULT_PORT_NUMBER))
      in case cfg_private_key config of
           None \<Rightarrow> Inl PrivateKeyNotConfiguredException
         | Some privateKeyPath \<Rightarrow> (case cfg_public_key config of
             None \<Rightarrow> Inl PrivateKeyNotConfiguredException
           | Some publicKeyPath \<Rightarrow>
               rmap (\<lambda>loader. \<lparr>cs_buffer = [], cs_peered = peered, cs_host = h, cs_port = p, cs_keyLoader = loader,
                   cs_accountHash = [], cs_pending = [], cs_sent = []\<rparr>)
                 (KeyLoader_of_pair (cfg_files config) privateKeyPath publicKeyPath)))"

text \<open>\<open>std::make_shared<RpcSession>\<close> gives a session nobody else has.\<close>

definition make_session :: "bool \<Rightarrow> string \<Rightarrow> (('txn, 'db, 'g, 'ab) rpc_client, nat) prog" where
  "make_session peered host w = (case RpcSession (rc_config w) peered host of
       Inl e \<Rightarrow> (Inl e, w)
     | Inr cs \<Rightarrow> (Inr (rc_next w), w\<lparr>rc_sessions := (rc_sessions w)(rc_next w \<mapsto> cs), rc_next := rc_next w + 1\<rparr>))"

section \<open>RpcSessionManager\<close>

text \<open>The constructor, with the peers of the configuration.\<close>

definition new_RpcSessionManager :: "(('txn, 'db, 'g, 'ab) rpc_client, unit) oprog" where
  "new_RpcSessionManager = obind (returning (smodify (\<lambda>w. w\<lparr>rc_peered := False\<rparr>))) (\<lambda>_.
     obind (returning (sget (\<lambda>w. cfg_peers (rc_config w)))) (\<lambda>config. case config of
       None \<Rightarrow> returning (sreturn ())
     | Some peersString \<Rightarrow> if peersString = [] then returning (sreturn ())
         else (case tokenize peersString '','' of
             None \<Rightarrow> (\<lambda>w. None)
           | Some peers \<Rightarrow> returning (sfor peers (\<lambda>peer.
               sbind (sget rc_peered) (\<lambda>peered. sbind (make_session peered peer) (\<lambda>cid.
               smodify (\<lambda>w. w\<lparr>rc_sessionMap := map_set peer cid (rc_sessionMap w)\<rparr>))))))))"

definition session_run :: "(client_session, unit) prog" where
  "session_run = smodify (\<lambda>cs. cs\<lparr>cs_pending := cs_pending cs @ [AsyncConnect]\<rparr>)"

definition manager_setPeers :: "string list \<Rightarrow> (('txn, 'db, 'g, 'ab) rpc_client, unit) prog" where
  "manager_setPeers peers =
     sbind (smodify (\<lambda>w. w\<lparr>rc_peered := True\<rparr>)) (\<lambda>_.
     sfor peers (\<lambda>peer.
       sbind (sget rc_peered) (\<lambda>peered. sbind (make_session peered peer) (\<lambda>cid.
       sbind (smodify (\<lambda>w. w\<lparr>rc_sessionMap := map_set peer cid (rc_sessionMap w)\<rparr>)) (\<lambda>_.
       on_client cid session_run)))))"

definition listPeers :: "('txn, 'db, 'g, 'ab) rpc_client \<Rightarrow> string list" where
  "listPeers w = map fst (rc_sessionMap w)"

definition setAccountSessionMapping :: "string \<Rightarrow> nat \<Rightarrow> (('txn, 'db, 'g, 'ab) rpc_client, unit) prog" where
  "setAccountSessionMapping account cid =
     smodify (\<lambda>w. w\<lparr>rc_accountSessionMap := map_set account cid (rc_accountSessionMap w)\<rparr>)"

definition hasAccountSessionMapping :: "string \<Rightarrow> ('txn, 'db, 'g, 'ab) rpc_client \<Rightarrow> bool" where
  "hasAccountSessionMapping account w \<longleftrightarrow> map_of (rc_accountSessionMap w) account \<noteq> None"

definition getDefaultPeer :: "('txn, 'db, 'g, 'ab) rpc_client \<Rightarrow> nat option" where
  "getDefaultPeer w = (case rc_sessionMap w of [] \<Rightarrow> None | (host, cid) # rest \<Rightarrow> Some cid)"

definition manager_postStart :: "(('txn, 'db, 'g, 'ab) rpc_client, unit) prog" where
  "manager_postStart = sbind (sget rc_sessionMap) (\<lambda>m. sfor m (\<lambda>(host, cid). on_client cid session_run))"

section \<open>Operations of a session\<close>

definition client_start_write :: "(client_session, unit) prog" where
  "client_start_write = smodify (\<lambda>cs. cs\<lparr>cs_pending := cs_pending cs @ [AsyncWrite (cs_buffer cs)],
     cs_sent := cs_sent cs @ [cs_buffer cs]\<rparr>)"

definition client_async_read :: "(client_session, unit) prog" where
  "client_async_read = smodify (\<lambda>cs. cs\<lparr>cs_pending := cs_pending cs @ [AsyncRead]\<rparr>)"

definition client_async_close :: "(client_session, unit) prog" where
  "client_async_close = smodify (\<lambda>cs. cs\<lparr>cs_pending := cs_pending cs @ [AsyncClose]\<rparr>)"

definition client_put :: "string \<Rightarrow> (client_session, unit) prog" where
  "client_put text = smodify (\<lambda>cs. cs\<lparr>cs_buffer := cs_buffer cs @ text\<rparr>)"

definition client_write :: "nat \<Rightarrow> string \<Rightarrow> (('txn, 'db, 'g, 'ab) rpc_client, unit) prog" where
  "client_write cid text = on_client cid (sbind (client_put text) (\<lambda>_. client_start_write))"

definition buildHeloMessage ::
  "('txn, 'db, 'g, 'any, 'tb, 'ab, 'sb, 'priv, 'pub) rpc_env \<Rightarrow> KeyLoader \<Rightarrow> bytes result" where
  "buildHeloMessage E keyLoader =
     rmap (\<lambda>h. copyStringToVector (helo_string (re_wire E) h))
       (helo_sign (ce_botan (re_consensus E)) keyLoader
         (helo_setAccountHash new_ServerHelloProtoHelper (server_account (re_router E))))"

definition buildConsensus_message ::
  "('txn, 'db, 'g, 'any, 'tb, 'ab, 'sb, 'priv, 'pub) rpc_env \<Rightarrow> HashHelper \<Rightarrow>
   (('txn, 'db, 'g, 'ab) rpc_client, bytes) oprog" where
  "buildConsensus_message E hashHelper w =
     (let moduleHashMessage = moduleHash_setHash new_ModuleHashMessageHelper (HashHelper_SecureVector hashHelper)
      in map_option (\<lambda>r. (rmap (\<lambda>consensusMessage. copyStringToVector (serialize_consensus (re_wire E) consensusMessage)) r, w))
        (generateSoftwareConsensus (re_consensus E) (re_consensus_wire E) (re_keyLoader E) (server_account (re_router E))
          (fst (re_clock E)) (snd (re_clock E)) (rn_consensus w) moduleHashMessage))"

definition client_on_handshake ::
  "('txn, 'db, 'g, 'any, 'tb, 'ab, 'sb, 'priv, 'pub) rpc_env \<Rightarrow> nat \<Rightarrow> bool \<Rightarrow> (('txn, 'db, 'g, 'ab) rpc_client, unit) prog" where
  "client_on_handshake E cid failed = (if failed then sreturn ()
     else sbind (on_client cid (sget cs_keyLoader)) (\<lambda>keyLoader.
          sbind (slift (buildHeloMessage E keyLoader)) (\<lambda>b.
          client_write cid (buildMessage_vector (re_codecs E) HELLO b))))"

definition client_on_write :: "nat \<Rightarrow> bool \<Rightarrow> (('txn, 'db, 'g, 'ab) rpc_client, unit) prog" where
  "client_on_write cid failed = (if failed then sreturn ()
     else on_client cid (sbind (smodify (\<lambda>cs. cs\<lparr>cs_buffer := []\<rparr>)) (\<lambda>_. client_async_read)))"

text \<open>\<open>removeAccountSessionMapping\<close> is declared and called, and defined nowhere: it is an argument.\<close>

definition client_on_close ::
  "(string \<Rightarrow> (('txn, 'db, 'g, 'ab) rpc_client, unit) prog) \<Rightarrow> nat \<Rightarrow> bool \<Rightarrow> (('txn, 'db, 'g, 'ab) rpc_client, unit) prog" where
  "client_on_close removeAccountSessionMapping cid failed = (if failed then sreturn ()
     else sbind (on_client cid (sget (\<lambda>cs. (cs_peered cs, cs_accountHash cs)))) (\<lambda>(peered, accountHash).
       if peered \<and> accountHash \<noteq> [] then removeAccountSessionMapping accountHash else sreturn ()))"

section \<open>Responses\<close>

definition closeResponse :: "nat \<Rightarrow> (('txn, 'db, 'g, 'ab) rpc_client, unit) prog" where
  "closeResponse cid = on_client cid client_async_close"

definition helloConsensusResponse ::
  "('txn, 'db, 'g, 'any, 'tb, 'ab, 'sb, 'priv, 'pub) rpc_env \<Rightarrow> nat \<Rightarrow> string \<Rightarrow> string \<Rightarrow>
   (('txn, 'db, 'g, 'ab) rpc_client, unit) oprog" where
  "helloConsensusResponse E cid sessionKey initHash =
     obind (returning (slift (HashHelper_of_encoded (re_codecs E) initHash HEX))) (\<lambda>initHashHelper.
     obind (returning (slift (hex_decode_locked (re_codecs E) sessionKey))) (\<lambda>initVector.
     obind (returning (at_consensus (updateSessionKey (re_consensus E) initVector))) (\<lambda>_.
     obind (buildConsensus_message E initHashHelper) (\<lambda>b.
     returning (client_write cid (buildMessage_vector (re_codecs E) HELLO_CONSENSUS b))))))"

definition consensusSessionResponse ::
  "('txn, 'db, 'g, 'any, 'tb, 'ab, 'sb, 'priv, 'pub) rpc_env \<Rightarrow> nat \<Rightarrow> string \<Rightarrow> (('txn, 'db, 'g, 'ab) rpc_client, unit) prog" where
  "consensusSessionResponse E cid sessionKey =
     sbind (slift (hex_decode_locked (re_codecs E) sessionKey)) (\<lambda>initVector.
     sbind (at_consensus (updateSessionKey (re_consensus E) initVector)) (\<lambda>_.
     client_write cid (buildMessage CONSENSUS_SESSION ''OK'')))"

definition consensusResponse ::
  "('txn, 'db, 'g, 'any, 'tb, 'ab, 'sb, 'priv, 'pub) rpc_env \<Rightarrow> nat \<Rightarrow> string \<Rightarrow> (('txn, 'db, 'g, 'ab) rpc_client, unit) oprog" where
  "consensusResponse E cid message =
     obind (returning (slift (HashHelper_of_encoded (re_codecs E) message HEX))) (\<lambda>hashHelper.
     obind (buildConsensus_message E hashHelper) (\<lambda>b.
     returning (client_write cid (buildMessage_vector (re_codecs E) CONSENSUS b))))"

definition serverRequest :: "nat \<Rightarrow> string \<Rightarrow> string \<Rightarrow> (('txn, 'db, 'g, 'ab) rpc_client, unit) prog" where
  "serverRequest cid command message = client_write cid (command @ '' '' @ message)"

definition peerResponse ::
  "('txn, 'db, 'g, 'any, 'tb, 'ab, 'sb, 'priv, 'pub) rpc_env \<Rightarrow> nat \<Rightarrow> string \<Rightarrow> (('txn, 'db, 'g, 'ab) rpc_client, unit) prog" where
  "peerResponse E cid message =
     sbind (slift (rmap copyVectorToString (hex_decode_locked (re_codecs E) message))) (\<lambda>response.
     let peerResponseHelper = PeerResponseHelper_of_string (re_wire E) response in
     sbind (manager_setPeers (response_getPeers peerResponseHelper)) (\<lambda>_.
     on_client cid client_async_close))"

text \<open>\<open>None\<close> of the account module is its stack overflow.\<close>

definition handleRegisterRequest ::
  "('txn, 'db, 'g, 'any, 'tb, 'ab, 'sb, 'priv, 'pub) rpc_env \<Rightarrow> nat \<Rightarrow> (('txn, 'db, 'g, 'ab) rpc_client, unit) prog" where
  "handleRegisterRequest E cid =
     sbind (at_store (service_getNodeAccountRouting (re_depth E) (server_account (re_router E))
       (env_rocks (re_router E)) (env_accounts (re_router E)))) (\<lambda>r. case r of
         None \<Rightarrow> sthrow UndefinedBehaviour
       | Some rpcPeer \<Rightarrow> client_write cid (buildMessage_vector (re_codecs E) REGISTER
           (copyStringToVector (serialize_rpc_peer (re_wire E) rpcPeer))))"

definition client_handleTransaction ::
  "('txn, 'db, 'g, 'any, 'tb, 'ab, 'sb, 'priv, 'pub) rpc_env \<Rightarrow> nat \<Rightarrow> string \<Rightarrow> (('txn, 'db, 'g, 'ab) rpc_client, unit) oprog" where
  "client_handleTransaction E cid message =
     obind (returning (slift (rmap copyVectorToString (hex_decode_locked (re_codecs E) message)))) (\<lambda>b.
     let messageWrapper = wrapper_setSessionHash (parse_wrapper (re_wire E) b) (server_account (re_router E)) in
     obind (route_message E messageWrapper) (\<lambda>messageWrapperResponse.
     returning (client_write cid (TRANSACTION_PROCESSED @ '' '' @ hex_encode (re_codecs E)
       (copyStringToVector (serialize_response (re_wire E) messageWrapperResponse))))))"

definition registerResponse ::
  "('txn, 'db, 'g, 'any, 'tb, 'ab, 'sb, 'priv, 'pub) rpc_env \<Rightarrow> nat \<Rightarrow> string \<Rightarrow> (('txn, 'db, 'g, 'ab) rpc_client, unit) prog" where
  "registerResponse E cid message =
     sbind (slift (hex_decode_locked (re_codecs E) message)) (\<lambda>b.
     let rpcPeerHelper = peer_setAccountHash new_RpcPeerHelper b in
     sbind (on_client cid (smodify (\<lambda>cs. cs\<lparr>cs_accountHash := HashHelper_string (peer_getAccountHash rpcPeerHelper)\<rparr>))) (\<lambda>_.
     sbind (setAccountSessionMapping (peer_getAccountHashString rpcPeerHelper) cid) (\<lambda>_.
     sbind (at_router (registerRpcPeer (re_router E) rpcPeerHelper)) (\<lambda>_. sreturn ()))))"

section \<open>The handler of a read\<close>

definition client_command ::
  "('txn, 'db, 'g, 'any, 'tb, 'ab, 'sb, 'priv, 'pub) rpc_env \<Rightarrow> nat \<Rightarrow> string list \<Rightarrow>
   (('txn, 'db, 'g, 'ab) rpc_client, leaving) oprog" where
  "client_command E cid stringVector =
     (let command = stringVector ! 0; arg = (\<lambda>i. returning (slift (vector_at stringVector i))) in
      if command = HELLO_CONSENSUS
      then obind (arg 1) (\<lambda>sessionKey. obind (arg 2) (\<lambda>initHash.
           obind (helloConsensusResponse E cid sessionKey initHash) (\<lambda>_. returning (sreturn CommitAndReturn))))
      else if command = GO_AWAY
      then obind (arg 1) (\<lambda>_. obind (returning (closeResponse cid)) (\<lambda>_. returning (sreturn ReturnUncommitted)))
      else if command = ACCEPTED
      then obind (returning (on_client cid (sget cs_peered))) (\<lambda>peered.
           if \<not> peered
           then obind (returning (serverRequest cid PEERS PEERS)) (\<lambda>_. returning (sreturn CommitAndReturn))
           else obind (arg 1) (\<lambda>_. obind (returning (handleRegisterRequest E cid)) (\<lambda>_. returning (sreturn CommitAndReturn))))
      else if command = PEERS
      then obind (arg 1) (\<lambda>m. obind (returning (peerResponse E cid m)) (\<lambda>_. returning (sreturn FallThrough)))
      else if command = REGISTER
      then obind (arg 1) (\<lambda>m. obind (returning (registerResponse E cid m)) (\<lambda>_. returning (sreturn FallThrough)))
      else if command = TRANSACTION_COMMAND
      then obind (arg 1) (\<lambda>m. obind (client_handleTransaction E cid m) (\<lambda>_. returning (sreturn FallThrough)))
      else if command = TRANSACTION_PROCESSED
      then obind (arg 1) (\<lambda>_. returning (sreturn FallThrough))
      else if command = CONSENSUS_SESSION
      then obind (arg 1) (\<lambda>m. obind (returning (consensusSessionResponse E cid m)) (\<lambda>_. returning (sreturn CommitAndReturn)))
      else if command = CONSENSUS
      then obind (arg 1) (\<lambda>m. obind (consensusResponse E cid m) (\<lambda>_. returning (sreturn CommitAndReturn)))
      else if command = ROUTE \<or> command = ROUTE_UPDATE \<or> command = SERVICES then returning (sreturn FallThrough)
      else if command = CLOSE
      then obind (arg 1) (\<lambda>_. obind (returning (closeResponse cid)) (\<lambda>_. returning (sreturn CommitAndReturn)))
      else returning (sreturn FallThrough))"

definition client_take_buffer :: "(client_session, string) prog" where
  "client_take_buffer cs = (Inr (cs_buffer cs), cs\<lparr>cs_buffer := []\<rparr>)"

definition client_on_read ::
  "('txn, 'db, 'g, 'any, 'tb, 'ab, 'sb, 'priv, 'pub) rpc_env \<Rightarrow> nat \<Rightarrow> bool \<Rightarrow> (('txn, 'db, 'g, 'ab) rpc_client, unit) oprog" where
  "client_on_read E cid failed =
     (if failed then returning (sreturn ())
      else obind (returning (on_client cid client_take_buffer)) (\<lambda>data.
        case tokenize data '' '' of
          None \<Rightarrow> (\<lambda>w. None)
        | Some stringVector \<Rightarrow> obind (try_scope E (client_command E cid stringVector)) (\<lambda>go_on.
            returning (if go_on then on_client cid client_async_read else sreturn ()))))"

section \<open>routeTransaction\<close>

definition client_routeTransaction ::
  "('txn, 'db, 'g, 'any, 'tb, 'ab, 'sb, 'priv, 'pub) rpc_env \<Rightarrow> 'ab MessageWrapper \<Rightarrow> (client_session, unit) prog" where
  "client_routeTransaction E messageWrapper =
     (let messageBytes = copyStringToVector (serialize_wrapper (re_wire E) messageWrapper);
          frame = buildMessage_vector (re_codecs E) TRANSACTION_COMMAND messageBytes
      in smodify (\<lambda>cs. cs\<lparr>cs_pending := cs_pending cs @ [AsyncOutBound frame], cs_sent := cs_sent cs @ [frame]\<rparr>))"

definition manager_routeTransaction ::
  "('txn, 'db, 'g, 'any, 'tb, 'ab, 'sb, 'priv, 'pub) rpc_env \<Rightarrow> 'ab MessageWrapper \<Rightarrow>
   (('txn, 'db, 'g, 'ab) rpc_client, MessageWrapperResponse) prog" where
  "manager_routeTransaction E messageWrapper w =
     (let account = copyVectorToString (mw_account_hash messageWrapper);
          target = (if hasAccountSessionMapping account w then map_of (rc_accountSessionMap w) account else getDefaultPeer w)
      in case target of
           None \<Rightarrow> (Inl NoDefaultRouteAvailableException, w)
         | Some cid \<Rightarrow> sbind (on_client cid (client_routeTransaction E messageWrapper)) (\<lambda>_.
             sbind (slift (HashHelper_getHash (re_codecs E) (wrapper_getAccountHash messageWrapper) HEX)) (\<lambda>h.
             sreturn \<lparr>mr_success = True, mr_result = ''Routed to the server peer ['' @ h @ '']''\<rparr>)) w)"

end
