(* ===== verification/RpcHandshake.thy ===== *)
theory RpcHandshake
  imports RpcSafety RpcClient
begin

text \<open>
  The conversation of a client and a server: what each frame makes the RPC server do, and the whole
  handshake of a peer, \<open>HELLO\<close>, \<open>HELLO_CONSENSUS\<close>, \<open>ACCEPTED\<close>, \<open>REGISTER\<close>, between
  \<open>RpcSession.cpp\<close> and \<open>RpcServer.cpp\<close>.
\<close>

section \<open>A tree of accounts pushed in a transaction of its own\<close>

definition table_ready :: "('txn, 'db, 'g) node \<Rightarrow> bool" where
  "table_ready n \<longleftrightarrow> transactionWrapper n = None \<and> routerResourcePtr (router_part (stores n)) = None \<and>
     router_connections (router_part (stores n)) ROUTER_INDEX \<noteq> None"

definition open_table :: "('txn, 'db) rocks \<Rightarrow> 'db \<Rightarrow> ('txn, 'db, 'g) node \<Rightarrow> ('txn, 'db, 'g) node" where
  "open_table rk db n = n\<lparr>transactionWrapper := Some [RouterResources],
     stores := (stores n)\<lparr>router_part := (router_part (stores n))\<lparr>routerResourcePtr := Some [(ROUTER_INDEX, BeginTransaction rk db)]\<rparr>\<rparr>\<rparr>"

lemma getResource_opens:
  "routerResourcePtr (router_part (stores n)) = None \<Longrightarrow> transactionWrapper n = Some [] \<Longrightarrow>
   RouterResourceManager_getResource n = (Inr (), n\<lparr>transactionWrapper := Some [RouterResources],
     stores := (stores n)\<lparr>router_part := (router_part (stores n))\<lparr>routerResourcePtr := Some []\<rparr>\<rparr>\<rparr>)"
  by (simp add: RouterResourceManager_getResource_def sbind_def sget_def smodify_def on_stores_def on_router_def
      enlistResource_def TransactionWrapper_enlist_def)

lemma open_table_open:
  "router_connections (router_part (stores n)) ROUTER_INDEX = Some db \<Longrightarrow> routing_open (open_table rk db n)"
  by (simp add: routing_open_def router_opened_def open_table_def)

lemma with_router_opens_table:
  assumes "table_ready n" and "router_connections (router_part (stores n)) ROUTER_INDEX = Some db"
  shows "with_router_resource (sbind (RouterResource_getTransaction rk ROUTER_INDEX) (\<lambda>_. m)) (n\<lparr>transactionWrapper := Some []\<rparr>) =
    with_router_resource (sbind (RouterResource_getTransaction rk ROUTER_INDEX) (\<lambda>_. m)) (open_table rk db n)"
proof -
  have g: "RouterResource_getTransaction rk ROUTER_INDEX ((router_part (stores n))\<lparr>routerResourcePtr := Some []\<rparr>) =
      (Inr (), (router_part (stores n))\<lparr>routerResourcePtr := Some [(ROUTER_INDEX, BeginTransaction rk db)]\<rparr>)"
    using assms(2) by (simp add: RouterResource_getTransaction_def open_transaction_def getConnection_def map_set_def)
  define q where "q = (router_part (stores n))\<lparr>routerResourcePtr := Some [(ROUTER_INDEX, BeginTransaction rk db)]\<rparr>"
  define n1 where "n1 = n\<lparr>transactionWrapper := Some [RouterResources],
     stores := (stores n)\<lparr>router_part := (router_part (stores n))\<lparr>routerResourcePtr := Some []\<rparr>\<rparr>\<rparr>"
  let ?m = "sbind (RouterResource_getTransaction rk ROUTER_INDEX) (\<lambda>_. m)"
  have r: "RouterResourceManager_getResource (n\<lparr>transactionWrapper := Some []\<rparr>) = (Inr (), n1)"
    using getResource_opens [of "n\<lparr>transactionWrapper := Some []\<rparr>"] assms(1) by (simp add: table_ready_def n1_def)
  have m: "?m (router_part (stores n1)) = m q"
    using g by (simp add: n1_def sbind_def q_def)
  have o: "open_table rk db n = n\<lparr>transactionWrapper := Some [RouterResources], stores := (stores n)\<lparr>router_part := q\<rparr>\<rparr>"
    by (simp add: open_table_def q_def)
  have "with_router_resource ?m (n\<lparr>transactionWrapper := Some []\<rparr>) = on_stores (on_router ?m) n1"
    unfolding with_router_resource_def by (simp add: sbind_def r)
  also have "\<dots> = (case m (router_part (stores (open_table rk db n))) of
      (r, q) \<Rightarrow> (r, (open_table rk db n)\<lparr>stores := (stores (open_table rk db n))\<lparr>router_part := q\<rparr>\<rparr>))"
    unfolding on_stores_def on_router_def m o by (cases "m q") (simp add: n1_def)
  finally show ?thesis unfolding with_router_open [OF open_table_open [OF assms(2)]] .
qed

lemma sbind_same_state: "f s = f s' \<Longrightarrow> sbind f g s = sbind f g s'"
  by (simp add: sbind_def)

lemma push_opens_table:
  assumes "table_ready n" and "router_connections (router_part (stores n)) ROUTER_INDEX = Some db"
  shows "pushAccountRouting rk w t (n\<lparr>transactionWrapper := Some []\<rparr>) = pushAccountRouting rk w t (open_table rk db n)"
proof (cases t)
  case (PushAccount v a m cs)
  show ?thesis
    unfolding PushAccount pushAccountRouting.simps by (rule sbind_same_state, rule with_router_opens_table [OF assms])
qed

lemma commit_each_keeps: "commit_each rk tm c n = None \<longleftrightarrow> c n = None"
proof -
  have "foldl (\<lambda>c (n, t). c(n := map_option (txn_Commit rk t) (c n))) c tm n = None \<longleftrightarrow> c n = None"
    by (induction tm arbitrary: c) (simp_all add: case_prod_unfold)
  then show ?thesis by (simp add: commit_each_def)
qed

lemma push_in_transaction:
  assumes "table_ready n"
  obtains n1 n2 where "pushAccountRouting rk w t (n\<lparr>transactionWrapper := Some []\<rparr>) = (Inr (), n1)"
    and "snd (TransactionImpl_commit (node_resources rk rdf) False n1) = (Inr (), n2)" and "table_ready n2"
    and "\<And>a m. rocks_ok rk \<Longrightarrow> distinct (map fst (tree_accounts t)) \<Longrightarrow> (a, m) \<in> set (tree_accounts t) \<Longrightarrow>
      router_stored rk (router_part (stores n2)) ROUTER_INDEX a = Some (routing_entry w m)"
proof -
  obtain db where db: "router_connections (router_part (stores n)) ROUTER_INDEX = Some db"
    using assms by (auto simp: table_ready_def)
  let ?o = "open_table rk db n" let ?ws = "routing_writes w (tree_accounts t)"
  have o: "routing_open ?o" using db by (rule open_table_open)
  define p where "p = rtr.puts rk ?ws (router_part (stores ?o))"
  define n1 where "n1 = update_router (rtr.puts rk ?ws) ?o"
  have 1: "pushAccountRouting rk w t (n\<lparr>transactionWrapper := Some []\<rparr>) = (Inr (), n1)"
    unfolding push_opens_table [OF assms db] push_eq(1) [OF o] n1_def by simp
  define n2 where "n2 = n\<lparr>transactionWrapper := None,
      stores := (stores n)\<lparr>router_part := RouterResourceManager_commit rk p\<rparr>\<rparr>"
  have 2: "snd (TransactionImpl_commit (node_resources rk rdf) False n1) = (Inr (), n2)"
    by (simp add: TransactionImpl_commit_def service_commit_def TransactionWrapper_commit_def n1_def update_router_def
        open_table_def node_resources_def on_stores_def on_router_def prog_defs n2_def p_def)
  have keep: "router_opened p ROUTER_INDEX"
    using rtr.puts_keep [of rk ?ws "router_part (stores ?o)"] o by (simp add: p_def routing_open_def)
  then have r: "table_ready n2"
    by (auto simp: table_ready_def n2_def RouterResourceManager_commit_def RouterResource_commit_def router_opened_def
        commit_each_keeps simp del: not_None_eq split: option.splits)
  have st: "router_stored rk (router_part (stores n2)) ROUTER_INDEX a = Some (routing_entry w m)"
    if "rocks_ok rk" "distinct (map fst (tree_accounts t))" "(a, m) \<in> set (tree_accounts t)" for a m
  proof -
    have wf: "router_wf (router_part (stores ?o))" by (simp add: router_wf_def open_table_def)
    have "\<forall>(i, k, v) \<in> set ?ws. router_opened (router_part (stores ?o)) i"
      using o by (auto simp: routing_writes_def routing_open_def)
    moreover have "map_of (map (\<lambda>(n, k, v). ((n, k), v)) (rev ?ws)) (ROUTER_INDEX, a) = Some (routing_entry w m)"
      using that(2,3) by (intro map_of_is_SomeI)
        (force simp: routing_writes_def rev_map comp_def case_prod_unfold distinct_map inj_on_def)+
    ultimately show ?thesis
      using rtr.commit_puts [OF that(1) wf] by (simp add: n2_def p_def case_prod_unfold)
  qed
  from that [OF 1 2 r st] show thesis by blast
qed

section \<open>A frame delivered to the server\<close>

text \<open>A frame is read, handled and answered, and the answer is written. The value is the answer.\<close>

definition deliver ::
  "('txn, 'db, 'g, 'any, 'tb, 'ab, 'sb, 'priv, 'pub) rpc_env \<Rightarrow> nat \<Rightarrow> string \<Rightarrow>
   (('txn, 'db, 'g, 'ab) rpc_server, string) oprog" where
  "deliver E sid frame = obind (\<lambda>w. session_on_read E sid ReadOk (arrived sid frame w)) (\<lambda>_.
     obind (returning (on_session sid (sget (\<lambda>ss. last (ss_sent ss))))) (\<lambda>reply.
     returning (\<lambda>w. sbind (session_on_write sid False) (\<lambda>_. sreturn reply) (completed sid (AsyncWrite reply) w))))"

definition set_session :: "nat \<Rightarrow> server_session \<Rightarrow> ('txn, 'db, 'g, 'ab) rpc_server \<Rightarrow> ('txn, 'db, 'g, 'ab) rpc_server" where
  "set_session sid ss w = w\<lparr>rs_sessions := (rs_sessions w)(sid \<mapsto> ss)\<rparr>"

text \<open>Updates of a session in the order of its fields.\<close>

lemma session_order:
  fixes ss :: server_session
  shows "ss\<lparr>ss_hello := h, ss_buffer := b\<rparr> = ss\<lparr>ss_buffer := b, ss_hello := h\<rparr>"
    "ss\<lparr>ss_pending := p, ss_buffer := b\<rparr> = ss\<lparr>ss_buffer := b, ss_pending := p\<rparr>"
    "ss\<lparr>ss_pending := p, ss_hello := h\<rparr> = ss\<lparr>ss_hello := h, ss_pending := p\<rparr>"
    "ss\<lparr>ss_sent := f, ss_buffer := b\<rparr> = ss\<lparr>ss_buffer := b, ss_sent := f\<rparr>"
    "ss\<lparr>ss_sent := f, ss_hello := h\<rparr> = ss\<lparr>ss_hello := h, ss_sent := f\<rparr>"
    "ss\<lparr>ss_sent := f, ss_pending := p\<rparr> = ss\<lparr>ss_pending := p, ss_sent := f\<rparr>"
  by simp_all

lemma session_same:
  fixes ss :: server_session
  shows "ss_buffer ss = b \<Longrightarrow> ss\<lparr>ss_buffer := b\<rparr> = ss" "ss_pending ss = p \<Longrightarrow> ss\<lparr>ss_pending := p\<rparr> = ss"
    "ss_pending ss = p \<Longrightarrow> ss\<lparr>ss_hello := h, ss_pending := p\<rparr> = ss\<lparr>ss_hello := h\<rparr>"
  by auto

definition idle :: "nat \<Rightarrow> server_session \<Rightarrow> ('txn, 'db, 'g, 'ab) rpc_server \<Rightarrow> bool" where
  "idle sid ss w \<longleftrightarrow> rs_sessions w sid = Some ss \<and> ss_pending ss = [AsyncRead] \<and> ss_buffer ss = [] \<and>
     transactionWrapper (router_node (rn_router w)) = None"

definition opened :: "('txn, 'db, 'g, 'ab, 'z) rpc_node_scheme \<Rightarrow> ('txn, 'db, 'g, 'ab, 'z) rpc_node_scheme" where
  "opened w = w\<lparr>rn_router := (rn_router w)\<lparr>router_node := (router_node (rn_router w))\<lparr>transactionWrapper := Some []\<rparr>\<rparr>\<rparr>"

definition set_node :: "('txn, 'db, 'g) node \<Rightarrow> ('txn, 'db, 'g, 'ab, 'z) rpc_node_scheme \<Rightarrow> ('txn, 'db, 'g, 'ab, 'z) rpc_node_scheme" where
  "set_node n w = w\<lparr>rn_router := (rn_router w)\<lparr>router_node := n\<rparr>\<rparr>"

lemma createTransaction_opened:
  "transactionWrapper (router_node (rn_router w)) = None \<Longrightarrow> at_store createTransaction w = (Inr (), opened w)"
  by (simp add: rpc_defs on_node_def createTransaction_def opened_def)

lemma scope_commit_node:
  assumes "snd (TransactionImpl_commit (store_methods E) False (router_node (rn_router w))) = (Inr (), n)"
  shows "scope_commit E w = (Inr (), set_node n w)"
  using assms by (simp add: scope_commit_def rpc_defs on_node_def set_node_def)

text \<open>A body that changes nothing in the stores.\<close>

lemma scope_commit_opened:
  assumes "transactionWrapper (router_node (rn_router w)) = None" and "rn_router v = rn_router (opened w)"
  shows "scope_commit E v = (Inr (), v\<lparr>rn_router := rn_router w\<rparr>)"
proof -
  have "snd (TransactionImpl_commit (store_methods E) False (router_node (rn_router v))) = (Inr (), router_node (rn_router w))"
    using assms by (simp add: TransactionImpl_commit_def service_commit_def TransactionWrapper_commit_def prog_defs opened_def)
  then show ?thesis by (simp add: scope_commit_node set_node_def assms(2) opened_def)
qed

lemma try_scope_falls_through:
  assumes "transactionWrapper (router_node (rn_router w)) = None" and "body (opened w) = Some (Inr FallThrough, v)"
    and "scope_commit E v = (Inr (), v')"
  shows "try_scope E body w = Some (Inr True, v')"
  using assms(2,3) createTransaction_opened [OF assms(1)]
  by (simp add: try_scope_def in_scope_def obind_def returning_def sbind_def sreturn_def)

lemma try_scope_returns:
  assumes "transactionWrapper (router_node (rn_router w)) = None" and "body (opened w) = Some (Inr CommitAndReturn, v)"
    and "scope_commit E v = (Inr (), v')"
  shows "try_scope E body w = Some (Inr False, v')"
  using assms(2,3) createTransaction_opened [OF assms(1)]
  by (simp add: try_scope_def in_scope_def obind_def returning_def sbind_def sreturn_def)

lemma set_session_simps [simp]:
  "rs_sessions (set_session sid ss w) = (rs_sessions w)(sid \<mapsto> ss)" "rn_router (set_session sid ss w) = rn_router w"
  "rn_consensus (set_session sid ss w) = rn_consensus w" "set_session sid st (set_session sid ss w) = set_session sid st w"
  "rs_accountSessionMap (set_session sid ss w) = rs_accountSessionMap w"
  "opened (set_session sid ss w) = set_session sid ss (opened w)" "rs_sessions (opened w) = rs_sessions w"
  by (simp_all add: set_session_def opened_def)

lemma take_arrived:
  assumes "idle sid ss w"
  shows "on_session sid take_buffer (arrived sid frame w) = (Inr frame, set_session sid (ss\<lparr>ss_pending := []\<rparr>) w)"
  using assms
  by (simp add: idle_def arrived_def completed_def put_buffer_def on_session_Some smodify_def take_buffer_def set_session_def
      session_order session_same)

lemma deliver_eq:
  fixes w :: "('txn, 'db, 'g, 'ab) rpc_server"
  assumes idle: "idle sid ss w" and ws: "tokenize frame '' '' = Some ws"
    and cmd: "server_command E sid (ws ! 0) (if length ws = 2 then ws ! 1 else []) (set_session sid (ss\<lparr>ss_pending := []\<rparr>) (opened w)) =
      Some (Inr FallThrough, v)"
    and com: "scope_commit E v = (Inr (), v')" and sv: "rs_sessions v' sid = Some sv" "ss_pending sv = []"
  shows "deliver E sid frame w = Some (Inr (ss_buffer sv), set_session sid (sv\<lparr>ss_buffer := [], ss_pending := [AsyncRead],
    ss_sent := ss_sent sv @ [ss_buffer sv]\<rparr>) v')"
proof -
  let ?w1 = "set_session sid (ss\<lparr>ss_pending := []\<rparr>) w"
  have none: "transactionWrapper (router_node (rn_router ?w1)) = None" using idle by (simp add: idle_def)
  have scope: "try_scope E (server_command E sid (ws ! 0) (if length ws = 2 then ws ! 1 else [])) ?w1 = Some (Inr True, v')"
    by (rule try_scope_falls_through [OF none _ com]) (simp add: cmd)
  have "session_on_read E sid ReadOk (arrived sid frame w) =
      Some (Inr (), set_session sid (sv\<lparr>ss_pending := [AsyncWrite (ss_buffer sv)], ss_sent := ss_sent sv @ [ss_buffer sv]\<rparr>) v')"
    using take_arrived [OF idle, of frame] scope sv ws
    by (simp add: session_on_read_def obind_def returning_def on_session_Some start_write_def smodify_def set_session_def Let_def)
  then show ?thesis
    by (simp add: deliver_def obind_def returning_def sbind_def on_session_Some sget_def session_on_write_def completed_def
        set_session_def smodify_def do_read_def sreturn_def session_order)
qed

section \<open>What the server answers\<close>

text \<open>The hexadecimal digits of a payload contain no space.\<close>

definition hex_words :: "text_codecs \<Rightarrow> bool" where
  "hex_words codecs \<longleftrightarrow> (\<forall>b. CHR '' '' \<notin> set (hex_encode codecs b))"

lemma tokenize_frame:
  assumes "CHR '' '' \<notin> set command" and "CHR '' '' \<notin> set payload"
  shows "tokenize (command @ '' '' @ payload) '' '' = Some [command, payload]"
  using tokenize_words [of "[command, payload]" "CHR '' ''"] assms by simp

lemma command_words: "CHR '' '' \<notin> set HELLO" "CHR '' '' \<notin> set HELLO_CONSENSUS" "CHR '' '' \<notin> set PEERS"
  "CHR '' '' \<notin> set REGISTER" "CHR '' '' \<notin> set ACCEPTED" "CHR '' '' \<notin> set GO_AWAY" "CHR '' '' \<notin> set CLOSE"
  by (simp_all add: command_defs)

lemma command_neqs [simp]:
  "HELLO_CONSENSUS \<noteq> HELLO" "PEERS \<noteq> HELLO" "PEERS \<noteq> HELLO_CONSENSUS" "REGISTER \<noteq> HELLO" "REGISTER \<noteq> HELLO_CONSENSUS"
  "REGISTER \<noteq> PEERS" "ACCEPTED \<noteq> HELLO_CONSENSUS" "ACCEPTED \<noteq> GO_AWAY" "REGISTER \<noteq> GO_AWAY" "REGISTER \<noteq> ACCEPTED"
  by (simp_all add: command_defs)

lemma copy_hex [simp]: "codecs_ok codecs \<Longrightarrow>
  rmap copyVectorToString (hex_decode_locked codecs (hex_encode codecs (copyStringToVector s))) = Inr s"
  by (simp add: codecs_okD copy_simps)

lemma deliver_hello:
  assumes ok: "codecs_ok (re_codecs E)" "hex_words (re_codecs E)" "rpc_wire_ok (re_wire E)" and idle: "idle sid ss w"
    and frame: "frame = buildMessage_vector (re_codecs E) HELLO (copyStringToVector (serialize_helo (re_wire E) h))"
    and reply: "reply = HELLO_CONSENSUS @ '' '' @ hex_encode (re_codecs E) (cw_rpc_secret (rn_consensus w)) @ '' '' @
      hex_encode (re_codecs E) (server_account (re_router E))"
  shows "deliver E sid frame w = Some (Inr reply, set_session sid (ss\<lparr>ss_hello := Some h, ss_sent := ss_sent ss @ [reply]\<rparr>) w)"
proof -
  let ?sv = "ss\<lparr>ss_pending := [], ss_hello := Some h, ss_buffer := reply\<rparr>"
  let ?p = "hex_encode (re_codecs E) (copyStringToVector (serialize_helo (re_wire E) h))"
  have ws: "tokenize frame '' '' = Some [HELLO, ?p]"
    using tokenize_frame [OF command_words(1), of ?p] ok(2) by (simp add: frame buildMessage_vector_def hex_words_def)
  have h: "parse_helo (re_wire E) (serialize_helo (re_wire E) h) = h" using ok(3) by (simp add: rpc_wire_ok_def)
  have none: "transactionWrapper (router_node (rn_router w)) = None" and b: "ss_buffer ss = []" "ss_pending ss = [AsyncRead]"
    using idle by (simp_all add: idle_def)
  have cmd: "server_command E sid HELLO ?p (set_session sid (ss\<lparr>ss_pending := []\<rparr>) (opened w)) =
      Some (Inr FallThrough, set_session sid ?sv (opened w))"
    using b by (simp add: server_command_def returning_def handleHello_def sbind_def slift_def ok h smodify_def sget_def
        on_session_Some set_session_def put_buffer_def log_account_def session_hello_def deref_def sreturn_def
        ServerHelloProtoHelper_of_string_def reply opened_def)
  have com: "scope_commit E (set_session sid ?sv (opened w)) = (Inr (), set_session sid ?sv w)"
    using scope_commit_opened [OF none, of "set_session sid ?sv (opened w)" E] by (simp add: set_session_def opened_def)
  show ?thesis
    using deliver_eq [OF idle ws _ com, where sv = ?sv] cmd b by (simp add: session_order session_same)
qed

lemma deliver_consensus:
  assumes ok: "codecs_ok (re_codecs E)" "hex_words (re_codecs E)" "rpc_wire_ok (re_wire E)" and idle: "idle sid ss w"
    and hello: "ss_hello ss = Some h"
    and frame: "frame = buildMessage_vector (re_codecs E) HELLO_CONSENSUS (copyStringToVector (serialize_consensus (re_wire E) msg))"
    and valid: "validateSoftwareConsensus (re_consensus E) (re_consensus_wire E) (rn_consensus w) msg = Inr validation"
    and reply: "reply = (if validation_isValid validation then ACCEPTED @ '' '' @ ACCEPTED else GO_AWAY @ '' '' @ GO_AWAY)"
  shows "deliver E sid frame w = Some (Inr reply, set_session sid (ss\<lparr>ss_sent := ss_sent ss @ [reply]\<rparr>) w)"
proof -
  let ?sv = "ss\<lparr>ss_pending := [], ss_buffer := reply\<rparr>"
  let ?p = "hex_encode (re_codecs E) (copyStringToVector (serialize_consensus (re_wire E) msg))"
  have ws: "tokenize frame '' '' = Some [HELLO_CONSENSUS, ?p]"
    using tokenize_frame [OF command_words(2), of ?p] ok(2) by (simp add: frame buildMessage_vector_def hex_words_def)
  have p: "parse_consensus (re_wire E) (serialize_consensus (re_wire E) msg) = msg" using ok(3) by (simp add: rpc_wire_ok_def)
  have none: "transactionWrapper (router_node (rn_router w)) = None" and b: "ss_buffer ss = []" "ss_pending ss = [AsyncRead]"
    using idle by (simp_all add: idle_def)
  have "rn_consensus (opened w) = rn_consensus w" by (simp add: opened_def)
  then have cmd: "server_command E sid HELLO_CONSENSUS ?p (set_session sid (ss\<lparr>ss_pending := []\<rparr>) (opened w)) =
      Some (Inr FallThrough, set_session sid ?sv (opened w))"
    using b hello valid
    by (simp add: server_command_def returning_def handleHelloConsensus_def sbind_def slift_def ok p smodify_def sget_def
        on_session_Some set_session_def put_buffer_def log_account_def session_hello_def deref_def sreturn_def reply)
  have com: "scope_commit E (set_session sid ?sv (opened w)) = (Inr (), set_session sid ?sv w)"
    using scope_commit_opened [OF none, of "set_session sid ?sv (opened w)" E] by (simp add: set_session_def opened_def)
  show ?thesis
    using deliver_eq [OF idle ws _ com, where sv = ?sv] cmd b by (simp add: session_order session_same)
qed

text \<open>The server after it has registered a peer.\<close>

definition registered_server ::
  "nat \<Rightarrow> server_session \<Rightarrow> string \<Rightarrow> RpcPeer \<Rightarrow> ('txn, 'db, 'g) node \<Rightarrow> ('txn, 'db, 'g, 'ab) rpc_server \<Rightarrow>
   ('txn, 'db, 'g, 'ab) rpc_server" where
  "registered_server sid ss account peer n w = set_session sid ss (w\<lparr>
     rs_accountSessionMap := map_set account sid (rs_accountSessionMap w),
     rn_router := (rn_router w)\<lparr>router_peers := addPeer (router_peers (rn_router w)) peer, router_node := n\<rparr>\<rparr>)"

lemma deliver_register:
  fixes w :: "('txn, 'db, 'g, 'ab) rpc_server" and E :: "('txn, 'db, 'g, 'any, 'tb, 'ab, 'sb, 'priv, 'pub) rpc_env"
  assumes ok: "codecs_ok (re_codecs E)" "hex_words (re_codecs E)" "rpc_wire_ok (re_wire E)" and idle: "idle sid ss w"
    and hello: "ss_hello ss = Some h" and table: "table_ready (router_node (rn_router w))"
    and frame: "frame = buildMessage_vector (re_codecs E) REGISTER (copyStringToVector (serialize_rpc_peer (re_wire E) peer))"
    and reply: "reply = REGISTER @ '' '' @ hex_encode (re_codecs E) (server_account (re_router E))"
  obtains n where "deliver E sid frame w = Some (Inr reply, registered_server sid (ss\<lparr>ss_sent := ss_sent ss @ [reply]\<rparr>)
      (sh_account_hash h) peer n w)"
    and "table_ready n"
    and "rocks_ok (env_rocks (re_router E)) \<and> distinct (map fst (tree_accounts (getPushAccount peer))) \<longrightarrow>
      (\<forall>(a, m) \<in> set (tree_accounts (getPushAccount peer)).
        router_stored (env_rocks (re_router E)) (router_part (stores n)) ROUTER_INDEX a = Some (routing_entry (env_routing (re_router E)) m))"
proof -
  let ?sv = "ss\<lparr>ss_pending := [], ss_buffer := reply\<rparr>"
  let ?p = "hex_encode (re_codecs E) (copyStringToVector (serialize_rpc_peer (re_wire E) peer))"
  let ?rk = "env_rocks (re_router E)" let ?rw = "env_routing (re_router E)"
  obtain n1 n where n1: "pushAccountRouting ?rk ?rw (getPushAccount peer) ((router_node (rn_router w))\<lparr>transactionWrapper := Some []\<rparr>) = (Inr (), n1)"
    and n: "snd (TransactionImpl_commit (node_resources ?rk (re_rdf E)) False n1) = (Inr (), n)" and r: "table_ready n"
    and st: "\<And>a m. rocks_ok ?rk \<Longrightarrow> distinct (map fst (tree_accounts (getPushAccount peer))) \<Longrightarrow>
      (a, m) \<in> set (tree_accounts (getPushAccount peer)) \<Longrightarrow>
      router_stored ?rk (router_part (stores n)) ROUTER_INDEX a = Some (routing_entry ?rw m)"
    by (rule push_in_transaction [OF table, where rk = ?rk and w = ?rw and t = "getPushAccount peer" and rdf = "re_rdf E"])
       (rule that, assumption+)
  have ws: "tokenize frame '' '' = Some [REGISTER, ?p]"
    using tokenize_frame [OF command_words(4), of ?p] ok(2) by (simp add: frame buildMessage_vector_def hex_words_def)
  have p: "parse_rpc_peer (re_wire E) (serialize_rpc_peer (re_wire E) peer) = peer" using ok(3) by (simp add: rpc_wire_ok_def)
  have b: "ss_buffer ss = []" "ss_pending ss = [AsyncRead]" using idle by (simp_all add: idle_def)
  have acc: "copyVectorToString (helo_getAccountHash h) = sh_account_hash h"
    by (simp add: helo_getAccountHash_def copyVectorToString_def)
  have cmd: "server_command E sid REGISTER ?p (set_session sid (ss\<lparr>ss_pending := []\<rparr>) (opened w)) =
      Some (Inr FallThrough, registered_server sid ?sv (sh_account_hash h) peer n1 w)"
    using b hello n1
    by (simp add: server_command_def returning_def handleRegister_def sbind_def slift_def ok p smodify_def sget_def acc
        on_session_Some set_session_def put_buffer_def log_account_def session_hello_def hello_account_def deref_def sreturn_def
        reply addAccount_def at_router_def registerRpcPeer_def on_node_def registered_server_def opened_def session_order session_same)
  have com: "scope_commit E (registered_server sid ?sv (sh_account_hash h) peer n1 w) =
      (Inr (), registered_server sid ?sv (sh_account_hash h) peer n w)"
    using scope_commit_node [of E "registered_server sid ?sv (sh_account_hash h) peer n1 w" n] n
    by (simp add: registered_server_def set_node_def store_methods_def set_session_def)
  have "deliver E sid frame w = Some (Inr reply, registered_server sid (ss\<lparr>ss_sent := ss_sent ss @ [reply]\<rparr>) (sh_account_hash h) peer n w)"
    using deliver_eq [OF idle ws _ com, where sv = ?sv] cmd b
    by (simp add: session_order session_same registered_server_def)
  from that [OF this r] st show thesis by blast
qed

section \<open>A frame delivered to the client\<close>

definition client_completed :: "nat \<Rightarrow> io_operation \<Rightarrow> ('txn, 'db, 'g, 'ab) rpc_client \<Rightarrow> ('txn, 'db, 'g, 'ab) rpc_client" where
  "client_completed cid oper w = w\<lparr>rc_sessions := (rc_sessions w)(cid := map_option
     (\<lambda>cs. cs\<lparr>cs_pending := remove1 oper (cs_pending cs)\<rparr>) (rc_sessions w cid))\<rparr>"

definition client_arrived :: "nat \<Rightarrow> string \<Rightarrow> ('txn, 'db, 'g, 'ab) rpc_client \<Rightarrow> ('txn, 'db, 'g, 'ab) rpc_client" where
  "client_arrived cid data w = snd (on_client cid (client_put data) (client_completed cid AsyncRead w))"

text \<open>A started write completes; the value is its frame.\<close>

definition client_flush :: "nat \<Rightarrow> (('txn, 'db, 'g, 'ab) rpc_client, string option) prog" where
  "client_flush cid = sbind (on_client cid (sget cs_pending)) (\<lambda>pending. case pending of
       [AsyncWrite frame] \<Rightarrow> (\<lambda>w. sbind (client_on_write cid False) (\<lambda>_. sreturn (Some frame))
         (client_completed cid (AsyncWrite frame) w))
     | _ \<Rightarrow> sreturn None)"

definition receive ::
  "('txn, 'db, 'g, 'any, 'tb, 'ab, 'sb, 'priv, 'pub) rpc_env \<Rightarrow> nat \<Rightarrow> string \<Rightarrow>
   (('txn, 'db, 'g, 'ab) rpc_client, string option) oprog" where
  "receive E cid frame = obind (\<lambda>w. client_on_read E cid False (client_arrived cid frame w)) (\<lambda>_. returning (client_flush cid))"

definition set_client :: "nat \<Rightarrow> client_session \<Rightarrow> ('txn, 'db, 'g, 'ab) rpc_client \<Rightarrow> ('txn, 'db, 'g, 'ab) rpc_client" where
  "set_client cid cs w = w\<lparr>rc_sessions := (rc_sessions w)(cid \<mapsto> cs)\<rparr>"

definition client_idle :: "nat \<Rightarrow> client_session \<Rightarrow> ('txn, 'db, 'g, 'ab) rpc_client \<Rightarrow> bool" where
  "client_idle cid cs w \<longleftrightarrow> rc_sessions w cid = Some cs \<and> cs_pending cs = [AsyncRead] \<and> cs_buffer cs = [] \<and>
     transactionWrapper (router_node (rn_router w)) = None"

lemma client_order:
  fixes cs :: client_session
  shows "cs\<lparr>cs_pending := p, cs_buffer := b\<rparr> = cs\<lparr>cs_buffer := b, cs_pending := p\<rparr>"
    "cs\<lparr>cs_sent := f, cs_buffer := b\<rparr> = cs\<lparr>cs_buffer := b, cs_sent := f\<rparr>"
    "cs\<lparr>cs_sent := f, cs_pending := p\<rparr> = cs\<lparr>cs_pending := p, cs_sent := f\<rparr>"
    "cs\<lparr>cs_pending := p, cs_accountHash := h\<rparr> = cs\<lparr>cs_accountHash := h, cs_pending := p\<rparr>"
    "cs\<lparr>cs_buffer := b, cs_accountHash := h\<rparr> = cs\<lparr>cs_accountHash := h, cs_buffer := b\<rparr>"
  by simp_all

lemma client_same:
  fixes cs :: client_session
  shows "cs_buffer cs = b \<Longrightarrow> cs\<lparr>cs_buffer := b\<rparr> = cs" "cs_pending cs = p \<Longrightarrow> cs\<lparr>cs_pending := p\<rparr> = cs"
    "cs_pending cs = p \<Longrightarrow> cs\<lparr>cs_accountHash := h, cs_pending := p\<rparr> = cs\<lparr>cs_accountHash := h\<rparr>"
  by auto

lemma on_client_Some:
  "rc_sessions w cid = Some cs \<Longrightarrow> on_client cid m w = (fst (m cs), w\<lparr>rc_sessions := (rc_sessions w)(cid \<mapsto> snd (m cs))\<rparr>)"
  by (simp add: on_client_def split: prod.splits)

lemma set_client_simps [simp]:
  "rc_sessions (set_client cid cs w) = (rc_sessions w)(cid \<mapsto> cs)" "rn_router (set_client cid cs w) = rn_router w"
  "rn_consensus (set_client cid cs w) = rn_consensus w" "set_client cid ct (set_client cid cs w) = set_client cid ct w"
  "opened (set_client cid cs w) = set_client cid cs (opened w)" "rc_sessions (opened w') = rc_sessions w'"
  by (simp_all add: set_client_def opened_def)

lemma client_take_arrived:
  assumes "client_idle cid cs w"
  shows "on_client cid client_take_buffer (client_arrived cid frame w) = (Inr frame, set_client cid (cs\<lparr>cs_pending := []\<rparr>) w)"
  using assms
  by (simp add: client_idle_def client_arrived_def client_completed_def on_client_Some client_put_def smodify_def
      client_take_buffer_def set_client_def client_order client_same)

lemma client_flush_write:
  "rc_sessions w cid = Some cs \<Longrightarrow> cs_pending cs = [AsyncWrite frame] \<Longrightarrow>
   client_flush cid w = (Inr (Some frame), set_client cid (cs\<lparr>cs_buffer := [], cs_pending := [AsyncRead]\<rparr>) w)"
  by (simp add: client_flush_def sbind_def on_client_Some sget_def client_completed_def client_on_write_def smodify_def
      client_async_read_def sreturn_def set_client_def client_order)

text \<open>A frame the client answers, and one it does not.\<close>

lemma receive_answered:
  fixes w :: "('txn, 'db, 'g, 'ab) rpc_client"
  assumes idle: "client_idle cid cs w" and ws: "tokenize frame '' '' = Some ws"
    and cmd: "client_command E cid ws (set_client cid (cs\<lparr>cs_pending := []\<rparr>) (opened w)) = Some (Inr CommitAndReturn, v)"
    and com: "scope_commit E v = (Inr (), v')" and sv: "rc_sessions v' cid = Some sv" "cs_pending sv = [AsyncWrite answer]"
  shows "receive E cid frame w = Some (Inr (Some answer), set_client cid (sv\<lparr>cs_buffer := [], cs_pending := [AsyncRead]\<rparr>) v')"
proof -
  let ?w1 = "set_client cid (cs\<lparr>cs_pending := []\<rparr>) w"
  have none: "transactionWrapper (router_node (rn_router ?w1)) = None" using idle by (simp add: client_idle_def)
  have scope: "try_scope E (client_command E cid ws) ?w1 = Some (Inr False, v')"
    by (rule try_scope_returns [OF none _ com]) (simp add: cmd)
  have "client_on_read E cid False (client_arrived cid frame w) = Some (Inr (), v')"
    using client_take_arrived [OF idle, of frame] scope ws
    by (simp add: client_on_read_def obind_def returning_def sreturn_def)
  then show ?thesis
    by (simp add: receive_def obind_def returning_def client_flush_write [OF sv])
qed

lemma receive_unanswered:
  fixes w :: "('txn, 'db, 'g, 'ab) rpc_client"
  assumes idle: "client_idle cid cs w" and ws: "tokenize frame '' '' = Some ws"
    and cmd: "client_command E cid ws (set_client cid (cs\<lparr>cs_pending := []\<rparr>) (opened w)) = Some (Inr FallThrough, v)"
    and com: "scope_commit E v = (Inr (), v')" and sv: "rc_sessions v' cid = Some sv" "cs_pending sv = []"
  shows "receive E cid frame w = Some (Inr None, set_client cid (sv\<lparr>cs_pending := [AsyncRead]\<rparr>) v')"
proof -
  let ?w1 = "set_client cid (cs\<lparr>cs_pending := []\<rparr>) w"
  have none: "transactionWrapper (router_node (rn_router ?w1)) = None" using idle by (simp add: client_idle_def)
  have scope: "try_scope E (client_command E cid ws) ?w1 = Some (Inr True, v')"
    by (rule try_scope_falls_through [OF none _ com]) (simp add: cmd)
  have "client_on_read E cid False (client_arrived cid frame w) = Some (Inr (), set_client cid (sv\<lparr>cs_pending := [AsyncRead]\<rparr>) v')"
    using client_take_arrived [OF idle, of frame] scope ws sv
    by (simp add: client_on_read_def obind_def returning_def on_client_Some client_async_read_def smodify_def set_client_def)
  then show ?thesis
    by (simp add: receive_def obind_def returning_def client_flush_def sbind_def on_client_Some sget_def sreturn_def set_client_def)
qed

section \<open>What the client answers\<close>

definition client_hello :: "bytes \<Rightarrow> bytes \<Rightarrow> ServerHelo" where
  "client_hello account signature = \<lparr>sh_version = 1, sh_account_hash = map byte_char account,
     sh_signature = map byte_char signature\<rparr>"

lemma client_says_hello:
  assumes "rc_sessions w cid = Some cs" and "cs_pending cs = []" and "cs_buffer cs = []"
    and sign: "generator_sign (ce_botan (re_consensus E)) (SignatureGenerator_of_loader (cs_keyLoader cs))
      (server_account (re_router E)) = Inr signature"
    and frame: "frame = buildMessage_vector (re_codecs E) HELLO
      (copyStringToVector (serialize_helo (re_wire E) (client_hello (server_account (re_router E)) signature)))"
  shows "sbind (client_on_handshake E cid False) (\<lambda>_. client_flush cid) w =
    (Inr (Some frame), set_client cid (cs\<lparr>cs_pending := [AsyncRead], cs_sent := cs_sent cs @ [frame]\<rparr>) w)"
proof -
  have "buildHeloMessage E (cs_keyLoader cs) = Inr (copyStringToVector (serialize_helo (re_wire E)
      (client_hello (server_account (re_router E)) signature)))"
    using sign by (simp add: buildHeloMessage_def helo_sign_def helo_setAccountHash_def new_ServerHelloProtoHelper_def
        helo_string_def client_hello_def)
  then have "client_on_handshake E cid False w =
      (Inr (), set_client cid (cs\<lparr>cs_buffer := frame, cs_pending := [AsyncWrite frame], cs_sent := cs_sent cs @ [frame]\<rparr>) w)"
    using assms(1-3)
    by (simp add: client_on_handshake_def sbind_def on_client_Some sget_def slift_def client_write_def client_put_def
        client_start_write_def smodify_def frame set_client_def)
  then show ?thesis
    using assms(3) by (simp add: sbind_def client_flush_write client_order client_same)
qed

lemma client_write_idle:
  assumes "rc_sessions w cid = Some cs" and "cs_buffer cs = []" and "cs_pending cs = []"
  shows "client_write cid text w = (Inr (), set_client cid (cs\<lparr>cs_buffer := text, cs_pending := [AsyncWrite text],
    cs_sent := cs_sent cs @ [text]\<rparr>) w)"
  using assms by (simp add: client_write_def sbind_def on_client_Some client_put_def client_start_write_def smodify_def set_client_def)

lemma receive_hello_consensus:
  assumes ok: "codecs_ok (re_codecs E)" "hex_words (re_codecs E)" and idle: "client_idle cid cs w"
    and frame: "frame = HELLO_CONSENSUS @ '' '' @ hex_encode (re_codecs E) key @ '' '' @ hex_encode (re_codecs E) account"
    and update: "updateSessionKey (re_consensus E) key (rn_consensus w) = (Inr (), c)"
    and gen: "generateSoftwareConsensus (re_consensus E) (re_consensus_wire E) (re_keyLoader E) (server_account (re_router E))
      (fst (re_clock E)) (snd (re_clock E)) c (moduleHash_setHash new_ModuleHashMessageHelper account) = Some (Inr msg)"
    and answer: "answer = buildMessage_vector (re_codecs E) HELLO_CONSENSUS (copyStringToVector (serialize_consensus (re_wire E) msg))"
  shows "receive E cid frame w =
    Some (Inr (Some answer), set_client cid (cs\<lparr>cs_sent := cs_sent cs @ [answer]\<rparr>) (w\<lparr>rn_consensus := c\<rparr>))"
proof -
  let ?sv = "cs\<lparr>cs_buffer := answer, cs_pending := [AsyncWrite answer], cs_sent := cs_sent cs @ [answer]\<rparr>"
  let ?k = "hex_encode (re_codecs E) key" let ?a = "hex_encode (re_codecs E) account"
  have ws: "tokenize frame '' '' = Some [HELLO_CONSENSUS, ?k, ?a]"
    using tokenize_words [of "[HELLO_CONSENSUS, ?k, ?a]" "CHR '' ''"] ok(2) command_words(2)
    by (simp add: frame hex_words_def)
  have none: "transactionWrapper (router_node (rn_router w)) = None" and b: "cs_buffer cs = []" "cs_pending cs = [AsyncRead]"
    using idle by (simp_all add: client_idle_def)
  let ?v = "set_client cid ?sv ((opened w)\<lparr>rn_consensus := c\<rparr>)"
  have 1: "rn_consensus (opened w) = rn_consensus w" by (simp add: opened_def)
  have 2: "at_consensus (updateSessionKey (re_consensus E) key) (set_client cid (cs\<lparr>cs_pending := []\<rparr>) (opened w)) =
      (Inr (), set_client cid (cs\<lparr>cs_pending := []\<rparr>) ((opened w)\<lparr>rn_consensus := c\<rparr>))"
    using update by (simp add: at_consensus_def 1 set_client_def)
  have 3: "buildConsensus_message E account (set_client cid (cs\<lparr>cs_pending := []\<rparr>) ((opened w)\<lparr>rn_consensus := c\<rparr>)) =
      Some (Inr (copyStringToVector (serialize_consensus (re_wire E) msg)), set_client cid (cs\<lparr>cs_pending := []\<rparr>) ((opened w)\<lparr>rn_consensus := c\<rparr>))"
    using gen by (simp add: buildConsensus_message_def Let_def)
  have 4: "client_write cid answer (set_client cid (cs\<lparr>cs_pending := []\<rparr>) ((opened w)\<lparr>rn_consensus := c\<rparr>)) = (Inr (), ?v)"
    using client_write_idle [of "set_client cid (cs\<lparr>cs_pending := []\<rparr>) ((opened w)\<lparr>rn_consensus := c\<rparr>)" cid "cs\<lparr>cs_pending := []\<rparr>" answer] b
    by (simp add: client_order client_same)
  have cmd: "client_command E cid [HELLO_CONSENSUS, ?k, ?a] (set_client cid (cs\<lparr>cs_pending := []\<rparr>) (opened w)) =
      Some (Inr CommitAndReturn, ?v)"
    using 2 3 4
    by (simp add: client_command_def vector_at_def obind_def returning_def slift_def helloConsensusResponse_def
        HashHelper_of_encoded_def codecs_okD [OF ok(1)] answer sreturn_def)
  have com: "scope_commit E ?v = (Inr (), set_client cid ?sv (w\<lparr>rn_consensus := c\<rparr>))"
    using scope_commit_opened [OF none, of ?v E] by (simp add: set_client_def opened_def)
  show ?thesis
    using receive_answered [OF idle ws cmd com, where sv = ?sv] b by (simp add: client_order client_same)
qed

text \<open>The routing tree of the account module, built in a transaction of its own.\<close>

definition routing_of_node ::
  "('txn, 'db, 'g, 'any, 'tb, 'ab, 'sb, 'priv, 'pub) rpc_env \<Rightarrow> (('txn, 'db, 'g) node, RpcPeer option) prog" where
  "routing_of_node E = service_getNodeAccountRouting (re_depth E) (server_account (re_router E))
     (env_rocks (re_router E)) (env_accounts (re_router E))"

lemma in_transaction_ok:
  assumes "in_transaction R body s = (Inr a, s')"
  obtains s2 where "transactionWrapper s = None" and "body (s\<lparr>transactionWrapper := Some []\<rparr>) = (Inr a, s2)"
    and "snd (TransactionImpl_commit R False s2) = (Inr (), s')" and "transactionWrapper s' = None"
proof -
  have none: "transactionWrapper s = None"
    using assms by (cases "transactionWrapper s") (simp_all add: in_transaction_def createTransaction_def)
  obtain r s2 where b: "body (s\<lparr>transactionWrapper := Some []\<rparr>) = (r, s2)" by fastforce
  obtain d p u where d: "TransactionImpl_destroy R False s2 = (d, p, u)" by (rule prod_cases3)
  obtain q s3 where c: "service_commit R s2 = (q, s3)" by fastforce
  have "r = Inr a"
    using assms none b d c
    by (cases r; cases p; cases q)
       (simp_all add: in_transaction_def createTransaction_def TransactionImpl_commit_def TransactionImpl_destroy_def)
  moreover from this have q: "q = Inr ()" "s3 = s'"
    using assms none b c
    by (cases q; simp add: in_transaction_def createTransaction_def TransactionImpl_destroy_def TransactionImpl_commit_def)+
  ultimately have r: "r = Inr a" by simp
  have "transactionWrapper s' = None"
    using c q by (auto simp: service_commit_def sbind_def smodify_def split: option.splits prod.splits sum.splits)
  with that none b r c q show thesis by (simp add: TransactionImpl_commit_def)
qed

lemma with_account_keeps_table:
  assumes "with_account_resource m s = (r, t)" and "transactionWrapper s = Some []"
  shows "router_part (stores t) = router_part (stores s) \<and> (\<exists>rs. transactionWrapper t = Some rs \<and> set rs \<subseteq> {AccountResources})"
  using assms
  by (auto simp: with_account_resource_def AccountResourceManager_getResource_def prog_defs on_stores_def
      on_account_def enlistResource_def TransactionWrapper_enlist_def split: prod.splits sum.splits option.splits if_splits)

lemma account_commits_keep_table:
  fixes s :: "('txn, 'db, 'g) node"
  assumes "set rs \<subseteq> {AccountResources}"
  shows "router_part (stores (snd (sfor rs (\<lambda>r. on_stores (res_commit (node_resources rk rdf) r)) s))) = router_part (stores s)"
proof (rule sfor_invariant [where P = "\<lambda>t. router_part (stores t) = router_part (stores s)"])
  fix r and t :: "('txn, 'db, 'g) node" assume "r \<in> set rs" and "router_part (stores t) = router_part (stores s)"
  moreover from this assms have "r = AccountResources" by auto
  ultimately show "router_part (stores (snd (on_stores (res_commit (node_resources rk rdf) r) t))) = router_part (stores s)"
    by (simp add: node_resources_def on_stores_def on_account_def split: prod.splits)
qed simp

lemma routing_of_node_keeps_table:
  assumes "in_transaction (store_methods E) (routing_of_node E) n = (Inr (Some peer), n')" and "table_ready n"
  shows "table_ready n'"
proof -
  from in_transaction_ok [OF assms(1)] obtain s2 where b: "routing_of_node E (n\<lparr>transactionWrapper := Some []\<rparr>) = (Inr (Some peer), s2)"
    and c: "snd (TransactionImpl_commit (store_methods E) False s2) = (Inr (), n')" and none: "transactionWrapper n' = None" .
  obtain rs where rs: "router_part (stores s2) = router_part (stores n)" "transactionWrapper s2 = Some rs" "set rs \<subseteq> {AccountResources}"
    using with_account_keeps_table [OF b [unfolded routing_of_node_def service_getNodeAccountRouting_def getNodeAccountRouting_def]] by auto
  have "router_part (stores n') = router_part (stores s2)"
    using c account_commits_keep_table [OF rs(3), of "env_rocks (re_router E)" "re_rdf E" s2] rs(2)
    by (auto simp: TransactionImpl_commit_def service_commit_def TransactionWrapper_commit_def store_methods_def sbind_def smodify_def
        split: prod.splits sum.splits)
  with rs(1) none assms(2) show ?thesis by (simp add: table_ready_def)
qed

lemma receive_accepted:
  fixes w :: "('txn, 'db, 'g, 'ab) rpc_client" and E :: "('txn, 'db, 'g, 'any, 'tb, 'ab, 'sb, 'priv, 'pub) rpc_env"
  assumes idle: "client_idle cid cs w" and peered: "cs_peered cs"
    and routing: "in_transaction (store_methods E) (routing_of_node E) (router_node (rn_router w)) = (Inr (Some peer), n)"
    and answer: "answer = buildMessage_vector (re_codecs E) REGISTER (copyStringToVector (serialize_rpc_peer (re_wire E) peer))"
  shows "receive E cid (ACCEPTED @ '' '' @ ACCEPTED) w =
    Some (Inr (Some answer), set_client cid (cs\<lparr>cs_sent := cs_sent cs @ [answer]\<rparr>) (set_node n w))"
proof -
  let ?sv = "cs\<lparr>cs_buffer := answer, cs_pending := [AsyncWrite answer], cs_sent := cs_sent cs @ [answer]\<rparr>"
  let ?c0 = "cs\<lparr>cs_pending := []\<rparr>"
  have ws: "tokenize (ACCEPTED @ '' '' @ ACCEPTED) '' '' = Some [ACCEPTED, ACCEPTED]"
    by (rule tokenize_frame) (simp_all add: command_words)
  have b: "cs_buffer cs = []" "cs_pending cs = [AsyncRead]" using idle by (simp_all add: client_idle_def)
  from in_transaction_ok [OF routing] obtain n1 where
    n1: "routing_of_node E ((router_node (rn_router w))\<lparr>transactionWrapper := Some []\<rparr>) = (Inr (Some peer), n1)"
    and n: "snd (TransactionImpl_commit (store_methods E) False n1) = (Inr (), n)" .
  have 1: "at_store (routing_of_node E) (set_client cid ?c0 (opened w)) = (Inr (Some peer), set_client cid ?c0 (set_node n1 w))"
    using n1 by (simp add: rpc_defs on_node_def opened_def set_client_def set_node_def)
  have 2: "client_write cid answer (set_client cid ?c0 (set_node n1 w)) = (Inr (), set_client cid ?sv (set_node n1 w))"
    using client_write_idle [of "set_client cid ?c0 (set_node n1 w)" cid ?c0 answer] b by (simp add: client_order client_same)
  have "handleRegisterRequest E cid (set_client cid ?c0 (opened w)) = (Inr (), set_client cid ?sv (set_node n1 w))"
    using 1 2 by (simp add: handleRegisterRequest_def sbind_def routing_of_node_def answer)
  moreover have "on_client cid (sget cs_peered) (set_client cid ?c0 (opened w)) = (Inr True, set_client cid ?c0 (opened w))"
    using peered by (simp add: on_client_Some sget_def set_client_def)
  ultimately have cmd: "client_command E cid [ACCEPTED, ACCEPTED] (set_client cid ?c0 (opened w)) =
      Some (Inr CommitAndReturn, set_client cid ?sv (set_node n1 w))"
    by (simp add: client_command_def vector_at_def sbind_def obind_def returning_def slift_def sreturn_def)
  have com: "scope_commit E (set_client cid ?sv (set_node n1 w)) = (Inr (), set_client cid ?sv (set_node n w))"
    using scope_commit_node [of E "set_client cid ?sv (set_node n1 w)" n] n by (simp add: set_node_def set_client_def)
  show ?thesis
    using receive_answered [OF idle ws cmd com, where sv = ?sv] b by (simp add: client_order client_same)
qed

definition known_server :: "bytes \<Rightarrow> RpcPeer" where
  "known_server account = peer_setAccountHash new_RpcPeerHelper account"

definition registered_client ::
  "nat \<Rightarrow> client_session \<Rightarrow> bytes \<Rightarrow> ('txn, 'db, 'g) node \<Rightarrow> ('txn, 'db, 'g, 'ab) rpc_client \<Rightarrow> ('txn, 'db, 'g, 'ab) rpc_client" where
  "registered_client cid cs account n w = set_client cid cs (w\<lparr>
     rc_accountSessionMap := map_set (copyVectorToString account) cid (rc_accountSessionMap w),
     rn_router := (rn_router w)\<lparr>router_peers := addPeer (router_peers (rn_router w)) (known_server account), router_node := n\<rparr>\<rparr>)"

lemma receive_register:
  fixes w :: "('txn, 'db, 'g, 'ab) rpc_client" and E :: "('txn, 'db, 'g, 'any, 'tb, 'ab, 'sb, 'priv, 'pub) rpc_env"
  assumes ok: "codecs_ok (re_codecs E)" "hex_words (re_codecs E)" and idle: "client_idle cid cs w"
    and table: "table_ready (router_node (rn_router w))"
  obtains n where "receive E cid (REGISTER @ '' '' @ hex_encode (re_codecs E) account) w =
      Some (Inr None, registered_client cid (cs\<lparr>cs_accountHash := copyVectorToString account\<rparr>) account n w)"
proof -
  let ?sv = "cs\<lparr>cs_accountHash := copyVectorToString account, cs_pending := []\<rparr>"
  let ?c0 = "cs\<lparr>cs_pending := []\<rparr>" let ?a = "hex_encode (re_codecs E) account"
  let ?rk = "env_rocks (re_router E)" let ?rw = "env_routing (re_router E)" let ?peer = "known_server account"
  obtain n1 n where n1: "pushAccountRouting ?rk ?rw (getPushAccount ?peer) ((router_node (rn_router w))\<lparr>transactionWrapper := Some []\<rparr>) = (Inr (), n1)"
    and n: "snd (TransactionImpl_commit (node_resources ?rk (re_rdf E)) False n1) = (Inr (), n)"
    by (rule push_in_transaction [OF table, where rk = ?rk and w = ?rw and t = "getPushAccount ?peer" and rdf = "re_rdf E"]) (rule that)
  have ws: "tokenize (REGISTER @ '' '' @ ?a) '' '' = Some [REGISTER, ?a]"
    using tokenize_frame [OF command_words(4), of ?a] ok(2) by (simp add: hex_words_def)
  have b: "cs_buffer cs = []" "cs_pending cs = [AsyncRead]" using idle by (simp_all add: client_idle_def)
  have acc: "HashHelper_string (peer_getAccountHash ?peer) = copyVectorToString account"
    "peer_getAccountHashString ?peer = copyVectorToString account"
    by (simp_all add: known_server_def peer_setAccountHash_def peer_getAccountHash_def peer_getAccountHashString_def
        HashHelper_string_def hash_defs copyVectorToString_def copyStringToVector_def)
  let ?v = "registered_client cid ?sv account n1 w"
  have cmd: "client_command E cid [REGISTER, ?a] (set_client cid ?c0 (opened w)) = Some (Inr FallThrough, ?v)"
    using n1 [unfolded known_server_def] acc [unfolded known_server_def]
    by (simp add: client_command_def vector_at_def obind_def returning_def slift_def sbind_def registerResponse_def
        codecs_okD [OF ok(1)] on_client_Some smodify_def setAccountSessionMapping_def at_router_def registerRpcPeer_def
        on_node_def sreturn_def registered_client_def set_client_def opened_def known_server_def client_order Let_def)
  have com: "scope_commit E ?v = (Inr (), registered_client cid ?sv account n w)"
    using scope_commit_node [of E ?v n] n
    by (simp add: registered_client_def set_node_def store_methods_def set_client_def)
  have "receive E cid (REGISTER @ '' '' @ ?a) w =
      Some (Inr None, registered_client cid (cs\<lparr>cs_accountHash := copyVectorToString account\<rparr>) account n w)"
    using receive_unanswered [OF idle ws cmd com, where sv = ?sv] b
    by (simp add: client_order client_same registered_client_def)
  from that [OF this] show thesis .
qed

section \<open>Conversations\<close>

text \<open>The frames a peer sends one after the other, each after the answer to the one before; the value
  is the list of the answers.\<close>

fun conversation ::
  "('txn, 'db, 'g, 'any, 'tb, 'ab, 'sb, 'priv, 'pub) rpc_env \<Rightarrow> nat \<Rightarrow> string list \<Rightarrow>
   (('txn, 'db, 'g, 'ab) rpc_server, string list) oprog" where
  "conversation E sid [] = returning (sreturn [])"
| "conversation E sid (frame # frames) = obind (deliver E sid frame) (\<lambda>reply.
     obind (conversation E sid frames) (\<lambda>replies. returning (sreturn (reply # replies))))"

text \<open>A client and a server connected by a network that delivers each frame.\<close>

definition at_client :: "('c, 'a) oprog \<Rightarrow> ('c \<times> 's, 'a) oprog" where
  "at_client m p = map_option (\<lambda>(r, c). (r, (c, snd p))) (m (fst p))"

definition at_server :: "('s, 'a) oprog \<Rightarrow> ('c \<times> 's, 'a) oprog" where
  "at_server m p = map_option (\<lambda>(r, s). (r, (fst p, s))) (m (snd p))"

fun exchange ::
  "('txn, 'db, 'g, 'any, 'tb, 'ab, 'sb, 'priv, 'pub) rpc_env \<Rightarrow> nat \<Rightarrow>
   ('txn2, 'db2, 'g2, 'any2, 'tb2, 'ab2, 'sb2, 'priv2, 'pub2) rpc_env \<Rightarrow> nat \<Rightarrow> nat \<Rightarrow> string option \<Rightarrow>
   (('txn, 'db, 'g, 'ab) rpc_client \<times> ('txn2, 'db2, 'g2, 'ab2) rpc_server, string option) oprog" where
  "exchange Ec cid Es sid 0 frame = returning (sreturn frame)"
| "exchange Ec cid Es sid (Suc rounds) None = returning (sreturn None)"
| "exchange Ec cid Es sid (Suc rounds) (Some frame) =
     obind (at_server (deliver Es sid frame)) (\<lambda>reply.
     obind (at_client (receive Ec cid reply)) (\<lambda>answer. exchange Ec cid Es sid rounds answer))"

definition handshake ::
  "('txn, 'db, 'g, 'any, 'tb, 'ab, 'sb, 'priv, 'pub) rpc_env \<Rightarrow> nat \<Rightarrow>
   ('txn2, 'db2, 'g2, 'any2, 'tb2, 'ab2, 'sb2, 'priv2, 'pub2) rpc_env \<Rightarrow> nat \<Rightarrow> nat \<Rightarrow>
   (('txn, 'db, 'g, 'ab) rpc_client \<times> ('txn2, 'db2, 'g2, 'ab2) rpc_server, string option) oprog" where
  "handshake Ec cid Es sid rounds =
     obind (at_client (returning (sbind (client_on_handshake Ec cid False) (\<lambda>_. client_flush cid))))
       (exchange Ec cid Es sid rounds)"

end
