(* ===== verification/RpcWire.thy ===== *)
theory RpcWire
  imports RpcProtocol
begin

text \<open>
  A concrete hexadecimal codec and a concrete format of the messages of the RPC protocol, with which
  the witnesses of the RPC theorems are computed.
\<close>

section \<open>Hexadecimal digits\<close>

fun decode_pairs :: "string \<Rightarrow> bytes result" where
  "decode_pairs [] = Inr []"
| "decode_pairs [c] = Inl HexDecodeError"
| "decode_pairs (c # d # s) = rmap (\<lambda>b. word_of_int (hex_decode_char c * 16 + hex_decode_char d) # b) (decode_pairs s)"

definition encode_pair :: "byte \<Rightarrow> string" where
  "encode_pair b = [hex_digit (unat b div 16), hex_digit (unat b mod 16)]"

definition hex_codecs :: text_codecs where
  "hex_codecs = \<lparr>hex_encode = (\<lambda>b. concat (map encode_pair b)), hex_decode_locked = decode_pairs,
     base64_encode = map byte_char, base64_decode = \<lambda>s. Inr (map char_byte s)\<rparr>"

lemma byte_less: "unat (x :: byte) < 256"
  using unsigned_less [of x, where 'a = nat] by simp

lemma decode_encode_pairs: "decode_pairs (concat (map encode_pair b)) = Inr b"
proof (induction b)
  case Nil
  then show ?case by simp
next
  case (Cons x b)
  have d: "unat x div 16 < 16" using byte_less [of x] by (simp add: less_mult_imp_div_less)
  have "int (unat x div 16) * 16 + int (unat x mod 16) = int (unat x div 16 * 16 + unat x mod 16)"
    by (simp only: of_nat_add of_nat_mult of_nat_numeral)
  also have "\<dots> = int (unat x)" unfolding div_mult_mod_eq ..
  finally have e: "int (unat x div 16) * 16 + int (unat x mod 16) = int (unat x)" .
  have "hex_decode_char (hex_digit (unat x div 16)) * 16 + hex_decode_char (hex_digit (unat x mod 16)) = int (unat x)"
    using d e by (simp add: hex_decode_hex_digit)
  then have "word_of_int (hex_decode_char (hex_digit (unat x div 16)) * 16 + hex_decode_char (hex_digit (unat x mod 16))) = x"
    by simp
  with Cons show ?case by (simp add: encode_pair_def)
qed

lemma hex_codecs_ok: "codecs_ok hex_codecs"
  by (simp add: codecs_ok_def hex_codecs_def decode_encode_pairs)

lemma hex_digit_no_space: "d < 16 \<Longrightarrow> hex_digit d \<noteq> CHR '' ''"
  using hex_decode_hex_digit [of d] by (auto simp: hex_decode_char_def split: if_splits)

lemma hex_codecs_words: "CHR '' '' \<notin> set (hex_encode hex_codecs b)"
proof -
  have "CHR '' '' \<notin> set (encode_pair x)" for x
    using less_mult_imp_div_less [of "unat x" 16 16] byte_less [of x] hex_digit_no_space [of "unat x div 16"] hex_digit_no_space [of "unat x mod 16"]
    by (auto simp: encode_pair_def)
  then show ?thesis by (auto simp: hex_codecs_def)
qed

section \<open>Trees of accounts\<close>

fun write_tree :: "PushAccount \<Rightarrow> string" where
  "write_tree (PushAccount v a m cs) =
     pack_fields (show_int (sint v) # copyVectorToString a # copyVectorToString m # map write_tree cs)"

fun read_tree :: "nat \<Rightarrow> string \<Rightarrow> PushAccount" where
  "read_tree 0 s = empty_PushAccount"
| "read_tree (Suc n) s = (case unpack_fields s of
       v # a # m # cs \<Rightarrow> PushAccount (word_of_int (atol v)) (copyStringToVector a) (copyStringToVector m) (map (read_tree n) cs)
     | _ \<Rightarrow> empty_PushAccount)"

lemma length_pack_field: "length (pack_field f) = 2 * length f + 1"
  by (induction f rule: pack_field.induct) simp_all

lemma length_pack_fields: "f \<in> set fs \<Longrightarrow> length f < length (pack_fields fs)"
  by (induction fs) (auto simp: pack_fields_def length_pack_field)

lemma read_write_tree: "length (write_tree t) \<le> n \<Longrightarrow> read_tree (Suc n) (write_tree t) = t"
proof (induction t arbitrary: n rule: write_tree.induct)
  case (1 v a m cs)
  have "read_tree n (write_tree c) = c" if c: "c \<in> set cs" for c
  proof -
    have "length (write_tree c) < length (write_tree (PushAccount v a m cs))"
      using c by (simp add: length_pack_fields)
    with 1(2) obtain k where k: "n = Suc k" and "length (write_tree c) \<le> k" by (cases n) auto
    from 1(1) [OF c this(2)] show ?thesis by (simp add: k)
  qed
  then have "map (read_tree n) (map write_tree cs) = cs" by (simp add: map_idI)
  then show ?case by (simp add: atol_show_int copy_simps)
qed

section \<open>Messages\<close>

definition write_flag :: "bool \<Rightarrow> string" where
  "write_flag b = (if b then ''t'' else [])"

fun operation_number :: "MessageOperation \<Rightarrow> nat" where
  "operation_number MESSAGE_INIT = 0" | "operation_number MESSAGE_ROUTE = 1" | "operation_number MESSAGE_BALANCE = 2"
| "operation_number MESSAGE_BLOCK = 3" | "operation_number MESSAGE_PROCESS = 4" | "operation_number MESSAGE_WAIT = 5"
| "operation_number MESSAGE_PERSIST = 6"

definition operation_of :: "nat \<Rightarrow> MessageOperation" where
  "operation_of k = [MESSAGE_INIT, MESSAGE_ROUTE, MESSAGE_BALANCE, MESSAGE_BLOCK, MESSAGE_PROCESS, MESSAGE_WAIT, MESSAGE_PERSIST] ! k"

lemma operation_of_number [simp]: "operation_of (operation_number p) = p"
  by (cases p) (simp_all add: operation_of_def)

definition plain_rpc_wire :: "unit rpc_wire" where
  "plain_rpc_wire = \<lparr>
     serialize_helo = (\<lambda>h. pack_fields [show_int (sint (sh_version h)), sh_account_hash h, sh_signature h]),
     parse_helo = (\<lambda>s. case unpack_fields s of
         [v, a, g] \<Rightarrow> \<lparr>sh_version = word_of_int (atol v), sh_account_hash = a, sh_signature = g\<rparr>
       | _ \<Rightarrow> new_ServerHelloProtoHelper),
     serialize_peers = (\<lambda>p. pack_fields (show_int (sint (prs_version p)) # prs_peers p)),
     parse_peers = (\<lambda>s. case unpack_fields s of
         v # ps \<Rightarrow> \<lparr>prs_version = word_of_int (atol v), prs_peers = ps\<rparr> | _ \<Rightarrow> new_PeerResponseHelper),
     serialize_consensus = (\<lambda>c. pack_fields [show_int (sint (cn_version c)), cn_account_hash c, cn_msg c]),
     parse_consensus = (\<lambda>s. case unpack_fields s of
         [v, a, m] \<Rightarrow> \<lparr>cn_version = word_of_int (atol v), cn_account_hash = a, cn_msg = m\<rparr>
       | _ \<Rightarrow> new_ConsensusMessageHelper),
     serialize_rpc_peer = (\<lambda>p. pack_fields ([show_int (sint (rpc_version p)), copyVectorToString (rpc_account_hash p),
         write_flag (rpc_server p)] @ (case rpc_accountInfo p of None \<Rightarrow> [] | Some t \<Rightarrow> [write_tree t]))),
     parse_rpc_peer = (\<lambda>s. case unpack_fields s of
         v # a # f # ts \<Rightarrow> \<lparr>rpc_version = word_of_int (atol v), rpc_account_hash = copyStringToVector a, rpc_server = (f \<noteq> []),
           rpc_accountInfo = (case ts of [] \<Rightarrow> None | t # _ \<Rightarrow> Some (read_tree (Suc (length t)) t))\<rparr>
       | _ \<Rightarrow> empty_RpcPeer),
     serialize_wrapper = (\<lambda>m. pack_fields [show_int (sint (mw_version m)), copyVectorToString (mw_session_hash m),
         copyVectorToString (mw_account_hash m), write_flag (mw_message_type m = MESSAGE_TYPE_BLOCK),
         replicate (operation_number (mw_message_operation m)) (CHR ''o''), write_flag (mw_msg m \<noteq> None)]),
     parse_wrapper = (\<lambda>s. case unpack_fields s of
         [v, se, a, t, p, m] \<Rightarrow> \<lparr>mw_version = word_of_int (atol v), mw_session_hash = copyStringToVector se,
           mw_account_hash = copyStringToVector a,
           mw_message_type = (if t = [] then MESSAGE_TYPE_TRANSACTION else MESSAGE_TYPE_BLOCK),
           mw_message_operation = operation_of (length p), mw_msg = (if m = [] then None else Some ())\<rparr>
       | _ \<Rightarrow> new_MessageWrapper),
     serialize_response = (\<lambda>r. pack_fields [write_flag (mr_success r), mr_result r]),
     parse_response = (\<lambda>s. case unpack_fields s of
         [f, r] \<Rightarrow> \<lparr>mr_success = (f \<noteq> []), mr_result = r\<rparr> | _ \<Rightarrow> \<lparr>mr_success = False, mr_result = []\<rparr>)\<rparr>"

lemma plain_rpc_wire_ok: "rpc_wire_ok plain_rpc_wire"
proof -
  have "parse_rpc_peer plain_rpc_wire (serialize_rpc_peer plain_rpc_wire p) = p" for p
    by (simp add: plain_rpc_wire_def atol_show_int copy_simps write_flag_def read_write_tree del: read_tree.simps split: option.split)
  moreover have "parse_wrapper plain_rpc_wire (serialize_wrapper plain_rpc_wire m) = m" for m
    by (cases m; cases "mw_message_type m"; cases "mw_msg m") (simp_all add: plain_rpc_wire_def atol_show_int copy_simps write_flag_def)
  ultimately show ?thesis
    by (simp add: rpc_wire_ok_def plain_rpc_wire_def atol_show_int write_flag_def)
qed

end
