(* ===== verification/Rpc.thy ===== *)
theory Rpc
  imports RpcHandshake RpcWire
begin

text \<open>
  What a peer gets from the RPC server and what the handshake of a client and a server leaves behind.
\<close>

section \<open>The handshake\<close>

text \<open>The client says hello, is greeted with the session key and answers with its consensus message.\<close>

lemma handshake_greets:
  fixes Ec :: "('txn, 'db, 'g, 'any, 'tb, 'ab, 'sb, 'priv, 'pub) rpc_env"
    and Es :: "('txn2, 'db2, 'g2, 'any2, 'tb2, 'ab, 'sb2, 'priv2, 'pub2) rpc_env"
  assumes ok: "codecs_ok (re_codecs Ec)" "hex_words (re_codecs Ec)" "rpc_wire_ok (re_wire Ec)"
    and same: "re_codecs Es = re_codecs Ec" "re_wire Es = re_wire Ec"
    and client: "rc_sessions c cid = Some cs" "cs_pending cs = []" "cs_buffer cs = []" "table_ready (router_node (rn_router c))"
    and server: "idle sid ss s"
    and sign: "generator_sign (ce_botan (re_consensus Ec)) (SignatureGenerator_of_loader (cs_keyLoader cs))
      (server_account (re_router Ec)) = Inr signature"
    and key: "updateSessionKey (re_consensus Ec) (cw_rpc_secret (rn_consensus s)) (rn_consensus c) = (Inr (), k)"
    and consensus: "generateSoftwareConsensus (re_consensus Ec) (re_consensus_wire Ec) (re_keyLoader Ec) (server_account (re_router Ec))
      (fst (re_clock Ec)) (snd (re_clock Ec)) k (moduleHash_setHash new_ModuleHashMessageHelper (server_account (re_router Es))) = Some (Inr msg)"
  shows "\<exists>fs gs. handshake Ec cid Es sid (Suc rounds) (c, s) = exchange Ec cid Es sid rounds
      (Some (buildMessage_vector (re_codecs Ec) HELLO_CONSENSUS (copyStringToVector (serialize_consensus (re_wire Ec) msg))))
      (set_client cid (cs\<lparr>cs_pending := [AsyncRead], cs_sent := fs\<rparr>) (c\<lparr>rn_consensus := k\<rparr>),
       set_session sid (ss\<lparr>ss_hello := Some (client_hello (server_account (re_router Ec)) signature), ss_sent := gs\<rparr>) s)"
proof -
  let ?C = "re_codecs Ec" let ?W = "re_wire Ec" let ?as = "server_account (re_router Es)"
  let ?h = "client_hello (server_account (re_router Ec)) signature"
  define f0 where "f0 = buildMessage_vector ?C HELLO (copyStringToVector (serialize_helo ?W ?h))"
  define r0 where "r0 = HELLO_CONSENSUS @ '' '' @ hex_encode ?C (cw_rpc_secret (rn_consensus s)) @ '' '' @ hex_encode ?C ?as"
  define f1 where "f1 = buildMessage_vector ?C HELLO_CONSENSUS (copyStringToVector (serialize_consensus ?W msg))"
  define c0 where "c0 = cs\<lparr>cs_pending := [AsyncRead], cs_sent := cs_sent cs @ [f0]\<rparr>"
  have 0: "sbind (client_on_handshake Ec cid False) (\<lambda>_. client_flush cid) c = (Inr (Some f0), set_client cid c0 c)"
    using client_says_hello [OF client(1-3) sign, of f0] by (simp add: f0_def c0_def)
  have 1: "deliver Es sid f0 s = Some (Inr r0, set_session sid (ss\<lparr>ss_hello := Some ?h, ss_sent := ss_sent ss @ [r0]\<rparr>) s)"
    using deliver_hello [OF ok [folded same] server, of f0 ?h r0] by (simp add: f0_def r0_def same)
  have "client_idle cid c0 (set_client cid c0 c)" using client(3,4) by (simp add: client_idle_def c0_def table_ready_def)
  from receive_hello_consensus [OF ok(1,2) this, of r0 _ ?as k msg f1]
  have 2: "receive Ec cid r0 (set_client cid c0 c) =
      Some (Inr (Some f1), set_client cid (c0\<lparr>cs_sent := cs_sent c0 @ [f1]\<rparr>) (c\<lparr>rn_consensus := k\<rparr>))"
    using key consensus by (simp add: f1_def r0_def set_client_def)
  have "handshake Ec cid Es sid (Suc rounds) (c, s) = exchange Ec cid Es sid rounds (Some f1)
      (set_client cid (cs\<lparr>cs_pending := [AsyncRead], cs_sent := cs_sent c0 @ [f1]\<rparr>) (c\<lparr>rn_consensus := k\<rparr>),
       set_session sid (ss\<lparr>ss_hello := Some ?h, ss_sent := ss_sent ss @ [r0]\<rparr>) s)"
    using 0 1 2 by (simp add: handshake_def at_client_def at_server_def returning_def obind_def c0_def)
  then show ?thesis unfolding f1_def by blast
qed

text \<open>The server accepts the consensus message and both register the other.\<close>

lemma exchange_registers:
  fixes Ec :: "('txn, 'db, 'g, 'any, 'tb, 'ab, 'sb, 'priv, 'pub) rpc_env"
    and Es :: "('txn2, 'db2, 'g2, 'any2, 'tb2, 'ab, 'sb2, 'priv2, 'pub2) rpc_env"
  assumes ok: "codecs_ok (re_codecs Ec)" "hex_words (re_codecs Ec)" "rpc_wire_ok (re_wire Ec)"
    and same: "re_codecs Es = re_codecs Ec" "re_wire Es = re_wire Ec"
    and client: "client_idle cid cs c" "cs_peered cs" "table_ready (router_node (rn_router c))"
    and server: "idle sid ss s" "ss_hello ss = Some h" "table_ready (router_node (rn_router s))"
    and valid: "validateSoftwareConsensus (re_consensus Es) (re_consensus_wire Es) (rn_consensus s) msg = Inr validation"
      "validation_isValid validation"
    and routing: "in_transaction (store_methods Ec) (routing_of_node Ec) (router_node (rn_router c)) = (Inr (Some peer), n)"
  obtains cs' ss' nc ns where "exchange Ec cid Es sid 3
      (Some (buildMessage_vector (re_codecs Ec) HELLO_CONSENSUS (copyStringToVector (serialize_consensus (re_wire Ec) msg)))) (c, s) =
      Some (Inr None, (registered_client cid cs' (server_account (re_router Es)) nc c, registered_server sid ss' (sh_account_hash h) peer ns s))"
    and "rocks_ok (env_rocks (re_router Es)) \<and> distinct (map fst (tree_accounts (getPushAccount peer))) \<longrightarrow>
      (\<forall>(a, m) \<in> set (tree_accounts (getPushAccount peer)).
        router_stored (env_rocks (re_router Es)) (router_part (stores ns)) ROUTER_INDEX a = Some (routing_entry (env_routing (re_router Es)) m))"
proof -
  let ?C = "re_codecs Ec" let ?W = "re_wire Ec" let ?as = "server_account (re_router Es)"
  note oks = ok [folded same]
  define f1 where "f1 = buildMessage_vector ?C HELLO_CONSENSUS (copyStringToVector (serialize_consensus ?W msg))"
  define r1 where "r1 = ACCEPTED @ '' '' @ ACCEPTED"
  define f2 where "f2 = buildMessage_vector ?C REGISTER (copyStringToVector (serialize_rpc_peer ?W peer))"
  define r2 where "r2 = REGISTER @ '' '' @ hex_encode ?C ?as"
  define s2 where "s2 = ss\<lparr>ss_sent := ss_sent ss @ [r1]\<rparr>"
  have 3: "deliver Es sid f1 s = Some (Inr r1, set_session sid s2 s)"
    using deliver_consensus [OF oks server(1,2), of f1 msg validation r1] valid by (simp add: f1_def r1_def s2_def same)
  define c2 where "c2 = cs\<lparr>cs_sent := cs_sent cs @ [f2]\<rparr>"
  let ?c2 = "set_client cid c2 (set_node n c)"
  have 4: "receive Ec cid r1 c = Some (Inr (Some f2), ?c2)"
    using receive_accepted [OF client(1,2) routing, of f2] by (simp add: r1_def f2_def c2_def)
  have "idle sid s2 (set_session sid s2 s)" "ss_hello s2 = Some h" "table_ready (router_node (rn_router (set_session sid s2 s)))"
    and "f2 = buildMessage_vector (re_codecs Es) REGISTER (copyStringToVector (serialize_rpc_peer (re_wire Es) peer))"
    and "r2 = REGISTER @ '' '' @ hex_encode (re_codecs Es) ?as"
    using server by (simp_all add: idle_def s2_def f2_def r2_def same)
  then obtain ns where
    5: "deliver Es sid f2 (set_session sid s2 s) = Some (Inr r2, registered_server sid (s2\<lparr>ss_sent := ss_sent s2 @ [r2]\<rparr>)
      (sh_account_hash h) peer ns (set_session sid s2 s))"
    and st: "rocks_ok (env_rocks (re_router Es)) \<and> distinct (map fst (tree_accounts (getPushAccount peer))) \<longrightarrow>
      (\<forall>(a, m) \<in> set (tree_accounts (getPushAccount peer)).
        router_stored (env_rocks (re_router Es)) (router_part (stores ns)) ROUTER_INDEX a = Some (routing_entry (env_routing (re_router Es)) m))"
    by (rule deliver_register [OF oks])
  have "table_ready n" using routing_of_node_keeps_table [OF routing client(3)] .
  then have "client_idle cid c2 ?c2" "table_ready (router_node (rn_router ?c2))"
    using client(1) by (simp_all add: client_idle_def c2_def set_node_def table_ready_def)
  then obtain nc where 6: "receive Ec cid r2 ?c2 =
      Some (Inr None, registered_client cid (c2\<lparr>cs_accountHash := copyVectorToString ?as\<rparr>) ?as nc ?c2)"
    unfolding r2_def by (rule receive_register [OF ok(1,2)])
  have "exchange Ec cid Es sid 3 (Some f1) (c, s) = Some (Inr None, (
      registered_client cid (c2\<lparr>cs_accountHash := copyVectorToString ?as\<rparr>) ?as nc c,
      registered_server sid (s2\<lparr>ss_sent := ss_sent s2 @ [r2]\<rparr>) (sh_account_hash h) peer ns s))"
    using 3 4 5 6
    by (simp add: at_client_def at_server_def returning_def obind_def eval_nat_numeral sreturn_def
        registered_client_def registered_server_def set_client_def set_session_def set_node_def)
  then show thesis unfolding f1_def using st by (rule that)
qed

text \<open>C5: the handshake of a client that has been given the address of a server ends with both
  registered. The client says hello with its signed account, takes over the session key the server
  sends, answers with its consensus message, is accepted if the server's modules give all of its
  hashes, sends the routing tree of its accounts and gets the account of the server. The server then
  finds the session under the client's account, knows it as a peer and has stored the routes of its
  accounts; the client finds its session under the account of the server and knows the server as a
  peer, but as one that is not a server. Nothing is left to be sent.\<close>

theorem handshake_registers_both:
  fixes Ec :: "('txn, 'db, 'g, 'any, 'tb, 'ab, 'sb, 'priv, 'pub) rpc_env"
    and Es :: "('txn2, 'db2, 'g2, 'any2, 'tb2, 'ab, 'sb2, 'priv2, 'pub2) rpc_env"
  assumes ok: "codecs_ok (re_codecs Ec)" "hex_words (re_codecs Ec)" "rpc_wire_ok (re_wire Ec)"
    and same: "re_codecs Es = re_codecs Ec" "re_wire Es = re_wire Ec"
    and client: "rc_sessions c cid = Some cs" "cs_pending cs = []" "cs_buffer cs = []" "cs_peered cs"
      "table_ready (router_node (rn_router c))"
    and server: "idle sid ss s" "table_ready (router_node (rn_router s))"
    and sign: "generator_sign (ce_botan (re_consensus Ec)) (SignatureGenerator_of_loader (cs_keyLoader cs))
      (server_account (re_router Ec)) = Inr signature"
    and key: "updateSessionKey (re_consensus Ec) (cw_rpc_secret (rn_consensus s)) (rn_consensus c) = (Inr (), k)"
    and consensus: "generateSoftwareConsensus (re_consensus Ec) (re_consensus_wire Ec) (re_keyLoader Ec) (server_account (re_router Ec))
      (fst (re_clock Ec)) (snd (re_clock Ec)) k (moduleHash_setHash new_ModuleHashMessageHelper (server_account (re_router Es))) = Some (Inr msg)"
    and valid: "validateSoftwareConsensus (re_consensus Es) (re_consensus_wire Es) (rn_consensus s) msg = Inr validation"
      "validation_isValid validation"
    and routing: "in_transaction (store_methods Ec) (routing_of_node Ec) (router_node (rn_router c)) = (Inr (Some peer), n)"
    and rocks: "rocks_ok (env_rocks (re_router Es))" and tree: "distinct (map fst (tree_accounts (getPushAccount peer)))"
  shows "\<exists>c' s'. handshake Ec cid Es sid 4 (c, s) = Some (Inr None, (c', s')) \<and>
    map_of (rs_accountSessionMap s') (copyVectorToString (server_account (re_router Ec))) = Some sid \<and>
    map_of (router_peers (rn_router s')) (peer_getAccountHashBytes peer) = Some peer \<and>
    (\<forall>(a, m) \<in> set (tree_accounts (getPushAccount peer)).
       router_stored (env_rocks (re_router Es)) (router_part (stores (router_node (rn_router s')))) ROUTER_INDEX a =
         Some (routing_entry (env_routing (re_router Es)) m)) \<and>
    map_of (rc_accountSessionMap c') (copyVectorToString (server_account (re_router Es))) = Some cid \<and>
    map_of (router_peers (rn_router c')) (server_account (re_router Es)) = Some (known_server (server_account (re_router Es))) \<and>
    \<not> isServer (known_server (server_account (re_router Es))) \<and> rn_consensus c' = k"
proof -
  let ?ac = "server_account (re_router Ec)" let ?as = "server_account (re_router Es)" let ?h = "client_hello ?ac signature"
  obtain fs gs where greet: "handshake Ec cid Es sid (Suc 3) (c, s) = exchange Ec cid Es sid 3
      (Some (buildMessage_vector (re_codecs Ec) HELLO_CONSENSUS (copyStringToVector (serialize_consensus (re_wire Ec) msg))))
      (set_client cid (cs\<lparr>cs_pending := [AsyncRead], cs_sent := fs\<rparr>) (c\<lparr>rn_consensus := k\<rparr>),
       set_session sid (ss\<lparr>ss_hello := Some ?h, ss_sent := gs\<rparr>) s)"
    using handshake_greets [OF ok same client(1-3,5) server(1) sign key consensus] by blast
  let ?cs = "cs\<lparr>cs_pending := [AsyncRead], cs_sent := fs\<rparr>" let ?c = "set_client cid ?cs (c\<lparr>rn_consensus := k\<rparr>)"
  let ?ss = "ss\<lparr>ss_hello := Some ?h, ss_sent := gs\<rparr>" let ?s = "set_session sid ?ss s"
  have "client_idle cid ?cs ?c" "cs_peered ?cs" "table_ready (router_node (rn_router ?c))" "idle sid ?ss ?s" "ss_hello ?ss = Some ?h"
    "table_ready (router_node (rn_router ?s))"
    using client server by (simp_all add: client_idle_def idle_def table_ready_def)
  then obtain cs' ss' nc ns where reg: "exchange Ec cid Es sid 3
      (Some (buildMessage_vector (re_codecs Ec) HELLO_CONSENSUS (copyStringToVector (serialize_consensus (re_wire Ec) msg)))) (?c, ?s) =
      Some (Inr None, (registered_client cid cs' ?as nc ?c, registered_server sid ss' (sh_account_hash ?h) peer ns ?s))"
    and st: "rocks_ok (env_rocks (re_router Es)) \<and> distinct (map fst (tree_accounts (getPushAccount peer))) \<longrightarrow>
      (\<forall>(a, m) \<in> set (tree_accounts (getPushAccount peer)).
        router_stored (env_rocks (re_router Es)) (router_part (stores ns)) ROUTER_INDEX a = Some (routing_entry (env_routing (re_router Es)) m))"
    by (rule exchange_registers [OF ok same]) (use valid routing in simp_all)
  define c' where "c' = registered_client cid cs' ?as nc ?c"
  define s' where "s' = registered_server sid ss' (sh_account_hash ?h) peer ns ?s"
  have "rn_consensus c' = k" "map_of (rs_accountSessionMap s') (copyVectorToString ?ac) = Some sid"
    "map_of (router_peers (rn_router s')) (peer_getAccountHashBytes peer) = Some peer"
    "router_node (rn_router s') = ns" "map_of (rc_accountSessionMap c') (copyVectorToString ?as) = Some cid"
    "map_of (router_peers (rn_router c')) ?as = Some (known_server ?as)"
    by (simp_all add: c'_def s'_def registered_client_def registered_server_def set_client_def set_session_def
        client_hello_def copyVectorToString_def addPeer_def known_server_def peer_setAccountHash_def peer_getAccountHashBytes_def)
  moreover have "\<not> isServer (known_server ?as)"
    by (simp add: known_server_def isServer_def peer_setAccountHash_def new_RpcPeerHelper_def empty_RpcPeer_def)
  moreover have "handshake Ec cid Es sid 4 (c, s) = Some (Inr None, (c', s'))"
    using greet reg by (simp add: c'_def s'_def)
  ultimately show ?thesis using st rocks tree by (intro exI [of _ c'] exI [of _ s']) auto
qed

section \<open>What the server does not check\<close>

text \<open>C7: a peer the server has rejected can register. Whatever account and signature the hello
  names and whatever makes the consensus message invalid, the server answers the message with
  \<open>GO_AWAY\<close> and keeps the session; the \<open>REGISTER\<close> that follows puts the session into the cache under
  the account of the hello, makes the peer it carries known to the router under any account that peer
  names, and is answered like that of an accepted peer.\<close>

theorem rejected_peer_registers:
  fixes E :: "('txn, 'db, 'g, 'any, 'tb, 'ab, 'sb, 'priv, 'pub) rpc_env" and s :: "('txn, 'db, 'g, 'ab) rpc_server"
  assumes ok: "codecs_ok (re_codecs E)" "hex_words (re_codecs E)" "rpc_wire_ok (re_wire E)"
    and server: "idle sid ss s" "table_ready (router_node (rn_router s))"
    and rejected: "validateSoftwareConsensus (re_consensus E) (re_consensus_wire E) (rn_consensus s) msg = Inr validation"
      "\<not> validation_isValid validation"
  shows "\<exists>greeting s'. conversation E sid
      [buildMessage_vector (re_codecs E) HELLO (copyStringToVector (serialize_helo (re_wire E) h)),
       buildMessage_vector (re_codecs E) HELLO_CONSENSUS (copyStringToVector (serialize_consensus (re_wire E) msg)),
       buildMessage_vector (re_codecs E) REGISTER (copyStringToVector (serialize_rpc_peer (re_wire E) peer))] s =
      Some (Inr [greeting, GO_AWAY @ '' '' @ GO_AWAY,
        REGISTER @ '' '' @ hex_encode (re_codecs E) (server_account (re_router E))], s') \<and>
    map_of (rs_accountSessionMap s') (sh_account_hash h) = Some sid \<and>
    map_of (router_peers (rn_router s')) (peer_getAccountHashBytes peer) = Some peer"
proof -
  define r0 where "r0 = HELLO_CONSENSUS @ '' '' @ hex_encode (re_codecs E) (cw_rpc_secret (rn_consensus s)) @ '' '' @
      hex_encode (re_codecs E) (server_account (re_router E))"
  define s1 where "s1 = ss\<lparr>ss_hello := Some h, ss_sent := ss_sent ss @ [r0]\<rparr>"
  define s2 where "s2 = s1\<lparr>ss_sent := ss_sent s1 @ [GO_AWAY @ '' '' @ GO_AWAY]\<rparr>"
  note d1 = deliver_hello [OF ok server(1) refl r0_def, of h, folded s1_def]
  have i1: "idle sid s1 (set_session sid s1 s)" and h1: "ss_hello s1 = Some h" using server(1) by (simp_all add: idle_def s1_def)
  have d2: "deliver E sid (buildMessage_vector (re_codecs E) HELLO_CONSENSUS (copyStringToVector (serialize_consensus (re_wire E) msg)))
      (set_session sid s1 s) = Some (Inr (GO_AWAY @ '' '' @ GO_AWAY), set_session sid s2 s)"
    using deliver_consensus [OF ok i1 h1 refl _ refl, of msg validation] rejected by (simp add: s2_def)
  have i2: "idle sid s2 (set_session sid s2 s)" and h2: "ss_hello s2 = Some h" using i1 h1 by (simp_all add: idle_def s2_def)
  obtain n where d3: "deliver E sid (buildMessage_vector (re_codecs E) REGISTER (copyStringToVector (serialize_rpc_peer (re_wire E) peer)))
      (set_session sid s2 s) = Some (Inr (REGISTER @ '' '' @ hex_encode (re_codecs E) (server_account (re_router E))),
        registered_server sid (s2\<lparr>ss_sent := ss_sent s2 @ [REGISTER @ '' '' @ hex_encode (re_codecs E) (server_account (re_router E))]\<rparr>)
          (sh_account_hash h) peer n (set_session sid s2 s))"
    by (rule deliver_register [OF ok i2 h2 _ refl refl]) (simp_all add: server(2))
  show ?thesis
    using d1 d2 d3
    by (simp add: obind_def returning_def sbind_def sreturn_def) (simp add: registered_server_def addPeer_def set_session_def peer_getAccountHashBytes_def)
qed


text \<open>C28: a message routed to a connected peer is not sent. The caller is told that it was routed, and
  the session starts a write; but the frame it writes is the buffer of the session, which is empty
  while the session waits for a command, and not the message, of which nothing is kept.\<close>

theorem routed_transaction_is_not_sent:
  fixes E :: "('txn, 'db, 'g, 'any, 'tb, 'ab, 'sb, 'priv, 'pub) rpc_env" and s :: "('txn, 'db, 'g, 'ab) rpc_server"
  assumes "map_of (rs_accountSessionMap s) (copyVectorToString (mw_account_hash messageWrapper)) = Some sid" and "idle sid ss s"
  shows "RpcServer_routeTransaction E messageWrapper s =
    (Inr \<lparr>mr_success = True, mr_result = ''Routed to the peer ['' @ hex_encode (re_codecs E) (mw_account_hash messageWrapper) @ '']''\<rparr>,
     set_session sid (ss\<lparr>ss_pending := [AsyncRead, AsyncOutBound []], ss_sent := ss_sent ss @ [[]]\<rparr>) s)"
  using assms
  by (simp add: RpcServer_routeTransaction_def idle_def sbind_def on_session_Some session_routeTransaction_def smodify_def slift_def
      sreturn_def HashHelper_getHash_def wrapper_getAccountHash_def set_session_def)

section \<open>What the client does not keep apart\<close>

lemma scope_commit_set_client:
  "scope_commit E v = (r, v') \<Longrightarrow> scope_commit E (set_client cid cs v) = (r, set_client cid cs v')"
  by (auto simp: scope_commit_def rpc_defs set_client_def split: prod.splits)

lemma route_message_keeps_sessions:
  fixes w :: "('txn, 'db, 'g, 'ab) rpc_client"
  assumes "route_message E mw w = Some (r, v)"
  shows "rc_sessions v = rc_sessions w"
  using assms by (auto simp: route_message_def)

lemma scope_commit_keeps_sessions:
  fixes w :: "('txn, 'db, 'g, 'ab) rpc_client"
  assumes "scope_commit E w = (r, v)"
  shows "rc_sessions v = rc_sessions w"
  using assms by (auto simp: scope_commit_def rpc_defs split: prod.splits)

text \<open>C29: a client that answers a transaction reads into the buffer it writes from. When the router
  has taken the message of a \<open>TRANSACTION\<close> command, the handler starts to write the answer from the
  buffer of the session and then, because the command does not leave the function, starts the next
  read into the same buffer: the session has both under way, which its server never has.\<close>

theorem client_reads_while_it_answers:
  fixes c :: "('txn, 'db, 'g, 'ab) rpc_client" and E :: "('txn, 'db, 'g, 'any, 'tb, 'ab, 'sb, 'priv, 'pub) rpc_env"
  assumes ok: "codecs_ok (re_codecs E)" "hex_words (re_codecs E)" "rpc_wire_ok (re_wire E)" and client: "client_idle cid cs c"
    and frame: "frame = buildMessage_vector (re_codecs E) TRANSACTION_COMMAND (copyStringToVector (serialize_wrapper (re_wire E) mw))"
    and routed: "route_message E (wrapper_setSessionHash mw (server_account (re_router E)))
      (set_client cid (cs\<lparr>cs_pending := []\<rparr>) (opened c)) = Some (Inr response, v)"
    and committed: "scope_commit E v = (Inr (), v')"
    and answer: "answer = TRANSACTION_PROCESSED @ '' '' @ hex_encode (re_codecs E) (copyStringToVector (serialize_response (re_wire E) response))"
  shows "client_on_read E cid False (client_arrived cid frame c) =
    Some (Inr (), set_client cid (cs\<lparr>cs_buffer := answer, cs_pending := [AsyncWrite answer, AsyncRead], cs_sent := cs_sent cs @ [answer]\<rparr>) v')"
proof -
  let ?c0 = "cs\<lparr>cs_pending := []\<rparr>" let ?p = "hex_encode (re_codecs E) (copyStringToVector (serialize_wrapper (re_wire E) mw))"
  let ?sv = "cs\<lparr>cs_buffer := answer, cs_pending := [AsyncWrite answer], cs_sent := cs_sent cs @ [answer]\<rparr>"
  have b: "cs_buffer cs = []" "cs_pending cs = [AsyncRead]" "transactionWrapper (router_node (rn_router (set_client cid ?c0 c))) = None"
    using client by (simp_all add: client_idle_def)
  have ws: "tokenize frame '' '' = Some [TRANSACTION_COMMAND, ?p]"
    using tokenize_frame [of TRANSACTION_COMMAND ?p] ok(2)
    by (simp add: frame buildMessage_vector_def hex_words_def TRANSACTION_COMMAND_def)
  have sess: "rc_sessions v cid = Some ?c0" using route_message_keeps_sessions [OF routed] by simp
  have wr: "client_write cid answer v = (Inr (), set_client cid ?sv v)"
    using client_write_idle [OF sess, of answer] b by (simp add: client_order)
  have p: "parse_wrapper (re_wire E) (serialize_wrapper (re_wire E) mw) = mw" using ok(3) by (simp add: rpc_wire_ok_def)
  have "client_handleTransaction E cid ?p (set_client cid ?c0 (opened c)) = Some (Inr (), set_client cid ?sv v)"
    using routed wr
    by (simp add: client_handleTransaction_def obind_def returning_def slift_def copy_hex [OF ok(1)] p answer Let_def)
  then have cmd: "client_command E cid [TRANSACTION_COMMAND, ?p] (opened (set_client cid ?c0 c)) = Some (Inr FallThrough, set_client cid ?sv v)"
    by (simp add: client_command_def vector_at_def obind_def returning_def slift_def sreturn_def command_defs)
  have scope: "try_scope E (client_command E cid [TRANSACTION_COMMAND, ?p]) (set_client cid ?c0 c) = Some (Inr True, set_client cid ?sv v')"
    by (rule try_scope_falls_through [OF b(3), where body = "client_command E cid [TRANSACTION_COMMAND, ?p]"])
      (rule cmd, rule scope_commit_set_client [OF committed])
  show ?thesis
    using client_take_arrived [OF client, of frame] scope ws
    by (simp add: client_on_read_def obind_def returning_def on_client_Some client_async_read_def smodify_def set_client_def client_order)
qed

section \<open>Witnesses\<close>

definition unit_wire :: "(unit, unit, unit, unit) tx_wire" where
  "unit_wire = \<lparr>encode_message = (\<lambda>_. ()), decode_message = (\<lambda>_. Inl Asn1DecodeError), pack_any = (\<lambda>_. ()), unpack_any = (\<lambda>_. None),
     serialize_transaction = (\<lambda>_. ()), parse_transaction = (\<lambda>_. \<lparr>pt_transaction_hash = [], pt_transaction_signature = [],
       pt_active_account = [], pt_status = INIT, pt_asn1_transaction_message = ()\<rparr>), empty_message = ()\<rparr>"

text \<open>A node with the given account, and its stores with a router table and no accounts.\<close>

definition plain_rpc_env :: "bytes \<Rightarrow> (plain_db, plain_db, nat, unit, unit, unit, unit, bytes, bytes) rpc_env" where
  "plain_rpc_env account = \<lparr>re_router = \<lparr>env_rocks = plain_rocks, env_routing = plain_routing_wire, env_accounts = plain_account_wire,
       env_wire = unit_wire, server_account = account, fee_account = [8], generator = 7, handler_throws = (\<lambda>_ _. None)\<rparr>,
     re_rdf = counting_rdf, re_consensus = plain_consensus_env, re_consensus_wire = plain_consensus_wire, re_codecs = hex_codecs,
     re_wire = plain_rpc_wire, re_keyLoader = plain_loader, re_depth = 2, re_clock = ([5], [6])\<rparr>"

definition plain_rpc_router :: "(plain_db, plain_db, nat, unit) router_world" where
  "plain_rpc_router = \<lparr>router_node = account_node, router_registry = new_RouterRegistry, router_peers = [], outbox = []\<rparr>"

definition plain_session :: server_session where
  "plain_session = (accepted_session ''10.0.0.1'' ''10.0.0.2'')\<lparr>ss_pending := [AsyncRead]\<rparr>"

definition plain_server :: "(plain_db, plain_db, nat, unit) rpc_server" where
  "plain_server = \<lparr>rn_router = plain_rpc_router, rn_consensus = plain_consensus_world [1] [2], rs_accountSessionMap = [],
     rs_accountPeerCache = [], rs_externalIp = None, rs_serverPort = 28001, rs_sessions = [7 \<mapsto> plain_session]\<rparr>"

definition plain_client_session :: "io_operation list \<Rightarrow> client_session" where
  "plain_client_session pending = \<lparr>cs_buffer = [], cs_peered = True, cs_host = ''10.0.0.1'', cs_port = ''28001'',
     cs_keyLoader = plain_loader, cs_accountHash = [], cs_pending = pending, cs_sent = []\<rparr>"

definition plain_client :: "io_operation list \<Rightarrow> (plain_db, plain_db, nat, unit) rpc_client" where
  "plain_client pending = \<lparr>rn_router = plain_rpc_router, rn_consensus = plain_consensus_world [1] [2],
     rc_config = \<lparr>cfg_files = \<lparr>path_exists = (\<lambda>_. True), install_dir = [], path_append = (@)\<rparr>, cfg_private_key = None, cfg_public_key = None, cfg_peers = None\<rparr>,
     rc_sessionMap = [], rc_accountSessionMap = [], rc_peered = True, rc_sessions = [3 \<mapsto> plain_client_session pending], rc_next = 4\<rparr>"

lemma plain_rpc_facts:
  "re_codecs (plain_rpc_env a) = hex_codecs" "re_wire (plain_rpc_env a) = plain_rpc_wire" "server_account (re_router (plain_rpc_env a)) = a"
  "re_consensus (plain_rpc_env a) = plain_consensus_env" "re_consensus_wire (plain_rpc_env a) = plain_consensus_wire"
  "env_rocks (re_router (plain_rpc_env a)) = plain_rocks" "re_keyLoader (plain_rpc_env a) = plain_loader" "re_clock (plain_rpc_env a) = ([5], [6])"
  "hex_words hex_codecs" "idle 7 plain_session plain_server" "table_ready (router_node (rn_router plain_server))"
  "table_ready account_node" "rn_consensus plain_server = plain_consensus_world [1] [2]"
  "rn_consensus (plain_client p) = plain_consensus_world [1] [2]" "router_node (rn_router (plain_client p)) = account_node"
  "rc_sessions (plain_client p) 3 = Some (plain_client_session p)" "ss_hello plain_session = None"
  by (simp_all add: plain_rpc_env_def hex_words_def hex_codecs_words idle_def plain_session_def accepted_session_def
      plain_server_def plain_client_def plain_rpc_router_def table_ready_def account_node_def)

lemma plain_key: "updateSessionKey plain_consensus_env [] (plain_consensus_world [1] [2]) = (Inr (), plain_consensus_world [1] [2])"
  by (simp add: updateSessionKey_def CONSENSUS_SESSION_ORDER_def trigger_module_session_def rpc_setModuleSession_def
      consensus_setModuleSession_def on_module_def plain_consensus_world_def stry_def setModuleSession_def setSession_def
      plain_generator_def new_ConsensusHashGenerator_def prog_defs session_setSecret_def session_getSecret_def
      new_ModuleSessionMessageHelper_def)

lemma plain_sign: "generator_sign plain_botan (SignatureGenerator_of_loader plain_loader) v = Inr (copyStringToVector ''key'' @ v)"
  by (simp add: generator_sign_def SignatureGenerator_of_loader_def plain_loader_def plain_botan_def isInitialized_def getPrivateKey_def)

lemma plain_generate:
  obtains msg where "generateSoftwareConsensus plain_consensus_env plain_consensus_wire plain_loader account now0 now'
      (plain_consensus_world [1] [2]) event = Some (Inr msg)"
    and "validateSoftwareConsensus plain_consensus_env plain_consensus_wire (plain_consensus_world r b) msg =
      Inr \<lparr>mv_version = PROTOCOL_VERSION, mv_valid = ({#moduleHash_getHash event @ [1], moduleHash_getHash event @ [2]#} \<subseteq>#
        {#moduleHash_getHash event @ r, moduleHash_getHash event @ b#})\<rparr>"
proof -
  let ?seed = "moduleHash_getHash event"
  have seed: "generateSeed plain_consensus_env (cw_seedHashGenerator (plain_consensus_world [1] [2])) ?seed = Inr ?seed"
    by (simp add: generateSeed_def plain_consensus_env_def initChaiScript_previous_def
        ChaiScriptSession_of_previous_def chai_getPreviousHash_def plain_consensus_world_def Let_def)
  have sign: "\<exists>s. generator_sign_secure (ce_botan plain_consensus_env) (SignatureGenerator_of_loader plain_loader) v = Inr s" for v
    by (simp add: plain_consensus_env_def generator_sign_secure_def SignatureGenerator_of_loader_def plain_loader_def
        plain_botan_def isInitialized_def getPrivateKey_def)
  have enc: "\<exists>b. encode_software plain_consensus_wire sc = Inr b" for sc using plain_consensus_wire_ok by blast
  obtain root signature b sc where sc: "sc = \<lparr>sc_version = PROTOCOL_VERSION, sc_date = now', sc_previousHash = ?seed,
      sc_account = account, sc_seed = ?seed, sc_systemHashs = [?seed @ [1], ?seed @ [2]], sc_merkelRoot = root, sc_signature = signature\<rparr>"
    and b: "encode_software plain_consensus_wire sc = Inr b"
    and g: "generateSoftwareConsensus plain_consensus_env plain_consensus_wire plain_loader account now0 now' (plain_consensus_world [1] [2]) event =
      Some (Inr ((ConsensusBuilder_of_loader account)\<lparr>cn_account_hash := map byte_char account, cn_msg := map byte_char b\<rparr>))"
    using buildConsensus_eq [OF seed plain_hashes(2) sign enc, of now' account now0 "ConsensusBuilder_of_loader account"]
    by (auto simp: generateSoftwareConsensus_def plain_hashes)
  have "decode_software plain_consensus_wire (map byte_char b) = Inr sc" using plain_consensus_wire_ok [of sc] b by auto
  with that [OF g] validateConsensus_eq [of plain_consensus_wire _ sc plain_consensus_env] sc show thesis
    by (simp add: validateSoftwareConsensus_def setValid_def new_ModuleConsensusValidationMessageHelper_def plain_hashes)
qed

definition plain_rpc_peer :: RpcPeer where
  "plain_rpc_peer = setPushAccount (peer_setAccountHash new_RpcPeerHelper [1]) (push_setAccountHash new_PushAccountHelper [1])"

lemma plain_routing:
  "\<exists>n. in_transaction (store_methods (plain_rpc_env [1])) (routing_of_node (plain_rpc_env [1])) account_node = (Inr (Some plain_rpc_peer), n)"
  by (simp add: in_transaction_def createTransaction_def routing_of_node_def service_getNodeAccountRouting_def getNodeAccountRouting_def
   account_node_def plain_rpc_env_def with_account_resource_def AccountResourceManager_getResource_def prog_defs on_stores_def
   on_account_def enlistResource_def TransactionWrapper_enlist_def AccountResource_getTransaction_def open_transaction_def
   getConnection_def map_set_def plain_rocks_def resource_transactions_def buildNodeAccountRouting_def
   tx_defs store_methods_def node_resources_def AccountResourceManager_commit_def AccountResource_commit_def end_sessions_def
   update_resource_def resource_sessions_def plain_rpc_peer_def)

lemma plain_rpc_ok: "codecs_ok hex_codecs" "hex_words hex_codecs" "rpc_wire_ok plain_rpc_wire"
  by (simp_all add: hex_codecs_ok hex_words_def hex_codecs_words plain_rpc_wire_ok)

lemma plain_idle: "client_idle 3 (plain_client_session [AsyncRead]) (plain_client [AsyncRead])"
  by (simp add: client_idle_def plain_client_def plain_client_session_def plain_rpc_router_def account_node_def)

lemma cw_secret [simp]: "cw_rpc_secret (plain_consensus_world r b) = []"
  by (simp add: plain_consensus_world_def)

theorem handshake_registers_both_witness:
  "\<exists>c' s'. handshake (plain_rpc_env [1]) 3 (plain_rpc_env [9]) 7 4 (plain_client [], plain_server) = Some (Inr None, (c', s')) \<and>
    map_of (rs_accountSessionMap s') (copyVectorToString [1]) = Some 7 \<and>
    map_of (rc_accountSessionMap c') (copyVectorToString [9]) = Some 3"
proof -
  obtain msg where g: "generateSoftwareConsensus plain_consensus_env plain_consensus_wire plain_loader [1] [5] [6]
      (plain_consensus_world [1] [2]) (moduleHash_setHash new_ModuleHashMessageHelper [9]) = Some (Inr msg)"
    and v: "validateSoftwareConsensus plain_consensus_env plain_consensus_wire (plain_consensus_world [1] [2]) msg =
      Inr \<lparr>mv_version = PROTOCOL_VERSION, mv_valid = True\<rparr>"
    by (rule plain_generate [of "[1]" "[5]" "[6]" "moduleHash_setHash new_ModuleHashMessageHelper [9]" "[1]" "[2]"]) auto
  obtain n where n: "in_transaction (store_methods (plain_rpc_env [1])) (routing_of_node (plain_rpc_env [1])) account_node = (Inr (Some plain_rpc_peer), n)"
    using plain_routing by blast
  have "distinct (map fst (tree_accounts (getPushAccount plain_rpc_peer)))"
    by (simp add: plain_rpc_peer_def getPushAccount_def setPushAccount_def push_setAccountHash_def new_PushAccountHelper_def)
  with handshake_registers_both [of "plain_rpc_env [1]" "plain_rpc_env [9]" "plain_client []" 3 "plain_client_session []" 7 plain_session plain_server
      "copyStringToVector ''key'' @ [1]" "plain_consensus_world [1] [2]" msg "\<lparr>mv_version = PROTOCOL_VERSION, mv_valid = True\<rparr>" plain_rpc_peer n]
  show ?thesis
    using g v n plain_key plain_sign
    by (simp add: plain_rpc_facts plain_rpc_ok plain_rocks_ok plain_client_session_def validation_isValid_def plain_consensus_env_def) blast
qed

theorem rejected_peer_registers_witness:
  "\<exists>greeting msg s'. conversation (plain_rpc_env [9]) 7
      [buildMessage_vector hex_codecs HELLO (copyStringToVector (serialize_helo plain_rpc_wire \<lparr>sh_version = 1, sh_account_hash = ''root'', sh_signature = ''none''\<rparr>)),
       buildMessage_vector hex_codecs HELLO_CONSENSUS (copyStringToVector (serialize_consensus plain_rpc_wire msg)),
       buildMessage_vector hex_codecs REGISTER (copyStringToVector (serialize_rpc_peer plain_rpc_wire plain_rpc_peer))] plain_server =
      Some (Inr [greeting, GO_AWAY @ '' '' @ GO_AWAY, REGISTER @ '' '' @ hex_encode hex_codecs [9]], s') \<and>
    map_of (rs_accountSessionMap s') ''root'' = Some 7"
proof -
  let ?sc = "\<lparr>sc_version = 1, sc_date = [], sc_previousHash = [], sc_account = [], sc_seed = [], sc_systemHashs = [[5]],
    sc_merkelRoot = [], sc_signature = []\<rparr>"
  obtain b where d: "decode_software plain_consensus_wire (map byte_char b) = Inr ?sc"
    using plain_consensus_wire_ok by blast
  let ?msg = "\<lparr>cn_version = 1, cn_account_hash = [], cn_msg = map byte_char b\<rparr>"
  have v: "validateSoftwareConsensus plain_consensus_env plain_consensus_wire (plain_consensus_world [1] [2]) ?msg =
      Inr \<lparr>mv_version = PROTOCOL_VERSION, mv_valid = False\<rparr>"
    using validateConsensus_eq [of plain_consensus_wire ?msg ?sc plain_consensus_env "plain_consensus_world [1] [2]"] d
    by (simp add: validateSoftwareConsensus_def setValid_def new_ModuleConsensusValidationMessageHelper_def plain_hashes)
  from rejected_peer_registers [of "plain_rpc_env [9]" 7 plain_session plain_server ?msg "\<lparr>mv_version = PROTOCOL_VERSION, mv_valid = False\<rparr>"
      "\<lparr>sh_version = 1, sh_account_hash = ''root'', sh_signature = ''none''\<rparr>" plain_rpc_peer]
  show ?thesis
    using v by (simp add: plain_rpc_facts plain_rpc_ok validation_isValid_def) blast
qed


theorem routed_transaction_is_not_sent_witness:
  "RpcServer_routeTransaction (plain_rpc_env [9]) (new_MessageWrapper\<lparr>mw_account_hash := [1]\<rparr>)
     (plain_server\<lparr>rs_accountSessionMap := [(copyVectorToString [1], 7)]\<rparr>) =
   (Inr \<lparr>mr_success = True, mr_result = ''Routed to the peer ['' @ hex_encode hex_codecs [1] @ '']''\<rparr>,
    set_session 7 (plain_session\<lparr>ss_pending := [AsyncRead, AsyncOutBound []], ss_sent := [[]]\<rparr>)
      (plain_server\<lparr>rs_accountSessionMap := [(copyVectorToString [1], 7)]\<rparr>))"
proof -
  let ?s = "plain_server\<lparr>rs_accountSessionMap := [(copyVectorToString [1], 7)]\<rparr>"
  have "idle 7 plain_session ?s" using plain_rpc_facts(10) by (simp add: idle_def)
  from routed_transaction_is_not_sent [OF _ this, of "new_MessageWrapper\<lparr>mw_account_hash := [1]\<rparr>" "plain_rpc_env [9]"]
  show ?thesis
    by (simp add: plain_rpc_facts plain_session_def accepted_session_def)
qed

theorem client_reads_while_it_answers_witness:
  "\<exists>answer v. client_on_read (plain_rpc_env [1]) 3 False (client_arrived 3 (buildMessage_vector hex_codecs TRANSACTION_COMMAND
      (copyStringToVector (serialize_wrapper plain_rpc_wire (new_MessageWrapper\<lparr>mw_account_hash := [1], mw_message_operation := MESSAGE_PROCESS\<rparr>))))
      (plain_client [AsyncRead])) =
    Some (Inr (), set_client 3 ((plain_client_session [AsyncRead])\<lparr>cs_buffer := answer, cs_pending := [AsyncWrite answer, AsyncRead],
      cs_sent := [answer]\<rparr>) v)"
proof -
  let ?mw = "new_MessageWrapper\<lparr>mw_account_hash := [1], mw_message_operation := MESSAGE_PROCESS\<rparr>"
  let ?v = "set_client 3 (plain_client_session []) (opened (plain_client [AsyncRead]))"
  have s: "(plain_client_session [AsyncRead])\<lparr>cs_pending := []\<rparr> = plain_client_session []"
    by (simp add: plain_client_session_def)
  have r: "route_message (plain_rpc_env [1]) (wrapper_setSessionHash ?mw [1]) ?v = Some (Inr \<lparr>mr_success = True, mr_result = ''local''\<rparr>, ?v)"
    by (simp add: route_message_def routeMessage_def wrapper_setSessionHash_def plain_rpc_env_def routeLocal_def new_MessageWrapper_def
        sbind_def sreturn_def hash_defs Let_def)
  have c: "scope_commit (plain_rpc_env [1]) ?v = (Inr (), ?v\<lparr>rn_router := rn_router (plain_client [AsyncRead])\<rparr>)"
    by (rule scope_commit_opened) (simp_all add: plain_client_def plain_rpc_router_def account_node_def)
  show ?thesis
    using client_reads_while_it_answers [OF _ _ _ plain_idle refl _ c refl, where mw = ?mw and response = "\<lparr>mr_success = True, mr_result = ''local''\<rparr>"] r
    by (simp add: plain_rpc_facts plain_rpc_ok s plain_client_session_def) blast
qed

theorem server_sessions_have_one_operation_witness:
  "own_operations plain_session \<in> {[], [AsyncRead], [AsyncWrite (ss_buffer plain_session)]}"
proof -
  let ?s0 = "plain_server\<lparr>rs_sessions := (\<lambda>_. None)\<rparr>"
  have "sbind (listener_on_accept 7 ''10.0.0.1'' ''10.0.0.2'') (\<lambda>_. session_on_accept 7 False) ?s0 = (Inr (), plain_server)"
    by (simp add: sbind_def listener_on_accept_def smodify_def session_on_accept_def on_session_Some do_read_def plain_server_def
        plain_session_def accepted_session_def)
  then have "server_step (plain_rpc_env [9]) ?s0 plain_server" by (intro server_step.accept) simp_all
  then have "(server_step (plain_rpc_env [9]))\<^sup>*\<^sup>* ?s0 plain_server" by simp
  from server_sessions_have_one_operation [OF this] show ?thesis
    by (simp add: plain_server_def)
qed

end
