(* ===== verification/Events.thy ===== *)
theory Events
  imports Prelude
begin

text \<open>
  The event service: \<open>modules/event_service/EventServiceModule\<close>, the events of
  \<open>libs/event_service_api\<close> and the handlers each module registers (\<open>EventRegistry\<close> of each module,
  names from \<open>server_common/Events\<close>). Modules call each other only through it. A handler is the
  name of a function of a module; what it does is the argument \<open>run\<close> of the dispatch. A signal has
  exactly one handler connected, so it is the handler itself.
\<close>

section \<open>Events and handlers\<close>

record event =
  event_name :: string
  event_source :: string
  event_sourceHash :: bytes
  event_sourceSignature :: bytes
  event_message :: bytes

definition Event_of_message :: "bytes \<Rightarrow> event" where
  "Event_of_message message = \<lparr>event_name = [], event_source = [], event_sourceHash = [],
     event_sourceSignature = [], event_message = message\<rparr>"

definition Event_named :: "string \<Rightarrow> bytes \<Rightarrow> event" where
  "Event_named name message = \<lparr>event_name = name, event_source = [], event_sourceHash = [],
     event_sourceSignature = [], event_message = message\<rparr>"

text \<open>\<open>&keto::account::EventRegistry::checkAccount\<close> is \<open>Handler ''account'' ''checkAccount''\<close>.\<close>

datatype handler = Handler string string

record event_service =
  registeredSignals :: "(string \<times> handler) list"

definition new_EventServiceModule :: event_service where
  "new_EventServiceModule = \<lparr>registeredSignals = []\<rparr>"

section \<open>EventServiceModule\<close>

definition addEventHandler :: "string \<Rightarrow> handler \<Rightarrow> (event_service, unit) prog" where
  "addEventHandler name handlerMethod =
     sbind (sget (\<lambda>this. name \<in> fst ` set (registeredSignals this))) (\<lambda>known.
     if known then sthrow DuplicateEventHandlerException
     else smodify (\<lambda>this. this\<lparr>registeredSignals := map_set name handlerMethod (registeredSignals this)\<rparr>))"

definition getEventHandler :: "string \<Rightarrow> event_service \<Rightarrow> handler result" where
  "getEventHandler name this = (case map_of (registeredSignals this) name of
       None \<Rightarrow> Inl UnknownEventHandlerException
     | Some signal \<Rightarrow> Inr signal)"

text \<open>\<open>registeredSignals[name].reset()\<close> makes an entry for an unknown name; the \<open>erase\<close> removes it.
  Resetting the signal of an unknown name resets a null pointer, which is harmless.\<close>

definition removeEventHandler :: "string \<Rightarrow> (event_service, unit) prog" where
  "removeEventHandler name =
     smodify (\<lambda>this. this\<lparr>registeredSignals := map_erase name (registeredSignals this)\<rparr>)"

text \<open>The handler is copied out of the map under the lock and called without it. The world of the
  handlers is \<open>'w\<close>; \<open>services\<close> reads the event service from it.\<close>

definition processEvent ::
  "('w \<Rightarrow> event_service) \<Rightarrow> (handler \<Rightarrow> event \<Rightarrow> ('w, event) prog) \<Rightarrow> event \<Rightarrow> ('w, event) prog" where
  "processEvent services run e =
     sbind (sget (\<lambda>w. getEventHandler (event_name e) (services w))) (\<lambda>r.
     sbind (slift r) (\<lambda>signal. run signal e))"

definition triggerEvent ::
  "('w \<Rightarrow> event_service) \<Rightarrow> (handler \<Rightarrow> event \<Rightarrow> ('w, event) prog) \<Rightarrow> event \<Rightarrow> ('w, unit) prog" where
  "triggerEvent services run e =
     sbind (sget (\<lambda>w. getEventHandler (event_name e) (services w))) (\<lambda>r.
     sbind (slift r) (\<lambda>signal. sbind (run signal e) (\<lambda>_. sreturn ())))"

section \<open>The handlers of each module\<close>

definition account_handlers :: "(string \<times> handler) list" where
  "account_handlers =
     [(''CHECK_ACCOUNT_MESSAGE'', Handler ''account'' ''checkAccount''),
      (''GET_NODE_ACCOUNT_ROUTING'', Handler ''account'' ''getNodeAccountRouting''),
      (''APPLY_ACCOUNT_TRANSACTION_MESSAGE'', Handler ''account'' ''applyTransaction''),
      (''SPARQL_QUERY_MESSAGE'', Handler ''account'' ''sparqlQuery''),
      (''GET_CONTRACT'', Handler ''account'' ''getContract''),
      (''CONSENSUS_ACCOUNT'', Handler ''account'' ''generateSoftwareHash''),
      (''CONSENSUS_SESSION_ACCOUNT'', Handler ''account'' ''setModuleSession'')]"

definition account_deregistered :: "string list" where
  "account_deregistered =
     [''CONSENSUS_SESSION_ACCOUNT'', ''CONSENSUS_ACCOUNT'', ''GET_CONTRACT'', ''SPARQL_QUERY_MESSAGE'',
      ''GET_NODE_ACCOUNT_ROUTING'', ''APPLY_ACCOUNT_TRANSACTION_MESSAGE'', ''CHECK_ACCOUNT_MESSAGE'']"

definition balancer_handlers :: "(string \<times> handler) list" where
  "balancer_handlers =
     [(''BALANCER_MESSAGE'', Handler ''balancer'' ''balanceMessage''),
      (''CONSENSUS_BALANCER'', Handler ''balancer'' ''generateSoftwareHash''),
      (''CONSENSUS_SESSION_BALANCER'', Handler ''balancer'' ''setModuleSession'')]"

definition balancer_deregistered :: "string list" where
  "balancer_deregistered =
     [''CONSENSUS_BALANCER'', ''CONSENSUS_SESSION_BALANCER'', ''BALANCER_MESSAGE'']"

definition block_handlers :: "(string \<times> handler) list" where
  "block_handlers =
     [(''BLOCK_MESSAGE'', Handler ''block'' ''blockMessage''),
      (''CONSENSUS_BLOCK'', Handler ''block'' ''generateSoftwareHash''),
      (''CONSENSUS_SESSION_BLOCK'', Handler ''block'' ''setModuleSession'')]"

definition block_deregistered :: "string list" where
  "block_deregistered = [''CONSENSUS_BLOCK'', ''CONSENSUS_SESSION_BLOCK'', ''BLOCK_MESSAGE'']"

text \<open>The name of \<open>Events::VALIDATE_SOFTWARE_CONSENSUS_MESSAGE\<close> is spelled \<open>VALDATE\<close>.\<close>

definition consensus_handlers :: "(string \<times> handler) list" where
  "consensus_handlers =
     [(''GET_SOFTWARE_CONSENSUS_MESSAGE'', Handler ''consensus_module'' ''generateSoftwareConsensus''),
      (''VALDATE_SOFTWARE_CONSENSUS_MESSAGE'', Handler ''consensus_module'' ''validateSoftwareConsensus''),
      (''CONSENSUS_CONSENSUS'', Handler ''consensus_module'' ''generateSoftwareHash''),
      (''CONSENSUS_SESSION_CONSENSUS'', Handler ''consensus_module'' ''setModuleSession'')]"

definition consensus_deregistered :: "string list" where
  "consensus_deregistered =
     [''GET_SOFTWARE_CONSENSUS_MESSAGE'', ''VALDATE_SOFTWARE_CONSENSUS_MESSAGE'',
      ''CONSENSUS_CONSENSUS'', ''CONSENSUS_SESSION_CONSENSUS'']"

definition event_handlers :: "(string \<times> handler) list" where
  "event_handlers =
     [(''CONSENSUS_EVENT'', Handler ''event'' ''generateSoftwareHash''),
      (''CONSENSUS_SESSION_EVENT'', Handler ''event'' ''setModuleSession'')]"

definition http_handlers :: "(string \<times> handler) list" where
  "http_handlers =
     [(''CONSENSUS_HTTPD'', Handler ''http'' ''generateSoftwareHash''),
      (''CONSENSUS_SESSION_HTTPD'', Handler ''http'' ''setModuleSession'')]"

definition http_deregistered :: "string list" where
  "http_deregistered = [''CONSENSUS_HTTPD'', ''CONSENSUS_SESSION_HTTPD'']"

definition keystore_handlers :: "(string \<times> handler) list" where
  "keystore_handlers =
     [(''REQUEST_SESSION_KEY'', Handler ''keystore'' ''requestSessionKey''),
      (''REMOVE_SESSION_KEY'', Handler ''keystore'' ''removeSessionKey''),
      (''CONSENSUS_KEY_STORE'', Handler ''keystore'' ''generateSoftwareHash''),
      (''CONSENSUS_SESSION_KEY_STORE'', Handler ''keystore'' ''setModuleSession'')]"

definition keystore_deregistered :: "string list" where
  "keystore_deregistered =
     [''CONSENSUS_KEY_STORE'', ''CONSENSUS_SESSION_KEY_STORE'', ''REMOVE_SESSION_KEY'', ''REQUEST_SESSION_KEY'']"

definition router_handlers :: "(string \<times> handler) list" where
  "router_handlers =
     [(''ROUTE_MESSAGE'', Handler ''router'' ''routeMessage''),
      (''UPDATE_STATUS_ROUTE_MESSSAGE'', Handler ''router'' ''updateStateRouteMessage''),
      (''REGISTER_SERVICE_MESSAGE'', Handler ''router'' ''registerService''),
      (''REGISTER_RPC_PEER'', Handler ''router'' ''registerRpcPeer''),
      (''CONSENSUS_ROUTER'', Handler ''router'' ''generateSoftwareHash''),
      (''CONSENSUS_SESSION_ROUTER'', Handler ''router'' ''setModuleSession'')]"

definition router_deregistered :: "string list" where
  "router_deregistered =
     [''CONSENSUS_ROUTER'', ''CONSENSUS_SESSION_ROUTER'', ''REGISTER_SERVICE_MESSAGE'',
      ''UPDATE_STATUS_ROUTE_MESSSAGE'', ''ROUTE_MESSAGE'']"

definition rpc_client_handlers :: "(string \<times> handler) list" where
  "rpc_client_handlers =
     [(''CONSENSUS_RPC_CLIENT'', Handler ''rpc_client'' ''generateSoftwareHash''),
      (''CONSENSUS_SESSION_RPC_CLIENT'', Handler ''rpc_client'' ''setModuleSession''),
      (''RPC_CLIENT_TRANSACTION'', Handler ''rpc_client'' ''routeTransaction'')]"

definition rpc_client_deregistered :: "string list" where
  "rpc_client_deregistered =
     [''RPC_CLIENT_TRANSACTION'', ''CONSENSUS_RPC_CLIENT'', ''CONSENSUS_SESSION_RPC_CLIENT'']"

definition rpc_server_handlers :: "(string \<times> handler) list" where
  "rpc_server_handlers =
     [(''RPC_SEND_MESSAGE'', Handler ''rpc_server'' ''sendMessage''),
      (''CONSENSUS_RPC_SERVER'', Handler ''rpc_server'' ''generateSoftwareHash''),
      (''CONSENSUS_SESSION_RPC_SERVER'', Handler ''rpc_server'' ''setModuleSession''),
      (''RPC_SERVER_TRANSACTION'', Handler ''rpc_server'' ''routeTransaction'')]"

definition rpc_server_deregistered :: "string list" where
  "rpc_server_deregistered =
     [''RPC_SERVER_TRANSACTION'', ''CONSENSUS_RPC_SERVER'', ''CONSENSUS_SESSION_RPC_SERVER'', ''RPC_SEND_MESSAGE'']"

definition sandbox_handlers :: "(string \<times> handler) list" where
  "sandbox_handlers =
     [(''EXECUTE_ACTION_MESSAGE'', Handler ''sandbox'' ''executeActionMessage''),
      (''CONSENSUS_SANDBOX'', Handler ''sandbox'' ''generateSoftwareHash''),
      (''CONSENSUS_SESSION_SANDBOX'', Handler ''sandbox'' ''setModuleSession'')]"

definition sandbox_deregistered :: "string list" where
  "sandbox_deregistered = [''CONSENSUS_SANDBOX'', ''CONSENSUS_SESSION_SANDBOX'', ''EXECUTE_ACTION_MESSAGE'']"

definition test_handlers :: "(string \<times> handler) list" where
  "test_handlers =
     [(''CONSENSUS_TEST'', Handler ''test'' ''generateSoftwareHash''),
      (''CONSENSUS_SESSION_TEST'', Handler ''test'' ''setModuleSession'')]"

definition test_deregistered :: "string list" where
  "test_deregistered = [''CONSENSUS_SESSION_TEST'', ''CONSENSUS_TEST'']"

definition transaction_handlers :: "(string \<times> handler) list" where
  "transaction_handlers =
     [(''CONSENSUS_TRANSACTION'', Handler ''transaction'' ''generateSoftwareHash''),
      (''CONSENSUS_SESSION_TRANSACTION'', Handler ''transaction'' ''setModuleSession'')]"

definition transaction_deregistered :: "string list" where
  "transaction_deregistered = [''CONSENSUS_SESSION_TRANSACTION'', ''CONSENSUS_TRANSACTION'']"

definition version_handlers :: "(string \<times> handler) list" where
  "version_handlers =
     [(''CONSENSUS_VERSION'', Handler ''version_manager'' ''generateSoftwareHash''),
      (''CONSENSUS_SESSION_VERSION'', Handler ''version_manager'' ''setModuleSession'')]"

definition version_deregistered :: "string list" where
  "version_deregistered = [''CONSENSUS_SESSION_VERSION'', ''CONSENSUS_VERSION'']"

text \<open>A module that stops takes back every handler it registered, except the router: it leaves
  \<open>REGISTER_RPC_PEER\<close> behind. The event service takes its own back by being destroyed.\<close>

lemma deregistered_handlers:
  "fst ` set account_handlers = set account_deregistered"
  "fst ` set balancer_handlers = set balancer_deregistered"
  "fst ` set block_handlers = set block_deregistered"
  "fst ` set consensus_handlers = set consensus_deregistered"
  "fst ` set http_handlers = set http_deregistered"
  "fst ` set keystore_handlers = set keystore_deregistered"
  "fst ` set rpc_client_handlers = set rpc_client_deregistered"
  "fst ` set rpc_server_handlers = set rpc_server_deregistered"
  "fst ` set sandbox_handlers = set sandbox_deregistered"
  "fst ` set test_handlers = set test_deregistered"
  "fst ` set transaction_handlers = set transaction_deregistered"
  "fst ` set version_handlers = set version_deregistered"
  by code_simp+

lemma router_keeps_rpc_peer_handler:
  "fst ` set router_handlers - set router_deregistered = {''REGISTER_RPC_PEER''}"
  by code_simp

section \<open>The registry as a map\<close>

abbreviation signal_of :: "event_service \<Rightarrow> string \<Rightarrow> handler option" where
  "signal_of this \<equiv> map_of (registeredSignals this)"

lemma addEventHandler_cases:
  "addEventHandler n h s = (if signal_of s n = None
     then (Inr (), s\<lparr>registeredSignals := map_set n h (registeredSignals s)\<rparr>)
     else (Inl DuplicateEventHandlerException, s))"
  by (simp add: addEventHandler_def prog_defs map_of_eq_None_iff)

lemma removeEventHandler_eq:
  "removeEventHandler n s = (Inr (), s\<lparr>registeredSignals := map_erase n (registeredSignals s)\<rparr>)"
  by (simp add: removeEventHandler_def prog_defs)

lemma getEventHandler_iff:
  "getEventHandler n s = Inr h \<longleftrightarrow> signal_of s n = Some h"
  "getEventHandler n s = Inl x \<longleftrightarrow> x = UnknownEventHandlerException \<and> signal_of s n = None"
  by (auto simp: getEventHandler_def split: option.splits)

text \<open>What every client of the registry uses: a name is taken once, a registered handler is found, and
  a removed one is not.\<close>

locale handler_registry =
  fixes add :: "string \<Rightarrow> handler \<Rightarrow> ('s, unit) prog"
    and remove :: "string \<Rightarrow> ('s, unit) prog"
    and look :: "'s \<Rightarrow> string \<Rightarrow> handler option"
  assumes add_free: "look s n = None \<Longrightarrow> \<exists>t. add n h s = (Inr (), t) \<and> look t = (look s)(n \<mapsto> h)"
    and add_taken: "look s n \<noteq> None \<Longrightarrow> add n h s = (Inl DuplicateEventHandlerException, s)"
    and remove_look: "\<exists>t. remove n s = (Inr (), t) \<and> look t = (look s)(n := None)"
begin

lemma add_all:
  assumes "distinct (map fst hs)" and "\<forall>n \<in> fst ` set hs. look s n = None"
  shows "\<exists>t. sfor hs (\<lambda>(n, h). add n h) s = (Inr (), t) \<and> look t = look s ++ map_of hs"
  using assms
proof (induction hs arbitrary: s)
  case Nil
  then show ?case by simp
next
  case (Cons e hs)
  obtain n h where e: "e = (n, h)" by (cases e)
  obtain u where u: "add n h s = (Inr (), u)" "look u = (look s)(n \<mapsto> h)"
    using add_free [of s n h] Cons.prems(2) e by auto
  have "\<forall>m \<in> fst ` set hs. look u m = None" using Cons.prems e u(2) by auto
  with Cons.IH [of u] Cons.prems(1) obtain t where
    t: "sfor hs (\<lambda>(n, h). add n h) u = (Inr (), t)" "look t = look u ++ map_of hs" by auto
  have "map_of hs n = None" using Cons.prems(1) e by (simp add: map_of_eq_None_iff)
  then have look: "look t = look s ++ map_of (e # hs)" using t(2) u(2) e
    by (auto simp: fun_eq_iff map_add_def split: option.splits)
  have "sfor (e # hs) (\<lambda>(n, h). add n h) s = (Inr (), t)" using t(1) u(1) e by simp
  with look show ?case by blast
qed

text \<open>A registration that meets a taken name stops there and keeps what it registered before.\<close>

lemma add_all_stops:
  assumes "distinct (map fst (hs @ (n, h) # ks))"
    and "\<forall>m \<in> fst ` set hs. look s m = None" and "look s n \<noteq> None"
  shows "\<exists>t. sfor (hs @ (n, h) # ks) (\<lambda>(n, h). add n h) s = (Inl DuplicateEventHandlerException, t) \<and>
    look t = look s ++ map_of hs"
proof -
  obtain t where t: "sfor hs (\<lambda>(n, h). add n h) s = (Inr (), t)" "look t = look s ++ map_of hs"
    using add_all [of hs s] assms by auto
  have "look t n \<noteq> None" using t(2) assms(3) by (auto simp: map_add_def split: option.splits)
  then have "add n h t = (Inl DuplicateEventHandlerException, t)" by (rule add_taken)
  with t show ?thesis by (simp add: sfor_append)
qed

lemma remove_all:
  "\<exists>t. sfor ns remove s = (Inr (), t) \<and> look t = look s |` (- set ns)"
proof (induction ns arbitrary: s)
  case Nil
  then show ?case by simp
next
  case (Cons n ns)
  obtain u where u: "remove n s = (Inr (), u)" "look u = (look s)(n := None)" using remove_look by blast
  from Cons.IH [of u] obtain t where t: "sfor ns remove u = (Inr (), t)" "look t = look u |` (- set ns)" by blast
  have "look t = look s |` (- set (n # ns))" using t(2) u(2) by (auto simp: restrict_map_def fun_eq_iff)
  with u(1) t(1) show ?case by simp
qed

end

interpretation signals: handler_registry addEventHandler removeEventHandler signal_of
proof
  show "signal_of s n = None \<Longrightarrow>
      \<exists>t. addEventHandler n h s = (Inr (), t) \<and> signal_of t = (signal_of s)(n \<mapsto> h)" for s n h
    by (simp add: addEventHandler_cases)
  show "signal_of s n \<noteq> None \<Longrightarrow> addEventHandler n h s = (Inl DuplicateEventHandlerException, s)" for s n h
    by (simp add: addEventHandler_cases)
  show "\<exists>t. removeEventHandler n s = (Inr (), t) \<and> signal_of t = (signal_of s)(n := None)" for n s
    by (simp add: removeEventHandler_eq)
qed

end
