(* ===== verification/ModuleManager.thy ===== *)
theory ModuleManager
  imports Events
begin

text \<open>
  The module manager (\<open>libs/module_manager\<close>), the helpers through which every module reaches the event
  service and the transaction service (\<open>server_common/EventServiceHelpers\<close>, \<open>TransactionHelper\<close>,
  \<open>ServiceRegistryHelper\<close>) and the main function of the node (\<open>programs/server\<close>). What a shared object
  contains is a parameter: \<open>code path time\<close> is the module its file holds, with the functions \<open>start\<close>,
  \<open>postStart\<close> and \<open>stop\<close> of its manager. The modules of the repository follow in \<open>Modules\<close>. The copy of
  the file under a unique name is not modelled.
\<close>

section \<open>State\<close>

datatype manager_state =
  State_inited | State_loading | State_loaded | State_unloading | State_unloaded |
  State_monitoring | State_terminated

text \<open>The objects modules offer: \<open>dynamic_pointer_cast\<close> finds the event service and the transaction
  service by their interface, the other classes are told apart by \<open>getName\<close>.\<close>

datatype module_object = EventServiceObject | TransactionServiceObject | ModuleObject string

record ModuleWrapper =
  sourcePath :: string
  lastTouchTime :: c_long

text \<open>The maps hold shared pointers: \<open>None\<close> is the null pointer that \<open>operator[]\<close> creates. The
  registry is the object the entry of the event service points to. \<open>moduleDir\<close> is the content of the
  directory of shared objects with the write time of each file.\<close>

record manager =
  currentState :: manager_state
  loadedModules :: "(string \<times> module_object option) list"
  loadedModuleManagementInterfaces :: "(string \<times> ModuleWrapper option) list"
  loadedLibraryModuleManagers :: "(string \<times> ModuleWrapper option) list"
  event_object :: event_service
  moduleDir :: "(string \<times> c_long) list"

type_synonym ('z, 'a) mprog = "('z manager_scheme, 'a) prog"

record 'w module_code =
  mc_name :: string
  mc_modules :: "(string \<times> module_object option) list"
  mc_start :: "('w, unit) prog"
  mc_postStart :: "('w, unit) prog"
  mc_stop :: "('w, unit) prog"

type_synonym 'w libraries = "string \<Rightarrow> c_long \<Rightarrow> 'w module_code result"

definition new_ModuleManager :: "(string \<times> c_long) list \<Rightarrow> manager" where
  "new_ModuleManager dir = \<lparr>currentState = State_inited, loadedModules = [],
     loadedModuleManagementInterfaces = [], loadedLibraryModuleManagers = [],
     event_object = new_EventServiceModule, moduleDir = dir\<rparr>"

definition new_ModuleWrapper :: "string \<Rightarrow> 'z manager_scheme \<Rightarrow> ModuleWrapper result" where
  "new_ModuleWrapper libraryPath this = (case map_of (moduleDir this) libraryPath of
       None \<Rightarrow> Inl LibraryError
     | Some time \<Rightarrow> Inr \<lparr>sourcePath = libraryPath, lastTouchTime = time\<rparr>)"

definition requireReload :: "ModuleWrapper \<Rightarrow> 'z manager_scheme \<Rightarrow> bool" where
  "requireReload w this = (case map_of (moduleDir this) (sourcePath w) of
       None \<Rightarrow> True
     | Some time \<Rightarrow> time \<noteq> lastTouchTime w)"

definition setState :: "manager_state \<Rightarrow> ('z, unit) mprog" where
  "setState state = smodify (\<lambda>this. if currentState this = State_terminated then this
     else this\<lparr>currentState := state\<rparr>)"

definition manager_terminate :: "'z manager_scheme \<Rightarrow> 'z manager_scheme" where
  "manager_terminate this = this\<lparr>currentState := State_terminated\<rparr>"

text \<open>\<open>return this->loadedModules[moduleName]\<close>.\<close>

definition getModule :: "string \<Rightarrow> ('z, module_object option) mprog" where
  "getModule name = (\<lambda>this. (case map_of (loadedModules this) name of
       Some m \<Rightarrow> (Inr m, this)
     | None \<Rightarrow> (Inr None, this\<lparr>loadedModules := map_set name None (loadedModules this)\<rparr>)))"

definition listModules :: "'z manager_scheme \<Rightarrow> string list" where
  "listModules this = map fst (loadedModules this)"

definition getModuleManagementInterface :: "string \<Rightarrow> ('z, ModuleWrapper option) mprog" where
  "getModuleManagementInterface name = (\<lambda>this. (case map_of (loadedModuleManagementInterfaces this) name of
       Some m \<Rightarrow> (Inr m, this)
     | None \<Rightarrow> (Inr None, this\<lparr>loadedModuleManagementInterfaces :=
                 map_set name None (loadedModuleManagementInterfaces this)\<rparr>)))"

definition listModuleManagementInterfaces :: "'z manager_scheme \<Rightarrow> string list" where
  "listModuleManagementInterfaces this = map fst (loadedModuleManagementInterfaces this)"

definition getModuleWrapper :: "string \<Rightarrow> ('z, ModuleWrapper option) mprog" where
  "getModuleWrapper path = (\<lambda>this. (case map_of (loadedLibraryModuleManagers this) path of
       Some m \<Rightarrow> (Inr m, this)
     | None \<Rightarrow> (Inr None, this\<lparr>loadedLibraryModuleManagers :=
                 map_set path None (loadedLibraryModuleManagers this)\<rparr>)))"

definition listModuleFiles :: "'z manager_scheme \<Rightarrow> string list" where
  "listModuleFiles this = map fst (loadedLibraryModuleManagers this)"

section \<open>Loading\<close>

definition add_module :: "ModuleWrapper \<Rightarrow> 'w module_code \<Rightarrow> 'z manager_scheme \<Rightarrow> 'z manager_scheme" where
  "add_module wrapper c this = this\<lparr>
     loadedLibraryModuleManagers := map_set (sourcePath wrapper) (Some wrapper) (loadedLibraryModuleManagers this),
     loadedModuleManagementInterfaces := map_set (mc_name c) (Some wrapper) (loadedModuleManagementInterfaces this),
     loadedModules := fold (\<lambda>(name, m). map_set name m) (mc_modules c) (loadedModules this)\<rparr>"

text \<open>All four \<open>catch\<close> clauses stop the module, when there is one, and throw a
  \<open>ModuleLoadException\<close>.\<close>

definition load_library :: "'z manager_scheme libraries \<Rightarrow> string \<Rightarrow> ('z, unit) mprog" where
  "load_library code libraryPath =
     sbind (sget (new_ModuleWrapper libraryPath)) (\<lambda>r.
     sbind (stry (slift r) (\<lambda>_. sthrow ModuleLoadException)) (\<lambda>wrapper.
     sbind (stry (slift (code libraryPath (lastTouchTime wrapper))) (\<lambda>_. sthrow ModuleLoadException)) (\<lambda>c.
     stry (sbind (mc_start c) (\<lambda>_. smodify (add_module wrapper c)))
       (\<lambda>_. sbind (mc_stop c) (\<lambda>_. sthrow ModuleLoadException)))))"

text \<open>\<open>it->second->getModuleManagerInterface()->...\<close>: a null wrapper is dereferenced.\<close>

definition call_manager ::
  "'z manager_scheme libraries \<Rightarrow> ('z manager_scheme module_code \<Rightarrow> ('z, unit) mprog) \<Rightarrow>
   string \<times> ModuleWrapper option \<Rightarrow> ('z, unit) mprog" where
  "call_manager code f entry = (case snd entry of
       None \<Rightarrow> sthrow NullPointerDereference
     | Some wrapper \<Rightarrow> (case code (sourcePath wrapper) (lastTouchTime wrapper) of
           Inl _ \<Rightarrow> sthrow NullPointerDereference
         | Inr c \<Rightarrow> f c))"

definition manager_load :: "'z manager_scheme libraries \<Rightarrow> ('z, unit) mprog" where
  "manager_load code =
     sbind (setState State_loading) (\<lambda>_.
     sbind (sget (\<lambda>this. sort (map fst (moduleDir this)))) (\<lambda>files.
     sbind (sfor files (load_library code)) (\<lambda>_.
     sbind (sget loadedLibraryModuleManagers) (\<lambda>loaded.
     sbind (sfor loaded (call_manager code mc_postStart)) (\<lambda>_.
     setState State_loaded)))))"

text \<open>\<open>unload\<close> stops the modules in the reverse order of their paths. The second loop releases the
  wrappers; a null wrapper was dereferenced by the first.\<close>

definition manager_unload :: "'z manager_scheme libraries \<Rightarrow> ('z, unit) mprog" where
  "manager_unload code =
     sbind (setState State_unloading) (\<lambda>_.
     sbind (sget loadedLibraryModuleManagers) (\<lambda>loaded.
     sbind (sfor (rev loaded) (call_manager code mc_stop)) (\<lambda>_.
     sbind (smodify (\<lambda>this. this\<lparr>loadedModules := [], loadedModuleManagementInterfaces := [],
                                 loadedLibraryModuleManagers := []\<rparr>)) (\<lambda>_.
     setState State_unloaded))))"

fun check_wrappers :: "(string \<times> ModuleWrapper option) list \<Rightarrow> 'z manager_scheme \<Rightarrow> bool result" where
  "check_wrappers [] this = Inr False"
| "check_wrappers ((path, None) # es) this = Inl NullPointerDereference"
| "check_wrappers ((path, Some w) # es) this =
     (if requireReload w this then Inr True else check_wrappers es this)"

definition checkForReload :: "('z, bool) mprog" where
  "checkForReload = (\<lambda>this. (check_wrappers (loadedLibraryModuleManagers this) this, this))"

section \<open>Monitoring and the main function\<close>

text \<open>\<open>checkState\<close> waits up to a minute. What other threads, the signal handler and the file system do
  to the manager in that time is one function of a list; the list is the history of the waits, and
  when it is used up the thread still waits: \<open>None\<close>. The wait ends with the function applied.\<close>

definition monitor_turn :: "'z manager_scheme libraries \<Rightarrow> ('z, unit) mprog" where
  "monitor_turn code =
     sbind checkForReload (\<lambda>reload.
     if reload then sbind (manager_unload code) (\<lambda>_. sbind (manager_load code) (\<lambda>_. setState State_monitoring))
     else sreturn ())"

fun monitor_loop ::
  "'z manager_scheme libraries \<Rightarrow> ('z manager_scheme \<Rightarrow> 'z manager_scheme) list \<Rightarrow> ('z, unit option) mprog" where
  "monitor_loop code [] = sreturn None"
| "monitor_loop code (wait # waits) =
     sbind (smodify wait) (\<lambda>_.
     sbind (sget currentState) (\<lambda>state.
     if state = State_terminated then sreturn (Some ())
     else sbind (monitor_turn code) (\<lambda>_. monitor_loop code waits)))"

definition monitor ::
  "'z manager_scheme libraries \<Rightarrow> ('z manager_scheme \<Rightarrow> 'z manager_scheme) list \<Rightarrow> ('z, unit option) mprog" where
  "monitor code waits = sbind (setState State_monitoring) (\<lambda>_. monitor_loop code waits)"

text \<open>An exception that leaves a \<open>catch\<close> clause of \<open>main\<close> ends the process with
  \<open>std::terminate\<close>. The result is the exit status, or \<open>None\<close> while the node runs.\<close>

definition server_main ::
  "'z manager_scheme libraries \<Rightarrow> ('z manager_scheme \<Rightarrow> 'z manager_scheme) list \<Rightarrow> ('z, int option) mprog" where
  "server_main code waits =
     stry (sbind (manager_load code) (\<lambda>_.
           sbind (monitor code waits) (\<lambda>ended.
           case ended of None \<Rightarrow> sreturn None
           | Some _ \<Rightarrow> sbind (manager_unload code) (\<lambda>_. sreturn (Some 0)))))
       (\<lambda>_. sbind (stry (manager_unload code) (\<lambda>_. sthrow StdTerminate)) (\<lambda>_. sreturn (Some (- 1))))"

section \<open>The helpers of the modules\<close>

definition on_events :: "(event_service, 'a) prog \<Rightarrow> ('z, 'a) mprog" where
  "on_events m = (\<lambda>w. (case m (event_object w) of (r, e) \<Rightarrow> (r, w\<lparr>event_object := e\<rparr>)))"

definition with_event_service :: "('z, 'a) mprog \<Rightarrow> ('z, 'a) mprog" where
  "with_event_service m = sbind (getModule ''event_service'') (\<lambda>object.
     if object = Some EventServiceObject then m else sthrow NullPointerDereference)"

definition registerEventHandler :: "string \<Rightarrow> handler \<Rightarrow> ('z, unit) mprog" where
  "registerEventHandler name handlerMethod = with_event_service (on_events (addEventHandler name handlerMethod))"

definition deregisterEventHandler :: "string \<Rightarrow> ('z, unit) mprog" where
  "deregisterEventHandler name = with_event_service (on_events (removeEventHandler name))"

type_synonym 'w dispatch = "handler \<Rightarrow> event \<Rightarrow> ('w, event) prog"

definition helper_triggerEvent :: "'z manager_scheme dispatch \<Rightarrow> event \<Rightarrow> ('z, unit) mprog" where
  "helper_triggerEvent run e = with_event_service (triggerEvent event_object run e)"

definition helper_processEvent :: "'z manager_scheme dispatch \<Rightarrow> event \<Rightarrow> ('z, event) mprog" where
  "helper_processEvent run e = with_event_service (processEvent event_object run e)"

text \<open>The serialised \<open>PushService\<close> of an account and a service is the parameter \<open>push\<close>.\<close>

definition helper_registerService ::
  "'z manager_scheme dispatch \<Rightarrow> (bytes \<Rightarrow> string \<Rightarrow> bytes) \<Rightarrow> bytes \<Rightarrow> string \<Rightarrow> ('z, unit) mprog" where
  "helper_registerService run push account service =
     helper_triggerEvent run (Event_named ''REGISTER_SERVICE_MESSAGE'' (push account service))"

text \<open>The transaction service is reached in the same way; \<open>m\<close> is the call on it.\<close>

definition with_transaction_service :: "('z, 'a) mprog \<Rightarrow> ('z, 'a) mprog" where
  "with_transaction_service m = sbind (getModule ''transaction_manager'') (\<lambda>object.
     if object = Some TransactionServiceObject then m else sthrow NullPointerDereference)"

definition registerEventHandlers :: "(string \<times> handler) list \<Rightarrow> ('z, unit) mprog" where
  "registerEventHandlers hs = sfor hs (\<lambda>(name, h). registerEventHandler name h)"

definition deregisterEventHandlers :: "string list \<Rightarrow> ('z, unit) mprog" where
  "deregisterEventHandlers names = sfor names deregisterEventHandler"

end
