(* ===== verification/ModuleLife.thy ===== *)
theory ModuleLife
  imports ModuleManager
begin

text \<open>
  The life of the modules of a node. Every \<open>start\<close> and \<open>stop\<close> is recorded, for arbitrary contents of the
  shared objects, and the main function is shown to stop what it started, in the reverse order,
  whichever start fails.
\<close>

section \<open>The record of starts and stops\<close>

datatype lifecycle = Started string | Stopped string

record traced_manager = manager +
  life :: "lifecycle list"

definition note_life :: "lifecycle \<Rightarrow> ('z traced_manager_scheme, unit) prog" where
  "note_life e = smodify (\<lambda>w. w\<lparr>life := life w @ [e]\<rparr>)"

text \<open>The same libraries with each call of \<open>start\<close> and \<open>stop\<close> noted as it is made.\<close>

definition traced :: "'z traced_manager_scheme libraries \<Rightarrow> 'z traced_manager_scheme libraries" where
  "traced code path time = rmap (\<lambda>c. c\<lparr>
     mc_start := sbind (note_life (Started path)) (\<lambda>_. mc_start c),
     mc_stop := sbind (note_life (Stopped path)) (\<lambda>_. mc_stop c)\<rparr>) (code path time)"

text \<open>The modules that run, the last started first; \<open>None\<close> when a module is stopped that is not the
  last one running.\<close>

fun life_step :: "lifecycle \<Rightarrow> string list option \<Rightarrow> string list option" where
  "life_step (Started p) (Some st) = Some (p # st)"
| "life_step (Stopped p) (Some (q # st)) = (if p = q then Some st else None)"
| "life_step _ _ = None"

definition running :: "lifecycle list \<Rightarrow> string list option" where
  "running es = fold life_step es (Some [])"

lemma running_append [simp]: "running (es @ [e]) = life_step e (running es)"
  by (simp add: running_def)

lemma running_append2 [simp]: "running (es @ [e, f]) = life_step f (life_step e (running es))"
  by (simp add: running_def)

section \<open>What is asked of the libraries\<close>

definition same_files :: "'z traced_manager_scheme \<Rightarrow> 'z traced_manager_scheme \<Rightarrow> bool" where
  "same_files w v \<longleftrightarrow> loadedLibraryModuleManagers v = loadedLibraryModuleManagers w \<and>
     moduleDir v = moduleDir w \<and> life v = life w"

text \<open>A call leaves the table of libraries, the directory and the record alone, and what it throws is an
  exception.\<close>

definition tame :: "('z traced_manager_scheme, unit) prog \<Rightarrow> bool" where
  "tame m \<longleftrightarrow> (\<forall>w. same_files w (snd (m w)) \<and> (\<forall>e. fst (m w) = Inl e \<longrightarrow> is_exception e))"

definition tame_code :: "'z traced_manager_scheme module_code \<Rightarrow> bool" where
  "tame_code c \<longleftrightarrow> tame (mc_start c) \<and> tame (mc_postStart c) \<and> tame (mc_stop c) \<and>
     (\<forall>w. fst (mc_stop c w) = Inr ())"

definition tame_libraries :: "'z traced_manager_scheme libraries \<Rightarrow> bool" where
  "tame_libraries code \<longleftrightarrow> (\<forall>p t c. code p t = Inr c \<longrightarrow> tame_code c) \<and>
     (\<forall>p t e. code p t = Inl e \<longrightarrow> is_exception e)"

text \<open>What happens outside: the state may be set, files may come, go and change.\<close>

definition outside :: "'z traced_manager_scheme \<Rightarrow> 'z traced_manager_scheme \<Rightarrow> bool" where
  "outside w v \<longleftrightarrow> loadedLibraryModuleManagers v = loadedLibraryModuleManagers w \<and> life v = life w \<and>
     (distinct (map fst (moduleDir w)) \<longrightarrow> distinct (map fst (moduleDir v)))"

section \<open>The invariant\<close>

definition library_known ::
  "'z traced_manager_scheme libraries \<Rightarrow> string \<times> ModuleWrapper option \<Rightarrow> bool" where
  "library_known code e \<longleftrightarrow> (\<exists>w c. snd e = Some w \<and> sourcePath w = fst e \<and>
     code (fst e) (lastTouchTime w) = Inr c)"

definition settled :: "'z traced_manager_scheme libraries \<Rightarrow> 'z traced_manager_scheme \<Rightarrow> bool" where
  "settled code w \<longleftrightarrow> running (life w) = Some (rev (map fst (loadedLibraryModuleManagers w))) \<and>
     (\<forall>e \<in> set (loadedLibraryModuleManagers w). library_known code e) \<and> distinct (map fst (moduleDir w))"

lemma settledI:
  assumes "settled code w" and "loadedLibraryModuleManagers v = loadedLibraryModuleManagers w"
    and "life v = life w" and "moduleDir v = moduleDir w"
  shows "settled code v"
  using assms by (simp add: settled_def)

lemma settled_outside: "settled code w \<Longrightarrow> outside w v \<Longrightarrow> settled code v"
  by (simp add: settled_def outside_def)

lemma setState_eq: "\<exists>s. setState state w = (Inr (), w\<lparr>currentState := s\<rparr>)"
  by (cases "currentState w = State_terminated";
      rule exI [of _ "if currentState w = State_terminated then State_terminated else state"])
    (simp_all add: setState_def smodify_def)

lemma tameD:
  assumes "tame m" and "m w = (r, v)"
  shows "loadedLibraryModuleManagers v = loadedLibraryModuleManagers w" "moduleDir v = moduleDir w"
    "life v = life w" "r = Inl e \<Longrightarrow> is_exception e"
  using assms unfolding tame_def same_files_def by (metis fst_conv snd_conv)+

lemma insort_key_last:
  assumes "\<forall>k \<in> fst ` set m. k < p"
  shows "insort_key fst (p, v) m = m @ [(p, v)]"
  using assms by (induction m) auto

lemma map_set_last:
  assumes "\<forall>k \<in> fst ` set m. k < p"
  shows "map_set p v m = m @ [(p, v)]"
  using assms by (auto simp: map_set_def insort_key_last)

section \<open>Loading one library\<close>

text \<open>\<open>load_library\<close> case by case: no such file, no module in it, a start that fails, a start that
  succeeds.\<close>

lemma load_library_no_file:
  assumes "map_of (moduleDir w) p = None"
  shows "load_library code p w = (Inl ModuleLoadException, w)"
  using assms by (simp add: load_library_def new_ModuleWrapper_def stry_def prog_defs)

lemma load_library_no_code:
  assumes "map_of (moduleDir w) p = Some t" and "code p t = Inl e" and "is_exception e"
  shows "load_library code p w = (Inl ModuleLoadException, w)"
  using assms by (simp add: load_library_def new_ModuleWrapper_def stry_def prog_defs)

lemma load_library_start_fails:
  assumes "map_of (moduleDir w) p = Some t" and "code p t = Inr c" and "mc_start c w = (Inl e, v)"
    and "is_exception e" and "mc_stop c v = (Inr (), u)"
  shows "load_library code p w = (Inl ModuleLoadException, u)"
  using assms by (simp add: load_library_def new_ModuleWrapper_def stry_def prog_defs)

lemma load_library_starts:
  assumes "map_of (moduleDir w) p = Some t" and "code p t = Inr c" and "mc_start c w = (Inr (), v)"
  shows "load_library code p w = (Inr (), add_module \<lparr>sourcePath = p, lastTouchTime = t\<rparr> c v)"
  using assms by (simp add: load_library_def new_ModuleWrapper_def stry_def prog_defs)

lemma traced_start:
  "mc_start (c\<lparr>mc_start := sbind (note_life (Started p)) (\<lambda>_. mc_start c), mc_stop := s\<rparr>) w =
   mc_start c (w\<lparr>life := life w @ [Started p]\<rparr>)"
  by (simp add: note_life_def prog_defs)

lemma traced_stop:
  "mc_stop (c\<lparr>mc_start := s, mc_stop := sbind (note_life (Stopped p)) (\<lambda>_. mc_stop c)\<rparr>) w =
   mc_stop c (w\<lparr>life := life w @ [Stopped p]\<rparr>)"
  by (simp add: note_life_def prog_defs)

lemma load_library_settled:
  assumes tame: "tame_libraries code" and s: "settled code w"
    and less: "\<forall>k \<in> fst ` set (loadedLibraryModuleManagers w). k < p"
    and run: "load_library (traced code) p w = (r, v)"
  shows "settled code v \<and> moduleDir v = moduleDir w \<and>
    (r = Inl ModuleLoadException \<or>
     r = Inr () \<and> fst ` set (loadedLibraryModuleManagers v) = insert p (fst ` set (loadedLibraryModuleManagers w)))"
proof (cases "map_of (moduleDir w) p")
  case None
  then show ?thesis using load_library_no_file [OF None, of "traced code"] run s by simp
next
  case (Some t)
  show ?thesis
  proof (cases "code p t")
    case (Inl e)
    then have "traced code p t = Inl e" "is_exception e"
      using tame by (auto simp: traced_def tame_libraries_def)
    then have "load_library (traced code) p w = (Inl ModuleLoadException, w)"
      by (rule load_library_no_code [OF Some])
    with run s show ?thesis by simp
  next
    case (Inr c)
    define c' where "c' = c\<lparr>mc_start := sbind (note_life (Started p)) (\<lambda>_. mc_start c),
       mc_stop := sbind (note_life (Stopped p)) (\<lambda>_. mc_stop c)\<rparr>"
    have c': "traced code p t = Inr c'" using Inr by (simp add: traced_def c'_def)
    have tc: "tame (mc_start c)" "tame (mc_stop c)" "\<And>w. fst (mc_stop c w) = Inr ()"
      using tame Inr by (auto simp: tame_libraries_def tame_code_def)
    obtain q u where u: "mc_start c' w = (q, u)" by (cases "mc_start c' w")
    then have u': "mc_start c (w\<lparr>life := life w @ [Started p]\<rparr>) = (q, u)"
      unfolding c'_def traced_start .
    note eqs = tameD(1-3) [OF tc(1) u', simplified]
    show ?thesis
    proof (cases q)
      case (Inl e)
      obtain x where x: "mc_stop c' u = (Inr (), x)"
        using tc(3) [of "u\<lparr>life := life u @ [Stopped p]\<rparr>"] unfolding c'_def traced_stop
        by (metis prod.collapse)
      then have x': "mc_stop c (u\<lparr>life := life u @ [Stopped p]\<rparr>) = (Inr (), x)"
        unfolding c'_def traced_stop .
      have "is_exception e" using tameD(4) [OF tc(1) u'] Inl by simp
      from load_library_start_fails [where code = "traced code", OF Some c' u [unfolded Inl] this x] run
      have "r = Inl ModuleLoadException" "v = x" by simp_all
      with tameD(1-3) [OF tc(2) x', simplified] eqs s show ?thesis by (simp add: settled_def)
    next
      case (Inr uu)
      with load_library_starts [where code = "traced code", OF Some c'] u run
      have rv: "r = Inr ()" "v = add_module \<lparr>sourcePath = p, lastTouchTime = t\<rparr> c' u" by simp_all
      have lib: "loadedLibraryModuleManagers v =
          loadedLibraryModuleManagers w @ [(p, Some \<lparr>sourcePath = p, lastTouchTime = t\<rparr>)]"
        using rv(2) eqs less by (simp add: add_module_def map_set_last)
      have "library_known code (p, Some \<lparr>sourcePath = p, lastTouchTime = t\<rparr>)"
        using \<open>code p t = Inr c\<close> by (simp add: library_known_def)
      with s rv lib eqs show ?thesis by (simp add: settled_def add_module_def)
    qed
  qed
qed

lemma load_libraries_settled:
  assumes tame: "tame_libraries code" and "settled code w" and "sorted_wrt (<) files"
    and "\<forall>k \<in> fst ` set (loadedLibraryModuleManagers w). \<forall>p \<in> set files. k < p"
    and "sfor files (load_library (traced code)) w = (r, v)"
  shows "settled code v \<and> (r = Inr () \<or> r = Inl ModuleLoadException)"
  using assms(2-)
proof (induction files arbitrary: w)
  case Nil
  then show ?case by simp
next
  case (Cons p files)
  obtain q u where u: "load_library (traced code) p w = (q, u)" by (cases "load_library (traced code) p w")
  note one = load_library_settled [OF tame Cons.prems(1) _ u]
  have step: "settled code u" "q = Inl ModuleLoadException \<or> q = Inr () \<and>
      fst ` set (loadedLibraryModuleManagers u) = insert p (fst ` set (loadedLibraryModuleManagers w))"
    using one Cons.prems(3) by auto
  show ?case
  proof (cases q)
    case (Inl e)
    with step u Cons.prems(4) show ?thesis by simp
  next
    case (Inr x)
    have "sfor files (load_library (traced code)) u = (r, v)" using Cons.prems(4) u Inr by simp
    moreover have "\<forall>k \<in> fst ` set (loadedLibraryModuleManagers u). \<forall>x \<in> set files. k < x"
      using Cons.prems(2,3) step(2) Inr by simp
    moreover have "sorted_wrt (<) files" using Cons.prems(2) by simp
    ultimately show ?thesis using Cons.IH [OF step(1)] by blast
  qed
qed

section \<open>The whole manager\<close>

lemma call_manager_postStart:
  assumes "tame_libraries code" and "library_known code e" and "settled code w"
    and "call_manager (traced code) mc_postStart e w = (r, v)"
  shows "settled code v \<and> loadedLibraryModuleManagers v = loadedLibraryModuleManagers w \<and>
    (\<forall>x. r = Inl x \<longrightarrow> is_exception x)"
proof -
  obtain wr c where wr: "snd e = Some wr" "sourcePath wr = fst e" "code (fst e) (lastTouchTime wr) = Inr c"
    using assms(2) by (auto simp: library_known_def)
  then have run: "mc_postStart c w = (r, v)" using assms(4) by (simp add: call_manager_def traced_def)
  have "tame (mc_postStart c)" using assms(1) wr(3) by (auto simp: tame_libraries_def tame_code_def)
  from tameD [OF this run] assms(3) show ?thesis by (auto intro: settledI)
qed

lemma postStarts_settled:
  assumes "tame_libraries code" and "\<forall>e \<in> set es. library_known code e" and "settled code w"
    and "sfor es (call_manager (traced code) mc_postStart) w = (r, v)"
  shows "settled code v \<and> (\<forall>x. r = Inl x \<longrightarrow> is_exception x)"
  using assms(2-)
proof (induction es arbitrary: w)
  case Nil
  then show ?case by auto
next
  case (Cons e es)
  obtain q u where u: "call_manager (traced code) mc_postStart e w = (q, u)"
    by (cases "call_manager (traced code) mc_postStart e w")
  from call_manager_postStart [OF assms(1) _ Cons.prems(2) u] Cons.prems(1)
  have step: "settled code u" "\<forall>x. q = Inl x \<longrightarrow> is_exception x" by auto
  show ?case
  proof (cases q)
    case (Inl x)
    with u Cons.prems(3) step show ?thesis by simp
  next
    case (Inr a)
    with u Cons.prems(1,3) step(1) Cons.IH show ?thesis by simp
  qed
qed

lemma stops_settled:
  assumes "tame_libraries code" and "\<forall>e \<in> set es. library_known code e"
    and "running (life w) = Some (map fst es)"
  shows "\<exists>v. sfor es (call_manager (traced code) mc_stop) w = (Inr (), v) \<and> running (life v) = Some [] \<and>
    moduleDir v = moduleDir w"
  using assms(2-)
proof (induction es arbitrary: w)
  case Nil
  then show ?case by simp
next
  case (Cons e es)
  obtain wr c where wr: "snd e = Some wr" "sourcePath wr = fst e" "code (fst e) (lastTouchTime wr) = Inr c"
    using Cons.prems(1) by (auto simp: library_known_def)
  have tc: "tame (mc_stop c)" "\<And>w. fst (mc_stop c w) = Inr ()"
    using assms(1) wr(3) by (auto simp: tame_libraries_def tame_code_def)
  obtain u where u: "mc_stop c (w\<lparr>life := life w @ [Stopped (fst e)]\<rparr>) = (Inr (), u)"
    using tc(2) by (metis prod.collapse)
  have run: "call_manager (traced code) mc_stop e w = (Inr (), u)"
    using wr u by (simp add: call_manager_def traced_def note_life_def prog_defs)
  note eqs = tameD(1-3) [OF tc(1) u, simplified]
  have "running (life u) = Some (map fst es)" using eqs Cons.prems(2) by simp
  from Cons.IH [OF _ this] Cons.prems(1) obtain v where
    "sfor es (call_manager (traced code) mc_stop) u = (Inr (), v)" "running (life v) = Some []"
    "moduleDir v = moduleDir u" by auto
  with run eqs show ?case by simp
qed

lemma unload_settled:
  assumes "tame_libraries code" and "settled code w"
  shows "\<exists>v. manager_unload (traced code) w = (Inr (), v) \<and> settled code v \<and>
    loadedLibraryModuleManagers v = []"
proof -
  obtain s where s: "setState State_unloading w = (Inr (), w\<lparr>currentState := s\<rparr>)" using setState_eq by blast
  have "\<exists>v. sfor (rev (loadedLibraryModuleManagers w)) (call_manager (traced code) mc_stop)
      (w\<lparr>currentState := s\<rparr>) = (Inr (), v) \<and> running (life v) = Some [] \<and>
      moduleDir v = moduleDir (w\<lparr>currentState := s\<rparr>)"
    using assms(2) by (intro stops_settled [OF assms(1)]) (auto simp: settled_def rev_map)
  then obtain v where
    v: "sfor (rev (loadedLibraryModuleManagers w)) (call_manager (traced code) mc_stop)
        (w\<lparr>currentState := s\<rparr>) = (Inr (), v)" "running (life v) = Some []" "moduleDir v = moduleDir w" by auto
  define x where "x = v\<lparr>loadedModules := [], loadedModuleManagementInterfaces := [],
     loadedLibraryModuleManagers := []\<rparr>"
  obtain s' where s': "setState State_unloaded x = (Inr (), x\<lparr>currentState := s'\<rparr>)" using setState_eq by blast
  have "manager_unload (traced code) w = setState State_unloaded x"
    using s v(1) by (simp add: manager_unload_def sbind_def sget_def smodify_def x_def)
  moreover have "settled code (x\<lparr>currentState := s'\<rparr>)"
    using v(2,3) assms(2) by (simp add: settled_def x_def)
  ultimately show ?thesis using s' by (simp add: x_def)
qed

lemma load_settled:
  assumes "tame_libraries code" and "settled code w" and "loadedLibraryModuleManagers w = []"
    and "manager_load (traced code) w = (r, v)"
  shows "settled code v \<and> (\<forall>x. r = Inl x \<longrightarrow> is_exception x)"
proof -
  obtain s where s: "setState State_loading w = (Inr (), w\<lparr>currentState := s\<rparr>)" using setState_eq by blast
  define w1 where "w1 = w\<lparr>currentState := s\<rparr>"
  have w1: "settled code w1" "loadedLibraryModuleManagers w1 = []" "moduleDir w1 = moduleDir w"
    using assms(2,3) by (auto simp: w1_def settled_def)
  define files where "files = sort (map fst (moduleDir w))"
  have sorted: "sorted_wrt (<) files"
    using assms(2) by (simp add: files_def settled_def strict_sorted_iff)
  obtain q u where u: "sfor files (load_library (traced code)) w1 = (q, u)"
    by (cases "sfor files (load_library (traced code)) w1")
  have one: "settled code u" "q = Inr () \<or> q = Inl ModuleLoadException"
    using load_libraries_settled [OF assms(1) w1(1) sorted _ u] w1(2) by auto
  show ?thesis
  proof (cases q)
    case (Inl e)
    then have "manager_load (traced code) w = (q, u)"
      using s u w1(3) by (simp add: manager_load_def sbind_def sget_def w1_def files_def)
    with assms(4) one Inl show ?thesis by auto
  next
    case (Inr a)
    obtain q' x where x: "sfor (loadedLibraryModuleManagers u) (call_manager (traced code) mc_postStart) u = (q', x)"
      by (cases "sfor (loadedLibraryModuleManagers u) (call_manager (traced code) mc_postStart) u")
    have two: "settled code x" "\<forall>e. q' = Inl e \<longrightarrow> is_exception e"
      using postStarts_settled [OF assms(1) _ one(1) x] one(1) by (auto simp: settled_def)
    obtain s' where s': "setState State_loaded x = (Inr (), x\<lparr>currentState := s'\<rparr>)" using setState_eq by blast
    have "manager_load (traced code) w = (case q' of Inl e \<Rightarrow> (Inl e, x) | Inr _ \<Rightarrow> setState State_loaded x)"
      using s u w1(3) Inr x by (simp add: manager_load_def sbind_def sget_def w1_def files_def)
    then show ?thesis using assms(4) two s' by (cases q') (auto intro: settledI)
  qed
qed

lemma check_wrappers_ok:
  "\<forall>e \<in> set es. library_known code e \<Longrightarrow> \<exists>b. check_wrappers es w = Inr b"
  by (induction es w rule: check_wrappers.induct) (auto simp: library_known_def)

lemma monitor_turn_settled:
  assumes "tame_libraries code" and "settled code w" and "monitor_turn (traced code) w = (r, v)"
  shows "settled code v \<and> (\<forall>x. r = Inl x \<longrightarrow> is_exception x)"
proof -
  obtain b where b: "checkForReload w = (Inr b, w)"
    using check_wrappers_ok [of "loadedLibraryModuleManagers w" code w] assms(2)
    by (auto simp: settled_def checkForReload_def)
  show ?thesis
  proof (cases b)
    case False
    with b assms(2,3) show ?thesis by (auto simp: monitor_turn_def sbind_def sreturn_def)
  next
    case True
    obtain u where u: "manager_unload (traced code) w = (Inr (), u)" "settled code u"
      "loadedLibraryModuleManagers u = []" using unload_settled [OF assms(1,2)] by blast
    obtain q x where x: "manager_load (traced code) u = (q, x)" by (cases "manager_load (traced code) u")
    note l = load_settled [OF assms(1) u(2,3) x]
    obtain s where s: "setState State_monitoring x = (Inr (), x\<lparr>currentState := s\<rparr>)" using setState_eq by blast
    have "monitor_turn (traced code) w = (case q of Inl e \<Rightarrow> (Inl e, x) | Inr _ \<Rightarrow> setState State_monitoring x)"
      using b True u(1) x by (simp add: monitor_turn_def sbind_def)
    then show ?thesis using assms(3) l s by (cases q) (auto intro: settledI)
  qed
qed

lemma monitor_loop_settled:
  assumes "tame_libraries code" and "\<forall>f \<in> set waits. \<forall>w. outside w (f w)" and "settled code w"
    and "monitor_loop (traced code) waits w = (r, v)"
  shows "settled code v \<and> (\<forall>x. r = Inl x \<longrightarrow> is_exception x)"
  using assms(2-)
proof (induction waits arbitrary: w)
  case Nil
  then show ?case by (auto simp: sreturn_def)
next
  case (Cons wait waits)
  have s: "settled code (wait w)" using settled_outside [OF Cons.prems(2)] Cons.prems(1) by simp
  obtain q u where u: "monitor_turn (traced code) (wait w) = (q, u)"
    by (cases "monitor_turn (traced code) (wait w)")
  note one = monitor_turn_settled [OF assms(1) s u]
  have run: "monitor_loop (traced code) (wait # waits) w =
      (if currentState (wait w) = State_terminated then (Inr (Some ()), wait w)
       else case q of Inl e \<Rightarrow> (Inl e, u) | Inr _ \<Rightarrow> monitor_loop (traced code) waits u)"
    using u by (simp add: sbind_def smodify_def sget_def sreturn_def)
  show ?case
  proof (cases "currentState (wait w) = State_terminated")
    case True
    with run Cons.prems(3) s show ?thesis by auto
  next
    case False
    show ?thesis
    proof (cases q)
      case (Inl e)
      with run False one Cons.prems(3) show ?thesis by auto
    next
      case (Inr a)
      with run False Cons.prems(3) have "monitor_loop (traced code) waits u = (r, v)" by simp
      then show ?thesis using Cons.IH Cons.prems(1) one by auto
    qed
  qed
qed

lemma run_settled:
  assumes "tame_libraries code" and "\<forall>f \<in> set waits. \<forall>w. outside w (f w)" and "settled code w"
    and "loadedLibraryModuleManagers w = []"
    and "sbind (manager_load (traced code)) (\<lambda>_. sbind (monitor (traced code) waits) (\<lambda>ended.
           case ended of None \<Rightarrow> sreturn None
           | Some _ \<Rightarrow> sbind (manager_unload (traced code)) (\<lambda>_. sreturn (Some (0::int))))) w = (r, v)"
  shows "settled code v \<and> (\<forall>x. r = Inl x \<longrightarrow> is_exception x) \<and>
    (\<forall>status. r = Inr (Some status) \<longrightarrow> loadedLibraryModuleManagers v = [])"
proof -
  obtain q u where u: "manager_load (traced code) w = (q, u)" by (cases "manager_load (traced code) w")
  note one = load_settled [OF assms(1,3,4) u]
  show ?thesis
  proof (cases q)
    case (Inl e)
    with u one assms(5) show ?thesis by (auto simp: sbind_def)
  next
    case (Inr a)
    obtain s where s: "setState State_monitoring u = (Inr (), u\<lparr>currentState := s\<rparr>)" using setState_eq by blast
    have su: "settled code (u\<lparr>currentState := s\<rparr>)" using one by (auto intro: settledI)
    obtain q' x where x: "monitor_loop (traced code) waits (u\<lparr>currentState := s\<rparr>) = (q', x)"
      by (cases "monitor_loop (traced code) waits (u\<lparr>currentState := s\<rparr>)")
    note two = monitor_loop_settled [OF assms(1,2) su x]
    obtain y where y: "manager_unload (traced code) x = (Inr (), y)" "settled code y"
      "loadedLibraryModuleManagers y = []" using unload_settled [OF assms(1)] two by blast
    have "(r, v) = (case q' of Inl e \<Rightarrow> (Inl e, x) | Inr None \<Rightarrow> (Inr None, x) | Inr (Some _) \<Rightarrow> (Inr (Some 0), y))"
      using assms(5) u Inr s x y(1)
      by (simp add: sbind_def monitor_def sreturn_def split: sum.splits option.splits)
    with two y show ?thesis by (auto split: sum.splits option.splits)
  qed
qed

lemma server_main_settled:
  assumes "tame_libraries code" and "\<forall>f \<in> set waits. \<forall>w. outside w (f w)" and "settled code w"
    and "loadedLibraryModuleManagers w = []"
  shows "\<exists>status v. server_main (traced code) waits w = (Inr status, v) \<and> settled code v \<and>
    (status \<noteq> None \<longrightarrow> loadedLibraryModuleManagers v = [])"
proof -
  let ?run = "sbind (manager_load (traced code)) (\<lambda>_. sbind (monitor (traced code) waits) (\<lambda>ended.
           case ended of None \<Rightarrow> sreturn None
           | Some _ \<Rightarrow> sbind (manager_unload (traced code)) (\<lambda>_. sreturn (Some (0::int)))))"
  obtain r u where u: "?run w = (r, u)" by (cases "?run w")
  note one = run_settled [OF assms u]
  show ?thesis
  proof (cases r)
    case (Inr status)
    then have "server_main (traced code) waits w = (Inr status, u)"
      using u by (simp add: server_main_def stry_def scatch_def)
    with one Inr show ?thesis by auto
  next
    case (Inl e)
    obtain y where y: "manager_unload (traced code) u = (Inr (), y)" "settled code y"
      "loadedLibraryModuleManagers y = []" using unload_settled [OF assms(1)] one by blast
    have "server_main (traced code) waits w = (Inr (Some (- 1)), y)"
      using u Inl one y(1) by (simp add: server_main_def stry_def scatch_def sbind_def sreturn_def)
    with y show ?thesis by auto
  qed
qed

end
