(* ===== verification/Modules.thy ===== *)
theory Modules
  imports ModuleLife Router
begin

text \<open>
  The fourteen modules of the repository as the contents of their shared objects: what the
  \<open>start\<close>, \<open>postStart\<close> and \<open>stop\<close> of each \<open>...ModuleManager\<close> call, in order. The constructors and
  destructors of the singletons of a module are the parameter \<open>singleton\<close> (module, call); the service
  registry of the router is kept, because the modules register there in \<open>postStart\<close>.
\<close>

record node_manager = traced_manager +
  node_registry :: registry

record 'w module_env =
  singleton :: "string \<Rightarrow> string \<Rightarrow> ('w, unit) prog"
  dispatch :: "'w dispatch"
  push_service :: "bytes \<Rightarrow> string \<Rightarrow> bytes"
  own_account :: bytes
  consensus_required :: bool

type_synonym 'z node_env = "'z node_manager_scheme module_env"
type_synonym 'z node_code = "'z node_manager_scheme module_code"

definition calls :: "'w module_env \<Rightarrow> string \<Rightarrow> string list \<Rightarrow> ('w, unit) prog" where
  "calls E m names = sfor names (singleton E m)"

definition register_own_service ::
  "'z node_env \<Rightarrow> string \<Rightarrow> ('z node_manager_scheme, unit) prog" where
  "register_own_service E service =
     helper_registerService (dispatch E) (push_service E) (own_account E) service"

section \<open>The modules\<close>

definition event_service_module :: "'z node_env \<Rightarrow> 'z node_code" where
  "event_service_module E = \<lparr>mc_name = ''EventServiceModuleManager'',
     mc_modules = [(''event_service'', Some EventServiceObject)],
     mc_start = sbind (calls E ''event'' [''ConsensusService::init'']) (\<lambda>_.
       smodify (\<lambda>w. w\<lparr>event_object := new_EventServiceModule\<rparr>)),
     mc_postStart = registerEventHandlers event_handlers,
     mc_stop = calls E ''event'' [''ConsensusService::fin'']\<rparr>"

definition test_module :: "'z node_env \<Rightarrow> 'z node_code" where
  "test_module E = \<lparr>mc_name = ''TestModuleManager'',
     mc_modules = [(''test_module'', Some (ModuleObject ''TestModule''))],
     mc_start = sbind (calls E ''test'' [''ConsensusService::init'']) (\<lambda>_.
       registerEventHandlers test_handlers),
     mc_postStart = sreturn (),
     mc_stop = sbind (deregisterEventHandlers test_deregistered) (\<lambda>_.
       calls E ''test'' [''ConsensusService::fin''])\<rparr>"

definition transaction_module :: "'z node_env \<Rightarrow> 'z node_code" where
  "transaction_module E = \<lparr>mc_name = ''TransactionServiceModuleManager'',
     mc_modules = [(''transaction_manager'', Some TransactionServiceObject)],
     mc_start = sbind (calls E ''transaction'' [''ConsensusService::init'']) (\<lambda>_.
       registerEventHandlers transaction_handlers),
     mc_postStart = sreturn (),
     mc_stop = sbind (deregisterEventHandlers transaction_deregistered) (\<lambda>_.
       calls E ''transaction'' [''ConsensusService::fin''])\<rparr>"

definition keystore_module :: "'z node_env \<Rightarrow> 'z node_code" where
  "keystore_module E = \<lparr>mc_name = ''KeystoreModuleManager'',
     mc_modules = [(''KeystoreModule'', Some (ModuleObject ''KeystoreModule''))],
     mc_start = sbind (calls E ''keystore'' [''KeyStoreService::init'', ''ConsensusService::init'']) (\<lambda>_.
       registerEventHandlers keystore_handlers),
     mc_postStart = sreturn (),
     mc_stop = sbind (deregisterEventHandlers keystore_deregistered) (\<lambda>_.
       calls E ''keystore'' [''ConsensusService::fin'', ''KeyStoreService::fin''])\<rparr>"

definition account_module :: "'z node_env \<Rightarrow> 'z node_code" where
  "account_module E = \<lparr>mc_name = ''AccountModuleManager'',
     mc_modules = [(''accountModule'', Some (ModuleObject ''AccountModule''))],
     mc_start = sbind (calls E ''account''
         [''StorageManager::init'', ''AccountService::init'', ''ConsensusService::init'']) (\<lambda>_.
       registerEventHandlers account_handlers),
     mc_postStart = sreturn (),
     mc_stop = sbind (deregisterEventHandlers account_deregistered) (\<lambda>_.
       calls E ''account'' [''ConsensusService::fin'', ''AccountService::fin'', ''StorageManager::fin''])\<rparr>"

definition router_module :: "'z node_env \<Rightarrow> 'z node_code" where
  "router_module E = \<lparr>mc_name = ''RouterModuleManager'',
     mc_modules = [(''routerModule'', Some (ModuleObject ''RouterModule''))],
     mc_start = sbind (smodify (\<lambda>w. w\<lparr>node_registry := new_RouterRegistry\<rparr>)) (\<lambda>_.
       sbind (calls E ''router'' [''StorageManager::init'', ''RouterService::init'',
         ''ConsensusService::init'', ''PeerCache::init'']) (\<lambda>_.
       registerEventHandlers router_handlers)),
     mc_postStart = sreturn (),
     mc_stop = sbind (deregisterEventHandlers router_deregistered) (\<lambda>_.
       calls E ''router'' [''PeerCache::fin'', ''ConsensusService::fin'', ''RouterService::fin'',
         ''StorageManager::fin'', ''RouterRegistry::fin''])\<rparr>"

text \<open>\<open>BlockService::genesis\<close> runs in a transaction scope of its own.\<close>

definition block_module :: "'z node_env \<Rightarrow> 'z node_code" where
  "block_module E = \<lparr>mc_name = ''BlockModuleManager'',
     mc_modules = [(''blockModule'', Some (ModuleObject ''BlockModule''))],
     mc_start = sbind (calls E ''block'' [''BlockProducer::init'', ''TransactionProcessor::init'',
         ''StorageManager::init'', ''BlockService::init'', ''ConsensusService::init'']) (\<lambda>_.
       registerEventHandlers block_handlers),
     mc_postStart = sbind (with_transaction_service (calls E ''block''
         [''createTransaction'', ''BlockService::genesis'', ''commit''])) (\<lambda>_.
       register_own_service E ''block''),
     mc_stop = sbind (deregisterEventHandlers block_deregistered) (\<lambda>_.
       calls E ''block'' [''ConsensusService::fin'', ''BlockService::fin'', ''TransactionProcessor::fin'',
         ''BlockProducer::fin'', ''StorageManager::fin''])\<rparr>"

definition sandbox_module :: "'z node_env \<Rightarrow> 'z node_code" where
  "sandbox_module E = \<lparr>mc_name = ''SandboxModuleManager'',
     mc_modules = [(''SandboxModule'', Some (ModuleObject ''SandboxModule''))],
     mc_start = sbind (calls E ''sandbox'' [''WavmEngineManager::init'', ''SandboxService::init'',
         ''ConsensusService::init'']) (\<lambda>_.
       registerEventHandlers sandbox_handlers),
     mc_postStart = register_own_service E ''process'',
     mc_stop = sbind (deregisterEventHandlers sandbox_deregistered) (\<lambda>_.
       calls E ''sandbox'' [''ConsensusService::fin'', ''SandboxService::fin'', ''WavmEngineManager::fin''])\<rparr>"

definition balancer_module :: "'z node_env \<Rightarrow> 'z node_code" where
  "balancer_module E = \<lparr>mc_name = ''BalancerModuleManager'',
     mc_modules = [(''balancerModule'', Some (ModuleObject ''BalancerModule''))],
     mc_start = sbind (calls E ''balancer'' [''BalancerService::init'', ''BlockRouting::init'',
         ''TransactionCache::init'', ''ConsensusService::init'']) (\<lambda>_.
       registerEventHandlers balancer_handlers),
     mc_postStart = register_own_service E BALANCE,
     mc_stop = sbind (deregisterEventHandlers balancer_deregistered) (\<lambda>_.
       calls E ''balancer'' [''ConsensusService::fin'', ''TransactionCache::fin'', ''BlockRouting::fin'',
         ''BalancerService::fin''])\<rparr>"

definition rpc_server_module :: "'z node_env \<Rightarrow> 'z node_code" where
  "rpc_server_module E = \<lparr>mc_name = ''RpcServerModuleManager'',
     mc_modules = [(''RpcServerModuleManager'', Some (ModuleObject ''RpcServerModule''))],
     mc_start = sbind (calls E ''rpc_server'' [''RpcServer::init'', ''RpcServerSession::init'',
         ''RpcServer::start'', ''RpcServerService::init'', ''ConsensusService::init'']) (\<lambda>_.
       registerEventHandlers rpc_server_handlers),
     mc_postStart = sreturn (),
     mc_stop = sbind (deregisterEventHandlers rpc_server_deregistered) (\<lambda>_.
       calls E ''rpc_server'' [''ConsensusService::fin'', ''RpcServerService::fin'', ''RpcServer::stop'',
         ''RpcServerSession::fin'', ''RpcServer::fin''])\<rparr>"

definition httpd_module :: "'z node_env \<Rightarrow> 'z node_code" where
  "httpd_module E = \<lparr>mc_name = ''HttpdModuleManager'',
     mc_modules = [(''HttpdModuleManager'', Some (ModuleObject ''HttpdModule''))],
     mc_start = sbind (calls E ''http'' [''HttpdServer::start'', ''ConsensusService::init'']) (\<lambda>_.
       registerEventHandlers http_handlers),
     mc_postStart = sreturn (),
     mc_stop = sbind (deregisterEventHandlers http_deregistered) (\<lambda>_.
       calls E ''http'' [''ConsensusService::fin'', ''HttpdServer::stop'', ''HttpRequestManager::fin''])\<rparr>"

definition rpc_client_module :: "'z node_env \<Rightarrow> 'z node_code" where
  "rpc_client_module E = \<lparr>mc_name = ''RpcClientModuleManager'',
     mc_modules = [(''RpcClientModule'', Some (ModuleObject ''RpcClientModule''))],
     mc_start = sbind (calls E ''rpc_client'' [''ConsensusService::init'']) (\<lambda>_.
       sbind (registerEventHandlers rpc_client_handlers) (\<lambda>_.
       calls E ''rpc_client'' [''RpcSessionManager::init'', ''RpcSessionManager::start''])),
     mc_postStart = calls E ''rpc_client'' [''RpcSessionManager::postStart''],
     mc_stop = sbind (deregisterEventHandlers rpc_client_deregistered) (\<lambda>_.
       calls E ''rpc_client'' [''ConsensusService::fin'', ''RpcSessionManager::stop'', ''RpcSessionManager::fin''])\<rparr>"

definition version_module :: "'z node_env \<Rightarrow> 'z node_code" where
  "version_module E = \<lparr>mc_name = ''VersionManagerModuleManager'',
     mc_modules = [(''VersionManagerModule'', Some (ModuleObject ''VersionManagerModule''))],
     mc_start = sbind (calls E ''version_manager'' [''VersionProcessor::init'', ''ConsensusService::init'']) (\<lambda>_.
       registerEventHandlers version_handlers),
     mc_postStart = sreturn (),
     mc_stop = sbind (deregisterEventHandlers version_deregistered) (\<lambda>_.
       calls E ''version_manager'' [''ConsensusService::fin'', ''VersionProcessor::fin''])\<rparr>"

definition consensus_module :: "'z node_env \<Rightarrow> 'z node_code" where
  "consensus_module E = \<lparr>mc_name = ''ConsensusModuleManager'',
     mc_modules = [(''ConsensusModule'', Some (ModuleObject ''ConsensusModule''))],
     mc_start = sbind (calls E ''consensus_module'' [''ConsensusServices::init'']) (\<lambda>_.
       registerEventHandlers consensus_handlers),
     mc_postStart = (if consensus_required E then calls E ''consensus_module'' [''ConsensusServer::start'']
       else sreturn ()),
     mc_stop = sbind (calls E ''consensus_module'' [''ConsensusServer::reset'']) (\<lambda>_.
       sbind (deregisterEventHandlers consensus_deregistered) (\<lambda>_.
       calls E ''consensus_module'' [''ConsensusServices::fin'']))\<rparr>"

text \<open>The file names are the library targets of the build, which sort the modules.\<close>

definition shipped_libraries :: "'z node_env \<Rightarrow> (string \<times> 'z node_code) list" where
  "shipped_libraries E =
     [(''lib0001_keto_event_service_module.so'', event_service_module E),
      (''lib0002_keto_test_module.so'', test_module E),
      (''lib0003_keto_transaction_module.so'', transaction_module E),
      (''lib0010_keto_keystore_module.so'', keystore_module E),
      (''lib0015_account_module.so'', account_module E),
      (''lib0015_keto_router_module.so'', router_module E),
      (''lib0020_keto_block_module.so'', block_module E),
      (''lib0020_keto_sandbox_module.so'', sandbox_module E),
      (''lib0025_keto_balancer_module.so'', balancer_module E),
      (''lib0030_keto_rpc_server_module.so'', rpc_server_module E),
      (''lib0050_keto_httpd_module.so'', httpd_module E),
      (''lib0060_keto_rpc_client_module.so'', rpc_client_module E),
      (''lib0070_keto_version_manager_module.so'', version_module E),
      (''lib0100_keto_consensus_module.so'', consensus_module E)]"

definition shipped :: "'z node_env \<Rightarrow> 'z node_manager_scheme libraries" where
  "shipped E path time = (case map_of (shipped_libraries E) path of
       None \<Rightarrow> Inl LibraryError
     | Some c \<Rightarrow> Inr c)"

end
