(* ===== verification/NodeStart.thy ===== *)
theory NodeStart
  imports Modules
begin

text \<open>
  The start of a node with the shipped modules: every \<open>start\<close> in the order of the files, then every
  \<open>postStart\<close>. \<open>quiet\<close>, \<open>adds\<close> and \<open>posts\<close> say what a call of a module leaves alone and what it
  registers; each module satisfies one of them by the rules for sequences, and the two loops of
  \<open>load\<close> follow by induction over the list of modules.
\<close>

section \<open>What a call leaves alone and what it adds\<close>

definition same_tables :: "'z node_manager_scheme \<Rightarrow> 'z node_manager_scheme \<Rightarrow> bool" where
  "same_tables w v \<longleftrightarrow> loadedModules v = loadedModules w \<and> moduleDir v = moduleDir w \<and>
     loadedLibraryModuleManagers v = loadedLibraryModuleManagers w \<and> currentState v = currentState w"

definition quiet :: "('z node_manager_scheme, 'a) prog \<Rightarrow> bool" where
  "quiet m \<longleftrightarrow> (\<forall>w. \<exists>r v. m w = (Inr r, v) \<and> same_tables w v \<and> event_object v = event_object w \<and>
     node_registry v = node_registry w)"

definition event_ready :: "'z manager_scheme \<Rightarrow> bool" where
  "event_ready w \<longleftrightarrow> map_of (loadedModules w) ''event_service'' = Some (Some EventServiceObject)"

definition can_add :: "(string \<times> handler) list \<Rightarrow> 'z manager_scheme \<Rightarrow> bool" where
  "can_add hs w \<longleftrightarrow> event_ready w \<and> distinct (map fst hs) \<and>
     (\<forall>n \<in> fst ` set hs. signal_of (event_object w) n = None)"

definition added :: "(string \<times> handler) list \<Rightarrow> 'z node_manager_scheme \<Rightarrow> 'z node_manager_scheme \<Rightarrow> bool" where
  "added hs w v \<longleftrightarrow> same_tables w v \<and>
     signal_of (event_object v) = signal_of (event_object w) ++ map_of hs \<and>
     (node_registry v = node_registry w \<or> node_registry v = new_RouterRegistry)"

definition adds :: "('z node_manager_scheme, unit) prog \<Rightarrow> (string \<times> handler) list \<Rightarrow> bool" where
  "adds m hs \<longleftrightarrow> (\<forall>w. can_add hs w \<longrightarrow> (\<exists>v. m w = (Inr (), v) \<and> added hs w v))"

lemma same_tables_refl [simp]: "same_tables w w"
  by (simp add: same_tables_def)

lemma same_tables_trans: "same_tables w v \<Longrightarrow> same_tables v u \<Longrightarrow> same_tables w u"
  by (simp add: same_tables_def)

lemma quietD:
  assumes "quiet m"
  obtains r v where "m w = (Inr r, v)" "same_tables w v" "event_object v = event_object w"
    "node_registry v = node_registry w"
  using assms unfolding quiet_def by blast

lemma quiet_return [simp]: "quiet (sreturn a)"
  by (simp add: quiet_def sreturn_def)

lemma quiet_bind:
  assumes "quiet m" and "\<And>a. quiet (f a)"
  shows "quiet (sbind m f)"
  unfolding quiet_def
proof
  fix w :: "'a node_manager_scheme"
  obtain a v where v: "m w = (Inr a, v)" "same_tables w v" "event_object v = event_object w"
    "node_registry v = node_registry w" using assms(1) by (rule quietD)
  obtain b u where u: "f a v = (Inr b, u)" "same_tables v u" "event_object u = event_object v"
    "node_registry u = node_registry v" using assms(2) by (rule quietD)
  from v u same_tables_trans [OF v(2) u(2)]
  show "\<exists>r u. sbind m f w = (Inr r, u) \<and> same_tables w u \<and> event_object u = event_object w \<and>
      node_registry u = node_registry w" by (simp add: sbind_def)
qed

lemma quiet_for: "(\<And>x. quiet (f x)) \<Longrightarrow> quiet (sfor xs f)"
proof (induction xs)
  case Nil
  have "sfor [] f = sreturn ()" by (simp add: fun_eq_iff sreturn_def)
  then show ?case by simp
next
  case (Cons x xs)
  have "sfor (x # xs) f = sbind (f x) (\<lambda>_. sfor xs f)" by (simp add: fun_eq_iff sbind_def)
  then show ?case using Cons quiet_bind by metis
qed

lemma can_add_same:
  "can_add hs w \<Longrightarrow> same_tables w v \<Longrightarrow> event_object v = event_object w \<Longrightarrow> can_add hs v"
  by (simp add: can_add_def same_tables_def event_ready_def)

lemma registerEventHandler_ready:
  assumes "event_ready w"
  shows "registerEventHandler n h w =
    (fst (addEventHandler n h (event_object w)), w\<lparr>event_object := snd (addEventHandler n h (event_object w))\<rparr>)"
  using assms by (simp add: registerEventHandler_def with_event_service_def getModule_def event_ready_def
      on_events_def sbind_def case_prod_beta)

lemma registerEventHandlers_ready:
  assumes "event_ready w"
  shows "registerEventHandlers hs w =
    (fst (sfor hs (\<lambda>(n, h). addEventHandler n h) (event_object w)),
     w\<lparr>event_object := snd (sfor hs (\<lambda>(n, h). addEventHandler n h) (event_object w))\<rparr>)"
  using assms
proof (induction hs arbitrary: w)
  case Nil
  then show ?case by (simp add: registerEventHandlers_def)
next
  case (Cons e hs)
  obtain n h where e: "e = (n, h)" by (cases e)
  obtain r u where u: "addEventHandler n h (event_object w) = (r, u)"
    by (cases "addEventHandler n h (event_object w)")
  have ready: "event_ready (w\<lparr>event_object := u\<rparr>)" using Cons.prems by (simp add: event_ready_def)
  show ?case
    using Cons.IH [OF ready] registerEventHandler_ready [OF Cons.prems, of n h] u e
    by (cases r) (simp_all add: registerEventHandlers_def)
qed

lemma adds_register: "adds (registerEventHandlers hs) hs"
  unfolding adds_def
proof (intro allI impI)
  fix w :: "'a node_manager_scheme"
  assume "can_add hs w"
  then obtain t where "sfor hs (\<lambda>(n, h). addEventHandler n h) (event_object w) = (Inr (), t)"
    "signal_of t = signal_of (event_object w) ++ map_of hs" "event_ready w"
    using signals.add_all [of hs "event_object w"] by (auto simp: can_add_def)
  with registerEventHandlers_ready [of w hs]
  show "\<exists>v. registerEventHandlers hs w = (Inr (), v) \<and> added hs w v"
    by (simp add: added_def same_tables_def)
qed

lemma adds_after:
  assumes "quiet m" and "adds m' hs"
  shows "adds (sbind m (\<lambda>_. m')) hs"
  unfolding adds_def
proof (intro allI impI)
  fix w :: "'a node_manager_scheme"
  assume can: "can_add hs w"
  obtain a v where v: "m w = (Inr a, v)" "same_tables w v" "event_object v = event_object w"
    "node_registry v = node_registry w" using assms(1) by (rule quietD)
  with assms(2) can_add_same [OF can] obtain u where "m' v = (Inr (), u)" "added hs v u"
    unfolding adds_def by blast
  with v show "\<exists>u. sbind m (\<lambda>_. m') w = (Inr (), u) \<and> added hs w u"
    by (auto simp: sbind_def added_def intro: same_tables_trans)
qed

lemma adds_before:
  assumes "adds m hs" and "quiet (m' :: ('a node_manager_scheme, unit) prog)"
  shows "adds (sbind m (\<lambda>_. m')) hs"
  unfolding adds_def
proof (intro allI impI)
  fix w :: "'a node_manager_scheme"
  assume "can_add hs w"
  with assms(1) obtain v where v: "m w = (Inr (), v)" "added hs w v" unfolding adds_def by blast
  obtain a u where u: "m' v = (Inr a, u)" "same_tables v u" "event_object u = event_object v"
    "node_registry u = node_registry v" using assms(2) by (rule quietD)
  with v show "\<exists>u. sbind m (\<lambda>_. m') w = (Inr (), u) \<and> added hs w u"
    by (auto simp: sbind_def added_def intro: same_tables_trans)
qed

lemma adds_reset:
  assumes "adds m hs"
  shows "adds (sbind (smodify (\<lambda>w. w\<lparr>node_registry := new_RouterRegistry\<rparr>)) (\<lambda>_. m)) hs"
  unfolding adds_def
proof (intro allI impI)
  fix w :: "'a node_manager_scheme"
  assume "can_add hs w"
  then have "can_add hs (w\<lparr>node_registry := new_RouterRegistry\<rparr>)" by (simp add: can_add_def event_ready_def)
  with assms obtain v where "m (w\<lparr>node_registry := new_RouterRegistry\<rparr>) = (Inr (), v)"
    "added hs (w\<lparr>node_registry := new_RouterRegistry\<rparr>) v" unfolding adds_def by blast
  then show "\<exists>v. sbind (smodify (\<lambda>w. w\<lparr>node_registry := new_RouterRegistry\<rparr>)) (\<lambda>_. m) w = (Inr (), v) \<and>
      added hs w v" by (auto simp: sbind_def smodify_def added_def same_tables_def)
qed

section \<open>The starts of the shipped modules\<close>

definition quiet_env :: "'z node_env \<Rightarrow> bool" where
  "quiet_env E \<longleftrightarrow> (\<forall>m n. quiet (singleton E m n))"

lemma quiet_calls: "quiet_env E \<Longrightarrow> quiet (calls E m ns)"
  unfolding calls_def quiet_env_def by (rule quiet_for) simp

text \<open>The two shapes a start has.\<close>

lemma adds_start [simp]:
  "quiet_env E \<Longrightarrow> adds (sbind (calls E m ns) (\<lambda>_. registerEventHandlers hs)) hs"
  by (intro adds_after quiet_calls adds_register)

lemma adds_start_then [simp]:
  "quiet_env E \<Longrightarrow> adds (sbind (calls E m ns) (\<lambda>_. sbind (registerEventHandlers hs) (\<lambda>_. calls E k ls))) hs"
  by (intro adds_after adds_before [where m' = "calls E k ls"] quiet_calls adds_register)

text \<open>The modules after the event service, with what each registers when it starts.\<close>

definition starting :: "'z node_env \<Rightarrow> (string \<times> 'z node_code \<times> (string \<times> handler) list) list" where
  "starting E = map2 (\<lambda>(p, c) hs. (p, c, hs)) (tl (shipped_libraries E))
     [test_handlers, transaction_handlers, keystore_handlers, account_handlers, router_handlers,
      block_handlers, sandbox_handlers, balancer_handlers, rpc_server_handlers, http_handlers,
      rpc_client_handlers, version_handlers, consensus_handlers]"

definition start_handlers :: "(string \<times> handler) list" where
  "start_handlers = test_handlers @ transaction_handlers @ keystore_handlers @ account_handlers @
     router_handlers @ block_handlers @ sandbox_handlers @ balancer_handlers @ rpc_server_handlers @
     http_handlers @ rpc_client_handlers @ version_handlers @ consensus_handlers"

lemma starting_adds:
  assumes "quiet_env E" and "(p, c, hs) \<in> set (starting E)"
  shows "adds (mc_start c) hs"
  using assms(2) unfolding starting_def shipped_libraries_def
  by (auto simp: test_module_def transaction_module_def keystore_module_def account_module_def
      router_module_def block_module_def sandbox_module_def balancer_module_def rpc_server_module_def
      httpd_module_def rpc_client_module_def version_module_def consensus_module_def
      assms(1) adds_reset)

section \<open>The loop over the files\<close>

definition offers :: "(string \<times> module_object option) list \<Rightarrow> (string \<times> module_object option) list \<Rightarrow>
    (string \<times> module_object option) list" where
  "offers ms tab = fold (\<lambda>(name, m). map_set name m) ms tab"

lemma offers_other: "n \<notin> fst ` set ms \<Longrightarrow> map_of (offers ms tab) n = map_of tab n"
  unfolding offers_def by (induction ms arbitrary: tab) (auto simp: case_prod_beta)

lemma load_library_adds:
  assumes "adds (mc_start c) hs" and "can_add hs w" and "map_of (moduleDir w) p = Some t"
    and "code p t = Inr c" and "\<forall>k \<in> fst ` set (loadedLibraryModuleManagers w). k < p"
  shows "\<exists>v. load_library code p w = (Inr (), v) \<and>
    signal_of (event_object v) = signal_of (event_object w) ++ map_of hs \<and>
    loadedModules v = offers (mc_modules c) (loadedModules w) \<and>
    loadedLibraryModuleManagers v = loadedLibraryModuleManagers w @ [(p, Some \<lparr>sourcePath = p, lastTouchTime = t\<rparr>)] \<and>
    moduleDir v = moduleDir w \<and> currentState v = currentState w \<and>
    (node_registry v = node_registry w \<or> node_registry v = new_RouterRegistry)"
proof -
  obtain u where "mc_start c w = (Inr (), u)" "added hs w u" using assms(1,2) unfolding adds_def by blast
  with load_library_starts [where code = code, OF assms(3,4)] assms(5) show ?thesis
    by (auto simp: added_def same_tables_def add_module_def offers_def map_set_last)
qed

definition entry_of :: "'z manager_scheme \<Rightarrow> string \<Rightarrow> string \<times> ModuleWrapper option" where
  "entry_of w p = (p, Some \<lparr>sourcePath = p, lastTouchTime = the (map_of (moduleDir w) p)\<rparr>)"

text \<open>The modules a loop over the files needs: each start adds its handlers, none offers an event service
  of its own, and every file is there and holds its module.\<close>

definition loadable :: "'z node_manager_scheme libraries \<Rightarrow> (string \<times> c_long) list \<Rightarrow>
    (string \<times> 'z node_code \<times> (string \<times> handler) list) list \<Rightarrow> bool" where
  "loadable code dir ms \<longleftrightarrow> (\<forall>(p, c, hs) \<in> set ms. adds (mc_start c) hs \<and>
     ''event_service'' \<notin> fst ` set (mc_modules c) \<and>
     map_of dir p \<noteq> None \<and> code p (the (map_of dir p)) = Inr c)"

abbreviation handlers_of :: "(string \<times> 'c \<times> (string \<times> handler) list) list \<Rightarrow> (string \<times> handler) list" where
  "handlers_of ms \<equiv> concat (map (\<lambda>(p, c, hs). hs) ms)"

lemma map_add_append:
  "distinct (map fst (hs @ ks)) \<Longrightarrow> f ++ map_of hs ++ map_of ks = f ++ map_of (hs @ ks)"
  by (auto simp: fun_eq_iff map_add_def map_of_eq_None_iff split: option.splits dest: map_of_SomeD)
    (force dest: map_of_SomeD)+

lemma can_add_free: "can_add hs w \<Longrightarrow> n \<in> fst ` set hs \<Longrightarrow> signal_of (event_object w) n = None"
  unfolding can_add_def by (elim conjE) (erule bspec, assumption)

lemma can_add_append:
  assumes "can_add (hs @ ks) w"
  shows "can_add hs w" and "can_add ks w" and "n \<in> fst ` set ks \<Longrightarrow> n \<notin> fst ` set hs"
proof -
  have free: "\<forall>n \<in> fst ` set hs \<union> fst ` set ks. signal_of (event_object w) n = None"
    and dist: "distinct (map fst hs @ map fst ks)" and "event_ready w"
    using assms by (simp_all add: can_add_def image_Un)
  then show "can_add hs w" "can_add ks w" by (simp_all add: can_add_def)
  have "fst ` set hs \<inter> fst ` set ks = {}" using dist by simp
  then show "n \<in> fst ` set ks \<Longrightarrow> n \<notin> fst ` set hs" by blast
qed

lemma load_files_adds:
  assumes "loadable code (moduleDir w) ms" and "can_add (handlers_of ms) w"
    and "sorted_wrt (<) (map fst ms)"
    and "\<forall>k \<in> fst ` set (loadedLibraryModuleManagers w). \<forall>p \<in> fst ` set ms. k < p"
  shows "\<exists>v. sfor (map fst ms) (load_library code) w = (Inr (), v) \<and>
    signal_of (event_object v) = signal_of (event_object w) ++ map_of (handlers_of ms) \<and>
    loadedModules v = fold (\<lambda>(p, c, hs). offers (mc_modules c)) ms (loadedModules w) \<and>
    loadedLibraryModuleManagers v = loadedLibraryModuleManagers w @ map (entry_of w) (map fst ms) \<and>
    moduleDir v = moduleDir w \<and> currentState v = currentState w \<and>
    (node_registry v = node_registry w \<or> node_registry v = new_RouterRegistry)"
  using assms
proof (induction ms arbitrary: w)
  case Nil
  then show ?case by simp
next
  case (Cons m ms)
  obtain p c hs where m: "m = (p, c, hs)" by (cases m)
  have start: "adds (mc_start c) hs" and other: "''event_service'' \<notin> fst ` set (mc_modules c)"
    and "map_of (moduleDir w) p \<noteq> None" and "code p (the (map_of (moduleDir w) p)) = Inr c"
    using Cons.prems(1) m by (simp_all add: loadable_def)
  then obtain t where t: "map_of (moduleDir w) p = Some t" "code p t = Inr c" by auto
  have all: "can_add (hs @ handlers_of ms) w" using Cons.prems(2) m by simp
  then have dist: "distinct (map fst (hs @ handlers_of ms))" by (simp add: can_add_def)
  have can: "can_add hs w" using Cons.prems(2) m by (auto simp: can_add_def)
  have less: "\<forall>k \<in> fst ` set (loadedLibraryModuleManagers w). k < p" using Cons.prems(4) m by simp
  from load_library_adds [where code = code, OF start can t less] obtain v where v:
    "load_library code p w = (Inr (), v)"
    "signal_of (event_object v) = signal_of (event_object w) ++ map_of hs"
    "loadedModules v = offers (mc_modules c) (loadedModules w)"
    "loadedLibraryModuleManagers v = loadedLibraryModuleManagers w @ [(p, Some \<lparr>sourcePath = p, lastTouchTime = t\<rparr>)]"
    "moduleDir v = moduleDir w" "currentState v = currentState w"
    "node_registry v = node_registry w \<or> node_registry v = new_RouterRegistry" by blast
  have "loadable code (moduleDir v) ms" using Cons.prems(1) v(5) by (simp add: loadable_def)
  moreover have "can_add (handlers_of ms) v"
  proof -
    have "event_ready v" using Cons.prems(2) other v(3) by (simp add: can_add_def event_ready_def offers_other)
    moreover have "signal_of (event_object v) n = None" if n: "n \<in> fst ` set (handlers_of ms)" for n
    proof -
      have "n \<notin> fst ` set hs" by (rule can_add_append(3) [OF all n])
      moreover have "signal_of (event_object w) n = None"
        by (rule can_add_free [OF can_add_append(2) [OF all] n])
      ultimately show ?thesis using v(2) by (simp add: map_add_def map_of_eq_None_iff split: option.splits)
    qed
    ultimately show ?thesis using dist by (simp add: can_add_def)
  qed
  moreover have "sorted_wrt (<) (map fst ms)" using Cons.prems(3) m by simp
  moreover have "\<forall>k \<in> fst ` set (loadedLibraryModuleManagers v). \<forall>p \<in> fst ` set ms. k < p"
    using Cons.prems(3,4) m v(4) by auto
  ultimately obtain u where u: "sfor (map fst ms) (load_library code) v = (Inr (), u)"
    "signal_of (event_object u) = signal_of (event_object v) ++ map_of (handlers_of ms)"
    "loadedModules u = fold (\<lambda>(p, c, hs). offers (mc_modules c)) ms (loadedModules v)"
    "loadedLibraryModuleManagers u = loadedLibraryModuleManagers v @ map (entry_of v) (map fst ms)"
    "moduleDir u = moduleDir v" "currentState u = currentState v"
    "node_registry u = node_registry v \<or> node_registry u = new_RouterRegistry"
    using Cons.IH [of v] by blast
  have "signal_of (event_object u) = signal_of (event_object w) ++ map_of (handlers_of (m # ms))"
    using u(2) v(2) map_add_append [OF dist] m by simp
  moreover have "entry_of v = entry_of w" using v(5) by (simp add: entry_of_def fun_eq_iff)
  moreover have "sfor (map fst (m # ms)) (load_library code) w = (Inr (), u)" using u(1) v(1) m by simp
  moreover have "node_registry u = node_registry w \<or> node_registry u = new_RouterRegistry"
    using u(7) v(7) by auto
  ultimately show ?case using u v m t(1) by (simp add: entry_of_def)
qed

section \<open>The calls of postStart\<close>

definition register_law :: "'z node_env \<Rightarrow> bool" where
  "register_law E \<longleftrightarrow> (\<forall>service w. \<exists>e. dispatch E (Handler ''router'' ''registerService'')
     (Event_named ''REGISTER_SERVICE_MESSAGE'' (push_service E (own_account E) service)) w =
     (Inr e, w\<lparr>node_registry := registerService (node_registry w) (own_account E) service\<rparr>))"

definition post_ready :: "(string \<times> handler) list \<Rightarrow> 'z manager_scheme \<Rightarrow> bool" where
  "post_ready hs w \<longleftrightarrow> can_add hs w \<and>
     map_of (loadedModules w) ''transaction_manager'' = Some (Some TransactionServiceObject) \<and>
     signal_of (event_object w) ''REGISTER_SERVICE_MESSAGE'' = Some (Handler ''router'' ''registerService'')"

definition posts :: "'z node_env \<Rightarrow> ('z node_manager_scheme, unit) prog \<Rightarrow> (string \<times> handler) list \<Rightarrow>
    string list \<Rightarrow> bool" where
  "posts E m hs ss \<longleftrightarrow> (\<forall>w. post_ready hs w \<longrightarrow> (\<exists>v. m w = (Inr (), v) \<and> same_tables w v \<and>
     signal_of (event_object v) = signal_of (event_object w) ++ map_of hs \<and>
     node_registry v = fold (\<lambda>s r. registerService r (own_account E) s) ss (node_registry w)))"

lemma posts_quiet: "quiet m \<Longrightarrow> posts E m [] []"
  unfolding posts_def quiet_def by fastforce

lemma posts_register: "posts E (registerEventHandlers hs) hs []"
  unfolding posts_def
proof (intro allI impI)
  fix w :: "'a node_manager_scheme"
  assume "post_ready hs w"
  then have can: "can_add hs w" by (simp add: post_ready_def)
  then obtain t where "sfor hs (\<lambda>(n, h). addEventHandler n h) (event_object w) = (Inr (), t)"
    "signal_of t = signal_of (event_object w) ++ map_of hs" "event_ready w"
    using signals.add_all [of hs "event_object w"] by (auto simp: can_add_def)
  with registerEventHandlers_ready [of w hs] show "\<exists>v. registerEventHandlers hs w = (Inr (), v) \<and>
      same_tables w v \<and> signal_of (event_object v) = signal_of (event_object w) ++ map_of hs \<and>
      node_registry v = fold (\<lambda>s r. registerService r (own_account E) s) [] (node_registry w)"
    by (simp add: same_tables_def)
qed

lemma posts_service:
  assumes "register_law E"
  shows "posts E (register_own_service E service) [] [service]"
  unfolding posts_def
proof (intro allI impI)
  fix w :: "'a node_manager_scheme"
  assume ready: "post_ready [] w"
  then have w: "map_of (loadedModules w) ''event_service'' = Some (Some EventServiceObject)"
    "signal_of (event_object w) ''REGISTER_SERVICE_MESSAGE'' = Some (Handler ''router'' ''registerService'')"
    by (simp_all add: post_ready_def can_add_def event_ready_def)
  obtain e where e: "dispatch E (Handler ''router'' ''registerService'')
     (Event_named ''REGISTER_SERVICE_MESSAGE'' (push_service E (own_account E) service)) w =
     (Inr e, w\<lparr>node_registry := registerService (node_registry w) (own_account E) service\<rparr>)"
    using assms unfolding register_law_def by blast
  have name: "event_name (Event_named ''REGISTER_SERVICE_MESSAGE'' x) = ''REGISTER_SERVICE_MESSAGE''" for x
    by (simp add: Event_named_def)
  have "register_own_service E service w =
      (Inr (), w\<lparr>node_registry := registerService (node_registry w) (own_account E) service\<rparr>)"
    using w e name
    by (simp add: register_own_service_def helper_registerService_def helper_triggerEvent_def
        with_event_service_def getModule_def triggerEvent_def getEventHandler_def sbind_def sget_def
        slift_def sreturn_def)
  then show "\<exists>v. register_own_service E service w = (Inr (), v) \<and> same_tables w v \<and>
      signal_of (event_object v) = signal_of (event_object w) ++ map_of [] \<and>
      node_registry v = fold (\<lambda>s r. registerService r (own_account E) s) [service] (node_registry w)"
    by (simp add: same_tables_def)
qed

lemma posts_transaction:
  assumes "quiet m" and "posts E m' [] ss"
  shows "posts E (sbind (with_transaction_service m) (\<lambda>_. m')) [] ss"
  unfolding posts_def
proof (intro allI impI)
  fix w :: "'a node_manager_scheme"
  assume ready: "post_ready [] w"
  then have "map_of (loadedModules w) ''transaction_manager'' = Some (Some TransactionServiceObject)"
    by (simp add: post_ready_def)
  then have run: "with_transaction_service m w = m w"
    by (simp add: with_transaction_service_def getModule_def sbind_def)
  obtain a v where v: "m w = (Inr a, v)" "same_tables w v" "event_object v = event_object w"
    "node_registry v = node_registry w" using assms(1) by (rule quietD)
  have "post_ready [] v" using ready v by (simp add: post_ready_def can_add_def same_tables_def event_ready_def)
  with assms(2) obtain u where u: "m' v = (Inr (), u)" "same_tables v u"
    "signal_of (event_object u) = signal_of (event_object v) ++ map_of []"
    "node_registry u = fold (\<lambda>s r. registerService r (own_account E) s) ss (node_registry v)"
    unfolding posts_def by blast
  with run v same_tables_trans [OF v(2) u(2)]
  show "\<exists>u. sbind (with_transaction_service m) (\<lambda>_. m') w = (Inr (), u) \<and> same_tables w u \<and>
      signal_of (event_object u) = signal_of (event_object w) ++ map_of [] \<and>
      node_registry u = fold (\<lambda>s r. registerService r (own_account E) s) ss (node_registry w)"
    by (simp add: sbind_def)
qed

text \<open>What each \<open>postStart\<close> registers, in the order of the files: the event service two handlers, the
  block module, the sandbox and the balancer a service.\<close>

definition posting :: "((string \<times> handler) list \<times> string list) list" where
  "posting = [(event_handlers, []), ([], []), ([], []), ([], []), ([], []), ([], []), ([], [''block'']),
     ([], [''process'']), ([], [BALANCE]), ([], []), ([], []), ([], []), ([], []), ([], [])]"

lemma shipped_posts:
  assumes "quiet_env E" and "register_law E"
  shows "list_all2 (\<lambda>(p, c) (hs, ss). posts E (mc_postStart c) hs ss) (shipped_libraries E) posting"
  unfolding shipped_libraries_def posting_def
  by (simp add: event_service_module_def test_module_def transaction_module_def keystore_module_def
      account_module_def router_module_def block_module_def sandbox_module_def balancer_module_def
      rpc_server_module_def httpd_module_def rpc_client_module_def version_module_def consensus_module_def
      posts_quiet posts_register posts_service [OF assms(2)] quiet_calls [OF assms(1)] posts_transaction)

lemma post_loop:
  assumes "list_all2 (\<lambda>(p, c) (hs, ss). posts E (mc_postStart c) hs ss) ms qs"
    and "post_ready (concat (map fst qs)) w"
    and "\<forall>(p, c) \<in> set ms. \<forall>t. code p t = Inr c"
  shows "\<exists>v. sfor (map (entry_of d) (map fst ms)) (call_manager code mc_postStart) w = (Inr (), v) \<and>
    same_tables w v \<and>
    signal_of (event_object v) = signal_of (event_object w) ++ map_of (concat (map fst qs)) \<and>
    node_registry v = fold (\<lambda>s r. registerService r (own_account E) s) (concat (map snd qs)) (node_registry w)"
  using assms
proof (induction ms qs arbitrary: w rule: list_all2_induct)
  case Nil
  then show ?case by simp
next
  case (Cons m ms q qs)
  obtain p c where m: "m = (p, c)" by (cases m)
  obtain hs ss where q: "q = (hs, ss)" by (cases q)
  have all: "can_add (hs @ concat (map fst qs)) w" using Cons.prems(1) q by (simp add: post_ready_def)
  then have dist: "distinct (map fst (hs @ concat (map fst qs)))" by (simp add: can_add_def)
  have "post_ready hs w" using Cons.prems(1) all q by (simp add: post_ready_def can_add_def)
  moreover have "posts E (mc_postStart c) hs ss" using Cons.hyps(1) m q by simp
  ultimately obtain v where v: "mc_postStart c w = (Inr (), v)" "same_tables w v"
    "signal_of (event_object v) = signal_of (event_object w) ++ map_of hs"
    "node_registry v = fold (\<lambda>s r. registerService r (own_account E) s) ss (node_registry w)"
    unfolding posts_def by blast
  have other: "signal_of (event_object v) n = signal_of (event_object w) n" if "n \<notin> fst ` set hs" for n
  proof -
    have "map_of hs n = None" using that by (simp add: map_of_eq_None_iff)
    then show ?thesis by (simp add: v(3) map_add_def)
  qed
  have "post_ready (concat (map fst qs)) v"
  proof -
    have reg: "signal_of (event_object w) ''REGISTER_SERVICE_MESSAGE'' = Some (Handler ''router'' ''registerService'')"
      using Cons.prems(1) by (simp add: post_ready_def)
    have "''REGISTER_SERVICE_MESSAGE'' \<notin> fst ` set hs"
      using can_add_free [OF can_add_append(1) [OF all], of "''REGISTER_SERVICE_MESSAGE''"] reg by force
    with reg have reg': "signal_of (event_object v) ''REGISTER_SERVICE_MESSAGE'' = Some (Handler ''router'' ''registerService'')"
      using other by simp
    have "signal_of (event_object v) n = None" if n: "n \<in> fst ` set (concat (map fst qs))" for n
      using can_add_free [OF can_add_append(2) [OF all] n] other [OF can_add_append(3) [OF all n]] by simp
    with reg' show ?thesis using Cons.prems(1) v(2) dist
      by (simp add: post_ready_def can_add_def same_tables_def event_ready_def)
  qed
  from Cons.IH [OF this] Cons.prems(2) obtain u where u:
    "sfor (map (entry_of d) (map fst ms)) (call_manager code mc_postStart) v = (Inr (), u)" "same_tables v u"
    "signal_of (event_object u) = signal_of (event_object v) ++ map_of (concat (map fst qs))"
    "node_registry u = fold (\<lambda>s r. registerService r (own_account E) s) (concat (map snd qs)) (node_registry v)"
    by auto
  have "call_manager code mc_postStart (entry_of d p) w = (Inr (), v)"
    using Cons.prems(2) m v(1) by (simp add: call_manager_def entry_of_def)
  then have "sfor (map (entry_of d) (map fst (m # ms))) (call_manager code mc_postStart) w = (Inr (), u)"
    using u(1) m by simp
  moreover have "signal_of (event_object u) = signal_of (event_object w) ++ map_of (concat (map fst (q # qs)))"
    using u(3) v(3) map_add_append [OF dist] q by simp
  ultimately show ?case using u(4) v(4) same_tables_trans [OF v(2) u(2)] q by simp
qed

section \<open>The start of the node\<close>

definition all_handlers :: "(string \<times> handler) list" where
  "all_handlers = start_handlers @ event_handlers"

lemma handler_names_distinct: "distinct (map fst all_handlers)"
  by code_simp

lemma shipped_paths:
  "map fst (shipped_libraries E) = ''lib0001_keto_event_service_module.so'' # map fst (starting E)"
  "handlers_of (starting E) = start_handlers"
  "concat (map fst posting) = event_handlers" "concat (map snd posting) = [''block'', ''process'', BALANCE]"
  by (simp_all add: shipped_libraries_def starting_def start_handlers_def posting_def)

lemma shipped_paths_sorted: "sorted_wrt (<) (map fst (shipped_libraries E))"
  unfolding shipped_libraries_def by simp

lemma shipped_starting: "(p, c, hs) \<in> set (starting E) \<Longrightarrow> (p, c) \<in> set (shipped_libraries E)"
proof -
  assume "(p, c, hs) \<in> set (starting E)"
  then have "(p, c) \<in> set (tl (shipped_libraries E))"
    unfolding starting_def by (auto dest: set_zip_leftD)
  then show ?thesis by (cases "shipped_libraries E") simp_all
qed

lemma shipped_code: "(p, c) \<in> set (shipped_libraries E) \<Longrightarrow> shipped E p t = Inr c"
proof -
  assume "(p, c) \<in> set (shipped_libraries E)"
  moreover have "distinct (map fst (shipped_libraries E))"
    using shipped_paths_sorted [of E] strict_sorted_iff by blast
  ultimately show ?thesis by (simp add: shipped_def)
qed

lemma starting_offers:
  "(p, c, hs) \<in> set (starting E) \<Longrightarrow> ''event_service'' \<notin> fst ` set (mc_modules c)"
  unfolding starting_def shipped_libraries_def
  by (auto simp: test_module_def transaction_module_def keystore_module_def account_module_def
      router_module_def block_module_def sandbox_module_def balancer_module_def rpc_server_module_def
      httpd_module_def rpc_client_module_def version_module_def consensus_module_def)

lemma starting_transaction_manager:
  "map_of (fold (\<lambda>(p, c, hs). offers (mc_modules c)) (starting E) tab) ''transaction_manager'' =
     Some (Some TransactionServiceObject)"
  unfolding starting_def shipped_libraries_def offers_def
  by (simp add: test_module_def transaction_module_def keystore_module_def account_module_def
      router_module_def block_module_def sandbox_module_def balancer_module_def rpc_server_module_def
      httpd_module_def rpc_client_module_def version_module_def consensus_module_def)

lemma map_set_empty: "map_set k v [] = [(k, v)]"
  by (simp add: map_set_def)

lemma event_service_loads:
  assumes "quiet_env E" and "map_of (moduleDir w) p = Some t" and "code p t = Inr (event_service_module E)"
    and "loadedLibraryModuleManagers w = []"
  shows "\<exists>v. load_library code p w = (Inr (), v) \<and> registeredSignals (event_object v) = [] \<and>
    event_ready v \<and> loadedLibraryModuleManagers v = [(p, Some \<lparr>sourcePath = p, lastTouchTime = t\<rparr>)] \<and>
    moduleDir v = moduleDir w \<and> currentState v = currentState w \<and> node_registry v = node_registry w"
proof -
  have "quiet (calls E ''event'' [''ConsensusService::init''])" using assms(1) by (rule quiet_calls)
  then obtain u where u: "calls E ''event'' [''ConsensusService::init''] w = (Inr (), u)" "same_tables w u"
    "node_registry u = node_registry w" by (rule quietD [of _ w]) auto
  let ?u = "u\<lparr>event_object := new_EventServiceModule\<rparr>"
  have "mc_start (event_service_module E) w = (Inr (), ?u)"
    using u(1) by (simp add: event_service_module_def sbind_def smodify_def)
  from load_library_starts [where code = code, OF assms(2,3) this]
  have "load_library code p w =
      (Inr (), add_module \<lparr>sourcePath = p, lastTouchTime = t\<rparr> (event_service_module E) ?u)" .
  with u(2,3) assms(4) show ?thesis
    by (simp add: add_module_def event_service_module_def same_tables_def new_EventServiceModule_def
        event_ready_def map_set_empty)
qed

lemma node_loads:
  assumes E: "quiet_env E" "register_law E"
    and dir: "map fst (moduleDir w) = map fst (shipped_libraries E)"
    and w: "loadedLibraryModuleManagers w = []" "node_registry w = new_RouterRegistry"
  shows "\<exists>v. sbind (sfor (map fst (shipped_libraries E)) (load_library (shipped E)))
      (\<lambda>_. sbind (sget loadedLibraryModuleManagers) (\<lambda>loaded.
        sfor loaded (call_manager (shipped E) mc_postStart))) w = (Inr (), v) \<and>
    signal_of (event_object v) = map_of all_handlers \<and> currentState v = currentState w \<and>
    map fst (loadedLibraryModuleManagers v) = map fst (shipped_libraries E) \<and>
    node_registry v = fold (\<lambda>s r. registerService r (own_account E) s) [''block'', ''process'', BALANCE] new_RouterRegistry"
proof -
  let ?p = "''lib0001_keto_event_service_module.so''"
  have known: "map_of (moduleDir w) p \<noteq> None" if "p \<in> set (map fst (shipped_libraries E))" for p
    using that unfolding dir [symmetric] by (simp add: map_of_eq_None_iff)
  have first: "(?p, event_service_module E) \<in> set (shipped_libraries E)" by (simp add: shipped_libraries_def)
  obtain t where t: "map_of (moduleDir w) ?p = Some t"
    using known [of ?p] shipped_paths(1) [of E] by auto
  from event_service_loads [where code = "shipped E", OF E(1) t shipped_code [OF first] w(1)] obtain u where u:
    "load_library (shipped E) ?p w = (Inr (), u)" "registeredSignals (event_object u) = []" "event_ready u"
    "loadedLibraryModuleManagers u = [(?p, Some \<lparr>sourcePath = ?p, lastTouchTime = t\<rparr>)]"
    "moduleDir u = moduleDir w" "currentState u = currentState w" "node_registry u = node_registry w" by blast
  have sorted: "sorted_wrt (<) (?p # map fst (starting E))"
    using shipped_paths_sorted [of E] shipped_paths(1) by metis
  have "loadable (shipped E) (moduleDir u) (starting E)"
    unfolding loadable_def
  proof (clarify, intro conjI)
    fix p c hs assume m: "(p, c, hs) \<in> set (starting E)"
    show "adds (mc_start c) hs" using E(1) m by (rule starting_adds)
    show "''event_service'' \<notin> fst ` set (mc_modules c)" using m by (rule starting_offers)
    show "shipped E p (the (map_of (moduleDir u) p)) = Inr c" by (rule shipped_code [OF shipped_starting [OF m]])
    have "p \<in> set (map fst (shipped_libraries E))" using shipped_starting [OF m] by force
    from known [OF this] show "map_of (moduleDir u) p \<noteq> None" using u(5) by simp
  qed
  moreover have dist: "distinct (map fst start_handlers)"
    using handler_names_distinct by (simp only: all_handlers_def map_append distinct_append)
  then have "can_add (handlers_of (starting E)) u"
    using u(2,3) shipped_paths(2) [of E] by (simp add: can_add_def)
  moreover have "sorted_wrt (<) (map fst (starting E))" using sorted by simp
  moreover have "\<forall>k \<in> fst ` set (loadedLibraryModuleManagers u). \<forall>p \<in> fst ` set (starting E). k < p"
    using sorted u(4) by auto
  ultimately obtain v where v: "sfor (map fst (starting E)) (load_library (shipped E)) u = (Inr (), v)"
    "signal_of (event_object v) = signal_of (event_object u) ++ map_of (handlers_of (starting E))"
    "loadedModules v = fold (\<lambda>(p, c, hs). offers (mc_modules c)) (starting E) (loadedModules u)"
    "loadedLibraryModuleManagers v = loadedLibraryModuleManagers u @ map (entry_of u) (map fst (starting E))"
    "moduleDir v = moduleDir u" "currentState v = currentState u"
    "node_registry v = node_registry u \<or> node_registry v = new_RouterRegistry"
    using load_files_adds [of "shipped E" u "starting E"] by blast
  have signals: "signal_of (event_object v) = map_of start_handlers"
    using v(2) u(2) shipped_paths(2) [of E] by simp
  have lib: "loadedLibraryModuleManagers v = map (entry_of w) (map fst (shipped_libraries E))"
    using v(4) u(4,5) t shipped_paths(1) [of E] by (simp add: entry_of_def fun_eq_iff)
  have event: "event_ready v"
  proof -
    have "map_of (fold (\<lambda>(p, c, hs). offers (mc_modules c)) ms tab) ''event_service'' = map_of tab ''event_service''"
      if "\<forall>(p, c, hs) \<in> set ms. ''event_service'' \<notin> fst ` set (mc_modules c)"
      for ms :: "(string \<times> 'a node_code \<times> (string \<times> handler) list) list" and tab
      using that by (induction ms arbitrary: tab) (auto simp: offers_other)
    moreover have "\<forall>(p, c, hs) \<in> set (starting E). ''event_service'' \<notin> fst ` set (mc_modules c)"
      using starting_offers by blast
    ultimately show ?thesis using u(3) v(3) by (simp add: event_ready_def)
  qed
  have "distinct (map fst event_handlers)" "fst ` set start_handlers \<inter> fst ` set event_handlers = {}"
    using handler_names_distinct by (simp_all only: all_handlers_def map_append distinct_append set_map)
  then have "can_add event_handlers v"
    using event signals by (auto simp: can_add_def map_of_eq_None_iff)
  moreover have "map_of start_handlers ''REGISTER_SERVICE_MESSAGE'' = Some (Handler ''router'' ''registerService'')"
    by code_simp
  ultimately have "post_ready (concat (map fst posting)) v"
    using starting_transaction_manager v(3) signals by (simp add: post_ready_def shipped_paths(3))
  from post_loop [OF shipped_posts [OF E] this, of "shipped E" w] shipped_code [where E = E] obtain x where x:
    "sfor (map (entry_of w) (map fst (shipped_libraries E))) (call_manager (shipped E) mc_postStart) v = (Inr (), x)"
    "same_tables v x"
    "signal_of (event_object x) = signal_of (event_object v) ++ map_of event_handlers"
    "node_registry x = fold (\<lambda>s r. registerService r (own_account E) s) [''block'', ''process'', BALANCE] (node_registry v)"
    unfolding shipped_paths(3,4) by blast
  have "signal_of (event_object x) = map_of all_handlers"
    using x(3) signals map_add_append [of start_handlers event_handlers Map.empty] handler_names_distinct
    by (simp only: all_handlers_def empty_map_add)
  moreover have "node_registry v = new_RouterRegistry" using v(7) u(7) w(2) by auto
  moreover have "sfor (map fst (shipped_libraries E)) (load_library (shipped E)) w = (Inr (), v)"
    using u(1) v(1) shipped_paths(1) [of E] by simp
  moreover have "map fst (loadedLibraryModuleManagers v) = map fst (shipped_libraries E)"
    using lib by (simp add: entry_of_def comp_def)
  ultimately show ?thesis using x lib u(6) v(6) by (auto simp: sbind_def sget_def same_tables_def)
qed

text \<open>C11: A node that finds the fourteen shipped modules in its directory starts. When the constructors of
  the singletons return and leave the manager alone, and the router's handler registers a service,
  \<open>load\<close> succeeds, reaches its loaded state, has started the modules in the order of their file
  names, and the event service then finds exactly the handlers of the event registries, each name
  taken once; the registry of the router holds the block, sandbox and balancer services of the
  node's own account and nothing else.\<close>

theorem node_start_registers_every_handler:
  assumes "quiet_env E" and "register_law E"
    and "map fst (moduleDir w) = map fst (shipped_libraries E)"
    and "loadedLibraryModuleManagers w = []" and "node_registry w = new_RouterRegistry"
    and "currentState w \<noteq> State_terminated"
  shows "\<exists>v. manager_load (shipped E) w = (Inr (), v) \<and> currentState v = State_loaded \<and>
    map fst (loadedLibraryModuleManagers v) = map fst (shipped_libraries E) \<and>
    signal_of (event_object v) = map_of all_handlers \<and> distinct (map fst all_handlers) \<and>
    registered ({own_account E} \<times> {''block'', ''process'', BALANCE}) (node_registry v)"
proof -
  let ?w = "w\<lparr>currentState := State_loading\<rparr>"
  from node_loads [OF assms(1,2), of ?w] assms(3-5) obtain v where v:
    "sbind (sfor (map fst (shipped_libraries E)) (load_library (shipped E)))
      (\<lambda>_. sbind (sget loadedLibraryModuleManagers) (\<lambda>loaded.
        sfor loaded (call_manager (shipped E) mc_postStart))) ?w = (Inr (), v)"
    "signal_of (event_object v) = map_of all_handlers" "currentState v = State_loading"
    "map fst (loadedLibraryModuleManagers v) = map fst (shipped_libraries E)"
    "node_registry v = fold (\<lambda>s r. registerService r (own_account E) s) [''block'', ''process'', BALANCE] new_RouterRegistry"
    by auto
  have "sort (map fst (moduleDir ?w)) = map fst (shipped_libraries E)"
    using assms(3) shipped_paths_sorted [of E] by (simp add: sorted_sort_id strict_sorted_iff)
  then have "manager_load (shipped E) w = (Inr (), v\<lparr>currentState := State_loaded\<rparr>)"
    using v(1,3) assms(6)
    by (auto simp: manager_load_def setState_def sbind_def smodify_def sget_def split: prod.splits sum.splits)
  moreover have "registered ({own_account E} \<times> {''block'', ''process'', BALANCE}) (node_registry v)"
  proof -
    have "registered ({} \<union> set [(own_account E, ''block''), (own_account E, ''process''), (own_account E, BALANCE)])
        (fold (\<lambda>(a, s) r. registerService r a s)
          [(own_account E, ''block''), (own_account E, ''process''), (own_account E, BALANCE)] new_RouterRegistry)"
      by (rule registered_fold [OF registered_new])
    moreover have "{own_account E} \<times> {''block'', ''process'', BALANCE} =
        set [(own_account E, ''block''), (own_account E, ''process''), (own_account E, BALANCE)]" by auto
    ultimately show ?thesis using v(5) by simp
  qed
  ultimately show ?thesis using v handler_names_distinct by simp
qed

text \<open>A concrete environment: the singletons do nothing, a pushed service is its name, and the handler of
  the router registers it.\<close>

definition plain_module_env :: "unit node_manager_scheme module_env" where
  "plain_module_env = \<lparr>singleton = (\<lambda>m n. sreturn ()),
     dispatch = (\<lambda>h e w. (Inr e, if h = Handler ''router'' ''registerService''
       then w\<lparr>node_registry := registerService (node_registry w) [1] (map byte_char (event_message e))\<rparr> else w)),
     push_service = (\<lambda>account service. map char_byte service), own_account = [1], consensus_required = False\<rparr>"

definition plain_node :: node_manager where
  "plain_node = \<lparr>currentState = State_inited, loadedModules = [], loadedModuleManagementInterfaces = [],
     loadedLibraryModuleManagers = [], event_object = new_EventServiceModule,
     moduleDir = map (\<lambda>(p, c). (p, 7)) (shipped_libraries plain_module_env), life = [],
     node_registry = new_RouterRegistry\<rparr>"

lemma plain_module_env_quiet: "quiet_env plain_module_env"
  by (simp add: quiet_env_def plain_module_env_def)

lemma plain_module_env_law: "register_law plain_module_env"
  by (simp add: register_law_def plain_module_env_def Event_named_def)

theorem node_start_registers_every_handler_witness:
  "\<exists>v. manager_load (shipped plain_module_env) plain_node = (Inr (), v) \<and> currentState v = State_loaded \<and>
    map fst (loadedLibraryModuleManagers v) = map fst (shipped_libraries plain_module_env) \<and>
    signal_of (event_object v) = map_of all_handlers \<and> distinct (map fst all_handlers) \<and>
    registered ({own_account plain_module_env} \<times> {''block'', ''process'', BALANCE}) (node_registry v)"
  by (rule node_start_registers_every_handler [OF plain_module_env_quiet plain_module_env_law])
    (simp_all add: plain_node_def comp_def case_prod_beta)

section \<open>The end of the node\<close>


text \<open>Two modules of which the second fails to start.\<close>

definition half_broken :: "unit traced_manager_scheme libraries" where
  "half_broken p t = Inr \<lparr>mc_name = p, mc_modules = [], mc_start = (if p = ''b'' then sthrow LibraryError else sreturn ()),
     mc_postStart = sreturn (), mc_stop = sreturn ()\<rparr>"

definition half_broken_node :: "unit traced_manager_scheme" where
  "half_broken_node = \<lparr>currentState = State_inited, loadedModules = [], loadedModuleManagementInterfaces = [],
     loadedLibraryModuleManagers = [], event_object = new_EventServiceModule,
     moduleDir = [(''a'', 1), (''b'', 2)], life = []\<rparr>"

lemma half_broken_tame: "tame_libraries half_broken"
  by (simp add: tame_libraries_def half_broken_def tame_code_def tame_def same_files_def sreturn_def sthrow_def)

lemma half_broken_run:
  "server_main (traced half_broken) [manager_terminate] half_broken_node =
     (Inr (Some (- 1)), half_broken_node\<lparr>currentState := State_unloaded,
       life := [Started ''a'', Started ''b'', Stopped ''b'', Stopped ''a'']\<rparr>)"
  by (simp add: server_main_def stry_def scatch_def manager_load_def manager_unload_def setState_def
      load_library_def new_ModuleWrapper_def call_manager_def add_module_def traced_def note_life_def
      half_broken_def half_broken_node_def map_set_empty prog_defs)


end
