(* ===== verification/KeyStore.thy ===== *)
theory KeyStore
  imports ByteUtils
begin

text \<open>
  The session keys of \<open>modules/keystore/SessionKeyManager\<close>: one RSA key per session hash, made when it is
  first asked for. The key generator is a parameter: \<open>rsa n\<close> is the encoding of the n-th key it makes.
  The mutex makes each operation one step; the messages of protobuf are their fields.
\<close>

record key_store =
  sessionKeys :: "(bytes \<times> bytes) list"
  rng_count :: nat

definition new_SessionKeyManager :: key_store where
  "new_SessionKeyManager = \<lparr>sessionKeys = [], rng_count = 0\<rparr>"

record SessionKeyResponse =
  skr_session_hash :: string
  skr_session_key :: string

record SessionKeyExpireResponse =
  ske_session_hash :: string
  ske_success :: bool

definition requestKey :: "(nat \<Rightarrow> bytes) \<Rightarrow> string \<Rightarrow> (key_store, SessionKeyResponse) prog" where
  "requestKey rsa session_hash =
     (let sessionHash = copyStringToVector session_hash in
      sbind (sget (\<lambda>this. sessionHash \<in> fst ` set (sessionKeys this))) (\<lambda>known.
      sbind (if known then sreturn ()
             else smodify (\<lambda>this. this\<lparr>sessionKeys := map_set sessionHash (rsa (rng_count this)) (sessionKeys this),
                                       rng_count := rng_count this + 1\<rparr>)) (\<lambda>_.
      sget (\<lambda>this. \<lparr>skr_session_hash = session_hash,
        skr_session_key = copyVectorToString (copyFromSecure
          (case map_of (sessionKeys this) sessionHash of None \<Rightarrow> [] | Some key \<Rightarrow> key))\<rparr>))))"

definition removeKey :: "string \<Rightarrow> (key_store, SessionKeyExpireResponse) prog" where
  "removeKey session_hash =
     (let sessionHash = copyStringToVector session_hash in
      sbind (smodify (\<lambda>this. if sessionHash \<in> fst ` set (sessionKeys this)
        then this\<lparr>sessionKeys := map_erase sessionHash (sessionKeys this)\<rparr> else this)) (\<lambda>_.
      sreturn \<lparr>ske_session_hash = session_hash, ske_success = True\<rparr>))"

abbreviation session_key_of :: "key_store \<Rightarrow> bytes \<Rightarrow> bytes option" where
  "session_key_of this \<equiv> map_of (sessionKeys this)"

lemma requestKey_eq:
  "requestKey rsa h s = (let k = copyStringToVector h in case session_key_of s k of
     Some key \<Rightarrow> (Inr \<lparr>skr_session_hash = h, skr_session_key = copyVectorToString key\<rparr>, s)
   | None \<Rightarrow> (Inr \<lparr>skr_session_hash = h, skr_session_key = copyVectorToString (rsa (rng_count s))\<rparr>,
       s\<lparr>sessionKeys := map_set k (rsa (rng_count s)) (sessionKeys s), rng_count := rng_count s + 1\<rparr>))"
proof (cases "session_key_of s (copyStringToVector h)")
  case None
  then have "copyStringToVector h \<notin> fst ` set (sessionKeys s)" by (simp add: map_of_eq_None_iff)
  with None show ?thesis by (simp add: requestKey_def prog_defs Let_def)
next
  case (Some key)
  then have "copyStringToVector h \<in> fst ` set (sessionKeys s)" by (metis map_of_eq_None_iff option.distinct(1))
  with Some show ?thesis by (simp add: requestKey_def prog_defs Let_def)
qed

text \<open>A session keeps its key until it is removed; then the next request makes a new one.\<close>

lemma requestKey_again:
  assumes "requestKey rsa h s = (Inr r, t)"
  shows "requestKey rsa h t = (Inr r, t)"
  using assms by (auto simp: requestKey_eq Let_def split: option.splits)

lemma removeKey_forgets:
  "\<exists>t. removeKey h s = (Inr \<lparr>ske_session_hash = h, ske_success = True\<rparr>, t) \<and>
     session_key_of t = (session_key_of s)(copyStringToVector h := None)"
proof (cases "copyStringToVector h \<in> fst ` set (sessionKeys s)")
  case False
  then have "session_key_of s (copyStringToVector h) = None" by (simp add: map_of_eq_None_iff)
  with False show ?thesis by (auto simp: removeKey_def prog_defs Let_def)
qed (simp add: removeKey_def prog_defs Let_def)

end
