(* ===== verification/HttpSessions.thy ===== *)
theory HttpSessions
  imports KeyStore RpcProtocol Text
begin

text \<open>
  The requests a client makes over HTTP (\<open>libs/http_server_session\<close>): the hello that opens a session, a
  transaction, a query. Protobuf, Botan's encodings, the directory of public keys, the clock and the
  generator of session keys are the fields of \<open>http_lib\<close>; the client hash and the signature of a hello
  are checked against the key files. The session objects are never changed but for the time of their
  last use, which nothing reads: a shared pointer to one is its value.
\<close>

section \<open>Messages\<close>

record ClientHello =
  ch_version :: c_int
  ch_client_hash :: string
  ch_signature :: string

datatype HelloResponse = Hello_WELCOME | Hello_GO_AWAY | Hello_DENIED | Hello_SHUTTING_DOWN

record ClientResponse =
  cr_response :: HelloResponse
  cr_session_hash :: string
  cr_session_key :: string

record http_request =
  rq_method :: string
  rq_target :: string
  rq_headers :: "(string \<times> string) list"
  rq_body :: string
  rq_keep_alive :: bool

record http_response =
  rs_status :: nat
  rs_content_type :: string
  rs_body :: string
  rs_content_length :: nat
  rs_keep_alive :: bool

definition HAND_SHAKE :: string where "HAND_SHAKE = ''/hand_shake''"
definition TRANSACTION_TARGET :: string where "TRANSACTION_TARGET = ''/transaction''"
definition DATA_QUERY :: string where "DATA_QUERY = ''/data/''"
definition HEADER_SESSION_HASH :: string where "HEADER_SESSION_HASH = ''session_hash''"
definition QUERY_PARAM :: string where "QUERY_PARAM = ''query=''"

section \<open>State and parameters\<close>

record HttpSession =
  hs_clientHash :: bytes
  hs_sessionHash :: bytes
  hs_sessionKey :: bytes

record ('txn, 'db, 'g, 'ab) http_world = "('txn, 'db, 'g, 'ab) rpc_node" +
  ht_keys :: key_store
  clientHashMap :: "(bytes \<times> HttpSession) list"
  clientSessionMap :: "(bytes \<times> HttpSession option) list"

record ('priv, 'pub, 'tb) http_lib =
  hl_botan :: "('priv, 'pub) botan"
  hl_BER_encode :: "'pub \<Rightarrow> bytes"
  hl_key_files :: "string list"
  hl_parse_hello :: "string \<Rightarrow> ClientHello option"
  hl_serialize_response :: "ClientResponse \<Rightarrow> string"
  hl_parse_transaction :: "string \<Rightarrow> 'tb ptransaction option"
  hl_clock :: "nat \<Rightarrow> c_long \<times> c_int"
  hl_rsa :: "nat \<Rightarrow> bytes"

type_synonym ('txn, 'db, 'g, 'ab, 'z, 'a) hprog = "(('txn, 'db, 'g, 'ab, 'z) http_world_scheme, 'a) prog"

definition at_keystore :: "(key_store, 'a) prog \<Rightarrow> ('txn, 'db, 'g, 'ab, 'z, 'a) hprog" where
  "at_keystore m w = (case m (ht_keys w) of (r, k) \<Rightarrow> (r, w\<lparr>ht_keys := k\<rparr>))"

section \<open>HttpSession\<close>

text \<open>The reading of the clock is numbered by the keys made so far.\<close>

definition new_HttpSession ::
  "('priv, 'pub, 'tb) http_lib \<Rightarrow> bytes \<Rightarrow> bytes \<Rightarrow> ('txn, 'db, 'g, 'ab, 'z, HttpSession) hprog" where
  "new_HttpSession L account clientHash =
     sbind (sget (\<lambda>w. hl_clock L (rng_count (ht_keys w)))) (\<lambda>(microseconds, randomNumber).
     let sessionHash = SessionHashGenerator (hl_botan L) microseconds randomNumber clientHash account in
     sbind (at_keystore (requestKey (hl_rsa L) (copyVectorToString sessionHash))) (\<lambda>sessionKeyResponse.
     sreturn \<lparr>hs_clientHash = clientHash, hs_sessionHash = sessionHash,
              hs_sessionKey = copyToSecure (copyStringToVector (skr_session_key sessionKeyResponse))\<rparr>))"

text \<open>The destructor of a session.\<close>

definition HttpSession_destroy :: "HttpSession \<Rightarrow> ('txn, 'db, 'g, 'ab, 'z, unit) hprog" where
  "HttpSession_destroy this =
     sbind (at_keystore (removeKey (copyVectorToString (hs_sessionHash this)))) (\<lambda>_. sreturn ())"

section \<open>HttpSessionManager\<close>

text \<open>The loop over the key files: a file whose key has the hash of the client decides.\<close>

fun validate_files ::
  "('priv, 'pub, 'tb) http_lib \<Rightarrow> bytes \<Rightarrow> bytes \<Rightarrow> string list \<Rightarrow> 'pub option result" where
  "validate_files L clientHash signature [] = Inr None"
| "validate_files L clientHash signature (file # files) =
     rbind (getPublicKey (hl_botan L) (KeyLoader_of_path file)) (\<lambda>publicKey.
       let publicKeyHashVector = copyFromSecure (generateHash_vector (hl_botan L) (hl_BER_encode L publicKey)) in
       if publicKeyHashVector = clientHash
       then rbind (fst (verification_check (hl_botan L) signature
              (SignatureVerification_of_public publicKey publicKeyHashVector)))
              (\<lambda>ok. if ok then Inr (Some publicKey) else Inr None)
       else validate_files L clientHash signature files)"

definition validateRemoteHash :: "('priv, 'pub, 'tb) http_lib \<Rightarrow> ClientHello \<Rightarrow> 'pub option result" where
  "validateRemoteHash L clientHello =
     validate_files L (copyStringToVector (ch_client_hash clientHello))
       (copyStringToVector (ch_signature clientHello)) (hl_key_files L)"

definition get_or_open ::
  "('priv, 'pub, 'tb) http_lib \<Rightarrow> bytes \<Rightarrow> bytes \<Rightarrow> ('txn, 'db, 'g, 'ab, 'z, HttpSession) hprog" where
  "get_or_open L account clientHash =
     sbind (sget (\<lambda>w. map_of (clientHashMap w) clientHash)) (\<lambda>known. case known of
       Some ptr \<Rightarrow> sreturn ptr
     | None \<Rightarrow> sbind (new_HttpSession L account clientHash) (\<lambda>ptr.
         sbind (smodify (\<lambda>w. w\<lparr>clientHashMap := map_set (hs_clientHash ptr) ptr (clientHashMap w),
                               clientSessionMap := map_set (hs_sessionHash ptr) (Some ptr) (clientSessionMap w)\<rparr>)) (\<lambda>_.
         sreturn ptr)))"

definition processHello ::
  "('priv, 'pub, 'tb) http_lib \<Rightarrow> bytes \<Rightarrow> string \<Rightarrow> ('txn, 'db, 'g, 'ab, 'z, string) hprog" where
  "processHello L account hello = (case hl_parse_hello L hello of
       None \<Rightarrow> sthrow MessageDeserializationException
     | Some clientHello \<Rightarrow> sbind (slift (validateRemoteHash L clientHello)) (\<lambda>publicKey. case publicKey of
           None \<Rightarrow> sreturn (hl_serialize_response L
             \<lparr>cr_response = Hello_GO_AWAY, cr_session_hash = [], cr_session_key = []\<rparr>)
         | Some _ \<Rightarrow> sbind (get_or_open L account (copyStringToVector (ch_client_hash clientHello))) (\<lambda>ptr.
             sreturn (hl_serialize_response L
               \<lparr>cr_response = Hello_WELCOME, cr_session_hash = copyVectorToString (hs_sessionHash ptr),
                cr_session_key = copyVectorToString (copyFromSecure (hs_sessionKey ptr))\<rparr>))))"

definition isValid :: "bytes \<Rightarrow> ('txn, 'db, 'g, 'ab, 'z) http_world_scheme \<Rightarrow> bool" where
  "isValid sessionHash w \<longleftrightarrow> sessionHash \<in> fst ` set (clientSessionMap w)"

definition getSession :: "bytes \<Rightarrow> ('txn, 'db, 'g, 'ab, 'z, HttpSession option) hprog" where
  "getSession sessionHash = (\<lambda>w. case map_of (clientSessionMap w) sessionHash of
       Some ptr \<Rightarrow> (Inr ptr, w)
     | None \<Rightarrow> (Inr None, w\<lparr>clientSessionMap := map_set sessionHash None (clientSessionMap w)\<rparr>))"

section \<open>URISparqlParser\<close>

text \<open>The positions are kept in an \<open>int\<close>: \<open>npos\<close> becomes \<open>- 1\<close> and as a length \<open>npos\<close> again, and
  \<open>nextSlash + 1\<close> is then 0. The texts are shorter than 2^31.\<close>

definition uri_query :: "string \<Rightarrow> string \<Rightarrow> nat \<Rightarrow> string result" where
  "uri_query text subUri queryBegin = (case find_from subUri ''&'' queryBegin of
       None \<Rightarrow> rmap unescape (substr text (queryBegin + length QUERY_PARAM) None)
     | Some queryEnd \<Rightarrow> rmap unescape (substr text (queryBegin + length QUERY_PARAM) (Some queryEnd)))"

definition URISparqlParser :: "string \<Rightarrow> string \<Rightarrow> (string \<times> string) result" where
  "URISparqlParser uri body =
     rbind (substr uri (length DATA_QUERY) None) (\<lambda>subUri0.
     rbind (case find_from subUri0 ''/'' 0 of
         None \<Rightarrow> Inr (subUri0, subUri0)
       | Some nextSlash \<Rightarrow> rbind (substr subUri0 0 (Some nextSlash)) (\<lambda>accountHash.
           rmap (\<lambda>rest. (accountHash, rest)) (substr subUri0 (nextSlash + 1) None))) (\<lambda>(accountHash, subUri).
     rmap (\<lambda>query. (accountHash, query)) (case find_from subUri QUERY_PARAM 0 of
         Some queryBegin \<Rightarrow> uri_query subUri subUri queryBegin
       | None \<Rightarrow> (case find_from body QUERY_PARAM 0 of
             Some queryBegin \<Rightarrow> uri_query body subUri queryBegin
           | None \<Rightarrow> Inl InvalidSparqlRequestException))))"

section \<open>Transactions and queries\<close>

text \<open>\<open>base().at(name)\<close> throws \<open>std::out_of_range\<close> when there is no such field.\<close>

definition header_at :: "http_request \<Rightarrow> string \<Rightarrow> string result" where
  "header_at req name = (case map_of (rq_headers req) name of None \<Rightarrow> Inl OutOfRange | Some v \<Rightarrow> Inr v)"

definition http_processTransaction ::
  "('txn, 'db, 'g, 'any, 'tb, 'ab, 'sb, 'priv, 'pub) rpc_env \<Rightarrow> ('priv, 'pub, 'tb) http_lib \<Rightarrow> http_request \<Rightarrow> string \<Rightarrow>
   (('txn, 'db, 'g, 'ab, 'z) http_world_scheme, string) oprog" where
  "http_processTransaction E L req transactionMsg =
     obind (returning (slift (header_at req HEADER_SESSION_HASH))) (\<lambda>sessionHash.
     obind (returning (slift (HashHelper_of_encoded (re_codecs E) sessionHash HEX))) (\<lambda>hashHelper.
     let vectorHash = copyFromSecure (HashHelper_SecureVector hashHelper) in
     obind (returning (sget (isValid vectorHash))) (\<lambda>valid.
     if \<not> valid then returning (sthrow InvalidSessionException)
     else obind (returning (getSession vectorHash)) (\<lambda>httpSession.
       case hl_parse_transaction L transactionMsg of
         None \<Rightarrow> returning (sthrow MessageDeserializationException)
       | Some transaction \<Rightarrow>
           obind (returning (slift (case wrapper_setTransaction (env_wire (re_router E)) transaction
               (wrapper_setSessionHash new_MessageWrapper hashHelper) of (r, mw) \<Rightarrow> rmap (\<lambda>_. mw) r))) (\<lambda>messageWrapper.
           obind (route_message E messageWrapper) (\<lambda>messageWrapperResponse.
           returning (sreturn (mr_result messageWrapperResponse))))))))"

definition processQuery ::
  "('txn, 'db, 'g, 'any, 'tb, 'ab, 'sb, 'priv, 'pub) rpc_env \<Rightarrow> http_request \<Rightarrow> string \<Rightarrow>
   ('txn, 'db, 'g, 'ab, 'z, string) hprog" where
  "processQuery E req body =
     sbind (slift (case map_of (rq_headers req) HEADER_SESSION_HASH of
         None \<Rightarrow> Inl InvalidSessionException | Some v \<Rightarrow> Inr v)) (\<lambda>sessionHash.
     sbind (slift (HashHelper_of_encoded (re_codecs E) sessionHash HEX)) (\<lambda>sessionHashHelper.
     let vectorHash = copyFromSecure (HashHelper_SecureVector sessionHashHelper) in
     sbind (sget (isValid vectorHash)) (\<lambda>valid.
     if \<not> valid then sthrow InvalidSessionException
     else sbind (slift (URISparqlParser (rq_target req) body)) (\<lambda>(accountHash, query).
       sbind (slift (HashHelper_of_encoded (re_codecs E) accountHash HEX)) (\<lambda>hashHelper.
       let sparqlQuery = \<lparr>sp_account_hash = copyStringToVector (copySecureToString (HashHelper_SecureVector hashHelper)),
                          sp_query = query, sp_result = []\<rparr> in
       sbind (at_store (service_sparqlQuery (env_rocks (re_router E)) (re_rdf E) (env_accounts (re_router E)) sparqlQuery)) (\<lambda>answer.
       sreturn (sp_result answer)))))))"

section \<open>HttpRequestManager\<close>

definition checkRequest :: "http_request \<Rightarrow> bool" where
  "checkRequest req \<longleftrightarrow> rq_target req \<noteq> [] \<and>
     (rq_target req = HAND_SHAKE \<or> rq_target req = TRANSACTION_TARGET \<or> is_prefix DATA_QUERY (rq_target req))"

definition text_response :: "string \<Rightarrow> string \<Rightarrow> bool \<Rightarrow> http_response" where
  "text_response content_type result keep_alive =
     \<lparr>rs_status = 200, rs_content_type = content_type, rs_body = result,
      rs_content_length = length result, rs_keep_alive = keep_alive\<rparr>"

definition manager_handle_request ::
  "('txn, 'db, 'g, 'any, 'tb, 'ab, 'sb, 'priv, 'pub) rpc_env \<Rightarrow> ('priv, 'pub, 'tb) http_lib \<Rightarrow> http_request \<Rightarrow>
   (('txn, 'db, 'g, 'ab, 'z) http_world_scheme, http_response) oprog" where
  "manager_handle_request E L req =
     (let html = (\<lambda>result. returning (sreturn (text_response ''text/html'' result (rq_keep_alive req)))) in
      if rq_target req = HAND_SHAKE then
        obind (returning (processHello L (server_account (re_router E)) (rq_body req))) html
      else if rq_target req = TRANSACTION_TARGET then obind (http_processTransaction E L req (rq_body req)) html
      else if is_prefix DATA_QUERY (rq_target req) then
        obind (returning (processQuery E req (rq_body req))) (\<lambda>result.
        returning (sreturn (text_response ''application/sparql-results+json'' result False)))
      else html [])"

end
