(* ===== verification/HttpServer.thy ===== *)
theory HttpServer
  imports HttpSessions Numbers
begin

text \<open>
  The HTTP server of a node (\<open>modules/http_server/HttpdServer\<close>): the answer to a request, from a
  document or from the request manager inside a resource transaction, and the session of a connection.
  An asynchronous operation is pending until its handler is called. The model is one thread that serves one connection. What a file holds is the parameter
  \<open>hd_open\<close>, the text of an exception \<open>hd_what\<close>.
\<close>

section \<open>Documents\<close>

definition lower :: "char \<Rightarrow> char" where
  "lower c = (let n = (of_char c :: nat) in if 65 \<le> n \<and> n \<le> 90 then char_of (n + 32) else c)"

definition iequals :: "string \<Rightarrow> string \<Rightarrow> bool" where
  "iequals s t \<longleftrightarrow> map lower s = map lower t"

definition path_extension :: "string \<Rightarrow> string" where
  "path_extension path = (if CHR ''.'' \<in> set path
     then CHR ''.'' # rev (takeWhile (\<lambda>c. c \<noteq> CHR ''.'') (rev path)) else [])"

definition mime_types :: "(string \<times> string) list" where
  "mime_types =
     [(''.htm'', ''text/html''), (''.html'', ''text/html''), (''.php'', ''text/html''), (''.css'', ''text/css''),
      (''.txt'', ''text/plain''), (''.js'', ''application/javascript''), (''.json'', ''application/json''),
      (''.xml'', ''application/xml''), (''.swf'', ''application/x-shockwave-flash''), (''.flv'', ''video/x-flv''),
      (''.png'', ''image/png''), (''.jpe'', ''image/jpeg''), (''.jpeg'', ''image/jpeg''), (''.jpg'', ''image/jpeg''),
      (''.gif'', ''image/gif''), (''.bmp'', ''image/bmp''), (''.ico'', ''image/vnd.microsoft.icon''),
      (''.tiff'', ''image/tiff''), (''.tif'', ''image/tiff''), (''.svg'', ''image/svg+xml''),
      (''.svgz'', ''image/svg+xml'')]"

definition mime_type :: "string \<Rightarrow> string" where
  "mime_type path = (case find (\<lambda>(ext, t). iequals (path_extension path) ext) mime_types of
       Some (ext, t) \<Rightarrow> t
     | None \<Rightarrow> ''application/text'')"

definition path_cat :: "string \<Rightarrow> string \<Rightarrow> string" where
  "path_cat base path = (if base = [] then path
     else (if last base = CHR ''/'' then butlast base else base) @ path)"

datatype file_result = FileContent string | FileMissing | FileError string

definition error_response :: "nat \<Rightarrow> string \<Rightarrow> http_request \<Rightarrow> http_response" where
  "error_response status text req = \<lparr>rs_status = status, rs_content_type = ''text/html'', rs_body = text,
     rs_content_length = length text, rs_keep_alive = rq_keep_alive req\<rparr>"

definition bad_request :: "string \<Rightarrow> http_request \<Rightarrow> http_response" where
  "bad_request why req = error_response 400 why req"

definition not_found :: "string \<Rightarrow> http_request \<Rightarrow> http_response" where
  "not_found target req = error_response 404
     (''The resource '' @ [CHR 0x27] @ target @ [CHR 0x27] @ '' was not found.'') req"

definition server_error :: "string \<Rightarrow> http_request \<Rightarrow> http_response" where
  "server_error what req = error_response 500
     (''An error occurred: '' @ [CHR 0x27] @ what @ [CHR 0x27]) req"

definition document_path :: "string \<Rightarrow> string \<Rightarrow> string" where
  "document_path doc_root target =
     (let path = path_cat doc_root target
      in if last target = CHR ''/'' then path @ ''index.html'' else path)"

definition illegal_target :: "string \<Rightarrow> bool" where
  "illegal_target target \<longleftrightarrow> target = [] \<or> hd target \<noteq> CHR ''/'' \<or> find_first ''..'' target \<noteq> None"

definition document_response :: "(string \<Rightarrow> file_result) \<Rightarrow> string \<Rightarrow> http_request \<Rightarrow> http_response" where
  "document_response open_file doc_root req =
     (if rq_method req \<noteq> ''GET'' \<and> rq_method req \<noteq> ''HEAD'' then bad_request ''Unknown HTTP-method'' req
      else if illegal_target (rq_target req) then bad_request ''Illegal request-target'' req
      else let path = document_path doc_root (rq_target req) in
        (case open_file path of
           FileMissing \<Rightarrow> not_found (rq_target req) req
         | FileError message \<Rightarrow> server_error message req
         | FileContent body \<Rightarrow> \<lparr>rs_status = 200, rs_content_type = mime_type path,
             rs_body = (if rq_method req = ''HEAD'' then [] else body),
             rs_content_length = length body, rs_keep_alive = rq_keep_alive req\<rparr>))"

section \<open>Connections\<close>

datatype http_operation = HttpHandshake | HttpRead | HttpWrite http_response | HttpShutdown

datatype io_status = IoOk | IoEnd | IoFailed

text \<open>\<open>hc_req\<close> is the request the session reads into: \<open>None\<close> is a message that has not been used.\<close>

record http_connection =
  hc_req :: "http_request option"
  hc_res :: "http_response option"
  hc_pending :: "http_operation list"

record ('txn, 'db, 'g, 'ab) http_node = "('txn, 'db, 'g, 'ab) http_world" +
  ht_conn :: http_connection

record httpd =
  hd_doc_root :: string
  hd_open :: "string \<Rightarrow> file_result"
  hd_what :: "keto_error \<Rightarrow> string"

definition new_session :: http_connection where
  "new_session = \<lparr>hc_req = None, hc_res = None, hc_pending = []\<rparr>"

definition on_conn :: "(http_connection, 'a) prog \<Rightarrow> (('txn, 'db, 'g, 'ab, 'z) http_node_scheme, 'a) prog" where
  "on_conn m w = (case m (ht_conn w) of (r, c) \<Rightarrow> (r, w\<lparr>ht_conn := c\<rparr>))"

definition start_operation :: "http_operation \<Rightarrow> (http_connection, unit) prog" where
  "start_operation op = smodify (\<lambda>c. c\<lparr>hc_pending := hc_pending c @ [op]\<rparr>)"

text \<open>The handler of an operation is called when the operation has completed.\<close>

definition completed_operation :: "http_operation \<Rightarrow> (http_connection, unit) prog" where
  "completed_operation op = smodify (\<lambda>c. c\<lparr>hc_pending := remove1 op (hc_pending c)\<rparr>)"

definition send_lambda :: "http_response \<Rightarrow> (http_connection, unit) prog" where
  "send_lambda msg = sbind (smodify (\<lambda>c. c\<lparr>hc_res := Some msg\<rparr>)) (\<lambda>_. start_operation (HttpWrite msg))"

text \<open>\<open>async_read\<close> into a message with previous contents is undefined, by its documentation.\<close>

definition http_do_read :: "(http_connection, unit) prog" where
  "http_do_read = sbind (sget hc_req) (\<lambda>req.
     if req \<noteq> None then sthrow UndefinedBehaviour else start_operation HttpRead)"

definition http_do_close :: "(http_connection, unit) prog" where
  "http_do_close = start_operation HttpShutdown"

section \<open>Handling a request\<close>

text \<open>\<open>createTransaction\<close> is outside the \<open>try\<close> block. The answer is sent before the commit. A
  \<open>catch\<close> clause sends an error, and then the destructor of the scope rolls back, unless a commit has
  been tried.\<close>

definition handle_request ::
  "('txn, 'db, 'g, 'any, 'tb, 'ab, 'sb, 'priv, 'pub) rpc_env \<Rightarrow> ('priv, 'pub, 'tb) http_lib \<Rightarrow> httpd \<Rightarrow> http_request \<Rightarrow>
   (('txn, 'db, 'g, 'ab, 'z) http_node_scheme, unit) oprog" where
  "handle_request E L D req =
     (if checkRequest req then
        obind (returning (at_store createTransaction)) (\<lambda>_ w. case manager_handle_request E L req w of
            None \<Rightarrow> None
          | Some (Inl e, w1) \<Rightarrow> Some (if is_exception e
              then sbind (on_conn (send_lambda (server_error (hd_what D e) req))) (\<lambda>_. scope_destroy E) w1
              else (Inl e, w1))
          | Some (Inr response, w1) \<Rightarrow> Some (stry
              (sbind (on_conn (send_lambda response)) (\<lambda>_. scope_commit E))
              (\<lambda>e. on_conn (send_lambda (server_error (hd_what D e) req))) w1))
      else returning (on_conn (send_lambda (document_response (hd_open D) (hd_doc_root D) req))))"

section \<open>The handlers of a connection\<close>

definition http_session_run :: "(http_connection, unit) prog" where
  "http_session_run = start_operation HttpHandshake"

definition on_handshake :: "io_status \<Rightarrow> (http_connection, unit) prog" where
  "on_handshake ec = sbind (completed_operation HttpHandshake) (\<lambda>_.
     if ec \<noteq> IoOk then sreturn () else http_do_read)"

text \<open>An exception that leaves a handler leaves the thread's \<open>io_context::run\<close> and ends the process.\<close>

definition in_handler :: "('s, unit) oprog \<Rightarrow> ('s, unit) oprog" where
  "in_handler m w = map_option (\<lambda>(r, v). (case r of
       Inl e \<Rightarrow> if is_exception e then Inl StdTerminate else Inl e | Inr u \<Rightarrow> Inr u, v)) (m w)"

text \<open>\<open>std::move(req_)\<close> binds a reference: the request stays in the session.\<close>

definition http_on_read ::
  "('txn, 'db, 'g, 'any, 'tb, 'ab, 'sb, 'priv, 'pub) rpc_env \<Rightarrow> ('priv, 'pub, 'tb) http_lib \<Rightarrow> httpd \<Rightarrow>
   io_status \<Rightarrow> http_request \<Rightarrow> (('txn, 'db, 'g, 'ab, 'z) http_node_scheme, unit) oprog" where
  "http_on_read E L D ec req =
     obind (returning (on_conn (completed_operation HttpRead))) (\<lambda>_.
     if ec = IoEnd then returning (on_conn http_do_close)
     else if ec = IoFailed then returning (sreturn ())
     else obind (returning (on_conn (smodify (\<lambda>c. c\<lparr>hc_req := Some req\<rparr>)))) (\<lambda>_.
       in_handler (handle_request E L D req)))"

text \<open>The message of a write is owned by \<open>res_\<close> alone: it is destroyed when \<open>res_\<close> is set to another while
  the write is pending. (The messages of one request differ in their status.)\<close>

definition completed_write :: "http_response \<Rightarrow> (http_connection, unit) prog" where
  "completed_write msg = sbind (sget hc_res) (\<lambda>res.
     if res \<noteq> Some msg then sthrow UndefinedBehaviour else completed_operation (HttpWrite msg))"

definition http_on_write :: "io_status \<Rightarrow> http_response \<Rightarrow> (http_connection, unit) prog" where
  "http_on_write ec msg =
     sbind (completed_write msg) (\<lambda>_.
     if ec \<noteq> IoOk then sreturn ()
     else if \<not> rs_keep_alive msg then http_do_close
     else sbind (smodify (\<lambda>c. c\<lparr>hc_res := None\<rparr>)) (\<lambda>_. http_do_read))"

definition on_shutdown :: "io_status \<Rightarrow> (http_connection, unit) prog" where
  "on_shutdown ec = sbind (completed_operation HttpShutdown) (\<lambda>_. sreturn ())"

section \<open>The listener and the server\<close>

record listener =
  li_is_open :: bool
  li_accepting :: nat
  li_sessions :: "http_connection list"

text \<open>The error codes of \<open>open\<close>, \<open>bind\<close> and \<open>listen\<close>: a failed \<open>bind\<close> or \<open>listen\<close> leaves the acceptor open.\<close>

definition new_listener :: "io_status \<Rightarrow> io_status \<Rightarrow> io_status \<Rightarrow> listener" where
  "new_listener open_ec bind_ec listen_ec =
     \<lparr>li_is_open = (open_ec = IoOk), li_accepting = 0, li_sessions = []\<rparr>"

definition do_accept :: "listener \<Rightarrow> listener" where
  "do_accept this = this\<lparr>li_accepting := li_accepting this + 1\<rparr>"

definition listener_run :: "listener \<Rightarrow> listener" where
  "listener_run this = (if \<not> li_is_open this then this else do_accept this)"

definition on_accept :: "io_status \<Rightarrow> listener \<Rightarrow> listener" where
  "on_accept ec this =
     (let this1 = this\<lparr>li_accepting := li_accepting this - 1\<rparr>;
          this2 = (if ec \<noteq> IoOk then this1
                   else this1\<lparr>li_sessions := li_sessions this1 @ [snd (http_session_run new_session)]\<rparr>)
      in do_accept this2)"

record HttpdServer =
  sv_documentRoot :: string
  sv_serverIp :: string
  sv_serverPort :: "16 word"
  sv_threads :: int

text \<open>The configuration is a map of texts; \<open>/\<close> on paths and the texts \<open>make_address\<close> accepts are parameters. \<open>atoi\<close> is
  read as \<open>atol\<close>: a text that is no number is 0.\<close>

definition new_HttpdServer ::
  "(string \<Rightarrow> string \<Rightarrow> string) \<Rightarrow> (string \<Rightarrow> bool) \<Rightarrow> string \<Rightarrow> (string \<times> string) list \<Rightarrow> HttpdServer result" where
  "new_HttpdServer path_join is_address install config =
     (let address = (case map_of config ''http-ip-address'' of None \<Rightarrow> ''0.0.0.0'' | Some ip \<Rightarrow> ip) in
      if map_of config ''http-ip-address'' \<noteq> None \<and> \<not> is_address address then Inl LibraryError
      else Inr \<lparr>sv_documentRoot = (case map_of config ''document-root'' of
          None \<Rightarrow> path_join install ''document_root'' | Some root \<Rightarrow> root),
      sv_serverIp = address,
      sv_serverPort = (case map_of config ''http-port-number'' of None \<Rightarrow> 8080 | Some port \<Rightarrow> word_of_int (atol port)),
      sv_threads = (case map_of config ''http-thread-number'' of None \<Rightarrow> 1 | Some n \<Rightarrow> max 1 (atol n))\<rparr>)"

end
