(* ===== verification/HttpSteps.thy ===== *)
theory HttpSteps
  imports HttpServer Rpc
begin

text \<open>
  What the HTTP server of a node promises: its sessions belong to clients whose key it knows, a client
  that has said hello can route transactions and make queries, and what it does when a commit fails or
  a connection is kept alive.
\<close>

section \<open>The sessions of the server\<close>

text \<open>A client is known when a key file has its hash and accepts a signature over it.\<close>

definition known_client :: "('priv, 'pub, 'tb) http_lib \<Rightarrow> bytes \<Rightarrow> bool" where
  "known_client L clientHash \<longleftrightarrow> (\<exists>file \<in> set (hl_key_files L). \<exists>publicKey signature.
     getPublicKey (hl_botan L) (KeyLoader_of_path file) = Inr publicKey \<and>
     generateHash_vector (hl_botan L) (hl_BER_encode L publicKey) = clientHash \<and>
     check_signature (hl_botan L) publicKey clientHash signature)"

definition client_map_typed :: "('priv, 'pub, 'tb) http_lib \<Rightarrow> (bytes \<times> HttpSession) list \<Rightarrow> bool" where
  "client_map_typed L m \<longleftrightarrow> distinct (map fst m) \<and>
     (\<forall>c s. map_of m c = Some s \<longrightarrow> hs_clientHash s = c \<and> known_client L c)"

definition session_map_typed ::
  "('priv, 'pub, 'tb) http_lib \<Rightarrow> key_store \<Rightarrow> (bytes \<times> HttpSession option) list \<Rightarrow> bool" where
  "session_map_typed L keys m \<longleftrightarrow> distinct (map fst m) \<and>
     (\<forall>h p. map_of m h = Some p \<longrightarrow> (\<exists>s. p = Some s \<and> hs_sessionHash s = h \<and>
        known_client L (hs_clientHash s) \<and> session_key_of keys h = Some (hs_sessionKey s)))"

definition sessions_typed :: "('priv, 'pub, 'tb) http_lib \<Rightarrow> ('txn, 'db, 'g, 'ab, 'z) http_world_scheme \<Rightarrow> bool" where
  "sessions_typed L w \<longleftrightarrow> client_map_typed L (clientHashMap w) \<and>
     session_map_typed L (ht_keys w) (clientSessionMap w) \<and>
     (\<forall>c s. map_of (clientHashMap w) c = Some s \<longrightarrow> map_of (clientSessionMap w) (hs_sessionHash s) \<noteq> None)"

lemma sessions_typed_store_free [intro, simp]: "store_free (sessions_typed L)"
  by (simp add: store_free_def sessions_typed_def)

lemma sessions_typed_conn [simp]: "sessions_typed L (w\<lparr>ht_conn := c\<rparr>) = sessions_typed L w"
  by (simp add: sessions_typed_def)

lemma validate_files_known:
  assumes "validate_files L clientHash signature files = Inr (Some publicKey)"
    and "set files \<subseteq> set (hl_key_files L)"
  shows "known_client L clientHash"
  using assms
proof (induction files)
  case Nil
  then show ?case by simp
next
  case (Cons f fs)
  obtain k where k: "getPublicKey (hl_botan L) (KeyLoader_of_path f) = Inr k"
    using Cons.prems(1) by (cases "getPublicKey (hl_botan L) (KeyLoader_of_path f)") simp_all
  show ?case
  proof (cases "generateHash_vector (hl_botan L) (hl_BER_encode L k) = clientHash")
    case True
    have "check_signature (hl_botan L) k clientHash signature"
      using Cons.prems(1) k True
      by (simp add: verification_check_def SignatureVerification_of_public_def prog_defs split: if_splits)
    with k True Cons.prems(2) show ?thesis unfolding known_client_def by auto
  next
    case False
    then have "validate_files L clientHash signature fs = Inr (Some publicKey)"
      using Cons.prems(1) k by simp
    then show ?thesis using Cons.IH Cons.prems(2) by simp
  qed
qed

lemma requestKey_key:
  assumes "requestKey rsa h s = (r, t)"
  obtains key where "r = Inr \<lparr>skr_session_hash = h, skr_session_key = copyVectorToString key\<rparr>"
    "session_key_of t (copyStringToVector h) = Some key"
    "\<And>k. k \<noteq> copyStringToVector h \<Longrightarrow> session_key_of t k = session_key_of s k"
    "session_key_of s (copyStringToVector h) \<noteq> None \<Longrightarrow> t = s"
  using assms by (cases "session_key_of s (copyStringToVector h)") (auto simp: requestKey_eq Let_def)

lemma new_HttpSession_opens:
  assumes "new_HttpSession L account c w = (r, v)"
  obtains s where "r = Inr s" "hs_clientHash s = c"
    "session_key_of (ht_keys v) (hs_sessionHash s) = Some (hs_sessionKey s)"
    "\<And>k x. session_key_of (ht_keys w) k = Some x \<Longrightarrow> session_key_of (ht_keys v) k = Some x"
    "clientHashMap v = clientHashMap w" "clientSessionMap v = clientSessionMap w"
proof -
  obtain m n where clock: "hl_clock L (rng_count (ht_keys w)) = (m, n)" by (cases "hl_clock L (rng_count (ht_keys w))")
  define h where "h = SessionHashGenerator (hl_botan L) m n c account"
  obtain q t where t: "requestKey (hl_rsa L) (copyVectorToString h) (ht_keys w) = (q, t)"
    by (cases "requestKey (hl_rsa L) (copyVectorToString h) (ht_keys w)")
  obtain key where key: "q = Inr \<lparr>skr_session_hash = copyVectorToString h, skr_session_key = copyVectorToString key\<rparr>"
    "session_key_of t h = Some key" "\<And>k. k \<noteq> h \<Longrightarrow> session_key_of t k = session_key_of (ht_keys w) k"
    "session_key_of (ht_keys w) h \<noteq> None \<Longrightarrow> t = ht_keys w"
    using t by (rule requestKey_key) simp
  have run: "r = Inr \<lparr>hs_clientHash = c, hs_sessionHash = h, hs_sessionKey = key\<rparr>" "v = w\<lparr>ht_keys := t\<rparr>"
    using assms clock t key(1)
    by (simp_all add: new_HttpSession_def at_keystore_def prog_defs h_def [symmetric] Let_def)
  show thesis
  proof (rule that [OF run(1)])
    fix k x assume "session_key_of (ht_keys w) k = Some x"
    then show "session_key_of (ht_keys v) k = Some x" using key(3,4) run(2) by (cases "k = h") auto
  qed (simp_all add: run(2) key(2))
qed

lemma get_or_open_typed:
  assumes typed: "sessions_typed L w" and known: "known_client L c" and run: "get_or_open L account c w = (r, v)"
  shows "sessions_typed L v"
proof (cases "map_of (clientHashMap w) c")
  case (Some s)
  with typed run show ?thesis by (simp add: get_or_open_def prog_defs)
next
  case None
  obtain q u where u: "new_HttpSession L account c w = (q, u)" by (cases "new_HttpSession L account c w")
  obtain s where s: "q = Inr s" "hs_clientHash s = c"
    "session_key_of (ht_keys u) (hs_sessionHash s) = Some (hs_sessionKey s)"
    "\<And>k x. session_key_of (ht_keys w) k = Some x \<Longrightarrow> session_key_of (ht_keys u) k = Some x"
    "clientHashMap u = clientHashMap w" "clientSessionMap u = clientSessionMap w"
    using u by (rule new_HttpSession_opens) blast
  have v: "v = u\<lparr>clientHashMap := map_set c s (clientHashMap w),
      clientSessionMap := map_set (hs_sessionHash s) (Some s) (clientSessionMap w)\<rparr>"
    using run None u s(1,2,5,6) by (simp add: get_or_open_def prog_defs)
  have old: "distinct (map fst (clientSessionMap w))"
    "\<And>h p. map_of (clientSessionMap w) h = Some p \<Longrightarrow> \<exists>s. p = Some s \<and> hs_sessionHash s = h \<and>
        known_client L (hs_clientHash s) \<and> session_key_of (ht_keys w) h = Some (hs_sessionKey s)"
    using typed unfolding sessions_typed_def session_map_typed_def by blast+
  have "client_map_typed L (map_set c s (clientHashMap w))"
    using typed known s(2) by (auto simp: sessions_typed_def client_map_typed_def)
  moreover have "session_map_typed L (ht_keys u) (map_set (hs_sessionHash s) (Some s) (clientSessionMap w))"
    unfolding session_map_typed_def
  proof (intro conjI allI impI)
    show "distinct (map fst (map_set (hs_sessionHash s) (Some s) (clientSessionMap w)))" using old(1) by simp
  next
    fix h p assume m: "map_of (map_set (hs_sessionHash s) (Some s) (clientSessionMap w)) h = Some p"
    show "\<exists>s. p = Some s \<and> hs_sessionHash s = h \<and> known_client L (hs_clientHash s) \<and>
        session_key_of (ht_keys u) h = Some (hs_sessionKey s)"
    proof (cases "h = hs_sessionHash s")
      case True
      with m known s(2,3) show ?thesis by auto
    next
      case False
      with m have "map_of (clientSessionMap w) h = Some p" by simp
      from old(2) [OF this] s(4) show ?thesis by blast
    qed
  qed
  ultimately show ?thesis using typed s(2) unfolding v sessions_typed_def by auto
qed

lemma processHello_typed:
  assumes "sessions_typed L w" and "processHello L account hello w = (r, v)"
  shows "sessions_typed L v"
proof (cases "hl_parse_hello L hello")
  case None
  with assms show ?thesis by (simp add: processHello_def prog_defs)
next
  case (Some ch)
  show ?thesis
  proof (cases "validateRemoteHash L ch")
    case (Inl e)
    with Some assms show ?thesis by (simp add: processHello_def prog_defs)
  next
    case (Inr k)
    show ?thesis
    proof (cases k)
      case None
      with Inr Some assms show ?thesis by (simp add: processHello_def prog_defs)
    next
      case (Some publicKey)
      let ?c = "copyStringToVector (ch_client_hash ch)"
      have known: "known_client L ?c"
        using Inr Some unfolding validateRemoteHash_def by (intro validate_files_known [where publicKey = publicKey, OF _ subset_refl]) simp
      obtain q u where u: "get_or_open L account ?c w = (q, u)" by (cases "get_or_open L account ?c w")
      have "v = u" using assms(2) \<open>hl_parse_hello L hello = Some ch\<close> Inr Some u
        by (cases q) (simp_all add: processHello_def prog_defs)
      with get_or_open_typed [OF assms(1) known u] show ?thesis by simp
    qed
  qed
qed

text \<open>Every program of the server keeps the sessions typed.\<close>

lemma keeps_slift_bind: "(\<And>a. r = Inr a \<Longrightarrow> keeps P (f a)) \<Longrightarrow> keeps P (sbind (slift r) f)"
  by (cases r) (simp_all add: keeps_def prog_defs)

lemma keeps_on_conn:
  "keeps (sessions_typed L) (on_conn m :: (('txn, 'db, 'g, 'ab, 'z) http_node_scheme, 'a) prog)"
  by (simp add: keeps_def on_conn_def split: prod.splits)

lemma keeps_scope [keep_rules]:
  "store_free P \<Longrightarrow> keeps P (scope_commit E)" "store_free P \<Longrightarrow> keeps P (scope_destroy E)"
  unfolding scope_commit_def scope_destroy_def by (intro keep_rules; assumption)+

lemma keeps_processHello: "keeps (sessions_typed L) (processHello L account hello)"
  using processHello_typed unfolding keeps_def by (metis prod.collapse)

lemma getSession_valid: "isValid h w \<Longrightarrow> snd (getSession h w) = w"
  unfolding isValid_def by (cases "map_of (clientSessionMap w) h") (simp_all add: getSession_def map_of_eq_None_iff)

lemma okeeps_getSession:
  assumes "okeeps P A" and "\<And>p. okeeps P (f p)"
  shows "okeeps P (obind (returning (sget (isValid h))) (\<lambda>valid.
     if \<not> valid then A else obind (returning (getSession h)) f))"
  unfolding okeeps_def
proof (intro allI impI)
  fix s r t assume s: "P s" and run: "obind (returning (sget (isValid h))) (\<lambda>valid.
     if \<not> valid then A else obind (returning (getSession h)) f) s = Some (r, t)"
  show "P t"
  proof (cases "isValid h s")
    case False
    with run s okeepsD [OF assms(1)] show ?thesis by (simp add: obind_def returning_def sget_def)
  next
    case True
    obtain q u where g: "getSession h s = (q, u)" by (cases "getSession h s")
    with getSession_valid [OF True] have "u = s" by simp
    with True run g s okeepsD [OF assms(2)] show ?thesis
      by (cases q) (auto simp: obind_def returning_def sget_def)
  qed
qed

lemma okeeps_http_transaction:
  assumes P: "store_free P"
  shows "okeeps P (http_processTransaction E L req msg)"
  unfolding http_processTransaction_def Let_def
  by (intro okeeps_obind okeeps_returning keeps_basic okeeps_getSession)
    (auto split: option.split intro!: okeeps_obind okeeps_returning keeps_basic okeeps_route_message P)

lemma keeps_processQuery:
  assumes P: "store_free P"
  shows "keeps P (processQuery E req body)"
  unfolding processQuery_def Let_def
  by (intro keeps_sbind keeps_basic keeps_if)
    (auto split: prod.split intro!: keeps_sbind keeps_basic keeps_at_store P)

lemma okeeps_manager: "okeeps (sessions_typed L) (manager_handle_request E L req)"
  unfolding manager_handle_request_def Let_def
  by (intro okeeps_if okeeps_obind okeeps_returning keeps_basic keeps_processHello
      okeeps_http_transaction keeps_processQuery sessions_typed_store_free)

text \<open>What a request keeps: a predicate the stores have no part in, kept by a send and by the request manager.\<close>

lemma okeeps_request:
  fixes P :: "('txn, 'db, 'g, 'ab, 'z) http_node_scheme \<Rightarrow> bool"
  assumes P: "store_free P" and send: "\<And>msg. keeps P (on_conn (send_lambda msg))"
    and manager: "okeeps P (manager_handle_request E L req)"
  shows "okeeps P (handle_request E L D req)"
proof -
  have destroy: "keeps P (sbind (on_conn (send_lambda m)) (\<lambda>_. scope_destroy E))" for m
    by (intro keeps_sbind send keeps_scope P)
  have commit: "keeps P (stry (sbind (on_conn (send_lambda m)) (\<lambda>_. scope_commit E)) (\<lambda>e. on_conn (send_lambda (h e))))" for m h
    unfolding stry_def by (intro keeps_scatch keeps_if keeps_sbind send keeps_basic keeps_scope P)
  have "okeeps P (\<lambda>w. case manager_handle_request E L req w of
            None \<Rightarrow> None
          | Some (Inl e, w1) \<Rightarrow> Some (if is_exception e
              then sbind (on_conn (send_lambda (server_error (hd_what D e) req))) (\<lambda>_. scope_destroy E) w1
              else (Inl e, w1))
          | Some (Inr response, w1) \<Rightarrow> Some (stry
              (sbind (on_conn (send_lambda response)) (\<lambda>_. scope_commit E))
              (\<lambda>e. on_conn (send_lambda (server_error (hd_what D e) req))) w1))"
    (is "okeeps _ ?f")
    unfolding okeeps_def
  proof (intro allI impI)
    fix s r t assume s: "P s" and run: "?f s = Some (r, t)"
    obtain q u where m: "manager_handle_request E L req s = Some (q, u)"
      using run by (auto split: option.splits)
    have u: "P u" by (rule okeepsD [OF manager m s])
    show "P t"
      using run m u by (cases q) (auto split: if_splits intro: keepsD [OF destroy] keepsD [OF commit])
  qed
  then show ?thesis unfolding handle_request_def
    by (intro okeeps_if okeeps_obind okeeps_returning keeps_at_store P send)
qed

lemma okeeps_handle_request: "okeeps (sessions_typed L) (handle_request E L D req)"
  by (intro okeeps_request keeps_on_conn okeeps_manager sessions_typed_store_free)

lemma okeeps_on_read: "okeeps (sessions_typed L) (http_on_read E L D ec req)"
proof -
  have "okeeps (sessions_typed L) (in_handler (handle_request E L D req))"
    using okeepsD [OF okeeps_handle_request [of L E D req]] by (auto simp: okeeps_def in_handler_def)
  then show ?thesis unfolding http_on_read_def
    by (intro okeeps_if okeeps_obind okeeps_returning keeps_on_conn keeps_basic)
qed

section \<open>The events of a connection\<close>

inductive http_step ::
  "('txn, 'db, 'g, 'any, 'tb, 'ab, 'sb, 'priv, 'pub) rpc_env \<Rightarrow> ('priv, 'pub, 'tb) http_lib \<Rightarrow> httpd \<Rightarrow>
   ('txn, 'db, 'g, 'ab) http_node \<Rightarrow> ('txn, 'db, 'g, 'ab) http_node \<Rightarrow> bool" for E L D where
  connect: "hc_pending (ht_conn w) = [] \<Longrightarrow> http_step E L D w (w\<lparr>ht_conn := snd (http_session_run new_session)\<rparr>)"
| handshake: "HttpHandshake \<in> set (hc_pending (ht_conn w)) \<Longrightarrow> on_conn (on_handshake ec) w = (Inr (), w') \<Longrightarrow>
     http_step E L D w w'"
| read: "HttpRead \<in> set (hc_pending (ht_conn w)) \<Longrightarrow> http_on_read E L D ec req w = Some (Inr (), w') \<Longrightarrow>
     http_step E L D w w'"
| written: "HttpWrite msg \<in> set (hc_pending (ht_conn w)) \<Longrightarrow> on_conn (http_on_write ec msg) w = (Inr (), w') \<Longrightarrow>
     http_step E L D w w'"
| closed: "HttpShutdown \<in> set (hc_pending (ht_conn w)) \<Longrightarrow> on_conn (on_shutdown ec) w = (Inr (), w') \<Longrightarrow>
     http_step E L D w w'"

lemma http_step_keeps_sessions:
  assumes "http_step E L D w w'" and "sessions_typed L w"
  shows "sessions_typed L w'"
  using assms
  by cases (auto dest: keepsD [OF keeps_on_conn] okeepsD [OF okeeps_on_read])

lemma reachable_sessions_typed:
  assumes "(http_step E L D)\<^sup>*\<^sup>* w w'" and "sessions_typed L w"
  shows "sessions_typed L w'"
  using assms by (induction rule: rtranclp_induct) (auto intro: http_step_keeps_sessions)

end
