(* ===== verification/Http.thy ===== *)
theory Http
  imports HttpSteps
begin

text \<open>
  What the HTTP server of a node promises, and what it does when a commit fails or a connection is kept
  alive: the properties of \<open>HttpSessions\<close>, \<open>HttpServer\<close> and \<open>HttpSteps\<close>.
\<close>

section \<open>The query of a request\<close>

lemma find_first_after:
  assumes "c \<notin> set pre"
  shows "find_first (c # pat) (pre @ c # pat @ rest) = Some (length pre)"
  using assms
proof (induction pre)
  case Nil
  then show ?case by (simp add: find_first_Cons is_prefix_iff)
next
  case (Cons x pre)
  then show ?case by (auto simp: find_first_Cons)
qed

lemma find_from_after:
  assumes "c \<notin> set s"
  shows "find_from (pre @ s @ c # rest) [c] (length pre) = Some (length (pre @ s))"
  using find_first_after [OF assms, of "[]" rest] by (simp add: find_from_def)

lemma find_from_absent: "c \<notin> set s \<Longrightarrow> find_from (pre @ s) [c] (length pre) = None"
  by (simp add: find_from_def find_first_single)

lemma escape_spares:
  assumes "\<not> plain c" and "c \<noteq> CHR ''%''" and "\<And>d. d < 16 \<Longrightarrow> c \<noteq> hex_digit d"
  shows "c \<notin> set (escape plain s)"
proof -
  have "c \<noteq> hex_digit (of_char b div 16)" "c \<noteq> hex_digit (of_char b mod 16)" for b
    using nat_of_char_less_256 [of b] by (intro assms(3); simp add: less_mult_imp_div_less)+
  with assms(1,2) show ?thesis by (auto simp: escape_def percent_def split: if_splits)
qed

lemma escape_no_ampersand:
  assumes "\<not> plain (CHR ''&'')"
  shows "CHR ''&'' \<notin> set (escape plain s)"
proof (rule escape_spares [where c = "CHR ''&''"])
  show "\<not> plain (CHR ''&'')" by (rule assms)
next
  fix d :: nat assume d: "d < 16"
  have "of_char (hex_digit d) = (if d < 10 then 48 + d else 55 + d)"
    using d by (simp add: hex_digit_def of_char_of)
  moreover have "(of_char (CHR ''&'') :: nat) = 38" by simp
  ultimately show "CHR ''&'' \<noteq> hex_digit d" by (auto split: if_splits dest!: arg_cong [where f = "of_char :: char \<Rightarrow> nat"])
qed simp

lemma URISparqlParser_target:
  assumes "CHR ''/'' \<notin> set a" and "CHR ''q'' \<notin> set pre"
  shows "URISparqlParser (DATA_QUERY @ a @ CHR ''/'' # pre @ QUERY_PARAM @ s) body =
     rmap (\<lambda>query. (a, query)) (uri_query (pre @ QUERY_PARAM @ s) (pre @ QUERY_PARAM @ s) (length pre))"
proof -
  have "find_first ''/'' (a @ CHR ''/'' # pre @ QUERY_PARAM @ s) = Some (length a)"
    using find_first_after [OF assms(1), of "[]"] by simp
  moreover have "find_first QUERY_PARAM (pre @ QUERY_PARAM @ s) = Some (length pre)"
    using find_first_after [OF assms(2), of "''uery=''" s] by (simp add: QUERY_PARAM_def)
  ultimately show ?thesis by (simp add: URISparqlParser_def find_from_def substr_def)
qed

text \<open>C33: The query a client escapes into the target is the query the node runs when it is the last argument;
  with another argument behind it the query swallows the ampersand and what follows, up to as many
  characters as stand before the query's value.\<close>

theorem query_of_target:
  assumes "CHR ''/'' \<notin> set a" and "CHR ''q'' \<notin> set pre"
    and "\<not> plain (CHR ''%'')" and "\<not> plain (CHR ''+'')" and "\<not> plain (CHR ''&'')"
  shows "URISparqlParser (DATA_QUERY @ a @ CHR ''/'' # pre @ QUERY_PARAM @ escape plain q) body = Inr (a, q) \<and>
    URISparqlParser (DATA_QUERY @ a @ CHR ''/'' # pre @ QUERY_PARAM @ escape plain q @ CHR ''&'' # rest) body =
      Inr (a, q @ CHR ''&'' # unescape (take (length pre + 5) rest))"
proof
  have amp: "CHR ''&'' \<notin> set (escape plain q)" by (rule escape_no_ampersand) (rule assms(5))
  have un: "unescape (escape plain q @ t) = q @ unescape t" for t
    by (rule unescape_escape_append) (rule assms(3), rule assms(4))
  have "CHR ''&'' \<notin> set (QUERY_PARAM @ escape plain q)" using amp by (simp add: QUERY_PARAM_def)
  from find_from_absent [OF this, of pre] un [of "[]"]
  show "URISparqlParser (DATA_QUERY @ a @ CHR ''/'' # pre @ QUERY_PARAM @ escape plain q) body = Inr (a, q)"
    by (simp add: URISparqlParser_target [OF assms(1,2)] uri_query_def substr_def)
  have "CHR ''&'' \<notin> set (QUERY_PARAM @ escape plain q)" using amp by (simp add: QUERY_PARAM_def)
  moreover have len: "length QUERY_PARAM = 6" by (simp add: QUERY_PARAM_def)
  ultimately have "find_from (pre @ QUERY_PARAM @ escape plain q @ CHR ''&'' # rest) ''&'' (length pre) =
      Some (length pre + (6 + length (escape plain q)))"
    using find_from_after [of "CHR ''&''" "QUERY_PARAM @ escape plain q" pre rest] by simp
  with un [of "CHR ''&'' # take (length pre + 5) rest"] take_Suc_Cons [of "length pre + 5" "CHR ''&''" rest]
  show "URISparqlParser (DATA_QUERY @ a @ CHR ''/'' # pre @ QUERY_PARAM @ escape plain q @ CHR ''&'' # rest) body =
      Inr (a, q @ CHR ''&'' # unescape (take (length pre + 5) rest))"
    by (simp add: URISparqlParser_target [OF assms(1,2)] uri_query_def substr_def len add.commute)
qed

theorem query_of_target_witness:
  "URISparqlParser ''/data/AB/?query=a%26b&x=1'' [] = Inr (''AB'', ''a&b&x=1'')"
  using query_of_target [of "''AB''" "''?''" "\<lambda>c. c = CHR ''a'' \<or> c = CHR ''b''" "''a&b''" "[]" "''x=1''"]
  by (simp add: DATA_QUERY_def QUERY_PARAM_def escape_def percent_def hex_digit_def char_of_def bit_0)

section \<open>Sessions\<close>

lemma get_or_open_again:
  assumes "get_or_open L account c w = (Inr s, v)" and "sessions_typed L w"
  shows "get_or_open L account c v = (Inr s, v)"
proof (cases "map_of (clientHashMap w) c")
  case (Some t)
  with assms(1) have "v = w \<and> s = t" by (simp add: get_or_open_def prog_defs)
  with Some show ?thesis by (simp add: get_or_open_def prog_defs)
next
  case None
  obtain q u where u: "new_HttpSession L account c w = (q, u)" by (cases "new_HttpSession L account c w")
  obtain t where t: "q = Inr t" "hs_clientHash t = c" using u by (rule new_HttpSession_opens) blast
  have "t = s" and "u\<lparr>clientHashMap := map_set c t (clientHashMap u),
      clientSessionMap := map_set (hs_sessionHash t) (Some t) (clientSessionMap u)\<rparr> = v"
    using assms(1) None u t by (auto simp: get_or_open_def prog_defs)
  then show ?thesis by (auto simp: get_or_open_def prog_defs)
qed

lemma get_or_open_result:
  assumes typed: "sessions_typed L w" and known: "known_client L c"
  obtains s v where "get_or_open L account c w = (Inr s, v)" "map_of (clientHashMap v) c = Some s" "hs_clientHash s = c"
    "sessions_typed L v"
proof (cases "map_of (clientHashMap w) c")
  case (Some s)
  then have "get_or_open L account c w = (Inr s, w)" by (simp add: get_or_open_def prog_defs)
  moreover have "hs_clientHash s = c" using typed Some unfolding sessions_typed_def client_map_typed_def by blast
  ultimately show thesis using that Some typed by blast
next
  case None
  obtain q u where u: "new_HttpSession L account c w = (q, u)" by (cases "new_HttpSession L account c w")
  obtain t where t: "q = Inr t" "hs_clientHash t = c" using u by (rule new_HttpSession_opens) blast
  let ?v = "u\<lparr>clientHashMap := map_set c t (clientHashMap u),
      clientSessionMap := map_set (hs_sessionHash t) (Some t) (clientSessionMap u)\<rparr>"
  have run: "get_or_open L account c w = (Inr t, ?v)"
    using None u t by (simp add: get_or_open_def prog_defs)
  moreover have "map_of (clientHashMap ?v) c = Some t" by simp
  ultimately show thesis using that t(2) get_or_open_typed [OF typed known run] by blast
qed

lemma processTransaction_valid:
  assumes "header_at req HEADER_SESSION_HASH = Inr hash" and "HashHelper_of_encoded (re_codecs E) hash HEX = Inr h"
    and "isValid (copyFromSecure (HashHelper_SecureVector h)) w" and "hl_parse_transaction L msg = Some tx"
    and "wrapper_setTransaction (env_wire (re_router E)) tx (wrapper_setSessionHash new_MessageWrapper h) = (Inr (), mw)"
  shows "http_processTransaction E L req msg w = map_option (\<lambda>(r, v). (rmap mr_result r, v)) (route_message E mw w)"
proof -
  obtain q u where g: "getSession (copyFromSecure (HashHelper_SecureVector h)) w = (q, u)"
    by (cases "getSession (copyFromSecure (HashHelper_SecureVector h)) w")
  then have "u = w" using getSession_valid [OF assms(3)] by simp
  moreover have "\<exists>p. q = Inr p" using g by (auto simp: getSession_def split: option.splits)
  ultimately show ?thesis using assms g
    by (auto simp: http_processTransaction_def obind_def returning_def prog_defs Let_def split: option.splits sum.splits)
qed

lemma processTransaction_invalid:
  assumes "header_at req HEADER_SESSION_HASH = Inr hash" and "HashHelper_of_encoded (re_codecs E) hash HEX = Inr h"
    and "\<not> isValid (copyFromSecure (HashHelper_SecureVector h)) w"
  shows "http_processTransaction E L req msg w = Some (Inl InvalidSessionException, w)"
  using assms by (simp add: http_processTransaction_def obind_def returning_def prog_defs Let_def)

text \<open>C8: A hello whose signature a known key accepts is welcomed with the session of the client; saying hello again
  changes nothing and gives the same answer; and a transaction under the hash of that session is handed
  to the router in a wrapper with that hash, whose answer is the answer to the client.\<close>

theorem http_hello_opens_session:
  assumes "sessions_typed L w" and "hl_parse_hello L hello = Some ch" and "validateRemoteHash L ch = Inr (Some publicKey)"
  shows "\<exists>(s :: HttpSession) v answer. processHello L account hello w = (Inr answer, v) \<and>
    answer = hl_serialize_response L \<lparr>cr_response = Hello_WELCOME, cr_session_hash = copyVectorToString (hs_sessionHash s),
      cr_session_key = copyVectorToString (hs_sessionKey s)\<rparr> \<and>
    hs_clientHash s = copyStringToVector (ch_client_hash ch) \<and>
    processHello L account hello v = (Inr answer, v) \<and>
    (\<forall>req hash msg tx mw. header_at req HEADER_SESSION_HASH = Inr hash \<and> hl_parse_transaction L msg = Some tx \<and>
     HashHelper_of_encoded (re_codecs E) hash HEX = Inr (hs_sessionHash s) \<and>
     wrapper_setTransaction (env_wire (re_router E)) tx (wrapper_setSessionHash new_MessageWrapper (hs_sessionHash s)) = (Inr (), mw) \<longrightarrow>
     http_processTransaction E L req msg v = map_option (\<lambda>(r, u). (rmap mr_result r, u)) (route_message E mw v))"
proof -
  let ?c = "copyStringToVector (ch_client_hash ch)"
  have known: "known_client L ?c"
    using assms(3) unfolding validateRemoteHash_def by (rule validate_files_known [OF _ subset_refl])
  obtain s v where s: "get_or_open L account ?c w = (Inr s, v)" "map_of (clientHashMap v) ?c = Some s"
    "hs_clientHash s = ?c" "sessions_typed L v"
    using get_or_open_result [OF assms(1) known] by metis
  have again: "get_or_open L account ?c v = (Inr s, v)" by (rule get_or_open_again [OF s(1) assms(1)])
  have "map_of (clientSessionMap v) (hs_sessionHash s) \<noteq> None"
    using s(2,4) unfolding sessions_typed_def by blast
  then have "isValid (copyFromSecure (HashHelper_SecureVector (hs_sessionHash s))) v"
    unfolding isValid_def by (simp add: map_of_eq_None_iff)
  note route = processTransaction_valid [OF _ _ this, of _ _ E]
  let ?answer = "hl_serialize_response L \<lparr>cr_response = Hello_WELCOME, cr_session_hash = copyVectorToString (hs_sessionHash s),
      cr_session_key = copyVectorToString (hs_sessionKey s)\<rparr>"
  have "processHello L account hello w = (Inr ?answer, v)" "processHello L account hello v = (Inr ?answer, v)"
    using assms(2,3) s(1) again by (simp_all add: processHello_def prog_defs)
  moreover have "\<forall>req hash msg tx mw. header_at req HEADER_SESSION_HASH = Inr hash \<and> hl_parse_transaction L msg = Some tx \<and>
     HashHelper_of_encoded (re_codecs E) hash HEX = Inr (hs_sessionHash s) \<and>
     wrapper_setTransaction (env_wire (re_router E)) tx (wrapper_setSessionHash new_MessageWrapper (hs_sessionHash s)) = (Inr (), mw) \<longrightarrow>
     http_processTransaction E L req msg v = map_option (\<lambda>(r, u). (rmap mr_result r, u)) (route_message E mw v)"
    using route by blast
  ultimately show ?thesis using s(3) by blast
qed

section \<open>A commit that fails\<close>

lemma scope_commit_conn:
  "scope_commit E w = (r, v) \<Longrightarrow> scope_commit E (w\<lparr>ht_conn := c\<rparr>) = (r, v\<lparr>ht_conn := c\<rparr>)"
  by (auto simp: scope_commit_def rpc_defs split: prod.splits)

lemma manager_status:
  assumes "manager_handle_request E L req w = Some (Inr response, v)"
  shows "rs_status response = 200"
  using assms
  by (auto simp: manager_handle_request_def obind_def returning_def sbind_def sreturn_def text_response_def Let_def
      split: if_splits option.splits prod.splits sum.splits)

lemma service_commit_wrapper:
  assumes "service_commit R s = (Inl e, t)"
  shows "transactionWrapper t = transactionWrapper s"
proof (cases "transactionWrapper s")
  case None
  with assms show ?thesis by (simp add: service_commit_def)
next
  case (Some rs)
  have "transactionWrapper (snd (sfor rs (\<lambda>resource. on_stores (res_commit R resource)) s)) = Some rs"
    by (rule sfor_invariant [where P = "\<lambda>t. transactionWrapper t = Some rs"])
      (use Some in \<open>auto simp: on_stores_def split: prod.splits\<close>)
  with Some assms show ?thesis
    by (auto simp: service_commit_def TransactionWrapper_commit_def prog_defs split: prod.splits sum.splits)
qed

lemma scope_commit_wrapper:
  assumes "scope_commit E w = (Inl e, v)"
  shows "transactionWrapper (router_node (rn_router v)) = transactionWrapper (router_node (rn_router w))"
  using assms
  by (auto simp: scope_commit_def rpc_defs on_node_def TransactionImpl_commit_def dest: service_commit_wrapper split: prod.splits)

lemma second_scope_terminates:
  assumes "checkRequest req" and "transactionWrapper (router_node (rn_router w)) \<noteq> None"
  shows "\<exists>v. http_on_read E L D IoOk req w = Some (Inl StdTerminate, v)"
  using assms
  by (simp add: http_on_read_def in_handler_def handle_request_def obind_def returning_def on_conn_def completed_operation_def
      rpc_defs on_node_def createTransaction_def prog_defs)

text \<open>C31: A request whose commit throws is answered twice: the answer and then an error are both being written, and the
  second destroys the message of the first, whose write is undefined. The transaction stays open on the
  thread, so that its next request for the node ends the process.\<close>

theorem http_answer_before_commit:
  assumes "checkRequest req" and "at_store createTransaction w = (Inr (), u)"
    and "manager_handle_request E L req u = Some (Inr response, v)"
    and "transactionWrapper (router_node (rn_router v)) \<noteq> None"
    and "scope_commit E v = (Inl e, v')" and "is_exception e"
  shows "\<exists>w'. handle_request E L D req w = Some (Inr (), w') \<and>
    hc_pending (ht_conn w') = hc_pending (ht_conn v) @ [HttpWrite response, HttpWrite (server_error (hd_what D e) req)] \<and>
    fst (on_conn (http_on_write ec response) w') = Inl UndefinedBehaviour \<and>
    (checkRequest req' \<longrightarrow> (\<exists>x. http_on_read E L D IoOk req' w' = Some (Inl StdTerminate, x)))"
proof -
  let ?error = "server_error (hd_what D e) req"
  let ?c = "(ht_conn v)\<lparr>hc_res := Some response, hc_pending := hc_pending (ht_conn v) @ [HttpWrite response]\<rparr>"
  let ?w = "v'\<lparr>ht_conn := ?c\<lparr>hc_res := Some ?error, hc_pending := hc_pending (ht_conn v) @ [HttpWrite response, HttpWrite ?error]\<rparr>\<rparr>"
  have "handle_request E L D req w = Some (Inr (), ?w)"
    using assms(1-3,6) scope_commit_conn [OF assms(5), of ?c]
    by (simp add: handle_request_def obind_def returning_def stry_def on_conn_def send_lambda_def start_operation_def prog_defs)
  moreover have "?error \<noteq> response"
    using manager_status [OF assms(3)] by (auto simp: server_error_def error_response_def)
  then have "fst (on_conn (http_on_write ec response) ?w) = Inl UndefinedBehaviour"
    by (simp add: on_conn_def http_on_write_def completed_write_def prog_defs)
  moreover have "transactionWrapper (router_node (rn_router ?w)) \<noteq> None"
    using scope_commit_wrapper [OF assms(5)] assms(4) by simp
  ultimately show ?thesis using second_scope_terminates [of req' ?w E L D] by (intro exI [of _ ?w]) simp
qed

section \<open>A connection that is kept alive\<close>

text \<open>The request of a connection is not touched by what answers it.\<close>

definition has_request :: "http_request \<Rightarrow> ('txn, 'db, 'g, 'ab, 'z) http_node_scheme \<Rightarrow> bool" where
  "has_request req w \<longleftrightarrow> hc_req (ht_conn w) = Some req"

lemma has_request_store_free [simp, intro]: "store_free (has_request req)"
  by (simp add: store_free_def has_request_def)

lemma keeps_request_send: "keeps (has_request req) (on_conn (send_lambda msg))"
  by (simp add: keeps_def on_conn_def send_lambda_def start_operation_def has_request_def prog_defs)

lemma keeps_request_keystore: "keeps (has_request req) (at_keystore m)"
  by (auto simp: keeps_def at_keystore_def has_request_def split: prod.splits)

lemma keeps_request_hello: "keeps (has_request req) (processHello L account hello)"
  unfolding processHello_def get_or_open_def new_HttpSession_def Let_def
  by (auto split: option.split prod.split intro!: keeps_sbind keeps_basic keeps_request_keystore keeps_smodify)
    (simp add: has_request_def)

lemma okeeps_request_manager: "okeeps (has_request req) (manager_handle_request E L req')"
  unfolding manager_handle_request_def Let_def
  by (intro okeeps_if okeeps_obind okeeps_returning keeps_basic keeps_request_hello
      okeeps_http_transaction keeps_processQuery has_request_store_free)

lemma okeeps_request_handle: "okeeps (has_request req) (handle_request E L D req')"
  by (intro okeeps_request keeps_request_send okeeps_request_manager has_request_store_free)

lemma in_handler_Inr: "in_handler m w = Some (Inr (), v) \<Longrightarrow> m w = Some (Inr (), v)"
  unfolding in_handler_def by (cases "m w") (auto split: sum.split_asm if_split_asm)

text \<open>C32: On a connection that is kept alive the second request is read into the message of the first: a read into
  a message that is not empty, which is undefined.\<close>

theorem http_kept_alive_read_is_undefined:
  assumes "http_on_read E L D IoOk req w = Some (Inr (), v)"
    and "hc_res (ht_conn v) = Some response" and "rs_keep_alive response"
  shows "fst (on_conn (http_on_write IoOk response) v) = Inl UndefinedBehaviour"
proof -
  obtain u where u: "handle_request E L D req u = Some (Inr (), v)" "has_request req u"
    using assms(1) by (auto simp: http_on_read_def obind_def returning_def on_conn_def completed_operation_def
        has_request_def prog_defs dest: in_handler_Inr)
  from okeepsD [OF okeeps_request_handle u] have "hc_req (ht_conn v) = Some req" by (simp add: has_request_def)
  with assms(2,3) show ?thesis
    by (simp add: on_conn_def http_on_write_def completed_write_def completed_operation_def http_do_read_def prog_defs)
qed

section \<open>Reachable states\<close>

text \<open>C9: In every state the server can reach from one without sessions, each session is filed under its own hash, belongs
  to a client whose key the node holds and who has signed with it, and has its key in the key store; and a
  transaction is answered only under the hash of such a session.\<close>

theorem http_sessions_are_typed:
  assumes "(http_step E L D)\<^sup>*\<^sup>* w w'" and "clientHashMap w = []" and "clientSessionMap w = []"
  shows "sessions_typed L w' \<and> (http_processTransaction E L req msg w' = Some (Inr answer, v) \<longrightarrow>
    (\<exists>hash h (s :: HttpSession). header_at req HEADER_SESSION_HASH = Inr hash \<and> HashHelper_of_encoded (re_codecs E) hash HEX = Inr h \<and>
       hs_sessionHash s = h \<and> known_client L (hs_clientHash s) \<and> session_key_of (ht_keys w') h = Some (hs_sessionKey s)))"
proof -
  have "sessions_typed L w" using assms(2,3) by (simp add: sessions_typed_def client_map_typed_def session_map_typed_def)
  then have typed: "sessions_typed L w'" by (rule reachable_sessions_typed [OF assms(1)])
  moreover have "\<exists>hash h (s :: HttpSession). header_at req HEADER_SESSION_HASH = Inr hash \<and> HashHelper_of_encoded (re_codecs E) hash HEX = Inr h \<and>
       hs_sessionHash s = h \<and> known_client L (hs_clientHash s) \<and> session_key_of (ht_keys w') h = Some (hs_sessionKey s)"
    if run: "http_processTransaction E L req msg w' = Some (Inr answer, v)"
  proof -
    obtain hash where hash: "header_at req HEADER_SESSION_HASH = Inr hash"
      using run by (cases "header_at req HEADER_SESSION_HASH") (simp_all add: http_processTransaction_def obind_def returning_def prog_defs)
    obtain h where h: "HashHelper_of_encoded (re_codecs E) hash HEX = Inr h"
      using run hash by (cases "HashHelper_of_encoded (re_codecs E) hash HEX")
        (simp_all add: http_processTransaction_def obind_def returning_def prog_defs)
    have "isValid (copyFromSecure (HashHelper_SecureVector h)) w'"
      using run processTransaction_invalid [OF hash h, of w' L msg] by fastforce
    then obtain p where "map_of (clientSessionMap w') h = Some p"
      unfolding isValid_def by (auto simp: HashHelper_SecureVector_def image_iff dest: weak_map_of_SomeI)
    with typed hash h show ?thesis unfolding sessions_typed_def session_map_typed_def by blast
  qed
  ultimately show ?thesis by blast
qed

section \<open>A small node\<close>

text \<open>A client with one key, a node that holds it, and an account \<open>[1]\<close> whose graph refuses every commit.\<close>

definition small_lib :: "(bytes, bytes, unit) http_lib" where
  "small_lib = \<lparr>hl_botan = plain_botan, hl_BER_encode = (\<lambda>k. k), hl_key_files = [''key''],
     hl_parse_hello = (\<lambda>s. if s = ''hello'' then Some \<lparr>ch_version = 1, ch_client_hash = ''key'', ch_signature = ''keykey''\<rparr> else None),
     hl_serialize_response = cr_session_hash,
     hl_parse_transaction = (\<lambda>s. Some \<lparr>pt_transaction_hash = [], pt_transaction_signature = [], pt_active_account = [],
       pt_status = INIT, pt_asn1_transaction_message = ()\<rparr>),
     hl_clock = (\<lambda>n. (word_of_nat n, 0)), hl_rsa = (\<lambda>n. [word_of_nat n])\<rparr>"

definition refusing_rdf :: "nat rdf_lib" where
  "refusing_rdf = counting_rdf\<lparr>librdf_model_transaction_start := (\<lambda>g. (False, g)),
     librdf_model_transaction_commit := (\<lambda>g. (True, g)), query_to_string := (\<lambda>g q. Some q)\<rparr>"

definition small_wire :: "unit account_wire" where
  "small_wire = plain_account_wire\<lparr>parse_info := (\<lambda>s. empty_AccountInfo\<lparr>ai_graph_name := ''abc''\<rparr>)\<rparr>"

definition small_message :: "unit TransactionMessage_t" where
  "small_message = TransactionMessageHelper_of_signed
     \<lparr>st_version = PROTOCOL_VERSION, st_transaction = \<lparr>tr_version = PROTOCOL_VERSION, tr_date = ''20180719'', tr_value = 5,
        tr_parent = [0], tr_sourceAccount = [1], tr_targetAccount = [2], tr_actions = []\<rparr>, st_transactionHash = [3], st_signature = [4]\<rparr>"

definition small_env :: "(plain_db, plain_db, nat, unit, unit, unit, unit, bytes, bytes) rpc_env" where
  "small_env = (plain_rpc_env [1])\<lparr>re_router := (re_router (plain_rpc_env [1]))\<lparr>env_accounts := small_wire,
       env_wire := unit_wire\<lparr>decode_message := (\<lambda>_. Inr small_message)\<rparr>\<rparr>, re_rdf := refusing_rdf\<rparr>"

definition small_httpd :: httpd where
  "small_httpd = \<lparr>hd_doc_root = ''/www'', hd_open = (\<lambda>p. FileMissing), hd_what = (\<lambda>e. ''error'')\<rparr>"

definition small_node :: "(plain_db, plain_db, nat, unit) http_node" where
  "small_node = \<lparr>rn_router = \<lparr>router_node = account_node\<lparr>stores := (stores account_node)\<lparr>account_part :=
        (account_part (stores account_node))\<lparr>account_connections := (\<lambda>_. Some [([1], [])])\<rparr>\<rparr>\<rparr>,
       router_registry = new_RouterRegistry, router_peers = [], outbox = []\<rparr>,
     rn_consensus = plain_consensus_world [1] [2], ht_keys = new_SessionKeyManager, clientHashMap = [],
     clientSessionMap = [([5], Some \<lparr>hs_clientHash = [6], hs_sessionHash = [5], hs_sessionKey = [7]\<rparr>)],
     ht_conn = snd (start_operation HttpRead new_session)\<rparr>"

definition small_query :: http_request where
  "small_query = \<lparr>rq_method = ''GET'', rq_target = ''/data/01/?query=x'', rq_headers = [(''session_hash'', ''05'')],
     rq_body = [], rq_keep_alive = True\<rparr>"

lemma small_check: "checkRequest small_query"
  by (simp add: checkRequest_def small_query_def DATA_QUERY_def)

lemma small_parse: "URISparqlParser ''/data/01/?query=x'' [] = Inr (''01'', ''x'')"
  by (simp add: URISparqlParser_def DATA_QUERY_def QUERY_PARAM_def uri_query_def find_from_def find_first_Cons find_first_Nil substr_def)

lemma small_hex: "decode_pairs ''05'' = Inr [5]" "decode_pairs ''01'' = Inr [1]"
  by (simp_all add: hex_decode_char_def)

lemma small_facts:
  "re_codecs small_env = hex_codecs" "hex_decode_locked hex_codecs = decode_pairs" "env_rocks (re_router small_env) = plain_rocks"
  "env_accounts (re_router small_env) = small_wire" "re_rdf small_env = refusing_rdf" "server_account (re_router small_env) = [1]"
  by (simp_all add: small_env_def plain_rpc_env_def hex_codecs_def)

definition small_part :: "(plain_db, plain_db, nat) account_part" where
  "small_part = (account_part (stores account_node))\<lparr>account_connections := (\<lambda>_. Some [([1], [])])\<rparr>"

abbreviation small_resource :: "(string \<times> graph_session) list \<Rightarrow> (plain_db, plain_db, nat) account_part \<Rightarrow> (plain_db, plain_db, nat) account_part" where
  "small_resource sm p \<equiv> p\<lparr>accountResourcePtr := Some \<lparr>transactionMap = [(ACCOUNTS_MAPPING, [])], sessionMap = sm\<rparr>\<rparr>"

lemma small_info:
  "getAccountInfo plain_rocks small_wire [1] ((router_node (rn_router small_node))\<lparr>transactionWrapper := Some []\<rparr>) =
     (Inr (Some (empty_AccountInfo\<lparr>ai_graph_name := ''abc''\<rparr>)),
      \<lparr>transactionWrapper = Some [AccountResources], stores = (stores account_node)\<lparr>account_part := small_resource [] small_part\<rparr>\<rparr>)"
  by (simp add: getAccountInfo_def with_account_resource_def AccountResourceManager_getResource_def small_node_def small_part_def
      account_node_def prog_defs on_stores_def on_account_def enlistResource_def TransactionWrapper_enlist_def
      AccountResource_getTransaction_def open_transaction_def getConnection_def map_set_def plain_rocks_def resource_transactions_def
      account_Get_def small_wire_def transaction_Get_def)

lemma small_sparql:
  "service_sparqlQuery plain_rocks refusing_rdf small_wire \<lparr>sp_account_hash = [1], sp_query = ''x'', sp_result = []\<rparr>
     ((router_node (rn_router small_node))\<lparr>transactionWrapper := Some []\<rparr>) =
     (Inr \<lparr>sp_account_hash = [1], sp_query = ''x'', sp_result = ''x''\<rparr>,
      \<lparr>transactionWrapper = Some [AccountResources], stores = (stores account_node)\<lparr>account_part :=
         small_resource [(''abc'', \<lparr>session_store = ''abc'', activeTransaction = True\<rparr>)]
           (small_part\<lparr>graphs := [BASE_GRAPH \<mapsto> ''abc'']\<rparr>)\<rparr>\<rparr>)"
  by (simp add: service_sparqlQuery_def sbind_def small_info sparqlQuery_def with_account_resource_def 
      AccountResourceManager_getResource_def prog_defs on_stores_def on_account_def AccountResource_getGraphSession_def
      resource_sessions_def manager_lookup_def small_part_def account_node_def store_checkForDb_def new_AccountGraphStore_def
      cache_graph_def update_resource_def new_AccountGraphSession_def graph_call_def update_graph_def AccountGraphSession_query_def
      refusing_rdf_def counting_rdf_def map_set_def fun_eq_iff)

lemma small_commit:
  "\<exists>v'. snd (TransactionImpl_commit (store_methods small_env) False
      \<lparr>transactionWrapper = Some [AccountResources], stores = (stores account_node)\<lparr>account_part :=
         small_resource [(''abc'', \<lparr>session_store = ''abc'', activeTransaction = True\<rparr>)]
           (small_part\<lparr>graphs := [BASE_GRAPH \<mapsto> ''abc'']\<rparr>)\<rparr>\<rparr>) =
     (Inl FailedToCommitGraphTransactionException, v')"
  by (simp add: TransactionImpl_commit_def service_commit_def TransactionWrapper_commit_def store_methods_def small_facts node_resources_def
      on_stores_def on_account_def AccountResourceManager_commit_def AccountResource_commit_def end_sessions_def prog_defs small_part_def
      account_node_def resource_sessions_def resource_transactions_def update_resource_def AccountGraphSession_commit_def graph_call_def
      update_graph_def refusing_rdf_def plain_rocks_def)

abbreviation small_opened :: "(plain_db, plain_db, nat, unit) http_node" where
  "small_opened \<equiv> snd (at_store createTransaction small_node)"

lemma small_open: "at_store createTransaction small_node = (Inr (), small_opened)"
  "router_node (rn_router small_opened) = (router_node (rn_router small_node))\<lparr>transactionWrapper := Some []\<rparr>"
  by (simp_all add: rpc_defs on_node_def createTransaction_def small_node_def account_node_def)

lemma small_sparql_at:
  "\<exists>v v'. at_store (service_sparqlQuery plain_rocks refusing_rdf small_wire \<lparr>sp_account_hash = [1], sp_query = ''x'', sp_result = []\<rparr>)
     small_opened = (Inr \<lparr>sp_account_hash = [1], sp_query = ''x'', sp_result = ''x''\<rparr>, v) \<and>
     transactionWrapper (router_node (rn_router v)) \<noteq> None \<and>
     scope_commit small_env v = (Inl FailedToCommitGraphTransactionException, v')"
  using small_commit small_sparql small_open(2)
  by (auto simp: rpc_defs on_node_def scope_commit_def split: prod.splits)

lemma small_manager:
  "\<exists>v v'. manager_handle_request small_env small_lib small_query small_opened =
     Some (Inr (text_response ''application/sparql-results+json'' ''x'' False), v) \<and>
     transactionWrapper (router_node (rn_router v)) \<noteq> None \<and>
     scope_commit small_env v = (Inl FailedToCommitGraphTransactionException, v')"
proof -
  obtain v v' where v: "at_store (service_sparqlQuery plain_rocks refusing_rdf small_wire
      \<lparr>sp_account_hash = [1], sp_query = ''x'', sp_result = []\<rparr>) small_opened = (Inr \<lparr>sp_account_hash = [1], sp_query = ''x'', sp_result = ''x''\<rparr>, v)"
    "transactionWrapper (router_node (rn_router v)) \<noteq> None" "scope_commit small_env v = (Inl FailedToCommitGraphTransactionException, v')"
    using small_sparql_at by blast
  have "isValid [5] small_opened"
    by (simp add: isValid_def rpc_defs on_node_def createTransaction_def small_node_def account_node_def)
  with v(1) have "processQuery small_env small_query [] small_opened = (Inr ''x'', v)"
    by (simp add: processQuery_def small_query_def HEADER_SESSION_HASH_def prog_defs small_facts HashHelper_of_encoded_def small_hex
        HashHelper_SecureVector_def small_parse Let_def del: decode_pairs.simps)
  with v(2,3) show ?thesis
    by (simp add: manager_handle_request_def small_query_def HAND_SHAKE_def TRANSACTION_TARGET_def DATA_QUERY_def obind_def returning_def
        prog_defs Let_def)
qed

theorem http_answer_before_commit_witness:
  "\<exists>w' before answer error. handle_request small_env small_lib small_httpd small_query small_node = Some (Inr (), w') \<and>
     hc_pending (ht_conn w') = before @ [HttpWrite answer, HttpWrite error] \<and>
     fst (on_conn (http_on_write IoOk answer) w') = Inl UndefinedBehaviour \<and>
     (\<exists>x. http_on_read small_env small_lib small_httpd IoOk small_query w' = Some (Inl StdTerminate, x))"
proof -
  obtain v v' where v: "manager_handle_request small_env small_lib small_query small_opened =
     Some (Inr (text_response ''application/sparql-results+json'' ''x'' False), v)"
     "transactionWrapper (router_node (rn_router v)) \<noteq> None" 
     "scope_commit small_env v = (Inl FailedToCommitGraphTransactionException, v')"
    using small_manager by blast
  have "is_exception FailedToCommitGraphTransactionException" by simp
  from http_answer_before_commit [OF small_check small_open(1) v this, of small_httpd IoOk small_query] small_check
  show ?thesis by blast
qed


definition small_start :: "(plain_db, plain_db, nat, unit) http_node" where
  "small_start = small_node\<lparr>clientSessionMap := []\<rparr>"

definition small_document :: http_request where
  "small_document = \<lparr>rq_method = ''GET'', rq_target = ''/x'', rq_headers = [], rq_body = [], rq_keep_alive = True\<rparr>"

theorem http_kept_alive_read_is_undefined_witness:
  "\<exists>v. http_on_read small_env small_lib small_httpd IoOk small_document small_start = Some (Inr (), v) \<and>
     fst (on_conn (http_on_write IoOk (not_found ''/x'' small_document)) v) = Inl UndefinedBehaviour"
proof -
  have "\<not> checkRequest small_document" and "document_response (hd_open small_httpd) (hd_doc_root small_httpd) small_document = not_found ''/x'' small_document"
    by (simp_all add: checkRequest_def small_document_def DATA_QUERY_def HAND_SHAKE_def TRANSACTION_TARGET_def document_response_def
        illegal_target_def find_first_Cons find_first_Nil small_httpd_def Let_def)
  then have "\<exists>v. http_on_read small_env small_lib small_httpd IoOk small_document small_start = Some (Inr (), v) \<and>
      hc_res (ht_conn v) = Some (not_found ''/x'' small_document)"
    by (simp add: http_on_read_def in_handler_def handle_request_def obind_def returning_def on_conn_def completed_operation_def
        send_lambda_def start_operation_def prog_defs)
  then obtain v where v: "http_on_read small_env small_lib small_httpd IoOk small_document small_start = Some (Inr (), v)"
      "hc_res (ht_conn v) = Some (not_found ''/x'' small_document)" by blast
  have "rs_keep_alive (not_found ''/x'' small_document)" by (simp add: not_found_def error_response_def small_document_def)
  from v(1) http_kept_alive_read_is_undefined [OF v this] show ?thesis by blast
qed

lemma small_typed: "sessions_typed small_lib small_start"
  by (simp add: sessions_typed_def client_map_typed_def session_map_typed_def small_start_def small_node_def)

lemma small_hello:
  "hl_parse_hello small_lib ''hello'' = Some \<lparr>ch_version = 1, ch_client_hash = ''key'', ch_signature = ''keykey''\<rparr>"
  "validateRemoteHash small_lib \<lparr>ch_version = 1, ch_client_hash = ''key'', ch_signature = ''keykey''\<rparr> = Inr (Some (copyStringToVector ''key''))"
  by (simp_all add: small_lib_def validateRemoteHash_def getPublicKey_def KeyLoader_of_path_def isInitialized_def plain_botan_def
      generateHash_vector_def verification_check_def SignatureVerification_of_public_def prog_defs copyStringToVector_def)

theorem http_hello_opens_session_witness:
  "\<exists>(s :: HttpSession) v req mw. processHello small_lib [1] ''hello'' small_start = (Inr (copyVectorToString (hs_sessionHash s)), v) \<and>
     hs_clientHash s = copyStringToVector ''key'' \<and> rq_headers req = [(''session_hash'', hex_encode hex_codecs (hs_sessionHash s))] \<and>
     http_processTransaction small_env small_lib req [] v = map_option (\<lambda>(r, u). (rmap mr_result r, u)) (route_message small_env mw v) \<and>
     mw_session_hash mw = hs_sessionHash s \<and> mw_account_hash mw = [1]"
proof -
  obtain s :: HttpSession and v where s: "processHello small_lib [1] ''hello'' small_start = (Inr (copyVectorToString (hs_sessionHash s)), v)"
    "hs_clientHash s = copyStringToVector ''key''"
    and route: "\<And>req hash msg tx mw. header_at req HEADER_SESSION_HASH = Inr hash \<and> hl_parse_transaction small_lib msg = Some tx \<and>
      HashHelper_of_encoded (re_codecs small_env) hash HEX = Inr (hs_sessionHash s) \<and>
      wrapper_setTransaction (env_wire (re_router small_env)) tx (wrapper_setSessionHash new_MessageWrapper (hs_sessionHash s)) = (Inr (), mw) \<Longrightarrow>
      http_processTransaction small_env small_lib req msg v = map_option (\<lambda>(r, u). (rmap mr_result r, u)) (route_message small_env mw v)"
    using http_hello_opens_session [OF small_typed small_hello, of "[1]" small_env] by (auto simp: small_lib_def)
  define req where "req = small_document\<lparr>rq_headers := [(''session_hash'', hex_encode hex_codecs (hs_sessionHash s))]\<rparr>"
  obtain mw where mw: "wrapper_setTransaction (env_wire (re_router small_env)) \<lparr>pt_transaction_hash = [], pt_transaction_signature = [],
      pt_active_account = [], pt_status = INIT, pt_asn1_transaction_message = ()\<rparr> (wrapper_setSessionHash new_MessageWrapper (hs_sessionHash s)) = (Inr (), mw)"
      "mw_session_hash mw = hs_sessionHash s" "mw_account_hash mw = [1]"
    by (simp add: wrapper_setTransaction_def small_env_def plain_rpc_env_def unit_wire_def getTransactionMessageHelper_def small_message_def
        TransactionMessageHelper_of_signed_def getCurrentAccount_def getStatus_def getSourceAccount_def copyFromSecure_def prog_defs wrapper_setSessionHash_def)
  have "header_at req HEADER_SESSION_HASH = Inr (hex_encode hex_codecs (hs_sessionHash s))"
    "HashHelper_of_encoded (re_codecs small_env) (hex_encode hex_codecs (hs_sessionHash s)) HEX = Inr (hs_sessionHash s)"
    using hex_codecs_ok by (simp_all add: header_at_def req_def HEADER_SESSION_HASH_def small_facts(1) HashHelper_of_encoded_def codecs_ok_def)
  with route mw(1) have "http_processTransaction small_env small_lib req [] v = map_option (\<lambda>(r, u). (rmap mr_result r, u)) (route_message small_env mw v)"
    by (simp add: small_lib_def)
  moreover have "rq_headers req = [(''session_hash'', hex_encode hex_codecs (hs_sessionHash s))]" by (simp add: req_def)
  ultimately show ?thesis using s mw(2,3) by blast
qed

definition small_greeting :: http_request where
  "small_greeting = \<lparr>rq_method = ''POST'', rq_target = HAND_SHAKE, rq_headers = [], rq_body = ''hello'', rq_keep_alive = False\<rparr>"

lemma small_greeting_read:
  "\<exists>v. http_on_read small_env small_lib small_httpd IoOk small_greeting small_start = Some (Inr (), v) \<and> clientSessionMap v \<noteq> []"
proof -
  have "checkRequest small_greeting" by (simp add: checkRequest_def small_greeting_def HAND_SHAKE_def)
  then show ?thesis
    by (simp add: http_on_read_def in_handler_def handle_request_def obind_def returning_def on_conn_def completed_operation_def
      send_lambda_def start_operation_def rpc_defs on_node_def createTransaction_def manager_handle_request_def small_greeting_def
      processHello_def small_hello get_or_open_def new_HttpSession_def at_keystore_def requestKey_def small_start_def small_node_def
      account_node_def new_SessionKeyManager_def scope_commit_def TransactionImpl_commit_def service_commit_def TransactionWrapper_commit_def
      stry_def prog_defs map_set_def Let_def split: prod.splits)
qed

theorem http_sessions_are_typed_witness:
  "\<exists>v. (http_step small_env small_lib small_httpd)\<^sup>*\<^sup>* small_start v \<and> clientSessionMap v \<noteq> [] \<and> sessions_typed small_lib v"
proof -
  obtain v where v: "http_on_read small_env small_lib small_httpd IoOk small_greeting small_start = Some (Inr (), v)"
    "clientSessionMap v \<noteq> []" using small_greeting_read by blast
  have "HttpRead \<in> set (hc_pending (ht_conn small_start))"
    by (simp add: small_start_def small_node_def start_operation_def new_session_def smodify_def)
  from http_step.read [OF this v(1)] have "(http_step small_env small_lib small_httpd)\<^sup>*\<^sup>* small_start v" by blast
  moreover have "clientHashMap small_start = []" "clientSessionMap small_start = []" by (simp_all add: small_start_def small_node_def)
  ultimately show ?thesis
    using v(2) http_sessions_are_typed [of small_env small_lib small_httpd small_start v] by blast
qed

end
