(* ===== verification/Balancer.thy ===== *)
theory Balancer
  imports Transactions
begin

text \<open>
  The balancer (\<open>modules/balancer_module\<close>): it gives every account a block producer and sends its messages
  there. The seed is taken from the clock for every new account; \<open>generator\<close> is the number drawn. The
  events it triggers go to the outbox of the model, and what their handlers throw is a parameter.
\<close>

record block_routing =
  br_accounts :: "bytes list"
  targetAccountMapping :: "(bytes \<times> bytes) list"

datatype balancer_event = BlockMessage | RpcSendMessage

record 'ab balancer_world =
  bw_routing :: block_routing
  bw_outbox :: "(balancer_event \<times> 'ab MessageWrapper) list"

definition new_BlockRouting :: "bytes \<Rightarrow> (string \<times> string) list \<Rightarrow> block_routing" where
  "new_BlockRouting server_account config =
     \<lparr>br_accounts = (if map_of config ''default_block'' = Some ''true'' then [server_account] else []),
      targetAccountMapping = []\<rparr>"

text \<open>Without accounts the remainder is a division by zero. The position is an \<open>int\<close>; there are fewer than
  2^31 accounts.\<close>

definition getBlockAccount :: "nat \<Rightarrow> bytes \<Rightarrow> (block_routing, bytes) prog" where
  "getBlockAccount generator account =
     sbind (sget (\<lambda>this. account \<in> fst ` set (targetAccountMapping this))) (\<lambda>known.
     sbind (if known then sreturn ()
            else sbind (sget br_accounts) (\<lambda>accounts.
              if accounts = [] then sthrow UndefinedBehaviour
              else smodify (\<lambda>this. this\<lparr>targetAccountMapping :=
                map_set account (accounts ! (generator mod length accounts)) (targetAccountMapping this)\<rparr>))) (\<lambda>_.
     sget (\<lambda>this. case map_of (targetAccountMapping this) account of None \<Rightarrow> [] | Some target \<Rightarrow> target)))"

definition setBlockAccounts :: "bytes list \<Rightarrow> (block_routing, unit) prog" where
  "setBlockAccounts accounts = smodify (\<lambda>this. this\<lparr>br_accounts := accounts\<rparr>)"

definition on_routing :: "(block_routing, 'a) prog \<Rightarrow> ('ab balancer_world, 'a) prog" where
  "on_routing m w = (case m (bw_routing w) of (r, b) \<Rightarrow> (r, w\<lparr>bw_routing := b\<rparr>))"

definition balancer_triggerEvent ::
  "(balancer_event \<Rightarrow> 'ab MessageWrapper \<Rightarrow> keto_error option) \<Rightarrow> balancer_event \<Rightarrow> 'ab MessageWrapper \<Rightarrow>
   ('ab balancer_world, unit) prog" where
  "balancer_triggerEvent throws event mw = (case throws event mw of
       Some e \<Rightarrow> sthrow e
     | None \<Rightarrow> smodify (\<lambda>w. w\<lparr>bw_outbox := bw_outbox w @ [(event, mw)]\<rparr>))"

definition balanceMessage ::
  "(balancer_event \<Rightarrow> 'ab MessageWrapper \<Rightarrow> keto_error option) \<Rightarrow> bytes \<Rightarrow> nat \<Rightarrow> 'ab MessageWrapper \<Rightarrow>
   ('ab balancer_world, string) prog" where
  "balanceMessage throws server_account generator messageWrapper =
     (let mw = messageWrapper\<lparr>mw_message_operation := MESSAGE_BLOCK\<rparr> in
      sbind (on_routing (getBlockAccount generator (mw_account_hash mw))) (\<lambda>accountHashVector.
      let mw1 = mw\<lparr>mw_account_hash := accountHashVector\<rparr> in
      sbind (balancer_triggerEvent throws
        (if accountHashVector = server_account then BlockMessage else RpcSendMessage) mw1) (\<lambda>_.
      sreturn ''balanced'')))"

section \<open>TransactionCache\<close>

definition isProcessed :: "bytes \<Rightarrow> (bytes list, bool) prog" where
  "isProcessed transactionId = sget (\<lambda>processedTransactions. transactionId \<in> set processedTransactions)"

definition processed :: "bytes \<Rightarrow> (bytes list, unit) prog" where
  "processed transactionId = smodify (\<lambda>processedTransactions.
     if transactionId \<in> set processedTransactions then processedTransactions else transactionId # processedTransactions)"

section \<open>Lemmas\<close>

abbreviation target_of :: "block_routing \<Rightarrow> bytes \<Rightarrow> bytes option" where
  "target_of this \<equiv> map_of (targetAccountMapping this)"

lemma getBlockAccount_known:
  "target_of this a = Some t \<Longrightarrow> getBlockAccount g a this = (Inr t, this)"
proof -
  assume t: "target_of this a = Some t"
  then have "a \<in> fst ` set (targetAccountMapping this)" by (metis map_of_eq_None_iff option.distinct(1))
  with t show ?thesis by (simp add: getBlockAccount_def prog_defs)
qed

lemma getBlockAccount_new:
  assumes "target_of this a = None"
  shows "getBlockAccount g a this = (if br_accounts this = [] then (Inl UndefinedBehaviour, this)
     else let t = br_accounts this ! (g mod length (br_accounts this)) in
       (Inr t, this\<lparr>targetAccountMapping := map_set a t (targetAccountMapping this)\<rparr>))"
proof -
  from assms have "a \<notin> fst ` set (targetAccountMapping this)" by (simp add: map_of_eq_None_iff)
  then show ?thesis by (simp add: getBlockAccount_def prog_defs Let_def)
qed

text \<open>Every target is or was one of the accounts: the mapping outlives a change of the accounts.\<close>

lemma getBlockAccount_targets:
  assumes "getBlockAccount g a this = (Inr t, that)"
  shows "t \<in> ran (target_of this) \<union> set (br_accounts this) \<and> target_of that = (target_of this)(a \<mapsto> t)"
proof (cases "target_of this a")
  case None
  with assms show ?thesis by (auto simp: getBlockAccount_new Let_def split: if_splits)
next
  case (Some u)
  with assms have "u = t" "that = this" by (simp_all add: getBlockAccount_known)
  with Some show ?thesis by (auto simp: ran_def fun_upd_idem)
qed

text \<open>The producer of an account is chosen once, whatever is drawn later and whatever accounts are set.\<close>

lemma getBlockAccount_sticks:
  assumes "getBlockAccount g a this = (Inr t, that)"
  shows "getBlockAccount g' a (snd (setBlockAccounts accounts that)) = (Inr t, snd (setBlockAccounts accounts that))"
proof -
  have "target_of that a = Some t" using getBlockAccount_targets [OF assms] by simp
  then show ?thesis by (simp add: getBlockAccount_known setBlockAccounts_def smodify_def)
qed

text \<open>As nothing sets the accounts, a node configured as block producer sends every message to itself, and any other
  node that is asked to balance a message divides by zero.\<close>

lemma balanced_to_self:
  assumes "new_BlockRouting me config = this" and "throws BlockMessage
      (mw\<lparr>mw_message_operation := MESSAGE_BLOCK, mw_account_hash := me\<rparr>) = None"
    and "map_of config ''default_block'' = Some ''true''"
  shows "\<exists>that. balanceMessage throws me g mw \<lparr>bw_routing = this, bw_outbox = out\<rparr> =
     (Inr ''balanced'', \<lparr>bw_routing = that, bw_outbox = out @ [(BlockMessage, mw\<lparr>mw_message_operation := MESSAGE_BLOCK, mw_account_hash := me\<rparr>)]\<rparr>)"
  using assms by (auto simp: new_BlockRouting_def balanceMessage_def on_routing_def getBlockAccount_def balancer_triggerEvent_def prog_defs Let_def)

lemma balance_divides_by_zero:
  assumes "map_of config ''default_block'' \<noteq> Some ''true''"
  shows "fst (balanceMessage throws me g mw \<lparr>bw_routing = new_BlockRouting me config, bw_outbox = out\<rparr>) = Inl UndefinedBehaviour"
  using assms by (simp add: new_BlockRouting_def balanceMessage_def on_routing_def getBlockAccount_def prog_defs Let_def)

end
